(* ===== verification/Prelude.thy ===== *)
theory Prelude
  imports Main "HOL-Library.State_Monad" "HOL-Library.Finite_Map"
begin

text \<open>
  Shared material of the development: the Go string functions the sources call, the reading
  of Go maps, and a small calculus for programs that talk to a server.

  A program of type \<open>('c list, 'a) state\<close> appends the calls it issues to a history of calls
  and returns a value; the answer to a call is a function of the history before it, so that
  everything other actors may have done in between is covered by quantifying over that function.
  Three judgements carry the proofs: \<open>wp\<close> (weakest precondition, a set of rewrite rules),
  \<open>calls_only\<close> (which calls a program can issue at all, a set of introduction rules) and
  \<open>issues\<close> (which calls it issues in one run, with the answers of that run at hand).
\<close>

named_theorems wp_simps "rewrite rules of the weakest precondition calculus"
named_theorems calls_intros "introduction rules for the judgement on issued calls"
named_theorems issues_intros "introduction rules for the judgement on the calls of one run"

section \<open>Go strings\<close>

definition HasPrefix :: "string \<Rightarrow> string \<Rightarrow> bool" where
  "HasPrefix s p \<longleftrightarrow> take (length p) s = p"

definition HasSuffix :: "string \<Rightarrow> string \<Rightarrow> bool" where
  "HasSuffix s p \<longleftrightarrow> HasPrefix (rev s) (rev p)"

definition TrimPrefix :: "string \<Rightarrow> string \<Rightarrow> string" where
  "TrimPrefix s p = (if HasPrefix s p then drop (length p) s else s)"

definition TrimSuffix :: "string \<Rightarrow> string \<Rightarrow> string" where
  "TrimSuffix s p = (if HasSuffix s p then take (length s - length p) s else s)"

fun Contains :: "string \<Rightarrow> string \<Rightarrow> bool" where
  "Contains [] p = (p = [])"
| "Contains (c # s) p = (HasPrefix (c # s) p \<or> Contains s p)"

text \<open>\<open>strings.Replace(s, old, "", 1)\<close> for a non-empty \<open>old\<close>: the first occurrence is dropped.\<close>

fun RemoveFirst :: "string \<Rightarrow> string \<Rightarrow> string" where
  "RemoveFirst [] p = []"
| "RemoveFirst (c # s) p =
     (if HasPrefix (c # s) p then drop (length p) (c # s) else c # RemoveFirst s p)"

text \<open>
  \<open>strings.Split(s, sep)\<close> for a non-empty separator: the pieces between the leftmost
  non-overlapping occurrences; \<open>split_aux\<close> carries the current piece.
\<close>

function split_aux :: "string \<Rightarrow> string \<Rightarrow> string \<Rightarrow> string list" where
  "split_aux sep acc [] = [acc]"
| "split_aux sep acc (c # s) =
     (if sep \<noteq> [] \<and> HasPrefix (c # s) sep
      then acc # split_aux sep [] (drop (length sep) (c # s))
      else split_aux sep (acc @ [c]) s)"
  by pat_completeness auto
termination
  by (relation "measure (\<lambda>(sep, acc, s). length s)") auto

definition Split :: "string \<Rightarrow> string \<Rightarrow> string list" where
  "Split s sep = split_aux sep [] s"

text \<open>
  \<open>strings.EqualFold\<close>. Every call in the sources compares with an ASCII constant; on those the
  Unicode simple folding identifies ASCII case, the long s (bytes C5 BF) with s and the Kelvin
  sign (bytes E2 84 AA) with k.
\<close>

definition lower_char :: "char \<Rightarrow> char" where
  "lower_char c = (let n = of_char c :: nat in if 65 \<le> n \<and> n \<le> 90 then char_of (n + 32) else c)"

fun simple_fold :: "string \<Rightarrow> string" where
  "simple_fold [] = []"
| "simple_fold (c # s) =
     (if HasPrefix (c # s) [CHR 0xC5, CHR 0xBF] then CHR ''s'' # simple_fold (drop 1 s)
      else if HasPrefix (c # s) [CHR 0xE2, CHR 0x84, CHR 0xAA] then CHR ''k'' # simple_fold (drop 2 s)
      else lower_char c # simple_fold s)"

definition EqualFold :: "string \<Rightarrow> string \<Rightarrow> bool" where
  "EqualFold s t \<longleftrightarrow> simple_fold s = simple_fold t"

lemma EqualFold_refl [simp]: "EqualFold s s"
  by (simp add: EqualFold_def)

lemma HasPrefix_append [simp]: "HasPrefix (p @ s) p"
  by (simp add: HasPrefix_def)

lemma HasPrefix_Nil [simp]: "HasPrefix s []"
  by (simp add: HasPrefix_def)

lemma HasPrefix_iff: "HasPrefix s p \<longleftrightarrow> (\<exists>t. s = p @ t)"
  by (metis HasPrefix_append HasPrefix_def append_take_drop_id)

lemma HasPrefix_length: "HasPrefix s p \<Longrightarrow> length p \<le> length s"
  by (auto simp: HasPrefix_iff)

lemma HasSuffix_iff: "HasSuffix s p \<longleftrightarrow> (\<exists>t. s = t @ p)"
proof -
  have "HasSuffix s p \<longleftrightarrow> (\<exists>t. rev s = rev p @ t)"
    by (simp add: HasSuffix_def HasPrefix_iff)
  also have "\<dots> \<longleftrightarrow> (\<exists>t. s = t @ p)"
    by (metis rev_append rev_rev_ident)
  finally show ?thesis .
qed

lemma TrimPrefix_append [simp]: "TrimPrefix (p @ s) p = s"
  by (simp add: TrimPrefix_def)

lemma TrimPrefix_eq: "HasPrefix s p \<Longrightarrow> s = p @ TrimPrefix s p"
  by (auto simp: HasPrefix_iff)

lemma TrimSuffix_append [simp]: "TrimSuffix (s @ p) p = s"
proof -
  have "HasSuffix (s @ p) p" by (auto simp: HasSuffix_iff)
  then show ?thesis by (simp add: TrimSuffix_def)
qed

lemma Contains_iff: "Contains s p \<longleftrightarrow> (\<exists>u v. s = u @ p @ v)"
proof (induction s)
  case Nil
  then show ?case by auto
next
  case (Cons c s)
  show ?case
  proof
    assume "Contains (c # s) p"
    then show "\<exists>u v. c # s = u @ p @ v"
      using Cons.IH by (metis Contains.simps(2) HasPrefix_iff append_Cons append_Nil)
  next
    assume "\<exists>u v. c # s = u @ p @ v"
    then obtain u v where uv: "c # s = u @ p @ v" by blast
    show "Contains (c # s) p"
    proof (cases u)
      case Nil
      with uv have "HasPrefix (c # s) p" by (auto simp: HasPrefix_iff)
      then show ?thesis by simp
    next
      case (Cons d u')
      with uv have "s = u' @ p @ v" by simp
      then show ?thesis using Cons.IH by auto
    qed
  qed
qed

subsection \<open>Splitting at a one-character separator\<close>

lemma HasPrefix_single [simp]: "HasPrefix (c # s) [d] \<longleftrightarrow> c = d"
  by (simp add: HasPrefix_def)

lemma split_aux_no_sep: "d \<notin> set s \<Longrightarrow> split_aux [d] acc s = [acc @ s]"
  by (induction s arbitrary: acc) auto

lemma split_aux_sep: "d \<notin> set s \<Longrightarrow> split_aux [d] acc (s @ d # t) = (acc @ s) # split_aux [d] [] t"
  by (induction s arbitrary: acc) auto

lemma split_aux_nonempty [simp]: "split_aux sep acc s \<noteq> []"
  by (induction sep acc s rule: split_aux.induct) auto

lemma split_aux_single_inv:
  "split_aux [d] acc s = [x] \<Longrightarrow> x = acc @ s \<and> d \<notin> set s"
  by (induction s arbitrary: acc) (fastforce split: if_splits)+

lemma split_aux_two_inv:
  "split_aux [d] acc s = [x, y] \<Longrightarrow> acc @ s = x @ d # y \<and> d \<notin> set y \<and> (d \<notin> set acc \<longrightarrow> d \<notin> set x)"
proof (induction s arbitrary: acc)
  case Nil
  then show ?case by simp
next
  case (Cons c s)
  show ?case
  proof (cases "c = d")
    case True
    with Cons.prems have "x = acc" and "split_aux [d] [] s = [y]" by auto
    then show ?thesis using True split_aux_single_inv [of d "[]" s y] by auto
  next
    case False
    with Cons.prems have "split_aux [d] (acc @ [c]) s = [x, y]" by simp
    from Cons.IH [OF this] False show ?thesis by auto
  qed
qed

lemma Split_two_iff:
  "Split s [d] = [x, y] \<longleftrightarrow> s = x @ d # y \<and> d \<notin> set x \<and> d \<notin> set y"
proof
  assume "Split s [d] = [x, y]"
  then show "s = x @ d # y \<and> d \<notin> set x \<and> d \<notin> set y"
    using split_aux_two_inv [of d "[]" s x y] by (simp add: Split_def)
next
  assume "s = x @ d # y \<and> d \<notin> set x \<and> d \<notin> set y"
  then show "Split s [d] = [x, y]"
    by (simp add: Split_def split_aux_sep split_aux_no_sep)
qed

lemma length2_conv: "length xs = 2 \<longleftrightarrow> (\<exists>x y. xs = [x, y])"
  by (auto simp: numeral_2_eq_2 length_Suc_conv)

section \<open>Go integers\<close>

text \<open>The value of an \<open>int64\<close> result, and division that truncates towards zero.\<close>

definition wrap64 :: "int \<Rightarrow> int" where
  "wrap64 n = (n + 2 ^ 63) mod 2 ^ 64 - 2 ^ 63"

definition quot :: "int \<Rightarrow> int \<Rightarrow> int" where
  "quot a b = sgn a * sgn b * (\<bar>a\<bar> div \<bar>b\<bar>)"

lemma wrap64_id: "- (2 ^ 63) \<le> n \<Longrightarrow> n < 2 ^ 63 \<Longrightarrow> wrap64 n = n"
  by (simp add: wrap64_def)

definition digit :: "char \<Rightarrow> int option" where
  "digit c = (let n = of_char c :: int in if 48 \<le> n \<and> n \<le> 57 then Some (n - 48) else None)"

fun digits_value :: "string \<Rightarrow> int \<Rightarrow> int option" where
  "digits_value [] acc = Some acc"
| "digits_value (c # s) acc =
     (case digit c of None \<Rightarrow> None | Some d \<Rightarrow> digits_value s (10 * acc + d))"

text \<open>\<open>strconv.Atoi\<close>: an optional sign and decimal digits, within the range of \<open>int64\<close>.\<close>

definition Atoi :: "string \<Rightarrow> int option" where
  "Atoi s = (
     let (neg, ds) = (case s of
         [] \<Rightarrow> (False, [])
       | c # cs \<Rightarrow> if c = CHR ''-'' then (True, cs) else if c = CHR ''+'' then (False, cs) else (False, s)) in
     if ds = [] then None
     else (case digits_value ds 0 of
         None \<Rightarrow> None
       | Some n \<Rightarrow> (let v = (if neg then - n else n) in
           if - (2 ^ 63) \<le> v \<and> v < 2 ^ 63 then Some v else None)))"

text \<open>Decimal notation, the verb \<open>%d\<close>.\<close>

fun nat_digits :: "nat \<Rightarrow> string" where
  "nat_digits n = (if n < 10 then [char_of (48 + n)] else nat_digits (n div 10) @ [char_of (48 + n mod 10)])"

declare nat_digits.simps [simp del]

definition Itoa :: "int \<Rightarrow> string" where
  "Itoa n = (if n < 0 then CHR ''-'' # nat_digits (nat (- n)) else nat_digits (nat n))"

text \<open>A new line, and the verb \<open>%q\<close> on text that needs no escaping, as names do.\<close>

definition nl :: string where
  "nl = [CHR 0x0A]"

definition quoted :: "string \<Rightarrow> string" where
  "quoted s = [CHR 0x22] @ s @ [CHR 0x22]"

section \<open>Go maps\<close>

text \<open>A Go map with string keys is a finite map; \<open>goidx\<close> is \<open>m[k]\<close> with its zero value.\<close>

type_synonym smap = "(string, string) fmap"

definition goidx :: "smap \<Rightarrow> string \<Rightarrow> string" where
  "goidx m k = (case fmlookup m k of None \<Rightarrow> [] | Some v \<Rightarrow> v)"

definition haskey :: "(string, 'v) fmap \<Rightarrow> string \<Rightarrow> bool" where
  "haskey m k \<longleftrightarrow> fmlookup m k \<noteq> None"

section \<open>Go slices\<close>

lemma filter_length_eq: "length (filter P xs) = length xs \<longleftrightarrow> filter P xs = xs"
  by (metis filter_True length_filter_less order_less_irrefl)

lemma length_1_hd: "length xs = 1 \<Longrightarrow> xs = [hd xs]"
  by (cases xs) auto

section \<open>Programs that issue calls\<close>

type_synonym ('c, 'a) prog = "('c list, 'a) state"

text \<open>One call: the answer is read off the history, and the call is added to it.\<close>

definition ask :: "('c list \<Rightarrow> 'a) \<Rightarrow> 'c \<Rightarrow> ('c, 'a) prog" where
  "ask f c = State (\<lambda>h. (f h, h @ [c]))"

text \<open>A call whose answer the program does not look at (an event that is recorded).\<close>

definition emit :: "'c \<Rightarrow> ('c, unit) prog" where
  "emit c = ask (\<lambda>_. ()) c"

text \<open>Reading something of the surroundings (the clock) without a call.\<close>

definition peek :: "('c list \<Rightarrow> 'a) \<Rightarrow> ('c, 'a) prog" where
  "peek f = State (\<lambda>h. (f h, h))"

definition result :: "('c, 'a) prog \<Rightarrow> 'c list \<Rightarrow> 'a" where
  "result m h = fst (run_state m h)"

definition new_calls :: "('c, 'a) prog \<Rightarrow> 'c list \<Rightarrow> 'c list" where
  "new_calls m h = drop (length h) (snd (run_state m h))"

subsection \<open>Weakest preconditions\<close>

definition wp :: "('s, 'a) state \<Rightarrow> ('a \<Rightarrow> 's \<Rightarrow> bool) \<Rightarrow> 's \<Rightarrow> bool" where
  "wp m Q s = (case run_state m s of (a, s') \<Rightarrow> Q a s')"

lemma wp_return [wp_simps]: "wp (State_Monad.return a) Q s = Q a s"
  by (simp add: wp_def)

lemma wp_bind [wp_simps]: "wp (State_Monad.bind m f) Q s = wp m (\<lambda>a. wp (f a) Q) s"
  by (simp add: wp_def split: prod.splits)

lemma wp_ask [wp_simps]: "wp (ask f c) Q h = Q (f h) (h @ [c])"
  by (simp add: wp_def ask_def)

lemma wp_peek [wp_simps]: "wp (peek f) Q h = Q (f h) h"
  by (simp add: wp_def peek_def)

lemma wp_emit [wp_simps]: "wp (emit c) Q h = Q () (h @ [c])"
  by (simp add: emit_def wp_ask)

lemma wp_if [wp_simps]: "wp (if b then m else n) Q s = (if b then wp m Q s else wp n Q s)"
  by simp

lemma wp_case_sum [wp_simps]:
  "wp (case x of Inl e \<Rightarrow> f e | Inr v \<Rightarrow> g v) Q s = (case x of Inl e \<Rightarrow> wp (f e) Q s | Inr v \<Rightarrow> wp (g v) Q s)"
  by (cases x) auto

lemma wp_case_option [wp_simps]:
  "wp (case x of None \<Rightarrow> m | Some v \<Rightarrow> g v) Q s = (case x of None \<Rightarrow> wp m Q s | Some v \<Rightarrow> wp (g v) Q s)"
  by (cases x) auto

lemma wp_case_prod [wp_simps]:
  "wp (case x of (a, b) \<Rightarrow> f a b) Q s = (case x of (a, b) \<Rightarrow> wp (f a b) Q s)"
  by (cases x) auto

lemma wp_mono: "wp m R s \<Longrightarrow> (\<And>a s'. R a s' \<Longrightarrow> Q a s') \<Longrightarrow> wp m Q s"
  by (auto simp: wp_def split: prod.splits)

lemma wp_conj: "wp m Q s \<Longrightarrow> wp m R s \<Longrightarrow> wp m (\<lambda>a s'. Q a s' \<and> R a s') s"
  by (auto simp: wp_def split: prod.splits)

lemma wp_run: "wp m Q s \<longleftrightarrow> Q (fst (run_state m s)) (snd (run_state m s))"
  by (simp add: wp_def split: prod.splits)

lemma wp_True [simp]: "wp m (\<lambda>_ _. True) s"
  by (simp add: wp_run)

subsection \<open>Which calls a program issues\<close>

definition calls_only :: "('c \<Rightarrow> bool) \<Rightarrow> ('c, 'a) prog \<Rightarrow> bool" where
  "calls_only P m \<longleftrightarrow> (\<forall>h. \<exists>cs. snd (run_state m h) = h @ cs \<and> list_all P cs)"

lemma calls_onlyD: "calls_only P m \<Longrightarrow> \<exists>cs. snd (run_state m h) = h @ cs \<and> list_all P cs"
  by (auto simp: calls_only_def)

lemma calls_only_return [calls_intros]: "calls_only P (State_Monad.return a)"
  by (simp add: calls_only_def)

lemma calls_only_ask [calls_intros]: "P c \<Longrightarrow> calls_only P (ask f c)"
  by (simp add: calls_only_def ask_def)

lemma calls_only_peek [calls_intros]: "calls_only P (peek f)"
  by (simp add: calls_only_def peek_def)

lemma calls_only_emit [calls_intros]: "P c \<Longrightarrow> calls_only P (emit c)"
  by (simp add: emit_def calls_only_ask)

lemma calls_only_bind [calls_intros]:
  assumes m: "calls_only P m" and f: "\<And>a. calls_only P (f a)"
  shows "calls_only P (State_Monad.bind m f)"
  unfolding calls_only_def
proof
  fix h
  obtain a h' where r: "run_state m h = (a, h')" by (cases "run_state m h")
  from calls_onlyD [OF m, of h] r obtain cs where cs: "h' = h @ cs" "list_all P cs" by auto
  from calls_onlyD [OF f, of a h'] obtain ds
    where "snd (run_state (f a) h') = h' @ ds" "list_all P ds" by auto
  with cs r show "\<exists>cs. snd (run_state (State_Monad.bind m f) h) = h @ cs \<and> list_all P cs"
    by (intro exI [of _ "cs @ ds"]) simp
qed

lemma calls_only_if [calls_intros]:
  "\<lbrakk>b \<Longrightarrow> calls_only P m; \<not> b \<Longrightarrow> calls_only P n\<rbrakk> \<Longrightarrow> calls_only P (if b then m else n)"
  by simp

lemma calls_only_sum [calls_intros]:
  "\<lbrakk>\<And>e. x = Inl e \<Longrightarrow> calls_only P (f e); \<And>v. x = Inr v \<Longrightarrow> calls_only P (g v)\<rbrakk>
   \<Longrightarrow> calls_only P (case x of Inl e \<Rightarrow> f e | Inr v \<Rightarrow> g v)"
  by (cases x) auto

lemma calls_only_option [calls_intros]:
  "\<lbrakk>x = None \<Longrightarrow> calls_only P m; \<And>v. x = Some v \<Longrightarrow> calls_only P (g v)\<rbrakk>
   \<Longrightarrow> calls_only P (case x of None \<Rightarrow> m | Some v \<Rightarrow> g v)"
  by (cases x) auto

lemma calls_only_prod [calls_intros]:
  "(\<And>a b. x = (a, b) \<Longrightarrow> calls_only P (f a b)) \<Longrightarrow> calls_only P (case x of (a, b) \<Rightarrow> f a b)"
  by (cases x) auto

lemma calls_only_mono: "calls_only P m \<Longrightarrow> (\<And>c. P c \<Longrightarrow> Q c) \<Longrightarrow> calls_only Q m"
  unfolding calls_only_def by (metis list_all_iff)

lemma calls_only_new_calls:
  assumes "calls_only P m" and "c \<in> set (new_calls m h)"
  shows "P c"
proof -
  from calls_onlyD [OF assms(1), of h] obtain cs
    where cs: "snd (run_state m h) = h @ cs" "list_all P cs" by blast
  with assms(2) have "c \<in> set cs" by (simp add: new_calls_def)
  with cs(2) show "P c" by (simp add: list_all_iff)
qed

lemma wp_calls_only:
  assumes "calls_only P m"
    and "\<And>a cs. \<lbrakk>run_state m h = (a, h @ cs); list_all P cs\<rbrakk> \<Longrightarrow> Q a (h @ cs)"
  shows "wp m Q h"
proof -
  obtain a h' where r: "run_state m h = (a, h')" by (cases "run_state m h")
  from calls_onlyD [OF assms(1), of h] r obtain cs where "h' = h @ cs" "list_all P cs" by auto
  with r assms(2) show ?thesis by (simp add: wp_def)
qed

text \<open>A property of the new calls and the result, reduced to a weakest precondition.\<close>

lemma new_calls_wp:
  "wp m (\<lambda>a h'. Q a (drop (length h) h')) h \<longleftrightarrow> Q (result m h) (new_calls m h)"
  by (simp add: wp_run result_def new_calls_def)

lemma wp_new_calls_append:
  assumes "calls_only P m"
  shows "wp m (\<lambda>_ h'. c \<in> set (drop (length h) h')) (h @ pre) \<longleftrightarrow>
    c \<in> set pre \<or> c \<in> set (new_calls m (h @ pre))"
  using calls_onlyD [OF assms, of "h @ pre"] by (auto simp: wp_run new_calls_def)

subsection \<open>The calls of one run\<close>

text \<open>
  The judgement \<open>issues P m h\<close>: from history \<open>h\<close>, every call that \<open>m\<close> issues satisfies \<open>P\<close>. It follows
  the answers of one run, so that \<open>P\<close> may speak of what was read before.
\<close>

definition issues :: "('c \<Rightarrow> bool) \<Rightarrow> ('c, 'a) prog \<Rightarrow> 'c list \<Rightarrow> bool" where
  "issues P m h \<longleftrightarrow> (\<exists>cs. snd (run_state m h) = h @ cs \<and> list_all P cs)"

lemma issues_new_calls: "issues P m h \<Longrightarrow> c \<in> set (new_calls m h) \<Longrightarrow> P c"
  by (auto simp: issues_def new_calls_def list_all_iff)

lemma issues_calls_only: "calls_only P m \<Longrightarrow> issues P m h"
  by (simp add: calls_only_def issues_def)

lemma issues_mono: "issues P m h \<Longrightarrow> (\<And>c. P c \<Longrightarrow> Q c) \<Longrightarrow> issues Q m h"
  by (auto simp: issues_def list_all_iff)

lemma issues_bindI:
  assumes "issues P m h"
    and "\<And>a cs. run_state m h = (a, h @ cs) \<Longrightarrow> issues P (f a) (h @ cs)"
  shows "issues P (State_Monad.bind m f) h"
proof -
  obtain a h' where 1: "run_state m h = (a, h')" by (cases "run_state m h")
  then obtain cs where cs: "h' = h @ cs" "list_all P cs" using assms(1) by (auto simp: issues_def)
  from assms(2) [of a cs] 1 cs obtain ds where "snd (run_state (f a) h') = h' @ ds" "list_all P ds"
    by (auto simp: issues_def)
  with 1 cs show ?thesis by (auto simp: issues_def)
qed

lemma issues_return [issues_intros]: "issues P (State_Monad.return a) h"
  by (simp add: issues_def)

lemma issues_ask [issues_intros]: "P c \<Longrightarrow> issues P (ask f c) h"
  by (simp add: issues_def ask_def)

lemma issues_emit [issues_intros]: "P c \<Longrightarrow> issues P (emit c) h"
  by (simp add: emit_def issues_ask)

lemma issues_if [issues_intros]:
  "\<lbrakk>b \<Longrightarrow> issues P m h; \<not> b \<Longrightarrow> issues P n h\<rbrakk> \<Longrightarrow> issues P (if b then m else n) h"
  by simp

lemma issues_sum [issues_intros]:
  "\<lbrakk>\<And>e. x = Inl e \<Longrightarrow> issues P (f e) h; \<And>v. x = Inr v \<Longrightarrow> issues P (g v) h\<rbrakk>
   \<Longrightarrow> issues P (case x of Inl e \<Rightarrow> f e | Inr v \<Rightarrow> g v) h"
  by (cases x) auto

lemma issues_option [issues_intros]:
  "\<lbrakk>x = None \<Longrightarrow> issues P m h; \<And>v. x = Some v \<Longrightarrow> issues P (g v) h\<rbrakk>
   \<Longrightarrow> issues P (case x of None \<Rightarrow> m | Some v \<Rightarrow> g v) h"
  by (cases x) auto

lemma issues_prod [issues_intros]:
  "(\<And>a b. x = (a, b) \<Longrightarrow> issues P (f a b) h) \<Longrightarrow> issues P (case x of (a, b) \<Rightarrow> f a b) h"
  by (cases x) auto

text \<open>Sequences: a call first, or a part that is moved out of the way of the rest.\<close>

lemma issues_bind_ask [issues_intros]:
  "P c \<Longrightarrow> issues P (f (g h)) (h @ [c]) \<Longrightarrow> issues P (State_Monad.bind (ask g c) f) h"
  by (auto simp: issues_def ask_def)

lemma issues_bind_emit [issues_intros]:
  "P c \<Longrightarrow> issues P (f ()) (h @ [c]) \<Longrightarrow> issues P (State_Monad.bind (emit c) f) h"
  unfolding emit_def by (rule issues_bind_ask)

lemma issues_bind_return [issues_intros]:
  "issues P (f a) h \<Longrightarrow> issues P (State_Monad.bind (State_Monad.return a) f) h"
  by simp

lemma issues_bind_peek [issues_intros]:
  "issues P (f (g h)) h \<Longrightarrow> issues P (State_Monad.bind (peek g) f) h"
  by (simp add: issues_def peek_def)

lemma issues_bind_bind [issues_intros]:
  "issues P (State_Monad.bind m (\<lambda>x. State_Monad.bind (g x) f)) h \<Longrightarrow>
   issues P (State_Monad.bind (State_Monad.bind m g) f) h"
  by simp

lemma issues_bind_if [issues_intros]:
  "\<lbrakk>b \<Longrightarrow> issues P (State_Monad.bind m f) h; \<not> b \<Longrightarrow> issues P (State_Monad.bind n f) h\<rbrakk>
   \<Longrightarrow> issues P (State_Monad.bind (if b then m else n) f) h"
  by simp

lemma issues_bind_option [issues_intros]:
  "\<lbrakk>x = None \<Longrightarrow> issues P (State_Monad.bind m f) h; \<And>v. x = Some v \<Longrightarrow> issues P (State_Monad.bind (g v) f) h\<rbrakk>
   \<Longrightarrow> issues P (State_Monad.bind (case x of None \<Rightarrow> m | Some v \<Rightarrow> g v) f) h"
  by (cases x) auto

lemma issues_bind_sum [issues_intros]:
  "\<lbrakk>\<And>e. x = Inl e \<Longrightarrow> issues P (State_Monad.bind (m e) f) h;
    \<And>v. x = Inr v \<Longrightarrow> issues P (State_Monad.bind (g v) f) h\<rbrakk>
   \<Longrightarrow> issues P (State_Monad.bind (case x of Inl e \<Rightarrow> m e | Inr v \<Rightarrow> g v) f) h"
  by (cases x) auto

lemma issues_bind_calls:
  assumes "calls_only R m" and "\<And>c. R c \<Longrightarrow> P c"
    and "\<And>a cs. \<lbrakk>run_state m h = (a, h @ cs); list_all R cs\<rbrakk> \<Longrightarrow> issues P (f a) (h @ cs)"
  shows "issues P (State_Monad.bind m f) h"
proof (rule issues_bindI)
  show "issues P m h" using assms(1,2) by (meson issues_calls_only calls_only_mono)
  fix a cs
  assume "run_state m h = (a, h @ cs)"
  with calls_onlyD [OF assms(1), of h] assms(3) show "issues P (f a) (h @ cs)" by auto
qed

end
