(* ===== verification/Constants.thy ===== *)
theory Constants
  imports Prelude
begin

text \<open>
  The string constants of \<open>pkg/constants/constants.go\<close>, and those of the controllers and of the
  API packages that the modelled code compares with. They stay folded in proofs; the facts at
  the end are the ones that depend on their values.
\<close>

section \<open>pkg/constants/constants.go\<close>

definition YamlSperator :: string where
  "YamlSperator = [CHR 0x0A] @ ''---'' @ [CHR 0x0A]"

definition AutoImportSecretName :: string where
  "AutoImportSecretName = ''auto-import-secret''"

definition AnnotationKeepingAutoImportSecret :: string where
  "AnnotationKeepingAutoImportSecret = ''managedcluster-import-controller.open-cluster-management.io/keeping-auto-import-secret''"

definition AnnotationRemainNamespace :: string where
  "AnnotationRemainNamespace = ''open-cluster-management.io/retain-namespace''"

definition LabelAutoImportRestore :: string where
  "LabelAutoImportRestore = ''cluster.open-cluster-management.io/restore-auto-import-secret''"

definition ControllerConfigConfigMapName :: string where
  "ControllerConfigConfigMapName = ''import-controller-config''"

definition AutoImportStrategyKey :: string where
  "AutoImportStrategyKey = ''autoImportStrategy''"

definition DefaultAutoImportStrategy :: string where
  "DefaultAutoImportStrategy = ''ImportOnly''"

definition ClusterImportConfig :: string where
  "ClusterImportConfig = ''clusterImportConfig''"

definition RegistrationOperatorImageEnvVarName :: string where
  "RegistrationOperatorImageEnvVarName = ''REGISTRATION_OPERATOR_IMAGE''"

definition RegistrationImageEnvVarName :: string where
  "RegistrationImageEnvVarName = ''REGISTRATION_IMAGE''"

definition WorkImageEnvVarName :: string where
  "WorkImageEnvVarName = ''WORK_IMAGE''"

definition TLSProfileSyncImageEnvVarName :: string where
  "TLSProfileSyncImageEnvVarName = ''TLS_PROFILE_SYNC_IMAGE''"

definition DefaultImagePullSecretEnvVarName :: string where
  "DefaultImagePullSecretEnvVarName = ''DEFAULT_IMAGE_PULL_SECRET''"

definition PodNamespaceEnvVarName :: string where
  "PodNamespaceEnvVarName = ''POD_NAMESPACE''"

definition ImportFinalizer :: string where
  "ImportFinalizer = ''managedcluster-import-controller.open-cluster-management.io/cleanup''"

definition SelfManagedLabel :: string where
  "SelfManagedLabel = ''local-cluster''"

definition AppliedManifestWorkEvictionGracePeriodInfinite :: string where
  "AppliedManifestWorkEvictionGracePeriodInfinite = ''INFINITE''"

definition AppliedManifestWorkEvictionGracePeriod100Years :: string where
  "AppliedManifestWorkEvictionGracePeriod100Years = ''876000h''"

definition ClusterImportSecretLabel :: string where
  "ClusterImportSecretLabel = ''managedcluster-import-controller.open-cluster-management.io/import-secret''"

definition KlusterletWorksLabel :: string where
  "KlusterletWorksLabel = ''import.open-cluster-management.io/klusterlet-works''"

definition HostedClusterLabel :: string where
  "HostedClusterLabel = ''import.open-cluster-management.io/hosted-cluster''"

definition CreatedViaAnnotation :: string where
  "CreatedViaAnnotation = ''open-cluster-management/created-via''"

definition CreatedViaAI :: string where
  "CreatedViaAI = ''assisted-installer''"

definition CreatedViaHive :: string where
  "CreatedViaHive = ''hive''"

definition CreatedViaDiscovery :: string where
  "CreatedViaDiscovery = ''discovery''"

definition CreatedViaHypershift :: string where
  "CreatedViaHypershift = ''hypershift''"

definition ImportSecretNameSuffix :: string where
  "ImportSecretNameSuffix = ''import''"

definition ImportSecretImportYamlKey :: string where
  "ImportSecretImportYamlKey = ''import.yaml''"

definition ImportSecretCRDSYamlKey :: string where
  "ImportSecretCRDSYamlKey = ''crds.yaml''"

definition ImportSecretTokenExpiration :: string where
  "ImportSecretTokenExpiration = ''expiration''"

definition ImportSecretTokenCreation :: string where
  "ImportSecretTokenCreation = ''creation''"

definition KlusterletDeployModeAnnotation :: string where
  "KlusterletDeployModeAnnotation = ''import.open-cluster-management.io/klusterlet-deploy-mode''"

definition HostingClusterNameAnnotation :: string where
  "HostingClusterNameAnnotation = ''import.open-cluster-management.io/hosting-cluster-name''"

definition KlusterletNamespaceAnnotation :: string where
  "KlusterletNamespaceAnnotation = ''import.open-cluster-management.io/klusterlet-namespace''"

definition AddonEnableHostedModeAnnotation :: string where
  "AddonEnableHostedModeAnnotation = ''addon.open-cluster-management.io/enable-hosted-mode-addons''"

definition HostedKlusterletManifestworkSuffix :: string where
  "HostedKlusterletManifestworkSuffix = ''hosted-klusterlet''"

definition HostedManagedKubeconfigManifestworkSuffix :: string where
  "HostedManagedKubeconfigManifestworkSuffix = ''hosted-kubeconfig''"

definition ManifestWorkFinalizer :: string where
  "ManifestWorkFinalizer = ''managedcluster-import-controller.open-cluster-management.io/manifestwork-cleanup''"

definition DefaultKlusterletNamespace :: string where
  "DefaultKlusterletNamespace = ''open-cluster-management-agent''"

definition KlusterletSuffix :: string where
  "KlusterletSuffix = ''klusterlet''"

definition KlusterletCRDsSuffix :: string where
  "KlusterletCRDsSuffix = ''klusterlet-crds''"

definition ConditionManagedClusterImportSucceeded :: string where
  "ConditionManagedClusterImportSucceeded = ''ManagedClusterImportSucceeded''"

definition ConditionReasonManagedClusterWaitForImporting :: string where
  "ConditionReasonManagedClusterWaitForImporting = ''ManagedClusterWaitForImporting''"

definition ConditionReasonManagedClusterImporting :: string where
  "ConditionReasonManagedClusterImporting = ''ManagedClusterImporting''"

definition ConditionReasonManagedClusterImportFailed :: string where
  "ConditionReasonManagedClusterImportFailed = ''ManagedClusterImportFailed''"

definition ConditionReasonManagedClusterImported :: string where
  "ConditionReasonManagedClusterImported = ''ManagedClusterImported''"

definition ConditionReasonManagedClusterDetaching :: string where
  "ConditionReasonManagedClusterDetaching = ''ManagedClusterDetaching''"

definition ConditionReasonManagedClusterForceDetaching :: string where
  "ConditionReasonManagedClusterForceDetaching = ''ManagedClusterForceDetaching''"

definition EventReasonManagedClusterImportFailed :: string where
  "EventReasonManagedClusterImportFailed = ''Failed''"

definition EventReasonManagedClusterImported :: string where
  "EventReasonManagedClusterImported = ''Imported''"

definition EventReasonManagedClusterImporting :: string where
  "EventReasonManagedClusterImporting = ''Importing''"

definition EventReasonManagedClusterWait :: string where
  "EventReasonManagedClusterWait = ''WaitForImporting''"

definition EventReasonManagedClusterDetaching :: string where
  "EventReasonManagedClusterDetaching = ''Detaching''"

definition EventReasonManagedClusterForceDetaching :: string where
  "EventReasonManagedClusterForceDetaching = ''ForceDetaching''"

definition AutoImportSecretKubeConfig :: string where
  "AutoImportSecretKubeConfig = ''auto-import/kubeconfig''"

definition AutoImportSecretKubeConfigKey :: string where
  "AutoImportSecretKubeConfigKey = ''kubeconfig''"

definition AutoImportSecretKubeToken :: string where
  "AutoImportSecretKubeToken = ''auto-import/kubetoken''"

definition AutoImportSecretKubeServerKey :: string where
  "AutoImportSecretKubeServerKey = ''server''"

definition AutoImportSecretKubeTokenKey :: string where
  "AutoImportSecretKubeTokenKey = ''token''"

definition AutoImportSecretRosaConfig :: string where
  "AutoImportSecretRosaConfig = ''auto-import/rosa''"

definition AutoImportSecretRosaConfigAPIURLKey :: string where
  "AutoImportSecretRosaConfigAPIURLKey = ''api_url''"

definition AutoImportSecretRosaConfigAPITokenKey :: string where
  "AutoImportSecretRosaConfigAPITokenKey = ''api_token''"

definition AutoImportSecretRosaConfigTokenURLKey :: string where
  "AutoImportSecretRosaConfigTokenURLKey = ''token_url''"

definition AutoImportSecretRosaConfigClusterIDKey :: string where
  "AutoImportSecretRosaConfigClusterIDKey = ''cluster_id''"

definition AutoImportSecretRosaConfigClientIDKey :: string where
  "AutoImportSecretRosaConfigClientIDKey = ''client_id''"

definition AutoImportSecretRosaConfigClientSecretKey :: string where
  "AutoImportSecretRosaConfigClientSecretKey = ''client_secret''"

definition AutoImportSecretRosaConfigRetryTimesKey :: string where
  "AutoImportSecretRosaConfigRetryTimesKey = ''retry_times''"

definition AutoImportSecretRosaConfigAuthMethodKey :: string where
  "AutoImportSecretRosaConfigAuthMethodKey = ''auth_method''"

definition AutoImportSecretRosaConfigAuthMethodOfflineToken :: string where
  "AutoImportSecretRosaConfigAuthMethodOfflineToken = ''offline-token''"

definition AutoImportSecretRosaConfigAuthMethodServiceAccount :: string where
  "AutoImportSecretRosaConfigAuthMethodServiceAccount = ''service-account''"

definition DefaultKlusterletPriorityClassName :: string where
  "DefaultKlusterletPriorityClassName = ''klusterlet-critical''"

definition GlobalKlusterletConfigName :: string where
  "GlobalKlusterletConfigName = ''global''"

definition ComponentName :: string where
  "ComponentName = ''managedcluster-import-controller''"

definition LabelValueTrue :: string where
  "LabelValueTrue = ''true''"

definition DefaultBootstrapHubKubeConfigSecretName :: string where
  "DefaultBootstrapHubKubeConfigSecretName = ''bootstrap-hub-kubeconfig''"

definition CSRClusterNameLabel :: string where
  "CSRClusterNameLabel = ''open-cluster-management.io/cluster-name''"

definition AgentRegistrationBootstrapUser :: string where
  "AgentRegistrationBootstrapUser = ''system:serviceaccount:multicluster-engine:agent-registration-bootstrap''"

definition ClusterImportConfigSecretName :: string where
  "ClusterImportConfigSecretName = ''cluster-import-config''"

definition ValuesYamlKey :: string where
  "ValuesYamlKey = ''values.yaml''"

definition DefaultSecretTokenExpirationSecond :: int where
  "DefaultSecretTokenExpirationSecond = 360 * 24 * 60 * 60"

text \<open>A duration in nanoseconds.\<close>

definition DefaultSecretTokenRefreshThreshold :: int where
  "DefaultSecretTokenRefreshThreshold = 360 * 24 * 3600000000000 div 5"

definition LegacyTokenInvalidSince :: string where
  "LegacyTokenInvalidSince = ''kubernetes.io/legacy-token-invalid-since''"

section \<open>Constants of the controllers, the helpers and the API packages\<close>

definition DisableAutoImportAnnotation :: string where
  "DisableAutoImportAnnotation = ''import.open-cluster-management.io/disable-auto-import''"

definition AnnotationKlusterletConfig :: string where
  "AnnotationKlusterletConfig = ''agent.open-cluster-management.io/klusterlet-config''"

definition AutoImportStrategyImportAndSync :: string where
  "AutoImportStrategyImportAndSync = ''ImportAndSync''"

definition AutoImportStrategyImportOnly :: string where
  "AutoImportStrategyImportOnly = ''ImportOnly''"

definition AnnotationImmediateImport :: string where
  "AnnotationImmediateImport = ''import.open-cluster-management.io/immediate-import''"

definition AnnotationValueImmediateImportCompleted :: string where
  "AnnotationValueImmediateImportCompleted = ''Completed''"

definition ManagedClusterConditionAvailable :: string where
  "ManagedClusterConditionAvailable = ''ManagedClusterConditionAvailable''"

definition ClusterNameLabelKey :: string where
  "ClusterNameLabelKey = ''open-cluster-management.io/cluster-name''"

definition CleanupPriorityAnnotationKey :: string where
  "CleanupPriorityAnnotationKey = ''open-cluster-management.io/cleanup-priority''"

definition HostingClusterNameAnnotationKey :: string where
  "HostingClusterNameAnnotationKey = ''addon.open-cluster-management.io/hosting-cluster-name''"

definition AddonDeprecatedHostingPreDeleteHookFinalizer :: string where
  "AddonDeprecatedHostingPreDeleteHookFinalizer = ''cluster.open-cluster-management.io/hosting-addon-pre-delete''"

definition AddonDeprecatedHostingManifestFinalizer :: string where
  "AddonDeprecatedHostingManifestFinalizer = ''cluster.open-cluster-management.io/hosting-manifests-cleanup''"

definition AddonHostingPreDeleteHookFinalizer :: string where
  "AddonHostingPreDeleteHookFinalizer = ''addon.open-cluster-management.io/hosting-addon-pre-delete''"

definition AddonHostingManifestFinalizer :: string where
  "AddonHostingManifestFinalizer = ''addon.open-cluster-management.io/hosting-manifests-cleanup''"

definition InstallModeDefault :: string where
  "InstallModeDefault = ''Default''"

definition InstallModeHosted :: string where
  "InstallModeHosted = ''Hosted''"

definition InstallModeSingleton :: string where
  "InstallModeSingleton = ''Singleton''"

definition InstallModeSingletonHosted :: string where
  "InstallModeSingletonHosted = ''SingletonHosted''"

definition WorkAvailable :: string where
  "WorkAvailable = ''Available''"

definition WorkDeleting :: string where
  "WorkDeleting = ''Deleting''"

definition ClusterLabel :: string where
  "ClusterLabel = ''cluster.open-cluster-management.io/managedCluster''"

definition clusterNameLabel :: string where
  "clusterNameLabel = ''name''"

definition createdViaOther :: string where
  "createdViaOther = ''other''"

definition curatorJobPrefix :: string where
  "curatorJobPrefix = ''curator-job''"

definition postHookJobPrefix :: string where
  "postHookJobPrefix = ''posthookjob''"

definition preHookJobPrefix :: string where
  "preHookJobPrefix = ''prehookjob''"

definition BootstrapSASuffix :: string where
  "BootstrapSASuffix = ''bootstrap-sa''"

definition GRPCSAName :: string where
  "GRPCSAName = ''grpc-server-sa''"

definition HubNamespace :: string where
  "HubNamespace = ''open-cluster-management-hub''"

definition SubjectPrefix :: string where
  "SubjectPrefix = ''system:open-cluster-management:''"

definition GRPCAuthSigner :: string where
  "GRPCAuthSigner = ''open-cluster-management.io/grpc''"

definition KubeAPIServerClientSignerName :: string where
  "KubeAPIServerClientSignerName = ''kubernetes.io/kube-apiserver-client''"

definition nodeSelectorAnnotation :: string where
  "nodeSelectorAnnotation = ''open-cluster-management/nodeSelector''"

definition tolerationsAnnotation :: string where
  "tolerationsAnnotation = ''open-cluster-management/tolerations''"

definition kubeconfigDefaultCluster :: string where
  "kubeconfigDefaultCluster = ''default-cluster''"

definition kubeconfigDefaultAuth :: string where
  "kubeconfigDefaultAuth = ''default-auth''"

definition kubeconfigDefaultContext :: string where
  "kubeconfigDefaultContext = ''default-context''"

definition conditionMessageImportingResourcesApplied :: string where
  "conditionMessageImportingResourcesApplied = ''Importing resources are applied, wait for resources be available''"

definition readyToApplyStatusFeedback :: string where
  "readyToApplyStatusFeedback = ''ReadyToApply-status''"

definition ManagedClustersGroup :: string where
  "ManagedClustersGroup = SubjectPrefix @ ''managed-clusters''"

section \<open>Facts that depend on the values\<close>

lemma finalizers_distinct [simp]:
  "ImportFinalizer \<noteq> ManifestWorkFinalizer" "ManifestWorkFinalizer \<noteq> ImportFinalizer"
  by (simp_all add: ImportFinalizer_def ManifestWorkFinalizer_def)

lemma hosting_finalizers_distinct [simp]:
  "AddonHostingManifestFinalizer \<noteq> AddonHostingPreDeleteHookFinalizer"
  by (simp add: AddonHostingManifestFinalizer_def AddonHostingPreDeleteHookFinalizer_def)

lemma deleting_suffixes_distinct [simp]:
  "HostedKlusterletManifestworkSuffix \<noteq> HostedManagedKubeconfigManifestworkSuffix"
  by (simp add: HostedKlusterletManifestworkSuffix_def HostedManagedKubeconfigManifestworkSuffix_def)

lemma install_modes_distinct [simp]:
  "InstallModeHosted \<noteq> InstallModeSingletonHosted" "InstallModeSingletonHosted \<noteq> InstallModeHosted"
  "InstallModeHosted \<noteq> InstallModeDefault" "InstallModeDefault \<noteq> InstallModeHosted"
  "InstallModeHosted \<noteq> InstallModeSingleton" "InstallModeSingleton \<noteq> InstallModeHosted"
  "InstallModeSingleton \<noteq> InstallModeSingletonHosted" "InstallModeSingletonHosted \<noteq> InstallModeSingleton"
  "InstallModeDefault \<noteq> InstallModeSingletonHosted" "InstallModeSingletonHosted \<noteq> InstallModeDefault"
  "InstallModeDefault \<noteq> InstallModeSingleton" "InstallModeSingleton \<noteq> InstallModeDefault"
  by (simp_all add: InstallModeHosted_def InstallModeSingletonHosted_def InstallModeDefault_def
      InstallModeSingleton_def)

end
