(* ===== verification/Kube_Objects.thy ===== *)
theory Kube_Objects
  imports Constants
begin

text \<open>
  The data of the development: API errors as values, and the API objects the controllers read
  and write. An embedded \<open>metav1.ObjectMeta\<close> is a record that the objects extend, so that the
  helpers on metadata are polymorphic as in Go. Each record has the fields the modelled code
  reads or writes; \<open>DeepCopy\<close> is the identity on values.
\<close>

section \<open>Errors\<close>

text \<open>
  An API error carries a reason, an HTTP code and a message; \<open>ErrorString\<close> is any other error
  (\<open>fmt.Errorf\<close>, \<open>errors.New\<close>); \<open>Aggregate\<close> is \<open>utilerrors.aggregate\<close>. No error is \<open>None\<close>.
\<close>

datatype err =
    StatusError string int string
  | ErrorString string
  | Aggregate "err list"

definition knownReasons :: "string list" where
  "knownReasons = [''Unauthorized'', ''Forbidden'', ''NotFound'', ''AlreadyExists'', ''Conflict'',
     ''Gone'', ''Invalid'', ''ServerTimeout'', ''StorageReadError'', ''Timeout'', ''TooManyRequests'',
     ''BadRequest'', ''MethodNotAllowed'', ''NotAcceptable'', ''RequestEntityTooLarge'',
     ''UnsupportedMediaType'', ''InternalError'', ''Expired'', ''ServiceUnavailable'']"

fun reasonAndCodeForError :: "err \<Rightarrow> string \<times> int" where
  "reasonAndCodeForError (StatusError r c m) = (r, c)"
| "reasonAndCodeForError (ErrorString m) = ([], 0)"
| "reasonAndCodeForError (Aggregate es) = ([], 0)"

definition has_reason :: "string \<Rightarrow> int \<Rightarrow> err \<Rightarrow> bool" where
  "has_reason r c e =
     (case reasonAndCodeForError e of (reason, code) \<Rightarrow>
        reason = r \<or> (reason \<notin> set knownReasons \<and> code = c))"

definition IsNotFound :: "err \<Rightarrow> bool" where
  "IsNotFound e = has_reason ''NotFound'' 404 e"

definition IsAlreadyExists :: "err \<Rightarrow> bool" where
  "IsAlreadyExists e = (fst (reasonAndCodeForError e) = ''AlreadyExists'')"

definition IsConflict :: "err \<Rightarrow> bool" where
  "IsConflict e = has_reason ''Conflict'' 409 e"

definition IsUnauthorized :: "err \<Rightarrow> bool" where
  "IsUnauthorized e = has_reason ''Unauthorized'' 401 e"

definition IsForbidden :: "err \<Rightarrow> bool" where
  "IsForbidden e = has_reason ''Forbidden'' 403 e"

definition IsInternalError :: "err \<Rightarrow> bool" where
  "IsInternalError e = has_reason ''InternalError'' 500 e"

definition IsTooManyRequests :: "err \<Rightarrow> bool" where
  "IsTooManyRequests e =
     (case reasonAndCodeForError e of (reason, code) \<Rightarrow> reason = ''TooManyRequests'' \<or> code = 429)"

text \<open>\<open>IgnoreNotFound\<close> of controller-runtime: a NotFound error becomes no error.\<close>

definition IgnoreNotFound :: "err \<Rightarrow> err option" where
  "IgnoreNotFound e = (if IsNotFound e then None else Some e)"

text \<open>\<open>utilerrors.NewAggregate\<close>: the errors that are not nil, nothing when there is none.\<close>

definition NewAggregate :: "err option list \<Rightarrow> err option" where
  "NewAggregate errlist =
     (let errs = map the (filter (\<lambda>e. e \<noteq> None) errlist)
      in if errs = [] then None else Some (Aggregate errs))"

text \<open>\<open>Error()\<close>: an aggregate of several errors prints its distinct leaf messages in brackets.\<close>

fun leaf_messages :: "err \<Rightarrow> string list" where
  "leaf_messages (StatusError r c m) = [m]"
| "leaf_messages (ErrorString m) = [m]"
| "leaf_messages (Aggregate es) = concat (map leaf_messages es)"

definition distinct_first :: "'a list \<Rightarrow> 'a list" where
  "distinct_first xs = rev (remdups (rev xs))"

fun join :: "string \<Rightarrow> string list \<Rightarrow> string" where
  "join sep [] = []"
| "join sep [x] = x"
| "join sep (x # xs) = x @ sep @ join sep xs"

fun Error :: "err \<Rightarrow> string" where
  "Error (StatusError r c m) = m"
| "Error (ErrorString m) = m"
| "Error (Aggregate []) = []"
| "Error (Aggregate [e]) = Error e"
| "Error (Aggregate es) =
     (let msgs = distinct_first (concat (map leaf_messages es))
      in if length msgs = 1 then join '', '' msgs else ''['' @ join '', '' msgs @ '']'')"

lemma IsNotFound_Aggregate [simp]: "\<not> IsNotFound (Aggregate es)"
  by (simp add: IsNotFound_def has_reason_def)

lemma IsNotFound_ErrorString [simp]: "\<not> IsNotFound (ErrorString m)"
  by (simp add: IsNotFound_def has_reason_def)

lemma IsNotFound_status [simp]: "IsNotFound (StatusError ''NotFound'' c m)"
  by (simp add: IsNotFound_def has_reason_def)

lemma NewAggregate_None_iff: "NewAggregate es = None \<longleftrightarrow> (\<forall>e \<in> set es. e = None)"
  by (auto simp: NewAggregate_def Let_def filter_empty_conv)

lemma NewAggregate_Nil [simp]: "NewAggregate [] = None"
  by (simp add: NewAggregate_def)

lemma NewAggregate_Some_iff:
  "NewAggregate es = Some e \<longleftrightarrow>
     (\<exists>x \<in> set es. x \<noteq> None) \<and> e = Aggregate (map the (filter (\<lambda>x. x \<noteq> None) es))"
  by (auto simp: NewAggregate_def Let_def filter_empty_conv)

text \<open>\<open>errors.IsNotFound(err)\<close> on an error that may be nil.\<close>

definition not_found :: "err option \<Rightarrow> bool" where
  "not_found e \<longleftrightarrow> (case e of None \<Rightarrow> False | Some x \<Rightarrow> IsNotFound x)"

section \<open>Metadata and conditions\<close>

record OwnerReference =
  APIVersion :: string
  RefKind :: string
  RefName :: string
  UID :: string
  IsController :: "bool option"
  BlockOwnerDeletion :: "bool option"

record ObjectMeta =
  Name :: string
  Namespace :: string
  Labels :: smap
  Annotations :: smap
  Finalizers :: "string list"
  DeletionTimestamp :: "int option"
  ResourceVersion :: string
  OwnerReferences :: "OwnerReference list"
  ObjUID :: string

definition new_meta :: "string \<Rightarrow> string \<Rightarrow> ObjectMeta" where
  "new_meta ns n = \<lparr>Name = n, Namespace = ns, Labels = fmempty, Annotations = fmempty,
     Finalizers = [], DeletionTimestamp = None, ResourceVersion = [], OwnerReferences = [],
     ObjUID = []\<rparr>"

definition deleting :: "'a ObjectMeta_scheme \<Rightarrow> bool" where
  "deleting m \<longleftrightarrow> DeletionTimestamp m \<noteq> None"

datatype ConditionStatus = ConditionTrue | ConditionFalse | ConditionUnknown

record Condition =
  Type :: string
  Status :: ConditionStatus
  Reason :: string
  Message :: string
  LastTransitionTime :: "int option"
  ObservedGeneration :: int

section \<open>Hub objects\<close>

record ClientConfig =
  URL :: string
  CABundle :: string

record ManagedCluster = ObjectMeta +
  HubAcceptsClient :: bool
  ManagedClusterClientConfigs :: "ClientConfig list"
  Conditions :: "Condition list"
  KubernetesVersion :: string

text \<open>Objects of which the code reads and writes the metadata only.\<close>

type_synonym NamespaceObj = ObjectMeta
type_synonym ManagedClusterAddOn = ObjectMeta
type_synonym RoleBinding = ObjectMeta

record Secret = ObjectMeta +
  SecretType :: string
  Data :: "(string, string) fmap"

record ConfigMap = ObjectMeta +
  ConfigData :: smap

record Pod = ObjectMeta +
  Phase :: string

record ClusterDeployment = ObjectMeta +
  Installed :: bool
  ClusterPoolRef :: "int option option" \<comment> \<open>the reference, with its \<open>ClaimedTimestamp\<close>\<close>
  ClusterMetadata :: "string option" \<comment> \<open>the name in \<open>AdminKubeconfigSecretRef\<close>\<close>
  AgentBareMetal :: bool

datatype UpdateStrategyType = ReadOnly | OtherStrategy string

record ManifestConfigOption =
  RIGroup :: string
  RIResource :: string
  RIName :: string
  RINamespace :: string
  FeedbackPaths :: "(string \<times> string) list" \<comment> \<open>name and path of each JSON path of the rules\<close>
  UpdateStrategy :: "UpdateStrategyType option"

datatype DeletePropagationPolicy = Orphan | Foreground | OtherPolicy string

record ManifestStatus =
  MSGroup :: string
  MSKind :: string
  MSResource :: string
  MSName :: string
  StatusFeedbacks :: "(string \<times> string option) list" \<comment> \<open>name and string value\<close>

record ManifestWork = ObjectMeta +
  Manifests :: "string list"
  ManifestConfigs :: "ManifestConfigOption list"
  DeleteOption :: "DeletePropagationPolicy option"
  WorkConditions :: "Condition list"
  ManifestStatuses :: "ManifestStatus list"

record CSRCondition =
  CSRType :: string
  CSRStatus :: ConditionStatus
  CSRReason :: string
  CSRMessage :: string

record CSR = ObjectMeta +
  SignerName :: string
  Username :: string
  Request :: string
  CSRConditions :: "CSRCondition list"

text \<open>A cluster with nothing set but its name, for concrete runs.\<close>

definition new_cluster :: "string \<Rightarrow> ManagedCluster" where
  "new_cluster n = ObjectMeta.extend (new_meta [] n)
     \<lparr>HubAcceptsClient = True, ManagedClusterClientConfigs = [], Conditions = [], KubernetesVersion = []\<rparr>"

section \<open>Objects applied by \<open>ApplyResources\<close>\<close>

record PriorityClass = ObjectMeta +
  Value :: int
  GlobalDefault :: bool
  Description :: string
  PreemptionPolicy :: "string option"

text \<open>An object whose specification the code only compares and copies as a whole.\<close>

record SpecObj = ObjectMeta +
  Spec :: string

record Deployment = SpecObj +
  Generation :: int

datatype obj =
    ServiceAccountObj SpecObj
  | SecretObj Secret
  | NamespaceObj SpecObj
  | DeploymentObj Deployment
  | ClusterRoleObj SpecObj
  | ClusterRoleBindingObj SpecObj
  | CRDObj SpecObj
  | ManifestWorkObj ManifestWork
  | KlusterletObj SpecObj
  | PriorityClassObj PriorityClass
  | NetworkPolicyObj SpecObj
  | UnknownObj string "ObjectMeta option" \<comment> \<open>another registered type: its Go name and its metadata\<close>
  | NilObj

section \<open>Kubeconfig\<close>

record KCluster =
  Server :: string
  InsecureSkipTLSVerify :: bool
  CertificateAuthority :: string
  CertificateAuthorityData :: string
  ProxyURL :: string

record KContext =
  CtxCluster :: string
  CtxAuthInfo :: string
  CtxNamespace :: string

record KubeConfig =
  Clusters :: "(string, KCluster) fmap"
  AuthInfos :: "(string, string) fmap" \<comment> \<open>the token of each user\<close>
  Contexts :: "(string, KContext) fmap"
  CurrentContext :: string

text \<open>A client holder: the clients of the hub, or clients built from a kubeconfig.\<close>

datatype holder = Hub | Remote KubeConfig

text \<open>The clients that are built one after the other from a kubeconfig.\<close>

datatype client_part = ClientConfigPart | KubeClientPart | APIExtensionsPart | OperatorPart
  | RuntimePart | RoutePart | HTTPPart | MapperPart

section \<open>Codecs\<close>

text \<open>
  Functions of third-party packages on bytes: the universal decoder of the controller's scheme
  (\<open>decode\<close>, with \<open>decoded_gvk\<close> the group, version and kind it leaves in the object),
  \<open>yaml.YAMLToJSON\<close>, the kind of an unstructured object read from JSON, and reading and writing
  a kubeconfig (\<open>clientcmd.Load\<close>, \<open>runtime.Encode\<close> with the codec of \<open>clientcmd\<close>).
\<close>

record codec =
  decode :: "string \<Rightarrow> err + obj"
  decoded_gvk :: "string \<Rightarrow> string \<times> string \<times> string"
  YAMLToJSON :: "string \<Rightarrow> err + string"
  unstructured_kind :: "string \<Rightarrow> err + string"
  clientcmd_Load :: "string \<Rightarrow> err + KubeConfig"
  clientcmd_Encode :: "KubeConfig \<Rightarrow> err + string"

section \<open>The OpenShift cluster manager\<close>

datatype ocm_connection =
    OfflineTokenConn string string string \<comment> \<open>URL, token URL, token\<close>
  | ServiceAccountConn string string \<comment> \<open>client id and secret\<close>

record ocm_provider =
  ProviderType :: string
  ProviderName :: string
  ProviderID :: string

record ocm_user =
  OcmUsername :: string
  OcmUserID :: string

section \<open>Klusterlet configuration\<close>

record Registry =
  Mirror :: string
  Source :: string

text \<open>
  Slices that the code compares with their zero value are options here, \<open>None\<close> being the nil slice.
\<close>

record CABundleRef =
  BundleName :: string
  BundleNamespace :: string \<comment> \<open>of the config map\<close>
  BundleConfigMap :: string

record KubeAPIServerConfig =
  KASURL :: string
  KASProxyURL :: string
  TrustedCABundles :: "CABundleRef list"
  ServerVerificationStrategy :: string

record ProxyConfig =
  HTTPProxy :: string
  HTTPSProxy :: string
  ProxyCABundle :: "string option"

record ObjectReference =
  RefObjNamespace :: string
  RefObjName :: string
  RefObjOther :: string \<comment> \<open>the other fields, empty when none of them is set\<close>

record Toleration =
  TolKey :: string
  TolOperator :: string
  TolValue :: string
  TolEffect :: string
  TolerationSeconds :: "int option"

record NodePlacement =
  NodeSelector :: smap
  Tolerations :: "Toleration list"

record FeatureGate =
  Feature :: string
  FeatureMode :: string

record LocalSecretsConfig =
  KubeConfigSecrets :: "string list" \<comment> \<open>the names of the kubeconfig secrets\<close>
  HubConnectionTimeoutSeconds :: int

record MultipleHubs =
  GenBootstrapKubeConfigStrategy :: string
  BootstrapType :: string
  LocalSecrets :: "LocalSecretsConfig option"

record RegistrationDriver =
  AuthType :: string
  AwsIrsa :: "string option" \<comment> \<open>copied as a whole\<close>

text \<open>\<open>KlusterletConfigSpec\<close>, in the order of its fields.\<close>

record KlusterletConfig = ObjectMeta +
  KCRegistries :: "Registry list option"
  KCPullSecret :: ObjectReference
  KCNodePlacement :: "NodePlacement option"
  HubKubeAPIServerConfig :: "KubeAPIServerConfig option"
  HubKubeAPIServerProxyConfig :: ProxyConfig
  HubKubeAPIServerURL :: string
  HubKubeAPIServerCABundle :: "string option"
  KCEvictionGracePeriod :: string \<comment> \<open>\<open>AppliedManifestWorkEvictionGracePeriod\<close>\<close>
  KCInstallMode :: "(string \<times> string option) option" \<comment> \<open>the type, and the postfix without operator\<close>
  MultipleHubsConfig :: "MultipleHubs option"
  KCFeatureGates :: "FeatureGate list"
  MaxCustomClusterClaims :: "int option" \<comment> \<open>\<open>ClusterClaimConfiguration\<close> with its one field\<close>
  WorkStatusSyncInterval :: "int option"
  KCRegistrationDriver :: "RegistrationDriver option"
  KCAddOnRegistrationDriver :: "string option" \<comment> \<open>copied as a whole\<close>

definition new_klusterlet_config :: "string \<Rightarrow> KlusterletConfig" where
  "new_klusterlet_config n = ObjectMeta.extend (new_meta [] n)
     \<lparr>KCRegistries = None, KCPullSecret = \<lparr>RefObjNamespace = [], RefObjName = [], RefObjOther = []\<rparr>,
      KCNodePlacement = None, HubKubeAPIServerConfig = None,
      HubKubeAPIServerProxyConfig = \<lparr>HTTPProxy = [], HTTPSProxy = [], ProxyCABundle = None\<rparr>,
      HubKubeAPIServerURL = [], HubKubeAPIServerCABundle = None, KCEvictionGracePeriod = [],
      KCInstallMode = None, MultipleHubsConfig = None, KCFeatureGates = [],
      MaxCustomClusterClaims = None, WorkStatusSyncInterval = None, KCRegistrationDriver = None,
      KCAddOnRegistrationDriver = None\<rparr>"

text \<open>
  Reviews of a bearer token and the user it belongs to; \<open>UserText\<close> and \<open>StatusText\<close> are what Go prints
  for the structures.
\<close>

record user_info =
  UserName :: string
  UserGroups :: "string list"
  UserUID :: string
  UserExtra :: "(string, string list) fmap"
  UserText :: string

record token_review =
  Authenticated :: bool
  ReviewUser :: user_info
  ReviewError :: string
  StatusText :: string

text \<open>The TLS profile of the OpenShift API server.\<close>

record TLSProfileSpec =
  Ciphers :: "string list"
  MinTLSVersion :: string

record TLSSecurityProfile =
  ProfileType :: string
  CustomProfile :: "TLSProfileSpec option"

text \<open>The repository that is handed to the device manager.\<close>

record flight_repository =
  RepoName :: string
  RepoURL :: string
  RepoToken :: string
  RepoCA :: string
  RepoValidationSuffix :: string

section \<open>Outcome of a reconcile\<close>

text \<open>\<open>reconcile.Result\<close>; the delay is a \<open>time.Duration\<close> in nanoseconds.\<close>

record Result =
  Requeue :: bool
  RequeueAfter :: int

definition emptyResult :: Result where
  "emptyResult = \<lparr>Requeue = False, RequeueAfter = 0\<rparr>"

definition second :: int where
  "second = 1000000000"

text \<open>A reconcile returns a result and an error, or panics.\<close>

datatype outcome = Return Result "err option" | Panicked

abbreviation done_ok :: outcome where
  "done_ok \<equiv> Return emptyResult None"

end
