(* ===== verification/Api.thy ===== *)
theory Api
  imports Kube_Objects "HOL-Library.Char_ord" "HOL-Library.List_Lexorder"
begin

text \<open>
  The interface to the outside: the Kubernetes API servers, the informer caches and the event
  recorders. \<open>query\<close> (reads) and \<open>request\<close> (writes) have one constructor per request the modelled code makes, and
  \<open>call\<close> adds the recorded events. The servers are a parameter, the record \<open>server\<close>: it answers each
  request from the history of the calls made so far. As the record is arbitrary in the
  theorems, they hold whatever the servers answer and whatever other actors do in between.
\<close>

type_synonym selector = "(string \<times> string) option" \<comment> \<open>\<open>labels.SelectorFromSet\<close> of one pair, or everything\<close>

section \<open>Calls\<close>

datatype query =
    GetManagedCluster string
  | GetNamespace string
  | ListAddons string
  | GetAddon string string
  | ListManifestWorks string selector
  | GetManifestWork string string
  | GetRoleBinding string string
  | ListerKlusterletWorks string selector
  | ListerHostedWorks string selector
  | ListerImportSecret string string
  | ListerAutoImportSecret string string
  | ListerConfigMap string string
  | GetSecret string string
  | ListSecrets string
  | GetClusterDeployment string string
  | ListHostedClusters string
  | ListClusterDeployments string
  | ListInfraEnvs string
  | ListCapiClusters string
  | ListPods string
  | GetCSR string
  | GetDeployment holder string string
  | GetKlusterlet holder string
  | GetPriorityClass holder string
  | GetNetworkPolicy holder string string
  | GetConfigMap string string
  | BuildClient client_part KubeConfig
  | OcmConnect ocm_connection
  | OcmGetCluster ocm_connection string
  | OcmListIDProviders ocm_connection string
  | OcmListHTPasswdUsers ocm_connection string string
  | OcmGetAdmin ocm_connection string string
  | OcmRequestToken string string string
  | HttpGet string string
  | ReadFile string
  | GetDevice string string string
  | GetRoute string string
  | GetService string string
  | GetInfrastructure string
  | GetAPIServer string
  | ListNodes
  | TlsDial string string
  | ListerKlusterletConfig string
  | ReviewToken string
  | ReviewAccess user_info string string
  | GetTLSProfile string

datatype request =
    PatchManagedCluster ManagedCluster ManagedCluster
  | UpdateManagedCluster ManagedCluster
  | UpdateManagedClusterStatus ManagedCluster
  | UpdateNamespace NamespaceObj
  | DeleteNamespace string
  | DeleteAddon string string
  | PatchAddon ManagedClusterAddOn ManagedClusterAddOn
  | CreateManifestWork ManifestWork
  | UpdateManifestWork ManifestWork
  | DeleteManifestWork string string
  | PatchWorkFinalizers string string
  | DeleteRoleBinding string string
  | PatchRoleBindingFinalizers string string
  | DeleteSecret string string
  | PatchClusterDeployment ClusterDeployment ClusterDeployment
  | UpdateApproval CSR
  | CreateKlusterlet holder SpecObj
  | UpdateKlusterlet holder SpecObj
  | CreatePriorityClass holder PriorityClass
  | UpdatePriorityClass holder PriorityClass
  | CreateNetworkPolicy holder SpecObj
  | UpdateNetworkPolicy holder SpecObj
  | ResourceApply holder obj int
  | OcmAddIDProvider ocm_connection string string string string
  | OcmAddHTPasswdUser ocm_connection string string string string
  | OcmUpdateHTPasswdUser ocm_connection string string string string
  | OcmDeleteIDProvider ocm_connection string string
  | OcmAddAdmin ocm_connection string string
  | OcmRemoveAdmin ocm_connection string string
  | CreateToken string string int
  | ApplyRepository string string flight_repository
  | CreateConfigMap ConfigMap
  | UpdateConfigMap ConfigMap

datatype call =
    Read query
  | Write request
  | Event string string
  | Warning string string
  | ClusterEvent string string string string

fun is_write :: "call \<Rightarrow> bool" where
  "is_write (Write w) = True"
| "is_write _ = False"

section \<open>Servers\<close>

record server =
  on_GetManagedCluster :: "call list \<Rightarrow> string \<Rightarrow> err + ManagedCluster"
  on_GetNamespace :: "call list \<Rightarrow> string \<Rightarrow> err + NamespaceObj"
  on_ListAddons :: "call list \<Rightarrow> string \<Rightarrow> err + ManagedClusterAddOn list"
  on_GetAddon :: "call list \<Rightarrow> string \<Rightarrow> string \<Rightarrow> err + ManagedClusterAddOn"
  on_ListManifestWorks :: "call list \<Rightarrow> string \<Rightarrow> selector \<Rightarrow> err + ManifestWork list"
  on_GetManifestWork :: "call list \<Rightarrow> string \<Rightarrow> string \<Rightarrow> err + ManifestWork"
  on_GetRoleBinding :: "call list \<Rightarrow> string \<Rightarrow> string \<Rightarrow> err + RoleBinding"
  on_ListerKlusterletWorks :: "call list \<Rightarrow> string \<Rightarrow> selector \<Rightarrow> err + ManifestWork list"
  on_ListerHostedWorks :: "call list \<Rightarrow> string \<Rightarrow> selector \<Rightarrow> err + ManifestWork list"
  on_ListerImportSecret :: "call list \<Rightarrow> string \<Rightarrow> string \<Rightarrow> err + Secret"
  on_ListerAutoImportSecret :: "call list \<Rightarrow> string \<Rightarrow> string \<Rightarrow> err + Secret"
  on_ListerConfigMap :: "call list \<Rightarrow> string \<Rightarrow> string \<Rightarrow> err + ConfigMap"
  on_GetSecret :: "call list \<Rightarrow> string \<Rightarrow> string \<Rightarrow> err + Secret"
  on_ListSecrets :: "call list \<Rightarrow> string \<Rightarrow> err + Secret list"
  on_GetClusterDeployment :: "call list \<Rightarrow> string \<Rightarrow> string \<Rightarrow> err + ClusterDeployment"
  on_ListHostedClusters :: "call list \<Rightarrow> string \<Rightarrow> err + string list"
  on_ListClusterDeployments :: "call list \<Rightarrow> string \<Rightarrow> err + string list"
  on_ListInfraEnvs :: "call list \<Rightarrow> string \<Rightarrow> err + string list"
  on_ListCapiClusters :: "call list \<Rightarrow> string \<Rightarrow> err + string list"
  on_ListPods :: "call list \<Rightarrow> string \<Rightarrow> err + Pod list"
  on_GetCSR :: "call list \<Rightarrow> string \<Rightarrow> err + CSR"
  on_GetDeployment :: "call list \<Rightarrow> holder \<Rightarrow> string \<Rightarrow> string \<Rightarrow> err + Deployment"
  on_GetKlusterlet :: "call list \<Rightarrow> holder \<Rightarrow> string \<Rightarrow> err + SpecObj"
  on_GetPriorityClass :: "call list \<Rightarrow> holder \<Rightarrow> string \<Rightarrow> err + PriorityClass"
  on_GetNetworkPolicy :: "call list \<Rightarrow> holder \<Rightarrow> string \<Rightarrow> string \<Rightarrow> err + SpecObj"
  on_GetConfigMap :: "call list \<Rightarrow> string \<Rightarrow> string \<Rightarrow> err + ConfigMap"
  on_BuildClient :: "call list \<Rightarrow> client_part \<Rightarrow> KubeConfig \<Rightarrow> err option"
  on_OcmConnect :: "call list \<Rightarrow> ocm_connection \<Rightarrow> err option"
  on_OcmGetCluster :: "call list \<Rightarrow> ocm_connection \<Rightarrow> string \<Rightarrow> err + string option"
  on_OcmListIDProviders :: "call list \<Rightarrow> ocm_connection \<Rightarrow> string \<Rightarrow> err + ocm_provider option list option"
  on_OcmListHTPasswdUsers :: "call list \<Rightarrow> ocm_connection \<Rightarrow> string \<Rightarrow> string \<Rightarrow> err + ocm_user option list"
  on_OcmGetAdmin :: "call list \<Rightarrow> ocm_connection \<Rightarrow> string \<Rightarrow> string \<Rightarrow> (err \<times> int option) + unit"
  on_OcmRequestToken :: "call list \<Rightarrow> string \<Rightarrow> string \<Rightarrow> string \<Rightarrow> err + string"
  on_HttpGet :: "call list \<Rightarrow> string \<Rightarrow> string \<Rightarrow> err + int"
  on_ReadFile :: "call list \<Rightarrow> string \<Rightarrow> err + string"
  on_GetDevice :: "call list \<Rightarrow> string \<Rightarrow> string \<Rightarrow> string \<Rightarrow> err + int"
  on_GetRoute :: "call list \<Rightarrow> string \<Rightarrow> string \<Rightarrow> err + string"
  on_GetService :: "call list \<Rightarrow> string \<Rightarrow> string \<Rightarrow> err + string \<times> (string \<times> string) list"
  on_GetInfrastructure :: "call list \<Rightarrow> string \<Rightarrow> err + string \<times> string"
  on_GetAPIServer :: "call list \<Rightarrow> string \<Rightarrow> err + (string list \<times> string) list"
  on_ListNodes :: "call list \<Rightarrow> err + string list"
  on_TlsDial :: "call list \<Rightarrow> string \<Rightarrow> string \<Rightarrow> (err \<times> bool) + string list"
  on_ListerKlusterletConfig :: "call list \<Rightarrow> string \<Rightarrow> err + KlusterletConfig"
  on_ReviewToken :: "call list \<Rightarrow> string \<Rightarrow> err + token_review"
  on_ReviewAccess :: "call list \<Rightarrow> user_info \<Rightarrow> string \<Rightarrow> string \<Rightarrow> err + bool \<times> string"
    \<comment> \<open>whether it is allowed, and the printed status\<close>
  on_GetTLSProfile :: "call list \<Rightarrow> string \<Rightarrow> err + TLSSecurityProfile option"
  on_PatchManagedCluster :: "call list \<Rightarrow> ManagedCluster \<Rightarrow> ManagedCluster \<Rightarrow> err + ManagedCluster"
  on_ResourceApply :: "call list \<Rightarrow> holder \<Rightarrow> obj \<Rightarrow> int \<Rightarrow> bool \<times> err option"
  on_CreateToken :: "call list \<Rightarrow> string \<Rightarrow> string \<Rightarrow> int \<Rightarrow> err + string \<times> (err + string) \<times> (err + string)"
    \<comment> \<open>the token, its creation and its expiration as text\<close>
  on_write :: "call list \<Rightarrow> request \<Rightarrow> err option"
  on_now :: "call list \<Rightarrow> int"
  on_password :: "call list \<Rightarrow> err + string"
  on_range :: "call list \<Rightarrow> smap \<Rightarrow> (string \<times> string) list"

section \<open>Requests as programs\<close>

abbreviation api_GetManagedCluster :: "server \<Rightarrow> string \<Rightarrow> (call, (err + ManagedCluster)) prog" where
  "api_GetManagedCluster srv a \<equiv> ask (\<lambda>h. on_GetManagedCluster srv h a) (Read (GetManagedCluster a))"

abbreviation api_GetNamespace :: "server \<Rightarrow> string \<Rightarrow> (call, (err + NamespaceObj)) prog" where
  "api_GetNamespace srv a \<equiv> ask (\<lambda>h. on_GetNamespace srv h a) (Read (GetNamespace a))"

abbreviation api_ListAddons :: "server \<Rightarrow> string \<Rightarrow> (call, (err + ManagedClusterAddOn list)) prog" where
  "api_ListAddons srv a \<equiv> ask (\<lambda>h. on_ListAddons srv h a) (Read (ListAddons a))"

abbreviation api_GetAddon :: "server \<Rightarrow> string \<Rightarrow> string \<Rightarrow> (call, (err + ManagedClusterAddOn)) prog" where
  "api_GetAddon srv a b \<equiv> ask (\<lambda>h. on_GetAddon srv h a b) (Read (GetAddon a b))"

abbreviation api_ListManifestWorks :: "server \<Rightarrow> string \<Rightarrow> selector \<Rightarrow> (call, (err + ManifestWork list)) prog" where
  "api_ListManifestWorks srv a b \<equiv> ask (\<lambda>h. on_ListManifestWorks srv h a b) (Read (ListManifestWorks a b))"

abbreviation api_GetManifestWork :: "server \<Rightarrow> string \<Rightarrow> string \<Rightarrow> (call, (err + ManifestWork)) prog" where
  "api_GetManifestWork srv a b \<equiv> ask (\<lambda>h. on_GetManifestWork srv h a b) (Read (GetManifestWork a b))"

abbreviation api_GetRoleBinding :: "server \<Rightarrow> string \<Rightarrow> string \<Rightarrow> (call, (err + RoleBinding)) prog" where
  "api_GetRoleBinding srv a b \<equiv> ask (\<lambda>h. on_GetRoleBinding srv h a b) (Read (GetRoleBinding a b))"

abbreviation api_ListerKlusterletWorks :: "server \<Rightarrow> string \<Rightarrow> selector \<Rightarrow> (call, (err + ManifestWork list)) prog" where
  "api_ListerKlusterletWorks srv a b \<equiv> ask (\<lambda>h. on_ListerKlusterletWorks srv h a b) (Read (ListerKlusterletWorks a b))"

abbreviation api_ListerHostedWorks :: "server \<Rightarrow> string \<Rightarrow> selector \<Rightarrow> (call, (err + ManifestWork list)) prog" where
  "api_ListerHostedWorks srv a b \<equiv> ask (\<lambda>h. on_ListerHostedWorks srv h a b) (Read (ListerHostedWorks a b))"

abbreviation api_ListerImportSecret :: "server \<Rightarrow> string \<Rightarrow> string \<Rightarrow> (call, (err + Secret)) prog" where
  "api_ListerImportSecret srv a b \<equiv> ask (\<lambda>h. on_ListerImportSecret srv h a b) (Read (ListerImportSecret a b))"

abbreviation api_ListerAutoImportSecret :: "server \<Rightarrow> string \<Rightarrow> string \<Rightarrow> (call, (err + Secret)) prog" where
  "api_ListerAutoImportSecret srv a b \<equiv> ask (\<lambda>h. on_ListerAutoImportSecret srv h a b) (Read (ListerAutoImportSecret a b))"

abbreviation api_ListerConfigMap :: "server \<Rightarrow> string \<Rightarrow> string \<Rightarrow> (call, (err + ConfigMap)) prog" where
  "api_ListerConfigMap srv a b \<equiv> ask (\<lambda>h. on_ListerConfigMap srv h a b) (Read (ListerConfigMap a b))"

abbreviation api_GetSecret :: "server \<Rightarrow> string \<Rightarrow> string \<Rightarrow> (call, (err + Secret)) prog" where
  "api_GetSecret srv a b \<equiv> ask (\<lambda>h. on_GetSecret srv h a b) (Read (GetSecret a b))"

abbreviation api_ListSecrets :: "server \<Rightarrow> string \<Rightarrow> (call, (err + Secret list)) prog" where
  "api_ListSecrets srv a \<equiv> ask (\<lambda>h. on_ListSecrets srv h a) (Read (ListSecrets a))"

abbreviation api_GetClusterDeployment :: "server \<Rightarrow> string \<Rightarrow> string \<Rightarrow> (call, (err + ClusterDeployment)) prog" where
  "api_GetClusterDeployment srv a b \<equiv> ask (\<lambda>h. on_GetClusterDeployment srv h a b) (Read (GetClusterDeployment a b))"

abbreviation api_ListHostedClusters :: "server \<Rightarrow> string \<Rightarrow> (call, (err + string list)) prog" where
  "api_ListHostedClusters srv a \<equiv> ask (\<lambda>h. on_ListHostedClusters srv h a) (Read (ListHostedClusters a))"

abbreviation api_ListClusterDeployments :: "server \<Rightarrow> string \<Rightarrow> (call, (err + string list)) prog" where
  "api_ListClusterDeployments srv a \<equiv> ask (\<lambda>h. on_ListClusterDeployments srv h a) (Read (ListClusterDeployments a))"

abbreviation api_ListInfraEnvs :: "server \<Rightarrow> string \<Rightarrow> (call, (err + string list)) prog" where
  "api_ListInfraEnvs srv a \<equiv> ask (\<lambda>h. on_ListInfraEnvs srv h a) (Read (ListInfraEnvs a))"

abbreviation api_ListCapiClusters :: "server \<Rightarrow> string \<Rightarrow> (call, (err + string list)) prog" where
  "api_ListCapiClusters srv a \<equiv> ask (\<lambda>h. on_ListCapiClusters srv h a) (Read (ListCapiClusters a))"

abbreviation api_ListPods :: "server \<Rightarrow> string \<Rightarrow> (call, (err + Pod list)) prog" where
  "api_ListPods srv a \<equiv> ask (\<lambda>h. on_ListPods srv h a) (Read (ListPods a))"

abbreviation api_GetCSR :: "server \<Rightarrow> string \<Rightarrow> (call, (err + CSR)) prog" where
  "api_GetCSR srv a \<equiv> ask (\<lambda>h. on_GetCSR srv h a) (Read (GetCSR a))"

abbreviation api_GetDeployment :: "server \<Rightarrow> holder \<Rightarrow> string \<Rightarrow> string \<Rightarrow> (call, (err + Deployment)) prog" where
  "api_GetDeployment srv a b c \<equiv> ask (\<lambda>h. on_GetDeployment srv h a b c) (Read (GetDeployment a b c))"

abbreviation api_GetKlusterlet :: "server \<Rightarrow> holder \<Rightarrow> string \<Rightarrow> (call, (err + SpecObj)) prog" where
  "api_GetKlusterlet srv a b \<equiv> ask (\<lambda>h. on_GetKlusterlet srv h a b) (Read (GetKlusterlet a b))"

abbreviation api_GetPriorityClass :: "server \<Rightarrow> holder \<Rightarrow> string \<Rightarrow> (call, (err + PriorityClass)) prog" where
  "api_GetPriorityClass srv a b \<equiv> ask (\<lambda>h. on_GetPriorityClass srv h a b) (Read (GetPriorityClass a b))"

abbreviation api_GetNetworkPolicy :: "server \<Rightarrow> holder \<Rightarrow> string \<Rightarrow> string \<Rightarrow> (call, (err + SpecObj)) prog" where
  "api_GetNetworkPolicy srv a b c \<equiv> ask (\<lambda>h. on_GetNetworkPolicy srv h a b c) (Read (GetNetworkPolicy a b c))"

abbreviation api_GetConfigMap :: "server \<Rightarrow> string \<Rightarrow> string \<Rightarrow> (call, (err + ConfigMap)) prog" where
  "api_GetConfigMap srv a b \<equiv> ask (\<lambda>h. on_GetConfigMap srv h a b) (Read (GetConfigMap a b))"

abbreviation api_BuildClient :: "server \<Rightarrow> client_part \<Rightarrow> KubeConfig \<Rightarrow> (call, (err option)) prog" where
  "api_BuildClient srv a b \<equiv> ask (\<lambda>h. on_BuildClient srv h a b) (Read (BuildClient a b))"

abbreviation api_OcmConnect :: "server \<Rightarrow> ocm_connection \<Rightarrow> (call, (err option)) prog" where
  "api_OcmConnect srv a \<equiv> ask (\<lambda>h. on_OcmConnect srv h a) (Read (OcmConnect a))"

abbreviation api_OcmGetCluster :: "server \<Rightarrow> ocm_connection \<Rightarrow> string \<Rightarrow> (call, (err + string option)) prog" where
  "api_OcmGetCluster srv a b \<equiv> ask (\<lambda>h. on_OcmGetCluster srv h a b) (Read (OcmGetCluster a b))"

abbreviation api_OcmListIDProviders :: "server \<Rightarrow> ocm_connection \<Rightarrow> string \<Rightarrow> (call, (err + ocm_provider option list option)) prog" where
  "api_OcmListIDProviders srv a b \<equiv> ask (\<lambda>h. on_OcmListIDProviders srv h a b) (Read (OcmListIDProviders a b))"

abbreviation api_OcmListHTPasswdUsers :: "server \<Rightarrow> ocm_connection \<Rightarrow> string \<Rightarrow> string \<Rightarrow> (call, (err + ocm_user option list)) prog" where
  "api_OcmListHTPasswdUsers srv a b c \<equiv> ask (\<lambda>h. on_OcmListHTPasswdUsers srv h a b c) (Read (OcmListHTPasswdUsers a b c))"

abbreviation api_OcmGetAdmin :: "server \<Rightarrow> ocm_connection \<Rightarrow> string \<Rightarrow> string \<Rightarrow> (call, ((err \<times> int option) + unit)) prog" where
  "api_OcmGetAdmin srv a b c \<equiv> ask (\<lambda>h. on_OcmGetAdmin srv h a b c) (Read (OcmGetAdmin a b c))"

abbreviation api_OcmRequestToken :: "server \<Rightarrow> string \<Rightarrow> string \<Rightarrow> string \<Rightarrow> (call, (err + string)) prog" where
  "api_OcmRequestToken srv a b c \<equiv> ask (\<lambda>h. on_OcmRequestToken srv h a b c) (Read (OcmRequestToken a b c))"

abbreviation api_HttpGet :: "server \<Rightarrow> string \<Rightarrow> string \<Rightarrow> (call, (err + int)) prog" where
  "api_HttpGet srv a b \<equiv> ask (\<lambda>h. on_HttpGet srv h a b) (Read (HttpGet a b))"

abbreviation api_ReadFile :: "server \<Rightarrow> string \<Rightarrow> (call, (err + string)) prog" where
  "api_ReadFile srv a \<equiv> ask (\<lambda>h. on_ReadFile srv h a) (Read (ReadFile a))"

abbreviation api_GetDevice :: "server \<Rightarrow> string \<Rightarrow> string \<Rightarrow> string \<Rightarrow> (call, (err + int)) prog" where
  "api_GetDevice srv a b c \<equiv> ask (\<lambda>h. on_GetDevice srv h a b c) (Read (GetDevice a b c))"

abbreviation api_GetRoute :: "server \<Rightarrow> string \<Rightarrow> string \<Rightarrow> (call, (err + string)) prog" where
  "api_GetRoute srv a b \<equiv> ask (\<lambda>h. on_GetRoute srv h a b) (Read (GetRoute a b))"

abbreviation api_GetService :: "server \<Rightarrow> string \<Rightarrow> string \<Rightarrow> (call, (err + string \<times> (string \<times> string) list)) prog" where
  "api_GetService srv a b \<equiv> ask (\<lambda>h. on_GetService srv h a b) (Read (GetService a b))"

abbreviation api_GetInfrastructure :: "server \<Rightarrow> string \<Rightarrow> (call, (err + string \<times> string)) prog" where
  "api_GetInfrastructure srv a \<equiv> ask (\<lambda>h. on_GetInfrastructure srv h a) (Read (GetInfrastructure a))"

abbreviation api_GetAPIServer :: "server \<Rightarrow> string \<Rightarrow> (call, (err + (string list \<times> string) list)) prog" where
  "api_GetAPIServer srv a \<equiv> ask (\<lambda>h. on_GetAPIServer srv h a) (Read (GetAPIServer a))"

abbreviation api_ListNodes :: "server \<Rightarrow> (call, (err + string list)) prog" where
  "api_ListNodes srv \<equiv> ask (\<lambda>h. on_ListNodes srv h) (Read ListNodes)"

abbreviation api_TlsDial :: "server \<Rightarrow> string \<Rightarrow> string \<Rightarrow> (call, ((err \<times> bool) + string list)) prog" where
  "api_TlsDial srv a b \<equiv> ask (\<lambda>h. on_TlsDial srv h a b) (Read (TlsDial a b))"

abbreviation api_ListerKlusterletConfig :: "server \<Rightarrow> string \<Rightarrow> (call, (err + KlusterletConfig)) prog" where
  "api_ListerKlusterletConfig srv a \<equiv> ask (\<lambda>h. on_ListerKlusterletConfig srv h a) (Read (ListerKlusterletConfig a))"

abbreviation api_ReviewToken :: "server \<Rightarrow> string \<Rightarrow> (call, (err + token_review)) prog" where
  "api_ReviewToken srv a \<equiv> ask (\<lambda>h. on_ReviewToken srv h a) (Read (ReviewToken a))"

abbreviation api_ReviewAccess ::
  "server \<Rightarrow> user_info \<Rightarrow> string \<Rightarrow> string \<Rightarrow> (call, (err + bool \<times> string)) prog" where
  "api_ReviewAccess srv a b c \<equiv> ask (\<lambda>h. on_ReviewAccess srv h a b c) (Read (ReviewAccess a b c))"

abbreviation api_GetTLSProfile :: "server \<Rightarrow> string \<Rightarrow> (call, (err + TLSSecurityProfile option)) prog" where
  "api_GetTLSProfile srv a \<equiv> ask (\<lambda>h. on_GetTLSProfile srv h a) (Read (GetTLSProfile a))"

abbreviation api_CreateToken :: "server \<Rightarrow> string \<Rightarrow> string \<Rightarrow> int \<Rightarrow> (call, err + string \<times> (err + string) \<times> (err + string)) prog" where
  "api_CreateToken srv a b c \<equiv> ask (\<lambda>h. on_CreateToken srv h a b c) (Write (CreateToken a b c))"

abbreviation api_PatchManagedCluster :: "server \<Rightarrow> ManagedCluster \<Rightarrow> ManagedCluster \<Rightarrow> (call, (err + ManagedCluster)) prog" where
  "api_PatchManagedCluster srv a b \<equiv> ask (\<lambda>h. on_PatchManagedCluster srv h a b) (Write (PatchManagedCluster a b))"

abbreviation api_ResourceApply :: "server \<Rightarrow> holder \<Rightarrow> obj \<Rightarrow> int \<Rightarrow> (call, bool \<times> err option) prog" where
  "api_ResourceApply srv a b c \<equiv> ask (\<lambda>h. on_ResourceApply srv h a b c) (Write (ResourceApply a b c))"

abbreviation api_write :: "server \<Rightarrow> request \<Rightarrow> (call, err option) prog" where
  "api_write srv w \<equiv> ask (\<lambda>h. on_write srv h w) (Write w)"

text \<open>Monadic return, named as in the library but without its qualifier.\<close>

abbreviation return :: "'a \<Rightarrow> (call, 'a) prog" where
  "return \<equiv> State_Monad.return"

section \<open>Iteration over Go maps\<close>

text \<open>
  Go visits the entries of a map in an order it does not specify; \<open>on_range\<close> is the order of one
  loop. What the language promises is that every entry is visited once.
\<close>

definition visits_once :: "server \<Rightarrow> bool" where
  "visits_once srv \<longleftrightarrow>
     (\<forall>h m. distinct (map fst (on_range srv h m)) \<and> fmap_of_list (on_range srv h m) = m)"

section \<open>A server for concrete runs\<close>

text \<open>Everything is absent and every write succeeds; concrete runs update the fields they need.\<close>

definition notFoundErr :: err where
  "notFoundErr = StatusError ''NotFound'' 404 ''not found''"

definition empty_server :: server where
  "empty_server = \<lparr>
    on_GetManagedCluster = (\<lambda>_ _. Inl notFoundErr),
    on_GetNamespace = (\<lambda>_ _. Inl notFoundErr),
    on_ListAddons = (\<lambda>_ _. Inr []),
    on_GetAddon = (\<lambda>_ _ _. Inl notFoundErr),
    on_ListManifestWorks = (\<lambda>_ _ _. Inr []),
    on_GetManifestWork = (\<lambda>_ _ _. Inl notFoundErr),
    on_GetRoleBinding = (\<lambda>_ _ _. Inl notFoundErr),
    on_ListerKlusterletWorks = (\<lambda>_ _ _. Inr []),
    on_ListerHostedWorks = (\<lambda>_ _ _. Inr []),
    on_ListerImportSecret = (\<lambda>_ _ _. Inl notFoundErr),
    on_ListerAutoImportSecret = (\<lambda>_ _ _. Inl notFoundErr),
    on_ListerConfigMap = (\<lambda>_ _ _. Inl notFoundErr),
    on_GetSecret = (\<lambda>_ _ _. Inl notFoundErr),
    on_ListSecrets = (\<lambda>_ _. Inr []),
    on_GetClusterDeployment = (\<lambda>_ _ _. Inl notFoundErr),
    on_ListHostedClusters = (\<lambda>_ _. Inr []),
    on_ListClusterDeployments = (\<lambda>_ _. Inr []),
    on_ListInfraEnvs = (\<lambda>_ _. Inr []),
    on_ListCapiClusters = (\<lambda>_ _. Inr []),
    on_ListPods = (\<lambda>_ _. Inr []),
    on_GetCSR = (\<lambda>_ _. Inl notFoundErr),
    on_GetDeployment = (\<lambda>_ _ _ _. Inl notFoundErr),
    on_GetKlusterlet = (\<lambda>_ _ _. Inl notFoundErr),
    on_GetPriorityClass = (\<lambda>_ _ _. Inl notFoundErr),
    on_GetNetworkPolicy = (\<lambda>_ _ _ _. Inl notFoundErr),
    on_GetConfigMap = (\<lambda>_ _ _. Inl notFoundErr),
    on_BuildClient = (\<lambda>_ _ _. None),
    on_OcmConnect = (\<lambda>_ _. None),
    on_OcmGetCluster = (\<lambda>_ _ _. Inr None),
    on_OcmListIDProviders = (\<lambda>_ _ _. Inr None),
    on_OcmListHTPasswdUsers = (\<lambda>_ _ _ _. Inr []),
    on_OcmGetAdmin = (\<lambda>_ _ _ _. Inl (notFoundErr, Some 404)),
    on_OcmRequestToken = (\<lambda>_ _ _ _. Inl notFoundErr),
    on_HttpGet = (\<lambda>_ _ _. Inr 200),
    on_ReadFile = (\<lambda>_ _. Inl notFoundErr),
    on_GetDevice = (\<lambda>_ _ _ _. Inr 200),
    on_GetRoute = (\<lambda>_ _ _. Inl notFoundErr),
    on_GetService = (\<lambda>_ _ _. Inl notFoundErr),
    on_GetInfrastructure = (\<lambda>_ _. Inl notFoundErr),
    on_GetAPIServer = (\<lambda>_ _. Inl notFoundErr),
    on_ListNodes = (\<lambda>_. Inr []),
    on_TlsDial = (\<lambda>_ _ _. Inr []),
    on_ListerKlusterletConfig = (\<lambda>_ _. Inl notFoundErr),
    on_ReviewToken = (\<lambda>_ _. Inl notFoundErr),
    on_ReviewAccess = (\<lambda>_ _ _ _. Inl notFoundErr),
    on_GetTLSProfile = (\<lambda>_ _. Inl notFoundErr),
    on_PatchManagedCluster = (\<lambda>h from to. Inr to),
    on_ResourceApply = (\<lambda>_ _ _ _. (True, None)),
    on_CreateToken = (\<lambda>_ _ _ _. Inr (''token'', Inr [], Inr [])),
    on_write = (\<lambda>_ _. None),
    on_now = (\<lambda>_. 0),
    on_password = (\<lambda>_. Inr ''password''),
    on_range = (\<lambda>_. sorted_list_of_fmap)\<rparr>"

lemma IsNotFound_notFoundErr [simp]: "IsNotFound notFoundErr"
  by (simp add: notFoundErr_def)

lemma visits_once_empty_server [simp]: "visits_once empty_server"
proof -
  have "distinct (sorted_list_of_fset (fmdom m))" for m :: smap
    by (simp add: sorted_list_of_fset.rep_eq)
  moreover have "fmap_of_list (sorted_list_of_fmap m) = m" for m :: smap
  proof (rule fmap_ext)
    fix x
    have "set (sorted_list_of_fset (fmdom m)) = fset (fmdom m)"
      by (simp add: sorted_list_of_fset.rep_eq)
    then show "fmlookup (fmap_of_list (sorted_list_of_fmap m)) x = fmlookup m x"
      by (auto simp: sorted_list_of_fmap_def fmlookup_of_list map_of_map_restrict restrict_map_def
          fmlookup_dom_iff dest: fmdom_notD)
  qed
  ultimately show ?thesis
    by (simp add: visits_once_def empty_server_def sorted_list_of_fmap_def comp_def)
qed

end
