(* ===== verification/Meta_Helpers.thy ===== *)
theory Meta_Helpers
  imports Api
begin

text \<open>
  Helpers on object metadata and on status conditions: \<open>resourcemerge.MergeMap\<close>,
  \<open>meta.FindStatusCondition\<close>, \<open>meta.SetStatusCondition\<close> and their kin of the vendored packages,
  and the functions of \<open>pkg/helpers/helpers.go\<close> that keep the finalizers and the
  \<open>ManagedClusterImportSucceeded\<close> condition of a managed cluster.
\<close>

section \<open>Merging maps\<close>

definition TrimRightDash :: "string \<Rightarrow> string" where
  "TrimRightDash k = rev (dropWhile (\<lambda>c. c = CHR ''-'') (rev k))"

text \<open>
  \<open>resourcemerge.MergeMap\<close>; the required map is a list of pairs in the order Go iterates over
  it. A key that ends in a dash asks for the removal of the key without it.
\<close>

fun MergeMap :: "bool \<Rightarrow> smap \<Rightarrow> (string \<times> string) list \<Rightarrow> bool \<times> smap" where
  "MergeMap modified existing [] = (modified, existing)"
| "MergeMap modified existing ((k, v) # required) =
     (if HasSuffix k ''-'' then
        (if haskey existing (TrimRightDash k)
         then MergeMap True (fmdrop (TrimRightDash k) existing) required
         else MergeMap modified existing required)
      else if fmlookup existing k \<noteq> Some v then MergeMap True (fmupd k v existing) required
      else MergeMap modified existing required)"

lemma MergeMap_modified: "fst (MergeMap True existing required) = True"
  by (induction required arbitrary: existing) (auto split: prod.splits)

lemma MergeMap_modified_iff:
  "fst (MergeMap modified existing required) \<longleftrightarrow> modified \<or> fst (MergeMap False existing required)"
proof (cases modified)
  case True
  then show ?thesis using MergeMap_modified by simp
qed simp

lemma MergeMap_unmodified:
  "MergeMap modified existing required = (False, m) \<Longrightarrow> m = existing \<and> \<not> modified"
proof (induction modified existing required arbitrary: m rule: MergeMap.induct)
  case (2 modified existing k v required)
  then show ?case
    using MergeMap_modified [of "fmdrop (TrimRightDash k) existing" required]
      MergeMap_modified [of "fmupd k v existing" required]
    by (auto split: if_splits)
qed simp

text \<open>For keys that are not removals: what the merged map holds, and when it differs.\<close>

lemma MergeMap_lookup:
  assumes "\<forall>p \<in> set required. \<not> HasSuffix (fst p) ''-''" and "distinct (map fst required)"
  shows "fmlookup (snd (MergeMap modified existing required)) k =
    (case map_of required k of None \<Rightarrow> fmlookup existing k | Some v \<Rightarrow> Some v)"
  using assms
proof (induction required arbitrary: modified existing)
  case (Cons p required)
  then have "map_of required (fst p) = None" by (auto simp: map_of_eq_None_iff)
  with Cons show ?case by (cases p) (auto split: option.splits)
qed simp

lemma MergeMap_idem:
  assumes "\<forall>(k, v) \<in> set required. \<not> HasSuffix k ''-'' \<and> fmlookup existing k = Some v"
  shows "MergeMap modified existing required = (modified, existing)"
  using assms by (induction required) auto

section \<open>Conditions\<close>

definition FindStatusCondition :: "Condition list \<Rightarrow> string \<Rightarrow> Condition option" where
  "FindStatusCondition conds t = find (\<lambda>c. Type c = t) conds"

definition IsStatusConditionPresentAndEqual :: "Condition list \<Rightarrow> string \<Rightarrow> ConditionStatus \<Rightarrow> bool" where
  "IsStatusConditionPresentAndEqual conds t s =
     (case FindStatusCondition conds t of None \<Rightarrow> False | Some c \<Rightarrow> Status c = s)"

definition IsStatusConditionTrue :: "Condition list \<Rightarrow> string \<Rightarrow> bool" where
  "IsStatusConditionTrue conds t = IsStatusConditionPresentAndEqual conds t ConditionTrue"

definition IsStatusConditionFalse :: "Condition list \<Rightarrow> string \<Rightarrow> bool" where
  "IsStatusConditionFalse conds t = IsStatusConditionPresentAndEqual conds t ConditionFalse"

text \<open>
  \<open>meta.SetStatusCondition\<close>: the first condition of the type takes the new status, reason,
  message and generation, and a new transition time only when the status differs; without
  one the new condition is appended. \<open>now\<close> is \<open>time.Now()\<close>.
\<close>

definition transition_time :: "int \<Rightarrow> Condition \<Rightarrow> int option" where
  "transition_time now new =
     (case LastTransitionTime new of None \<Rightarrow> Some now | Some t \<Rightarrow> Some t)"

fun SetStatusCondition :: "int \<Rightarrow> Condition list \<Rightarrow> Condition \<Rightarrow> Condition list" where
  "SetStatusCondition now [] new = [new\<lparr>LastTransitionTime := transition_time now new\<rparr>]"
| "SetStatusCondition now (c # cs) new =
     (if Type c = Type new then
        (let c' = (if Status c \<noteq> Status new
                   then c\<lparr>Status := Status new, LastTransitionTime := transition_time now new\<rparr>
                   else c)
         in c'\<lparr>Reason := Reason new, Message := Message new,
              ObservedGeneration := ObservedGeneration new\<rparr>) # cs
      else c # SetStatusCondition now cs new)"

lemma FindStatusCondition_Cons:
  "FindStatusCondition (c # cs) t = (if Type c = t then Some c else FindStatusCondition cs t)"
  by (simp add: FindStatusCondition_def)

lemma FindStatusCondition_Type: "FindStatusCondition conds t = Some c \<Longrightarrow> Type c = t"
  by (auto simp: FindStatusCondition_def find_Some_iff)

lemma FindStatusCondition_Set_other:
  "t \<noteq> Type new \<Longrightarrow>
   FindStatusCondition (SetStatusCondition now conds new) t = FindStatusCondition conds t"
  by (induction conds) (auto simp: FindStatusCondition_Cons FindStatusCondition_def Let_def)

lemma FindStatusCondition_Set_same:
  "\<exists>c. FindStatusCondition (SetStatusCondition now conds new) (Type new) = Some c \<and>
     Status c = Status new \<and> Reason c = Reason new \<and> Message c = Message new"
  by (induction conds) (auto simp: FindStatusCondition_Cons FindStatusCondition_def Let_def)

lemma SetStatusCondition_idem:
  "LastTransitionTime new = None \<Longrightarrow>
   SetStatusCondition now' (SetStatusCondition now conds new) new = SetStatusCondition now conds new"
  by (induction conds) (auto simp: Let_def transition_time_def)

lemma SetStatusCondition_unchanged:
  assumes "SetStatusCondition now conds new = conds"
  shows "\<exists>c. FindStatusCondition conds (Type new) = Some c \<and>
     Status c = Status new \<and> Reason c = Reason new \<and> Message c = Message new"
  using FindStatusCondition_Set_same [of now conds new] assms by simp

section \<open>Finalizers\<close>

definition AddManagedClusterFinalizer :: "bool \<Rightarrow> ManagedCluster \<Rightarrow> string \<Rightarrow> bool \<times> ManagedCluster" where
  "AddManagedClusterFinalizer modified mc f =
     (if f \<in> set (Finalizers mc) then (modified, mc)
      else (True, mc\<lparr>Finalizers := Finalizers mc @ [f]\<rparr>))"

text \<open>
  The patched object takes the server's answer (\<open>client.Patch\<close> decodes it into its argument),
  which is the value returned here.
\<close>

definition RemoveManagedClusterFinalizer ::
  "server \<Rightarrow> ManagedCluster \<Rightarrow> string \<Rightarrow> (call, err + ManagedCluster) prog" where
  "RemoveManagedClusterFinalizer srv mc f = (
     let copiedFinalizers = filter (\<lambda>x. x \<noteq> f) (Finalizers mc) in
     if length (Finalizers mc) = length copiedFinalizers then return (Inr mc)
     else do {
       r \<leftarrow> api_PatchManagedCluster srv mc (mc\<lparr>Finalizers := copiedFinalizers\<rparr>);
       case r of
         Inl e \<Rightarrow> return (Inl e)
       | Inr mc' \<Rightarrow> do {
           emit (Event ''ManagedClusterFinalizerRemoved''
             (''The managed cluster '' @ Name mc' @ '' finalizer '' @ f @ '' is removed''));
           return (Inr mc') }
     })"

section \<open>The import condition\<close>

definition NewManagedClusterImportSucceededCondition ::
  "ConditionStatus \<Rightarrow> string \<Rightarrow> string \<Rightarrow> Condition" where
  "NewManagedClusterImportSucceededCondition s reason message =
     \<lparr>Type = ConditionManagedClusterImportSucceeded, Status = s, Reason = reason,
      Message = message, LastTransitionTime = None, ObservedGeneration = 0\<rparr>"

lemma condition_fields [simp]:
  "Type (NewManagedClusterImportSucceededCondition s r m) = ConditionManagedClusterImportSucceeded"
  "Status (NewManagedClusterImportSucceededCondition s r m) = s"
  "Reason (NewManagedClusterImportSucceededCondition s r m) = r"
  "Message (NewManagedClusterImportSucceededCondition s r m) = m"
  by (simp_all add: NewManagedClusterImportSucceededCondition_def)

text \<open>The pair: whether the status was to be changed, and the error.\<close>

definition updateManagedClusterStatus ::
  "server \<Rightarrow> string \<Rightarrow> Condition \<Rightarrow> (call, bool \<times> err option) prog" where
  "updateManagedClusterStatus srv managedClusterName cond = do {
     r \<leftarrow> api_GetManagedCluster srv managedClusterName;
     case r of
       Inl e \<Rightarrow> return (False, Some e)
     | Inr mc \<Rightarrow> do {
         now \<leftarrow> peek (on_now srv);
         let conds = SetStatusCondition now (Conditions mc) cond;
         if Conditions mc = conds then return (False, None)
         else do {
           e \<leftarrow> api_write srv (UpdateManagedClusterStatus (mc\<lparr>Conditions := conds\<rparr>));
           return (True, e) } } }"

definition SetImmediateImportCompleted :: "server \<Rightarrow> string \<Rightarrow> (call, err option) prog" where
  "SetImmediateImportCompleted srv managedClusterName = do {
     r \<leftarrow> api_GetManagedCluster srv managedClusterName;
     case r of
       Inl e \<Rightarrow> return (Some e)
     | Inr mc \<Rightarrow>
         (case fmlookup (Annotations mc) AnnotationImmediateImport of
            None \<Rightarrow> return None
          | Some v \<Rightarrow>
              if v = AnnotationValueImmediateImportCompleted then return None
              else api_write srv (UpdateManagedCluster
                (mc\<lparr>Annotations := fmupd AnnotationImmediateImport
                     AnnotationValueImmediateImportCompleted (Annotations mc)\<rparr>))) }"

text \<open>The event recorded for each reason; a reason outside the list has none.\<close>

definition import_condition_event :: "string \<Rightarrow> Condition \<Rightarrow> call option" where
  "import_condition_event n cond =
    (if Reason cond = ConditionReasonManagedClusterWaitForImporting then
       Some (ClusterEvent n ''Normal'' EventReasonManagedClusterWait
         (''The '' @ n @ '' is waiting for importing''))
     else if Reason cond = ConditionReasonManagedClusterImporting then
       Some (ClusterEvent n ''Normal'' EventReasonManagedClusterImporting
         (''The '' @ n @ '' is currently being imported. '' @ Message cond))
     else if Reason cond = ConditionReasonManagedClusterImported then
       Some (ClusterEvent n ''Normal'' EventReasonManagedClusterImported
         (''The '' @ n @ '' has successfully imported''))
     else if Reason cond = ConditionReasonManagedClusterImportFailed then
       Some (ClusterEvent n ''Warning'' EventReasonManagedClusterImportFailed
         (''The '' @ n @ '' failed to import as a managed cluster due to '' @ Message cond))
     else if Reason cond = ConditionReasonManagedClusterDetaching then
       Some (ClusterEvent n ''Normal'' EventReasonManagedClusterDetaching
         (''The '' @ n @ '' is currently becoming detached''))
     else if Reason cond = ConditionReasonManagedClusterForceDetaching then
       Some (ClusterEvent n ''Warning'' EventReasonManagedClusterForceDetaching
         (''The '' @ n @ '' is forcefully becoming detached''))
     else None)"

definition UpdateManagedClusterImportCondition ::
  "server \<Rightarrow> ManagedCluster \<Rightarrow> Condition \<Rightarrow> (call, err option) prog" where
  "UpdateManagedClusterImportCondition srv managedCluster cond =
    (if Type cond \<noteq> ConditionManagedClusterImportSucceeded
     then return (Some (ErrorString (''the condition type '' @ Type cond @ '' is not supported'')))
     else do {
       (changed, e) \<leftarrow> updateManagedClusterStatus srv (Name managedCluster) cond;
       case e of
         Some x \<Rightarrow> return (Some x)
       | None \<Rightarrow>
           if \<not> changed then return None
           else (case import_condition_event (Name managedCluster) cond of
                   Some ev \<Rightarrow> do { emit ev; return None }
                 | None \<Rightarrow> return (Some (ErrorString
                     (''the condition reason '' @ Reason cond @ '' is not supported'')))) })"

text \<open>Which writes the condition helper can make: one status update of one cluster.\<close>

fun status_call :: "string \<Rightarrow> Condition \<Rightarrow> call \<Rightarrow> bool" where
  "status_call n cond (Read q) = (q = GetManagedCluster n)"
| "status_call n cond (Write w) =
     (\<exists>mc now. w = UpdateManagedClusterStatus
        (mc\<lparr>Conditions := SetStatusCondition now (Conditions mc) cond\<rparr>))"
| "status_call n cond (ClusterEvent m t r x) = (import_condition_event n cond = Some (ClusterEvent m t r x))"
| "status_call n cond _ = False"

lemma import_condition_event_cases:
  "import_condition_event n cond = Some ev \<Longrightarrow> \<exists>t r x. ev = ClusterEvent n t r x"
  by (auto simp: import_condition_event_def split: if_splits)

lemma calls_updateManagedClusterStatus:
  "calls_only (status_call n cond) (updateManagedClusterStatus srv n cond)"
  unfolding updateManagedClusterStatus_def Let_def
  by (intro calls_intros) auto

lemma calls_UpdateManagedClusterImportCondition:
  "calls_only (status_call (Name mc) cond) (UpdateManagedClusterImportCondition srv mc cond)"
  unfolding UpdateManagedClusterImportCondition_def
  by (intro calls_intros calls_updateManagedClusterStatus)
    (use import_condition_event_cases in fastforce)

end
