(* ===== verification/Cluster_Helpers.thy ===== *)
theory Cluster_Helpers
  imports Meta_Helpers
begin

text \<open>
  Decisions of \<open>pkg/helpers\<close> that read one object: the klusterlet deploy mode and the hosting
  cluster of a managed cluster, its availability, the immediate-import annotation, the
  auto-import strategy of the controller's config map, and the checks on secrets.
\<close>

section \<open>Klusterlet deploy mode\<close>

definition DetermineKlusterletMode :: "ManagedCluster \<Rightarrow> string" where
  "DetermineKlusterletMode cluster =
     (case fmlookup (Annotations cluster) KlusterletDeployModeAnnotation of
        None \<Rightarrow> InstallModeSingleton
      | Some mode \<Rightarrow>
          if EqualFold mode InstallModeDefault then InstallModeDefault
          else if EqualFold mode InstallModeSingleton then InstallModeSingleton
          else if EqualFold mode InstallModeHosted then InstallModeHosted
          else if EqualFold mode InstallModeSingletonHosted then InstallModeSingletonHosted
          else ''Unknown'')"

definition IsHostedCluster :: "ManagedCluster \<Rightarrow> bool" where
  "IsHostedCluster cluster \<longleftrightarrow>
     (let installMode = DetermineKlusterletMode cluster
      in installMode = InstallModeHosted \<or> installMode = InstallModeSingletonHosted)"

text \<open>\<open>hostedEnabled\<close> is the feature gate \<open>KlusterletHostedMode\<close>.\<close>

definition ValidateKlusterletMode :: "bool \<Rightarrow> string \<Rightarrow> err option" where
  "ValidateKlusterletMode hostedEnabled mode =
     (if mode = InstallModeHosted \<and> \<not> hostedEnabled
      then Some (ErrorString ''featurn gate KlusterletHostedMode is not enabled'') else None)"

definition GetHostingCluster :: "ManagedCluster \<Rightarrow> err + string" where
  "GetHostingCluster cluster =
     (case fmlookup (Annotations cluster) HostingClusterNameAnnotation of
        Some hostingCluster \<Rightarrow> Inr hostingCluster
      | None \<Rightarrow> Inl (ErrorString (''annotation '' @ HostingClusterNameAnnotation @ '' not found'')))"

text \<open>\<open>hostingCluster, _ := GetHostingCluster(cluster)\<close>\<close>

definition hosting_name :: "ManagedCluster \<Rightarrow> string" where
  "hosting_name cluster = (case GetHostingCluster cluster of Inl _ \<Rightarrow> [] | Inr n \<Rightarrow> n)"

definition is_self_managed :: "ManagedCluster \<Rightarrow> bool" where
  "is_self_managed cluster = EqualFold (goidx (Labels cluster) SelfManagedLabel) ''true''"

lemma IsHostedCluster_iff:
  "IsHostedCluster c \<longleftrightarrow>
     DetermineKlusterletMode c \<in> {InstallModeHosted, InstallModeSingletonHosted}"
  by (auto simp: IsHostedCluster_def Let_def)

lemma DetermineKlusterletMode_range:
  "DetermineKlusterletMode c \<in>
     {InstallModeDefault, InstallModeSingleton, InstallModeHosted, InstallModeSingletonHosted, ''Unknown''}"
  by (auto simp: DetermineKlusterletMode_def split: option.splits)

lemma DetermineKlusterletMode_cong:
  "Annotations c = Annotations c' \<Longrightarrow> DetermineKlusterletMode c = DetermineKlusterletMode c'"
  by (simp add: DetermineKlusterletMode_def)

section \<open>Availability and annotations\<close>

definition IsClusterUnavailable :: "ManagedCluster \<Rightarrow> bool" where
  "IsClusterUnavailable cluster =
     (if IsStatusConditionFalse (Conditions cluster) ManagedClusterConditionAvailable then True
      else if IsStatusConditionPresentAndEqual (Conditions cluster)
                ManagedClusterConditionAvailable ConditionUnknown then True
      else False)"

definition IsImmediateImport :: "smap \<Rightarrow> bool" where
  "IsImmediateImport annotations =
     (case fmlookup annotations AnnotationImmediateImport of
        Some immediateImport \<Rightarrow> length immediateImport = 0
      | None \<Rightarrow> False)"

definition autoImportDisabled :: "ManagedCluster \<Rightarrow> bool" where
  "autoImportDisabled cluster = haskey (Annotations cluster) DisableAutoImportAnnotation"

definition ImportingResourcesApplied :: "Condition \<Rightarrow> bool" where
  "ImportingResourcesApplied condition \<longleftrightarrow>
     Type condition = ConditionManagedClusterImportSucceeded \<and>
     Reason condition = ConditionReasonManagedClusterImporting \<and>
     Message condition = conditionMessageImportingResourcesApplied"

section \<open>Secrets\<close>

definition ValidateImportSecret :: "Secret \<Rightarrow> err option" where
  "ValidateImportSecret importSecret =
     (case fmlookup (Data importSecret) ImportSecretImportYamlKey of
        Some data \<Rightarrow> if length data = 0
          then Some (ErrorString (''the '' @ ImportSecretImportYamlKey @ '' is required'')) else None
      | None \<Rightarrow> Some (ErrorString (''the '' @ ImportSecretImportYamlKey @ '' is required'')))"

definition ValidateClusterImportConfigSecret :: "Secret option \<Rightarrow> err option" where
  "ValidateClusterImportConfigSecret secret =
     (case secret of
        None \<Rightarrow> Some (ErrorString ''secret is nil'')
      | Some s \<Rightarrow>
          (case fmlookup (Data s) ValuesYamlKey of
             None \<Rightarrow> Some (ErrorString ''the values.yaml is required'')
           | Some valuesYaml \<Rightarrow>
               if length valuesYaml = 0 then Some (ErrorString ''the values.yaml is required'')
               else None))"

section \<open>The controller's config map\<close>

definition GetAutoImportStrategy :: "server \<Rightarrow> string \<Rightarrow> (call, err + string) prog" where
  "GetAutoImportStrategy srv componentNamespace = do {
     r \<leftarrow> api_ListerConfigMap srv componentNamespace ControllerConfigConfigMapName;
     return (case r of
       Inl e \<Rightarrow> if IsNotFound e then Inr DefaultAutoImportStrategy else Inl e
     | Inr cm \<Rightarrow>
         (let strategy = goidx (ConfigData cm) AutoImportStrategyKey in
          if strategy = AutoImportStrategyImportAndSync \<or> strategy = AutoImportStrategyImportOnly
          then Inr strategy
          else if strategy = [] then Inr DefaultAutoImportStrategy
          else Inr DefaultAutoImportStrategy)) }"

definition GenerateImportConfig :: "server \<Rightarrow> string \<Rightarrow> (call, err + bool) prog" where
  "GenerateImportConfig srv componentNamespace = do {
     r \<leftarrow> api_ListerConfigMap srv componentNamespace ControllerConfigConfigMapName;
     return (case r of
       Inl e \<Rightarrow> if IsNotFound e then Inr False else Inl e
     | Inr cm \<Rightarrow> Inr (goidx (ConfigData cm) ClusterImportConfig = LabelValueTrue)) }"

lemma DefaultAutoImportStrategy_eq: "DefaultAutoImportStrategy = AutoImportStrategyImportOnly"
  by (simp add: DefaultAutoImportStrategy_def AutoImportStrategyImportOnly_def)

lemma GetAutoImportStrategy_range:
  "wp (GetAutoImportStrategy srv ns)
     (\<lambda>r h'. \<forall>s. r = Inr s \<longrightarrow> s \<in> {AutoImportStrategyImportAndSync, AutoImportStrategyImportOnly}) h"
  unfolding GetAutoImportStrategy_def Let_def
  by (auto simp: wp_simps DefaultAutoImportStrategy_eq split: sum.splits if_splits)

lemma calls_GetAutoImportStrategy [calls_intros]:
  "P (Read (ListerConfigMap ns ControllerConfigConfigMapName)) \<Longrightarrow>
   calls_only P (GetAutoImportStrategy srv ns)"
  unfolding GetAutoImportStrategy_def by (intro calls_intros)

section \<open>Splitting the import YAML\<close>

text \<open>The first separator is dropped, then the rest is split at the separators.\<close>

definition SplitYamls :: "string \<Rightarrow> string list" where
  "SplitYamls yamls = Split (RemoveFirst yamls YamlSperator) YamlSperator"

lemma SplitYamls_nonempty [simp]: "SplitYamls y \<noteq> []"
  by (simp add: SplitYamls_def Split_def)

end
