(* ===== verification/Work_Helpers.thy ===== *)
theory Work_Helpers
  imports Cluster_Helpers
begin

text \<open>
  \<open>pkg/helpers/manifestwork.go\<close> and the addon helpers of \<open>pkg/helpers/helpers.go\<close>: keeping the
  manifest work finalizer, and the forced deletion of manifest works, addons and the work
  role binding.
\<close>

section \<open>The manifest work finalizer\<close>

definition AssertManifestWorkFinalizer ::
  "server \<Rightarrow> ManagedCluster \<Rightarrow> nat \<Rightarrow> (call, err + ManagedCluster) prog" where
  "AssertManifestWorkFinalizer srv cluster works =
    (if works = 0 then RemoveManagedClusterFinalizer srv cluster ManifestWorkFinalizer
     else if deleting cluster then return (Inr cluster)
     else (case AddManagedClusterFinalizer False cluster ManifestWorkFinalizer of
             (modified, cluster') \<Rightarrow>
               if \<not> modified then return (Inr cluster)
               else do {
                 r \<leftarrow> api_PatchManagedCluster srv cluster cluster';
                 case r of
                   Inl e \<Rightarrow> return (Inl e)
                 | Inr cluster'' \<Rightarrow> do {
                     emit (Event ''ManagedClusterFinalizerAdded''
                       (''The managed cluster '' @ Name cluster'' @ '' manifestwork finalizer is added''));
                     return (Inr cluster'') } }))"

section \<open>Manifest works\<close>

definition ForceDeleteManifestWork :: "server \<Rightarrow> string \<Rightarrow> string \<Rightarrow> (call, err option) prog" where
  "ForceDeleteManifestWork srv ns n = do {
     r \<leftarrow> api_GetManifestWork srv ns n;
     case r of
       Inl e \<Rightarrow> return (IgnoreNotFound e)
     | Inr _ \<Rightarrow> do {
         d \<leftarrow> api_write srv (DeleteManifestWork ns n);
         case d of
           Some e \<Rightarrow> return (IgnoreNotFound e)
         | None \<Rightarrow> do {
             r2 \<leftarrow> api_GetManifestWork srv ns n;
             case r2 of
               Inl e \<Rightarrow> return (IgnoreNotFound e)
             | Inr work \<Rightarrow> do {
                 p \<leftarrow> (if length (Finalizers work) \<noteq> 0
                       then api_write srv (PatchWorkFinalizers ns n) else return None);
                 if p \<noteq> None \<and> \<not> not_found p then return p
                 else do {
                   emit (Event ''ManifestWorksForceDeleted''
                     (''The manifest work '' @ Namespace work @ ''/'' @ Name work @ '' is force deleted''));
                   return None } } } } }"

fun ForceDeleteAllManifestWorks :: "server \<Rightarrow> ManifestWork list \<Rightarrow> (call, err option) prog" where
  "ForceDeleteAllManifestWorks srv [] = return None"
| "ForceDeleteAllManifestWorks srv (item # items) = do {
     e \<leftarrow> ForceDeleteManifestWork srv (Namespace item) (Name item);
     case e of
       Some x \<Rightarrow> return (Some x)
     | None \<Rightarrow> ForceDeleteAllManifestWorks srv items }"

fun IsManifestWorksAvailable ::
  "server \<Rightarrow> string \<Rightarrow> string list \<Rightarrow> (call, err + bool) prog" where
  "IsManifestWorksAvailable srv ns [] = return (Inr True)"
| "IsManifestWorksAvailable srv ns (n # names) = do {
     r \<leftarrow> api_GetManifestWork srv ns n;
     case r of
       Inl e \<Rightarrow> return (if IsNotFound e then Inr False else Inl e)
     | Inr work \<Rightarrow>
         if \<not> IsStatusConditionTrue (WorkConditions work) WorkAvailable then return (Inr False)
         else IsManifestWorksAvailable srv ns names }"

definition HostedKlusterletManifestWorkName :: "string \<Rightarrow> string" where
  "HostedKlusterletManifestWorkName managedClusterName =
     managedClusterName @ ''-'' @ HostedKlusterletManifestworkSuffix"

definition HostedManagedKubeConfigManifestWorkName :: "string \<Rightarrow> string" where
  "HostedManagedKubeConfigManifestWorkName managedClusterName =
     managedClusterName @ ''-'' @ HostedManagedKubeconfigManifestworkSuffix"

section \<open>Addons\<close>

definition ListManagedClusterAddons ::
  "server \<Rightarrow> string \<Rightarrow> (call, err + ManagedClusterAddOn list) prog" where
  "ListManagedClusterAddons srv clusterName = api_ListAddons srv clusterName"

text \<open>The finalizers that a forced deletion leaves in place.\<close>

definition is_hosting_finalizer :: "string \<Rightarrow> bool" where
  "is_hosting_finalizer f \<longleftrightarrow>
     f = AddonDeprecatedHostingManifestFinalizer \<or> f = AddonDeprecatedHostingPreDeleteHookFinalizer \<or>
     f = AddonHostingManifestFinalizer \<or> f = AddonHostingPreDeleteHookFinalizer"

definition ForceDeleteManagedClusterAddon ::
  "server \<Rightarrow> string \<Rightarrow> string \<Rightarrow> (call, err option) prog" where
  "ForceDeleteManagedClusterAddon srv addonNamespace addonName = do {
     r \<leftarrow> api_GetAddon srv addonNamespace addonName;
     case r of
       Inl e \<Rightarrow> return (IgnoreNotFound e)
     | Inr addon \<Rightarrow> do {
         d \<leftarrow> (if \<not> deleting addon then api_write srv (DeleteAddon (Namespace addon) (Name addon))
               else return None);
         case d of
           Some e \<Rightarrow> return (IgnoreNotFound e)
         | None \<Rightarrow> do {
             let finalizers = filter is_hosting_finalizer (Finalizers addon);
             p \<leftarrow> (if length finalizers \<noteq> length (Finalizers addon)
                   then api_write srv (PatchAddon addon (addon\<lparr>Finalizers := finalizers\<rparr>))
                   else return None);
             case p of
               Some e \<Rightarrow> return (IgnoreNotFound e)
             | None \<Rightarrow> do {
                 emit (Event ''ManagedClusterAddonForceDeleted''
                   (''The managedClusterAddon '' @ Namespace addon @ ''/'' @ Name addon @ '' is force deleted''));
                 return None } } } }"

fun force_delete_addons :: "server \<Rightarrow> ManagedClusterAddOn list \<Rightarrow> (call, err option) prog" where
  "force_delete_addons srv [] = return None"
| "force_delete_addons srv (item # items) = do {
     e \<leftarrow> ForceDeleteManagedClusterAddon srv (Namespace item) (Name item);
     case e of
       Some x \<Rightarrow> return (Some x)
     | None \<Rightarrow> force_delete_addons srv items }"

definition ForceDeleteAllManagedClusterAddons :: "server \<Rightarrow> string \<Rightarrow> (call, err option) prog" where
  "ForceDeleteAllManagedClusterAddons srv clusterName = do {
     r \<leftarrow> ListManagedClusterAddons srv clusterName;
     case r of
       Inl e \<Rightarrow> return (Some e)
     | Inr items \<Rightarrow> force_delete_addons srv items }"

section \<open>The work role binding\<close>

definition work_role_binding_name :: "string \<Rightarrow> string" where
  "work_role_binding_name clusterName =
     ''open-cluster-management:managedcluster:'' @ clusterName @ '':work''"

definition GetWorkRoleBinding :: "server \<Rightarrow> string \<Rightarrow> (call, err + RoleBinding option) prog" where
  "GetWorkRoleBinding srv clusterName = do {
     r \<leftarrow> api_GetRoleBinding srv clusterName (work_role_binding_name clusterName);
     return (case r of
       Inl e \<Rightarrow> if IsNotFound e then Inr None else Inl e
     | Inr b \<Rightarrow> Inr (Some b)) }"

definition ForceDeleteWorkRoleBinding :: "server \<Rightarrow> string \<Rightarrow> (call, err option) prog" where
  "ForceDeleteWorkRoleBinding srv clusterName = do {
     let n = work_role_binding_name clusterName;
     r \<leftarrow> api_GetRoleBinding srv clusterName n;
     case r of
       Inl e \<Rightarrow> return (IgnoreNotFound e)
     | Inr binding \<Rightarrow> do {
         d \<leftarrow> (if \<not> deleting binding then api_write srv (DeleteRoleBinding clusterName n)
               else return None);
         if d \<noteq> None \<and> \<not> not_found d then return d
         else do {
           r2 \<leftarrow> api_GetRoleBinding srv clusterName n;
           case r2 of
             Inl e \<Rightarrow> return (IgnoreNotFound e)
           | Inr binding' \<Rightarrow> do {
               p \<leftarrow> (if length (Finalizers binding') \<noteq> 0
                     then api_write srv (PatchRoleBindingFinalizers clusterName n) else return None);
               if p \<noteq> None \<and> \<not> not_found p then return p
               else do {
                 emit (Event ''workRoleBindingDeleted''
                   (''The manifest work roleBinding '' @ clusterName @ ''/'' @ n @ '' is force deleted''));
                 return None } } } } }"

section \<open>Which calls the helpers make\<close>

text \<open>A patch of a managed cluster, the only write that touches its finalizers.\<close>

fun cluster_patch :: "call \<Rightarrow> bool" where
  "cluster_patch (Write (PatchManagedCluster a b)) = True"
| "cluster_patch _ = False"

text \<open>The calls of a forced deletion of one object of a namespace, with the events.\<close>

definition work_delete_call :: "string \<Rightarrow> string \<Rightarrow> call \<Rightarrow> bool" where
  "work_delete_call ns n c \<longleftrightarrow>
     c \<in> {Read (GetManifestWork ns n), Write (DeleteManifestWork ns n), Write (PatchWorkFinalizers ns n)} \<or>
     (\<exists>r m. c = Event r m)"

definition addon_delete_call :: "call \<Rightarrow> bool" where
  "addon_delete_call c \<longleftrightarrow>
     (\<exists>ns n. c \<in> {Read (GetAddon ns n), Write (DeleteAddon ns n)}) \<or>
     (\<exists>a. c = Write (PatchAddon a (a\<lparr>Finalizers := filter is_hosting_finalizer (Finalizers a)\<rparr>))) \<or>
     (\<exists>r m. c = Event r m)"

definition role_binding_call :: "string \<Rightarrow> call \<Rightarrow> bool" where
  "role_binding_call ns c \<longleftrightarrow>
     c \<in> {Read (GetRoleBinding ns (work_role_binding_name ns)),
          Write (DeleteRoleBinding ns (work_role_binding_name ns)),
          Write (PatchRoleBindingFinalizers ns (work_role_binding_name ns))} \<or>
     (\<exists>r m. c = Event r m)"

lemmas delete_call_defs = work_delete_call_def addon_delete_call_def role_binding_call_def

lemma calls_ForceDeleteManifestWork:
  "calls_only (work_delete_call ns n) (ForceDeleteManifestWork srv ns n)"
  unfolding ForceDeleteManifestWork_def
  by (intro calls_intros) (auto simp: work_delete_call_def)

lemma calls_ForceDeleteAllManifestWorks:
  assumes "\<And>w c. w \<in> set items \<Longrightarrow> work_delete_call (Namespace w) (Name w) c \<Longrightarrow> P c"
  shows "calls_only P (ForceDeleteAllManifestWorks srv items)"
  using assms
proof (induction items)
  case (Cons item items)
  have "calls_only P (ForceDeleteManifestWork srv (Namespace item) (Name item))"
    by (rule calls_only_mono [OF calls_ForceDeleteManifestWork]) (use Cons.prems in auto)
  with Cons show ?case by (auto intro!: calls_intros)
qed (auto intro: calls_intros)

lemma calls_ForceDeleteManagedClusterAddon:
  "calls_only addon_delete_call (ForceDeleteManagedClusterAddon srv ns n)"
  unfolding ForceDeleteManagedClusterAddon_def Let_def
  by (intro calls_intros) (auto simp: addon_delete_call_def)

lemma calls_force_delete_addons: "calls_only addon_delete_call (force_delete_addons srv items)"
  by (induction items) (auto intro!: calls_intros calls_ForceDeleteManagedClusterAddon)

lemma calls_ForceDeleteAllManagedClusterAddons:
  "calls_only (\<lambda>c. addon_delete_call c \<or> c = Read (ListAddons n)) (ForceDeleteAllManagedClusterAddons srv n)"
  unfolding ForceDeleteAllManagedClusterAddons_def ListManagedClusterAddons_def
  by (intro calls_intros calls_only_mono [OF calls_force_delete_addons]) auto

lemma calls_ForceDeleteWorkRoleBinding:
  "calls_only (role_binding_call n) (ForceDeleteWorkRoleBinding srv n)"
  unfolding ForceDeleteWorkRoleBinding_def Let_def
  by (intro calls_intros) (auto simp: role_binding_call_def)

lemma calls_GetWorkRoleBinding:
  "calls_only (role_binding_call n) (GetWorkRoleBinding srv n)"
  unfolding GetWorkRoleBinding_def by (intro calls_intros) (auto simp: role_binding_call_def)

lemma no_cluster_patch_delete_calls [simp]:
  "work_delete_call ns n c \<Longrightarrow> \<not> cluster_patch c"
  "addon_delete_call c \<Longrightarrow> \<not> cluster_patch c"
  "role_binding_call ns c \<Longrightarrow> \<not> cluster_patch c"
  by (auto simp: delete_call_defs)

lemma no_cluster_patch_status_call [simp]: "status_call n cond c \<Longrightarrow> \<not> cluster_patch c"
  by (cases c) auto

end
