(* ===== verification/Resource_Cleanup.thy ===== *)
theory Resource_Cleanup
  imports Work_Helpers
begin

text \<open>
  \<open>pkg/controller/resourcecleanup/resourcecleanup_controller.go\<close>: the clean-up of the resources
  of a managed cluster that is being detached or is gone, up to the removal of the two
  finalizers of this component.
\<close>

section \<open>Operations\<close>

definition clusterNeedForceDelete :: "ManagedCluster \<Rightarrow> bool" where
  "clusterNeedForceDelete cluster =
     (if \<not> HubAcceptsClient cluster then True else IsClusterUnavailable cluster)"

definition appendIfErr :: "err list \<Rightarrow> err option \<Rightarrow> err list" where
  "appendIfErr errs e = (case e of None \<Rightarrow> errs | Some x \<Rightarrow> errs @ [x])"

abbreviation aggregate_errs :: "err list \<Rightarrow> err option" where
  "aggregate_errs errs \<equiv> NewAggregate (map Some errs)"

definition updateDetachingCondition :: "server \<Rightarrow> ManagedCluster \<Rightarrow> (call, err option) prog" where
  "updateDetachingCondition srv cluster = (
     let (conditionReason, conditionMsg) =
       (if clusterNeedForceDelete cluster
        then (ConditionReasonManagedClusterForceDetaching, ''The managed cluster is being detached by force'')
        else (ConditionReasonManagedClusterDetaching, ''The managed cluster is being detached now'')) in
     case FindStatusCondition (Conditions cluster) ConditionManagedClusterImportSucceeded of
       None \<Rightarrow> UpdateManagedClusterImportCondition srv cluster
         (NewManagedClusterImportSucceededCondition ConditionFalse conditionReason conditionMsg)
     | Some ic \<Rightarrow>
         if Reason ic \<noteq> conditionReason \<and> Message ic \<noteq> conditionMsg
         then UpdateManagedClusterImportCondition srv cluster
           (NewManagedClusterImportSucceededCondition ConditionFalse conditionReason conditionMsg)
         else return None)"

definition forceDeleteManifestWorks :: "server \<Rightarrow> string \<Rightarrow> (call, err option) prog" where
  "forceDeleteManifestWorks srv clusterName = do {
     r \<leftarrow> api_ListManifestWorks srv clusterName None;
     case r of
       Inl e \<Rightarrow> return (Some e)
     | Inr items \<Rightarrow> ForceDeleteAllManifestWorks srv items }"

text \<open>
  The loop over the works in the hosting cluster's namespace: the names of the addon works,
  the name of the klusterlet work and that of the kubeconfig work, empty when absent.
\<close>

fun classify_hosting_works ::
  "string \<Rightarrow> ManifestWork list \<Rightarrow> string list \<times> string \<times> string \<Rightarrow> string list \<times> string \<times> string" where
  "classify_hosting_works hosted [] acc = acc"
| "classify_hosting_works hosted (w # ws) (names, klusterlet, kubeconfig) =
     (if Name w = HostedKlusterletManifestWorkName hosted
      then classify_hosting_works hosted ws (names, Name w, kubeconfig)
      else if Name w = HostedManagedKubeConfigManifestWorkName hosted
      then classify_hosting_works hosted ws (names, klusterlet, Name w)
      else classify_hosting_works hosted ws (names @ [Name w], klusterlet, kubeconfig))"

fun delete_hosting_works :: "server \<Rightarrow> string \<Rightarrow> string list \<Rightarrow> err list \<Rightarrow> (call, err option) prog" where
  "delete_hosting_works srv hosting [] errs = return (aggregate_errs errs)"
| "delete_hosting_works srv hosting (n # names) errs = do {
     e \<leftarrow> api_write srv (DeleteManifestWork hosting n);
     delete_hosting_works srv hosting names
       (if e \<noteq> None \<and> \<not> not_found e then appendIfErr errs e else errs) }"

definition deleteHostingManifestWorks :: "server \<Rightarrow> string \<Rightarrow> string \<Rightarrow> (call, err option) prog" where
  "deleteHostingManifestWorks srv hostingCluster hostedCluster = do {
     r \<leftarrow> api_ListManifestWorks srv hostingCluster (Some (HostedClusterLabel, hostedCluster));
     case r of
       Inl e \<Rightarrow> return (Some e)
     | Inr items \<Rightarrow>
         if items = [] then return None
         else (case classify_hosting_works hostedCluster items ([], [], []) of
           (hostingWorkNames, klusterletHostingWorkName, kubeconfigHostingWorkName) \<Rightarrow>
             if hostingWorkNames = [] then
               (if klusterletHostingWorkName \<noteq> []
                then api_write srv (DeleteManifestWork hostingCluster klusterletHostingWorkName)
                else if kubeconfigHostingWorkName \<noteq> []
                then api_write srv (DeleteManifestWork hostingCluster kubeconfigHostingWorkName)
                else return None)
             else delete_hosting_works srv hostingCluster hostingWorkNames []) }"

definition namespaceExists :: "server \<Rightarrow> string \<Rightarrow> (call, err + bool) prog" where
  "namespaceExists srv n = do {
     r \<leftarrow> api_GetNamespace srv n;
     return (case r of
       Inl e \<Rightarrow> if IsNotFound e then Inr False else Inl e
     | Inr _ \<Rightarrow> Inr True) }"

definition orphanCleanup :: "server \<Rightarrow> string \<Rightarrow> (call, err option) prog" where
  "orphanCleanup srv clusterName = do {
     r \<leftarrow> namespaceExists srv clusterName;
     case r of
       Inl e \<Rightarrow> return (Some e)
     | Inr exists \<Rightarrow>
         if \<not> exists then return None
         else do {
           e1 \<leftarrow> ForceDeleteAllManagedClusterAddons srv clusterName;
           e2 \<leftarrow> forceDeleteManifestWorks srv clusterName;
           e3 \<leftarrow> ForceDeleteWorkRoleBinding srv clusterName;
           return (aggregate_errs (appendIfErr (appendIfErr (appendIfErr [] e1) e2) e3)) } }"

text \<open>
  In the early return below the error of the addon listing is handed to \<open>appendIfErr\<close> and its
  result is dropped, as in the source.
\<close>

definition forceCleanup :: "server \<Rightarrow> ManagedCluster \<Rightarrow> (call, err option) prog" where
  "forceCleanup srv cluster = do {
     r \<leftarrow> namespaceExists srv (Name cluster);
     case r of
       Inl e \<Rightarrow> return (Some e)
     | Inr exists \<Rightarrow>
         if \<not> exists then return None
         else do {
           e1 \<leftarrow> ForceDeleteAllManagedClusterAddons srv (Name cluster);
           e2 \<leftarrow> forceDeleteManifestWorks srv (Name cluster);
           let errs = appendIfErr (appendIfErr [] e1) e2;
           if IsHostedCluster cluster \<and> hosting_name cluster \<noteq> [] then do {
             a \<leftarrow> ListManagedClusterAddons srv (Name cluster);
             case a of
               Inl e \<Rightarrow> return (aggregate_errs errs)
             | Inr addons \<Rightarrow>
                 if addons \<noteq> [] then return (aggregate_errs errs)
                 else do {
                   e3 \<leftarrow> deleteHostingManifestWorks srv (hosting_name cluster) (Name cluster);
                   e4 \<leftarrow> ForceDeleteWorkRoleBinding srv (Name cluster);
                   return (aggregate_errs (appendIfErr (appendIfErr errs e3) e4)) } }
           else do {
             e4 \<leftarrow> ForceDeleteWorkRoleBinding srv (Name cluster);
             return (aggregate_errs (appendIfErr errs e4)) } } }"

definition Cleanup :: "server \<Rightarrow> ManagedCluster \<Rightarrow> (call, err option) prog" where
  "Cleanup srv cluster = do {
     a \<leftarrow> ListManagedClusterAddons srv (Name cluster);
     case a of
       Inl e \<Rightarrow> return (Some e)
     | Inr addons \<Rightarrow>
         if addons \<noteq> [] then return None
         else do {
           w \<leftarrow> api_ListManifestWorks srv (Name cluster) None;
           case w of
             Inl e \<Rightarrow> return (Some e)
           | Inr works \<Rightarrow>
               if length works > 1 then return None
               else do {
                 let klusterletCRDWorkName = Name cluster @ ''-'' @ KlusterletCRDsSuffix;
                 let crdOnly = (length works = 1 \<and> Name (hd works) = klusterletCRDWorkName);
                 if crdOnly \<and> \<not> IsStatusConditionTrue (WorkConditions (hd works)) WorkDeleting
                 then return None
                 else do {
                   e \<leftarrow> (if crdOnly then ForceDeleteManifestWork srv (Name cluster) klusterletCRDWorkName
                         else return None);
                   case e of
                     Some x \<Rightarrow> return (Some x)
                   | None \<Rightarrow>
                       if \<not> IsHostedCluster cluster \<or> hosting_name cluster = [] then return None
                       else if length works > 0 then return None
                       else deleteHostingManifestWorks srv (hosting_name cluster) (Name cluster) } } } }"

definition cleanupCompleted :: "server \<Rightarrow> ManagedCluster \<Rightarrow> (call, bool \<times> err option) prog" where
  "cleanupCompleted srv cluster = do {
     w \<leftarrow> api_ListManifestWorks srv (Name cluster) None;
     case w of
       Inl e \<Rightarrow> return (False, Some e)
     | Inr works \<Rightarrow>
         if works \<noteq> [] then return (False, None)
         else do {
           a \<leftarrow> ListManagedClusterAddons srv (Name cluster);
           case a of
             Inl e \<Rightarrow> return (False, Some e)
           | Inr addons \<Rightarrow>
               if addons \<noteq> [] then return (False, None)
               else do {
                 b \<leftarrow> GetWorkRoleBinding srv (Name cluster);
                 case b of
                   Inl e \<Rightarrow> return (False, Some e)
                 | Inr (Some _) \<Rightarrow> return (False, None)
                 | Inr None \<Rightarrow>
                     if \<not> IsHostedCluster cluster \<or> hosting_name cluster = [] then return (True, None)
                     else do {
                       hw \<leftarrow> api_ListManifestWorks srv (hosting_name cluster)
                              (Some (HostedClusterLabel, Name cluster));
                       case hw of
                         Inl e \<Rightarrow> return (False, Some e)
                       | Inr works \<Rightarrow> return (works = [], None) } } } }"

definition is_own_finalizer :: "string \<Rightarrow> bool" where
  "is_own_finalizer f \<longleftrightarrow> f = ImportFinalizer \<or> f = ManifestWorkFinalizer"

definition removeClusterFinalizers :: "server \<Rightarrow> ManagedCluster \<Rightarrow> (call, err option) prog" where
  "removeClusterFinalizers srv cluster = (
     let copiedFinalizers = filter (\<lambda>f. \<not> is_own_finalizer f) (Finalizers cluster) in
     if length (Finalizers cluster) = length copiedFinalizers then return None
     else do {
       r \<leftarrow> api_PatchManagedCluster srv cluster (cluster\<lparr>Finalizers := copiedFinalizers\<rparr>);
       return (case r of Inl e \<Rightarrow> IgnoreNotFound e | Inr _ \<Rightarrow> None) })"

text \<open>The last steps of \<open>Reconcile\<close>: wait for the clean-up, then remove the finalizers.\<close>

definition finish_cleanup :: "server \<Rightarrow> ManagedCluster \<Rightarrow> (call, outcome) prog" where
  "finish_cleanup srv cluster = do {
     (completed, e) \<leftarrow> cleanupCompleted srv cluster;
     if e \<noteq> None \<or> \<not> completed
     then return (Return (emptyResult\<lparr>RequeueAfter := 2 * second\<rparr>) e)
     else do {
       x \<leftarrow> removeClusterFinalizers srv cluster;
       return (Return emptyResult x) } }"

definition resourcecleanup_Reconcile :: "server \<Rightarrow> string \<Rightarrow> (call, outcome) prog" where
  "resourcecleanup_Reconcile srv reqName = do {
     r \<leftarrow> api_GetManagedCluster srv reqName;
     case r of
       Inl e \<Rightarrow>
         if IsNotFound e then do {
           x \<leftarrow> orphanCleanup srv reqName;
           return (Return emptyResult x) }
         else return (Return emptyResult (Some e))
     | Inr cluster \<Rightarrow>
         if \<not> deleting cluster then return done_ok
         else do {
           u \<leftarrow> updateDetachingCondition srv cluster;
           case u of
             Some e \<Rightarrow> return (Return emptyResult (Some e))
           | None \<Rightarrow> do {
               c \<leftarrow> (if clusterNeedForceDelete cluster then forceCleanup srv cluster
                     else Cleanup srv cluster);
               case c of
                 Some e \<Rightarrow> return (Return emptyResult (Some e))
               | None \<Rightarrow> finish_cleanup srv cluster } } }"

section \<open>No other step touches the cluster's finalizers\<close>

abbreviation quiet :: "(call, 'a) prog \<Rightarrow> bool" where
  "quiet \<equiv> calls_only (\<lambda>c. \<not> cluster_patch c)"

lemma quiet_updateDetachingCondition: "quiet (updateDetachingCondition srv cluster)"
  unfolding updateDetachingCondition_def Let_def
  by (intro calls_intros calls_only_mono [OF calls_UpdateManagedClusterImportCondition]) auto

lemma quiet_force_addons: "quiet (ForceDeleteAllManagedClusterAddons srv n)"
  by (rule calls_only_mono [OF calls_ForceDeleteAllManagedClusterAddons]) auto

lemma quiet_force_role_binding: "quiet (ForceDeleteWorkRoleBinding srv n)"
  by (rule calls_only_mono [OF calls_ForceDeleteWorkRoleBinding]) auto

lemma quiet_force_work: "quiet (ForceDeleteManifestWork srv ns n)"
  by (rule calls_only_mono [OF calls_ForceDeleteManifestWork]) auto

lemma quiet_force_works: "quiet (forceDeleteManifestWorks srv n)"
  unfolding forceDeleteManifestWorks_def
  by (intro calls_intros calls_ForceDeleteAllManifestWorks) auto

lemma quiet_delete_hosting_works: "quiet (delete_hosting_works srv hosting names errs)"
  by (induction names arbitrary: errs) (auto intro!: calls_intros)

lemma quiet_deleteHosting: "quiet (deleteHostingManifestWorks srv hosting hosted)"
  unfolding deleteHostingManifestWorks_def
  by (intro calls_intros quiet_delete_hosting_works) auto

lemma quiet_namespaceExists: "quiet (namespaceExists srv n)"
  unfolding namespaceExists_def by (intro calls_intros) auto

lemmas quiet_steps = quiet_force_addons quiet_force_role_binding quiet_force_work quiet_force_works
  quiet_deleteHosting quiet_namespaceExists quiet_updateDetachingCondition

lemma quiet_orphanCleanup: "quiet (orphanCleanup srv n)"
  unfolding orphanCleanup_def by (intro calls_intros quiet_steps)

lemma quiet_forceCleanup: "quiet (forceCleanup srv cluster)"
  unfolding forceCleanup_def Let_def ListManagedClusterAddons_def
  by (intro calls_intros quiet_steps) auto

lemma quiet_Cleanup: "quiet (Cleanup srv cluster)"
  unfolding Cleanup_def Let_def ListManagedClusterAddons_def
  by (intro calls_intros quiet_steps) auto

section \<open>What the completion check has seen\<close>

definition observation_calls :: "ManagedCluster \<Rightarrow> call list" where
  "observation_calls cluster =
     [Read (ListManifestWorks (Name cluster) None), Read (ListAddons (Name cluster)),
      Read (GetRoleBinding (Name cluster) (work_role_binding_name (Name cluster)))] @
     (if IsHostedCluster cluster \<and> hosting_name cluster \<noteq> []
      then [Read (ListManifestWorks (hosting_name cluster) (Some (HostedClusterLabel, Name cluster)))]
      else [])"

definition cleanup_observed :: "server \<Rightarrow> ManagedCluster \<Rightarrow> call list \<Rightarrow> bool" where
  "cleanup_observed srv cluster pre \<longleftrightarrow>
     on_ListManifestWorks srv pre (Name cluster) None = Inr [] \<and>
     on_ListAddons srv (pre @ take 1 (observation_calls cluster)) (Name cluster) = Inr [] \<and>
     (\<exists>e. on_GetRoleBinding srv (pre @ take 2 (observation_calls cluster)) (Name cluster)
             (work_role_binding_name (Name cluster)) = Inl e \<and> IsNotFound e) \<and>
     (IsHostedCluster cluster \<and> hosting_name cluster \<noteq> [] \<longrightarrow>
        on_ListManifestWorks srv (pre @ take 3 (observation_calls cluster)) (hosting_name cluster)
          (Some (HostedClusterLabel, Name cluster)) = Inr [])"

lemma wp_cleanupCompleted:
  "wp (cleanupCompleted srv cluster)
     (\<lambda>(ok, e) h'. ok \<longrightarrow> e = None \<and> h' = h @ observation_calls cluster \<and> cleanup_observed srv cluster h) h"
  unfolding cleanupCompleted_def ListManagedClusterAddons_def GetWorkRoleBinding_def
  by (auto simp: wp_simps observation_calls_def cleanup_observed_def split: sum.splits option.splits)

lemma quiet_cleanupCompleted: "quiet (cleanupCompleted srv cluster)"
  unfolding cleanupCompleted_def ListManagedClusterAddons_def
  by (intro calls_intros calls_only_mono [OF calls_GetWorkRoleBinding]) auto

text \<open>The final state of a run in which the finalizers were patched, and the patch.\<close>

definition finalizers_removed ::
  "server \<Rightarrow> string \<Rightarrow> call list \<Rightarrow> ManagedCluster \<Rightarrow> ManagedCluster \<Rightarrow> call list \<Rightarrow> bool" where
  "finalizers_removed srv n h from to h' \<longleftrightarrow>
     (\<exists>cluster pre. on_GetManagedCluster srv h n = Inr cluster \<and> deleting cluster \<and> from = cluster \<and>
        to = cluster\<lparr>Finalizers := filter (\<lambda>f. \<not> is_own_finalizer f) (Finalizers cluster)\<rparr> \<and>
        h' = h @ pre @ observation_calls cluster @ [Write (PatchManagedCluster from to)] \<and>
        cleanup_observed srv cluster (h @ pre))"

lemma not_in_quiet [simp]:
  "list_all (\<lambda>c. \<not> cluster_patch c) cs \<Longrightarrow> Write (PatchManagedCluster a b) \<notin> set cs"
  by (auto simp: list_all_iff)

lemma wp_quiet_step:
  assumes "quiet m" and "list_all (\<lambda>c. \<not> cluster_patch c) pre"
    and "\<And>a pre'. list_all (\<lambda>c. \<not> cluster_patch c) pre' \<Longrightarrow> Q a (h @ pre')"
  shows "wp m Q (h @ pre)"
proof (rule wp_calls_only [OF assms(1)])
  fix a cs
  assume "list_all (\<lambda>c. \<not> cluster_patch c) cs"
  with assms(2) have "list_all (\<lambda>c. \<not> cluster_patch c) (pre @ cs)" by simp
  from assms(3) [OF this] show "Q a ((h @ pre) @ cs)" by simp
qed

lemma observation_calls_quiet: "list_all (\<lambda>c. \<not> cluster_patch c) (observation_calls cluster)"
  by (simp add: observation_calls_def)

lemma wp_finish_cleanup:
  assumes cluster: "on_GetManagedCluster srv h n = Inr cluster" "deleting cluster"
    and quiet: "list_all (\<lambda>c. \<not> cluster_patch c) pre"
  shows "wp (finish_cleanup srv cluster)
     (\<lambda>_ h'. Write (PatchManagedCluster from to) \<in> set (drop (length h) h') \<longrightarrow>
        finalizers_removed srv n h from to h') (h @ pre)"
proof -
  have "wp (cleanupCompleted srv cluster)
     (\<lambda>(ok, e) h'. (\<exists>cs. h' = (h @ pre) @ cs \<and> list_all (\<lambda>c. \<not> cluster_patch c) cs) \<and>
        (ok \<longrightarrow> e = None \<and> h' = (h @ pre) @ observation_calls cluster \<and>
          cleanup_observed srv cluster (h @ pre))) (h @ pre)"
    using wp_cleanupCompleted [of srv cluster "h @ pre"]
      calls_onlyD [OF quiet_cleanupCompleted, of srv cluster "h @ pre"]
    by (auto simp: wp_run split: prod.splits)
  then show ?thesis
    unfolding finish_cleanup_def removeClusterFinalizers_def Let_def
    using cluster quiet observation_calls_quiet [of cluster]
    by (auto simp: wp_simps finalizers_removed_def elim!: wp_mono split: sum.splits)
qed

text \<open>
  C1. The finalizers of a managed cluster are patched only when the cluster is being deleted,
  after the last reads of the same run have shown no manifest work, no addon and no work role
  binding in its namespace and, in hosted mode, no hosted work in the namespace of the hosting
  cluster; the patch removes exactly the two finalizers of this component. This holds for every
  server, that is, whatever other actors do meanwhile.
\<close>

theorem finalizers_removed_only_after_cleanup:
  assumes "Write (PatchManagedCluster from to) \<in> set (new_calls (resourcecleanup_Reconcile srv n) h)"
  shows "finalizers_removed srv n h from to (snd (run_state (resourcecleanup_Reconcile srv n) h))"
proof -
  let ?Q = "\<lambda>_ h'. Write (PatchManagedCluster from to) \<in> set (drop (length h) h') \<longrightarrow>
    finalizers_removed srv n h from to h'"
  have "wp (resourcecleanup_Reconcile srv n) ?Q h"
  proof (cases "on_GetManagedCluster srv h n")
    case (Inl e)
    then show ?thesis
      unfolding resourcecleanup_Reconcile_def
      by (auto simp: wp_simps intro!: wp_quiet_step [OF quiet_orphanCleanup])
  next
    case (Inr cluster)
    show ?thesis
    proof (cases "deleting cluster")
      case True
      note finish = wp_finish_cleanup [OF Inr True]
      show ?thesis
        unfolding resourcecleanup_Reconcile_def
        using Inr True
        by (auto simp: wp_simps split: option.split
            intro!: finish wp_quiet_step [OF quiet_updateDetachingCondition]
              wp_quiet_step [OF quiet_forceCleanup] wp_quiet_step [OF quiet_Cleanup])
    next
      case False
      with Inr show ?thesis
        unfolding resourcecleanup_Reconcile_def by (simp add: wp_simps)
    qed
  qed
  then show ?thesis
    using assms by (simp add: wp_run new_calls_def)
qed

section \<open>The order in which hosted works are deleted\<close>

text \<open>
  The specification of one round: addon works first, all of them; the klusterlet work once there
  is no addon work; the kubeconfig work once there is no other work.
\<close>

definition hosting_deletions :: "string \<Rightarrow> string list \<Rightarrow> string list" where
  "hosting_deletions hosted names = (
     let klusterlet = HostedKlusterletManifestWorkName hosted;
         kubeconfig = HostedManagedKubeConfigManifestWorkName hosted;
         addons = filter (\<lambda>n. n \<noteq> klusterlet \<and> n \<noteq> kubeconfig) names in
     if addons \<noteq> [] then addons
     else if klusterlet \<in> set names then [klusterlet]
     else if kubeconfig \<in> set names then [kubeconfig]
     else [])"

lemma hosted_work_names [simp]:
  "HostedKlusterletManifestWorkName n \<noteq> []" "HostedManagedKubeConfigManifestWorkName n \<noteq> []"
  "HostedKlusterletManifestWorkName n \<noteq> HostedManagedKubeConfigManifestWorkName n"
  "HostedManagedKubeConfigManifestWorkName n \<noteq> HostedKlusterletManifestWorkName n"
  by (simp_all add: HostedKlusterletManifestWorkName_def HostedManagedKubeConfigManifestWorkName_def
      deleting_suffixes_distinct [symmetric])

lemma classify_hosting_works_eq:
  "classify_hosting_works hosted ws (names, kl, kc) =
     (names @ filter (\<lambda>n. n \<noteq> HostedKlusterletManifestWorkName hosted \<and>
                          n \<noteq> HostedManagedKubeConfigManifestWorkName hosted) (map Name ws),
      if HostedKlusterletManifestWorkName hosted \<in> Name ` set ws
        then HostedKlusterletManifestWorkName hosted else kl,
      if HostedManagedKubeConfigManifestWorkName hosted \<in> Name ` set ws
        then HostedManagedKubeConfigManifestWorkName hosted else kc)"
  by (induction ws arbitrary: names kl kc) auto

lemma new_calls_delete_hosting_works:
  "snd (run_state (delete_hosting_works srv hosting names errs) h) =
     h @ map (\<lambda>n. Write (DeleteManifestWork hosting n)) names"
  by (induction names arbitrary: errs h) (auto simp: ask_def)

text \<open>
  C25. One round of \<open>deleteHostingManifestWorks\<close> lists the hosted works of the cluster once and
  issues exactly the deletions of the specification, in the order of the list and whatever the
  server answers to the deletions: addon works before the klusterlet work before the
  kubeconfig work.
\<close>

theorem deleteHosting_refines_order:
  assumes "on_ListManifestWorks srv h hosting (Some (HostedClusterLabel, hosted)) = Inr items"
  shows "new_calls (deleteHostingManifestWorks srv hosting hosted) h =
    Read (ListManifestWorks hosting (Some (HostedClusterLabel, hosted))) #
    map (\<lambda>n. Write (DeleteManifestWork hosting n)) (hosting_deletions hosted (map Name items))"
  using assms
  by (auto simp: new_calls_def deleteHostingManifestWorks_def ask_def classify_hosting_works_eq
      new_calls_delete_hosting_works hosting_deletions_def Let_def)

text \<open>The works left after a round whose deletions have all taken effect.\<close>

definition remaining_works :: "string \<Rightarrow> string list \<Rightarrow> string list" where
  "remaining_works hosted names = filter (\<lambda>n. n \<notin> set (hosting_deletions hosted names)) names"

lemma remaining_works_addons:
  "filter (\<lambda>n. n \<noteq> HostedKlusterletManifestWorkName hosted \<and>
               n \<noteq> HostedManagedKubeConfigManifestWorkName hosted) names \<noteq> [] \<Longrightarrow>
   set (remaining_works hosted names) \<subseteq>
     {HostedKlusterletManifestWorkName hosted, HostedManagedKubeConfigManifestWorkName hosted}"
  by (auto simp: remaining_works_def hosting_deletions_def Let_def)

lemma remaining_works_no_addons:
  "set names \<subseteq> {HostedKlusterletManifestWorkName hosted, HostedManagedKubeConfigManifestWorkName hosted} \<Longrightarrow>
   set (remaining_works hosted names) \<subseteq>
     (if HostedKlusterletManifestWorkName hosted \<in> set names
      then {HostedManagedKubeConfigManifestWorkName hosted} else {})"
proof -
  assume *: "set names \<subseteq> {HostedKlusterletManifestWorkName hosted, HostedManagedKubeConfigManifestWorkName hosted}"
  then have "filter (\<lambda>n. n \<noteq> HostedKlusterletManifestWorkName hosted \<and>
               n \<noteq> HostedManagedKubeConfigManifestWorkName hosted) names = []"
    by (auto simp: filter_empty_conv)
  with * show ?thesis
    by (auto simp: remaining_works_def hosting_deletions_def Let_def)
qed

lemma remaining_works_first:
  "set (remaining_works hosted names) \<subseteq>
     {HostedKlusterletManifestWorkName hosted, HostedManagedKubeConfigManifestWorkName hosted}"
proof (cases "filter (\<lambda>n. n \<noteq> HostedKlusterletManifestWorkName hosted \<and>
               n \<noteq> HostedManagedKubeConfigManifestWorkName hosted) names = []")
  case True
  then have "set names \<subseteq> {HostedKlusterletManifestWorkName hosted, HostedManagedKubeConfigManifestWorkName hosted}"
    by (auto simp: filter_empty_conv)
  then show ?thesis by (auto simp: remaining_works_def)
next
  case False
  then show ?thesis by (rule remaining_works_addons)
qed

text \<open>
  Three rounds are enough: when every deletion of a round has taken effect before the next
  one, no hosted work of the cluster is left after the third.
\<close>

theorem three_rounds_delete_all:
  "remaining_works hosted (remaining_works hosted (remaining_works hosted names)) = []"
proof -
  let ?r = "remaining_works hosted"
  have "set (?r (?r names)) \<subseteq> {HostedManagedKubeConfigManifestWorkName hosted}"
    using remaining_works_no_addons [OF remaining_works_first, of hosted names] by (auto split: if_splits)
  then have "HostedKlusterletManifestWorkName hosted \<notin> set (?r (?r names))"
    and "set (?r (?r names)) \<subseteq>
      {HostedKlusterletManifestWorkName hosted, HostedManagedKubeConfigManifestWorkName hosted}"
    by auto
  then show ?thesis using remaining_works_no_addons [of "?r (?r names)" hosted] by simp
qed

section \<open>Errors of a forced clean-up\<close>

text \<open>
  In a forced clean-up of a hosted cluster, an error of the addon listing that guards the
  deletion of the hosted works is not part of the returned error: when the deletions before it
  succeed, \<open>forceCleanup\<close> returns no error although the listing failed and neither the hosted
  works nor the work role binding were deleted.
\<close>

theorem forceCleanup_drops_list_error:
  assumes hosted: "IsHostedCluster cluster" "hosting_name cluster \<noteq> []"
    and ns: "on_GetNamespace srv h (Name cluster) = Inr ns"
    and addons: "run_state (ForceDeleteAllManagedClusterAddons srv (Name cluster))
        (h @ [Read (GetNamespace (Name cluster))]) = (None, h1)"
    and works: "run_state (forceDeleteManifestWorks srv (Name cluster)) h1 = (None, h2)"
    and listing: "on_ListAddons srv h2 (Name cluster) = Inl e"
  shows "run_state (forceCleanup srv cluster) h = (None, h2 @ [Read (ListAddons (Name cluster))])"
  using assms
  by (simp add: forceCleanup_def namespaceExists_def ask_def appendIfErr_def ListManagedClusterAddons_def)

section \<open>Concrete runs\<close>

definition demo_deleting :: ManagedCluster where
  "demo_deleting = (new_cluster ''c1'')\<lparr>DeletionTimestamp := Some 1,
     Finalizers := [ImportFinalizer, ManifestWorkFinalizer, ''other'']\<rparr>"

definition demo_server :: server where
  "demo_server = empty_server\<lparr>on_GetManagedCluster := (\<lambda>h n. if n = ''c1'' then Inr demo_deleting else Inl notFoundErr)\<rparr>"

theorem finalizers_removed_witness:
  "finalizers_removed demo_server ''c1'' [] demo_deleting (demo_deleting\<lparr>Finalizers := [''other'']\<rparr>)
     (snd (run_state (resourcecleanup_Reconcile demo_server ''c1'') []))"
  by (rule finalizers_removed_only_after_cleanup) code_simp

text \<open>A hosting cluster that still has the klusterlet work and the kubeconfig work of \<open>c1\<close>.\<close>

definition hosting_work :: "string \<Rightarrow> ManifestWork" where
  "hosting_work n = ObjectMeta.extend (new_meta ''hub'' n)
     \<lparr>Manifests = [], ManifestConfigs = [], DeleteOption = None, WorkConditions = [], ManifestStatuses = []\<rparr>"

definition hosting_server :: server where
  "hosting_server = empty_server\<lparr>on_ListManifestWorks := (\<lambda>h ns sel.
     Inr [hosting_work ''c1-hosted-kubeconfig'', hosting_work ''c1-hosted-klusterlet''])\<rparr>"

theorem deleteHosting_refines_order_witness:
  "new_calls (deleteHostingManifestWorks hosting_server ''hub'' ''c1'') [] =
     [Read (ListManifestWorks ''hub'' (Some (HostedClusterLabel, ''c1''))),
      Write (DeleteManifestWork ''hub'' ''c1-hosted-klusterlet'')]"
proof -
  have "on_ListManifestWorks hosting_server [] ''hub'' (Some (HostedClusterLabel, ''c1'')) =
    Inr [hosting_work ''c1-hosted-kubeconfig'', hosting_work ''c1-hosted-klusterlet'']"
    by (simp add: hosting_server_def)
  moreover have "hosting_deletions ''c1'' (map Name
      [hosting_work ''c1-hosted-kubeconfig'', hosting_work ''c1-hosted-klusterlet'']) = [''c1-hosted-klusterlet'']"
    by code_simp
  ultimately show ?thesis by (simp add: deleteHosting_refines_order)
qed

text \<open>A server whose second listing of the addons fails.\<close>

definition hosted_demo :: ManagedCluster where
  "hosted_demo = demo_deleting\<lparr>Annotations := fmap_of_list
     [(KlusterletDeployModeAnnotation, InstallModeHosted), (HostingClusterNameAnnotation, ''hub'')]\<rparr>"

definition failing_list_server :: server where
  "failing_list_server = empty_server\<lparr>on_GetNamespace := (\<lambda>h n. Inr (new_meta [] n)),
     on_ListAddons := (\<lambda>h n. if Read (ListAddons n) \<in> set h then Inl (ErrorString ''timeout'') else Inr [])\<rparr>"

theorem forceCleanup_drops_list_error_witness:
  "result (forceCleanup failing_list_server hosted_demo) [] = None"
proof -
  have "run_state (forceCleanup failing_list_server hosted_demo) [] =
    (None, [Read (GetNamespace ''c1''), Read (ListAddons ''c1''), Read (ListManifestWorks ''c1'' None)] @
      [Read (ListAddons (Name hosted_demo))])"
    by (rule forceCleanup_drops_list_error [where ?h1.0 =
        "[Read (GetNamespace ''c1''), Read (ListAddons ''c1'')]"]; code_simp?; simp?)
  then show ?thesis by (simp add: result_def)
qed

end
