(* ===== verification/Namespace_Deletion.thy ===== *)
theory Namespace_Deletion
  imports Work_Helpers
begin

text \<open>
  \<open>pkg/controller/clusternamespacedeletion/controller.go\<close>: the deletion of the namespace of a
  managed cluster that is deleted or about to be.
\<close>

section \<open>Operations\<close>

definition podDeletionGracePeriod :: int where
  "podDeletionGracePeriod = 10 * second"

definition hostedClusterRequeuePeriod :: int where
  "hostedClusterRequeuePeriod = 60 * second"

text \<open>A pod can be appended twice, as in the source.\<close>

fun filterPods :: "Pod list \<Rightarrow> string \<Rightarrow> Pod list" where
  "filterPods [] ns = []"
| "filterPods (pod # pods) ns =
     (if \<not> HasPrefix (Name pod) curatorJobPrefix \<and> \<not> HasPrefix (Name pod) postHookJobPrefix \<and>
         \<not> HasPrefix (Name pod) preHookJobPrefix then [pod] else []) @
     (if Phase pod = ''Running'' then
        (if \<not> Contains (Name pod) (ns @ ''-uninstall'') then [pod] else []) else []) @
     filterPods pods ns"

text \<open>An error of a list of a kind that may not be installed on the hub.\<close>

definition kind_absent :: "err \<Rightarrow> bool" where
  "kind_absent e \<longleftrightarrow> IsNotFound e \<or> Contains (Error e) ''no matches for kind''"

text \<open>The items of such a list; an error that says the kind is absent leaves the list empty.\<close>

definition items_or_error :: "err + 'a list \<Rightarrow> err + 'a list" where
  "items_or_error r =
     (case r of Inl e \<Rightarrow> if kind_absent e then Inr [] else Inl e | Inr items \<Rightarrow> Inr items)"

text \<open>Whether the managed cluster blocks the deletion; \<open>None\<close> when it does not.\<close>

datatype cluster_gate = Blocked | BlockedMissedFinalizer | Gone

definition cluster_gate_of :: "ManagedCluster \<Rightarrow> cluster_gate" where
  "cluster_gate_of managedCluster =
     (if \<not> deleting managedCluster then Blocked
      else if length (Finalizers managedCluster) > 1 then Blocked
      else if length (Finalizers managedCluster) = 1 \<and> hd (Finalizers managedCluster) \<noteq> ImportFinalizer
      then BlockedMissedFinalizer
      else Gone)"

definition interesting_namespace :: "NamespaceObj \<Rightarrow> bool" where
  "interesting_namespace ns \<longleftrightarrow>
     \<not> (goidx (Labels ns) ClusterNameLabelKey = [] \<and> goidx (Labels ns) ClusterLabel = [])"

text \<open>The lists that must be empty, then the deletion: the second half of \<open>Reconcile\<close>.\<close>

definition delete_if_empty :: "server \<Rightarrow> NamespaceObj \<Rightarrow> (call, outcome) prog" where
  "delete_if_empty srv ns = do {
     a \<leftarrow> api_ListAddons srv (Name ns);
     case a of
       Inl e \<Rightarrow> return (Return emptyResult (IgnoreNotFound e))
     | Inr addons \<Rightarrow>
       if length addons > 0 then return done_ok
       else do {
         hc \<leftarrow> api_ListHostedClusters srv (Name ns);
         case items_or_error hc of
           Inl e \<Rightarrow> return (Return emptyResult (Some e))
         | Inr hostedclusters \<Rightarrow>
           if length hostedclusters > 0
           then return (Return (emptyResult\<lparr>RequeueAfter := hostedClusterRequeuePeriod\<rparr>) None)
           else do {
             cd \<leftarrow> api_ListClusterDeployments srv (Name ns);
             case cd of
               Inl e \<Rightarrow> return (Return emptyResult (IgnoreNotFound e))
             | Inr cds \<Rightarrow>
               if length cds \<noteq> 0 then return done_ok
               else do {
                 ie \<leftarrow> api_ListInfraEnvs srv (Name ns);
                 case ie of
                   Inl e \<Rightarrow> return (Return emptyResult (IgnoreNotFound e))
                 | Inr ies \<Rightarrow>
                   if length ies \<noteq> 0 then return done_ok
                   else do {
                     cc \<leftarrow> api_ListCapiClusters srv (Name ns);
                     case items_or_error cc of
                       Inl e \<Rightarrow> return (Return emptyResult (Some e))
                     | Inr capis \<Rightarrow>
                       if length capis > 0
                       then return (Return (emptyResult\<lparr>RequeueAfter := hostedClusterRequeuePeriod\<rparr>) None)
                       else do {
                         p \<leftarrow> api_ListPods srv (Name ns);
                         case p of
                           Inl e \<Rightarrow> return (Return emptyResult (Some e))
                         | Inr pods \<Rightarrow>
                           if length (filterPods pods (Name ns)) > 0
                           then return (Return (emptyResult\<lparr>RequeueAfter := podDeletionGracePeriod\<rparr>) None)
                           else do {
                             e \<leftarrow> api_write srv (DeleteNamespace (Name ns));
                             emit (Event ''ClusterNamespaceDeletion''
                               (''cluster namespace '' @ Name ns @ '' is deleted''));
                             return (Return emptyResult e) } } } } } } }"

definition namespacedeletion_Reconcile :: "server \<Rightarrow> string \<Rightarrow> (call, outcome) prog" where
  "namespacedeletion_Reconcile srv reqName = do {
     r \<leftarrow> api_GetNamespace srv reqName;
     case r of
       Inl e \<Rightarrow> return (Return emptyResult (IgnoreNotFound e))
     | Inr ns \<Rightarrow>
         if \<not> interesting_namespace ns then return done_ok
         else if haskey (Annotations ns) AnnotationRemainNamespace then return done_ok
         else if deleting ns then return done_ok
         else do {
           c \<leftarrow> api_GetManagedCluster srv reqName;
           case c of
             Inl e \<Rightarrow>
               if \<not> IsNotFound e then return (Return emptyResult (Some e))
               else delete_if_empty srv ns
           | Inr managedCluster \<Rightarrow>
               (case cluster_gate_of managedCluster of
                  Blocked \<Rightarrow> return done_ok
                | BlockedMissedFinalizer \<Rightarrow> do {
                    emit (Warning ''ManagedClusterImportFinalizerMissed''
                      (''The namespace of managed cluster '' @ Name managedCluster @
                       '' will not be deleted due to import finalizer is missed''));
                    return done_ok }
                | Gone \<Rightarrow> delete_if_empty srv ns) } }"

section \<open>When the namespace is deleted\<close>

text \<open>The reads that must have come back empty, in the order they are made from history \<open>h\<close>.\<close>

definition emptiness_reads :: "string \<Rightarrow> call list" where
  "emptiness_reads n = map Read [ListAddons n, ListHostedClusters n, ListClusterDeployments n,
     ListInfraEnvs n, ListCapiClusters n, ListPods n]"

definition namespace_empty :: "server \<Rightarrow> call list \<Rightarrow> string \<Rightarrow> bool" where
  "namespace_empty srv h n \<longleftrightarrow>
     on_ListAddons srv h n = Inr [] \<and>
     items_or_error (on_ListHostedClusters srv (h @ take 1 (emptiness_reads n)) n) = Inr [] \<and>
     on_ListClusterDeployments srv (h @ take 2 (emptiness_reads n)) n = Inr [] \<and>
     on_ListInfraEnvs srv (h @ take 3 (emptiness_reads n)) n = Inr [] \<and>
     items_or_error (on_ListCapiClusters srv (h @ take 4 (emptiness_reads n)) n) = Inr [] \<and>
     (\<exists>pods. on_ListPods srv (h @ take 5 (emptiness_reads n)) n = Inr pods \<and> filterPods pods n = [])"

definition cluster_gone :: "err + ManagedCluster \<Rightarrow> bool" where
  "cluster_gone c \<longleftrightarrow>
     (case c of
        Inl e \<Rightarrow> IsNotFound e
      | Inr mc \<Rightarrow> deleting mc \<and> Finalizers mc \<in> {[], [ImportFinalizer]})"

lemma cluster_gate_Gone_iff:
  "cluster_gate_of mc = Gone \<longleftrightarrow> deleting mc \<and> Finalizers mc \<in> {[], [ImportFinalizer]}"
  by (cases "Finalizers mc"; cases "tl (Finalizers mc)")
    (auto simp: cluster_gate_of_def)

lemma cluster_gate_Gone [simp]:
  "deleting mc \<Longrightarrow> Finalizers mc = [] \<Longrightarrow> cluster_gate_of mc = Gone"
  "deleting mc \<Longrightarrow> Finalizers mc = [ImportFinalizer] \<Longrightarrow> cluster_gate_of mc = Gone"
  by (simp_all add: cluster_gate_Gone_iff)

lemma delete_if_empty_iff:
  "Write (DeleteNamespace n) \<in> set (new_calls (delete_if_empty srv ns) h) \<longleftrightarrow>
     n = Name ns \<and> namespace_empty srv h n"
  unfolding new_calls_wp [symmetric, where Q = "\<lambda>_ cs. Write (DeleteNamespace n) \<in> set cs"]
    delete_if_empty_def namespace_empty_def emptiness_reads_def
  by (auto simp: wp_simps split: sum.splits if_splits)

lemma calls_delete_if_empty: "calls_only (\<lambda>_. True) (delete_if_empty srv ns)"
  unfolding delete_if_empty_def by (intro calls_intros) auto

lemma namespace_deletion:
  "Write (DeleteNamespace m) \<in> set (new_calls (namespacedeletion_Reconcile srv n) h) \<longleftrightarrow>
     (\<exists>ns. on_GetNamespace srv h n = Inr ns \<and> m = Name ns \<and> interesting_namespace ns \<and>
        \<not> haskey (Annotations ns) AnnotationRemainNamespace \<and> \<not> deleting ns \<and>
        cluster_gone (on_GetManagedCluster srv (h @ [Read (GetNamespace n)]) n) \<and>
        namespace_empty srv (h @ [Read (GetNamespace n), Read (GetManagedCluster n)]) m)"
  unfolding new_calls_wp [symmetric, where Q = "\<lambda>_ cs. Write (DeleteNamespace m) \<in> set cs"]
    namespacedeletion_Reconcile_def cluster_gone_def
  by (auto simp: wp_simps wp_new_calls_append [OF calls_delete_if_empty] delete_if_empty_iff
      cluster_gate_Gone_iff split: sum.splits cluster_gate.splits)

text \<open>
  C3. The namespace controller deletes a namespace exactly when the requested namespace exists,
  carries a non-empty cluster label, has no retain annotation and is not already being deleted,
  its managed cluster is gone or is being deleted with no finalizer but the import finalizer,
  and the subsequent reads show no addon, hosted cluster, cluster deployment, infra env, CAPI
  cluster and no blocking pod in it.
\<close>

theorem namespace_deleted_iff:
  "Write (DeleteNamespace m) \<in> set (new_calls (namespacedeletion_Reconcile srv n) h) \<longleftrightarrow>
     (\<exists>ns. on_GetNamespace srv h n = Inr ns \<and> m = Name ns \<and> interesting_namespace ns \<and>
        \<not> haskey (Annotations ns) AnnotationRemainNamespace \<and> \<not> deleting ns \<and>
        cluster_gone (on_GetManagedCluster srv (h @ [Read (GetNamespace n)]) n) \<and>
        namespace_empty srv (h @ [Read (GetNamespace n), Read (GetManagedCluster n)]) m)"
  by (rule namespace_deletion)

section \<open>Blocking pods\<close>

definition hook_job_pod :: "Pod \<Rightarrow> bool" where
  "hook_job_pod pod \<longleftrightarrow>
     HasPrefix (Name pod) curatorJobPrefix \<or> HasPrefix (Name pod) postHookJobPrefix \<or>
     HasPrefix (Name pod) preHookJobPrefix"

text \<open>
  No pod blocks the deletion of a namespace exactly when every pod in it is named like a
  curator, pre-hook or post-hook job and each of those that is running belongs to the uninstall
  job of the namespace.
\<close>

theorem filterPods_Nil_iff:
  "filterPods pods ns = [] \<longleftrightarrow>
     list_all (\<lambda>pod. hook_job_pod pod \<and>
       (if Phase pod = ''Running'' then Contains (Name pod) (ns @ ''-uninstall'') else True)) pods"
  by (induction pods) (auto simp: hook_job_pod_def)

end
