(* ===== verification/Csr.thy ===== *)
theory Csr
  imports Meta_Helpers
begin

text \<open>
  \<open>pkg/helpers/csr.go\<close> and \<open>pkg/controller/csr\<close>: the automatic approval of the certificate
  signing requests of registration agents. PEM decoding and X.509 parsing are parameters
  (\<open>crypto\<close>); the further approval conditions handed to the controller are an interface, the
  locale \<open>approval_condition\<close>.
\<close>

section \<open>Helpers\<close>

record crypto =
  pem_Decode :: "string \<Rightarrow> (string \<times> string) option" \<comment> \<open>type and bytes of the first block\<close>
  x509_ParseCertificateRequest :: "string \<Rightarrow> (string \<times> string list) option"
    \<comment> \<open>common name and organizations of the subject\<close>
  AppendCertsFromPEM :: "string \<Rightarrow> bool" \<comment> \<open>whether the bytes hold a certificate\<close>

definition GetClusterName :: "CSR \<Rightarrow> string" where
  "GetClusterName csr = goidx (Labels csr) CSRClusterNameLabel"

text \<open>\<open>clusterName[:63-len("-bootstrap-sa")]\<close> for names that would be too long.\<close>

definition GetBootstrapSAName :: "string \<Rightarrow> string" where
  "GetBootstrapSAName clusterName = (
     let bootstrapSAName = clusterName @ ''-'' @ BootstrapSASuffix in
     if length bootstrapSAName > 63
     then take (63 - length (''-'' @ BootstrapSASuffix)) clusterName @ ''-'' @ BootstrapSASuffix
     else bootstrapSAName)"

definition IsAllowedAutoApproveSigner :: "string \<Rightarrow> bool" where
  "IsAllowedAutoApproveSigner signerName \<longleftrightarrow>
     signerName = KubeAPIServerClientSignerName \<or> signerName = GRPCAuthSigner"

definition ValidateClusterCSRRequest :: "crypto \<Rightarrow> CSR \<Rightarrow> string \<Rightarrow> bool" where
  "ValidateClusterCSRRequest cr csr clusterName =
    (if clusterName = [] then False
     else if \<not> IsAllowedAutoApproveSigner (SignerName csr) then False
     else (case pem_Decode cr (Request csr) of
         None \<Rightarrow> False
       | Some (blockType, bytes) \<Rightarrow>
         if blockType \<noteq> ''CERTIFICATE REQUEST'' then False
         else (case x509_ParseCertificateRequest cr bytes of
             None \<Rightarrow> False
           | Some (commonName, organization) \<Rightarrow>
             (let requestingOrgs = filter (\<lambda>x. x \<noteq> ManagedClustersGroup) (remdups organization) in
              if length requestingOrgs \<noteq> 1 then False
              else if SubjectPrefix @ clusterName \<notin> set requestingOrgs then False
              else if \<not> HasPrefix commonName SubjectPrefix then False
              else (case Split (TrimPrefix commonName SubjectPrefix) '':'' of
                  [clusterNameFromCN, agentName] \<Rightarrow>
                    if clusterNameFromCN = [] \<or> agentName = [] then False
                    else if clusterNameFromCN \<noteq> clusterName then False
                    else True
                | _ \<Rightarrow> False)))))"

section \<open>The controller\<close>

definition isCSRInTerminalState :: "CSRCondition list \<Rightarrow> bool" where
  "isCSRInTerminalState conds \<longleftrightarrow>
     list_ex (\<lambda>c. CSRType c = ''Approved'' \<or> CSRType c = ''Denied'') conds"

definition getApprovalType :: "CSR \<Rightarrow> string" where
  "getApprovalType csr =
     (case find (\<lambda>c. CSRType c = ''Approved'' \<or> CSRType c = ''Denied'') (CSRConditions csr) of
        None \<Rightarrow> [] | Some c \<Rightarrow> CSRType c)"

definition user_name :: "string \<Rightarrow> string \<Rightarrow> string" where
  "user_name ns sa = ''system:serviceaccount:'' @ ns @ '':'' @ sa"

definition validUsername :: "CSR \<Rightarrow> string \<Rightarrow> bool" where
  "validUsername csr clusterName \<longleftrightarrow>
     Username csr = user_name clusterName (GetBootstrapSAName clusterName) \<or>
     Username csr = user_name HubNamespace GRPCSAName"

definition isValidUnapprovedBootstrapCSR :: "CSR \<Rightarrow> bool" where
  "isValidUnapprovedBootstrapCSR csr \<longleftrightarrow> GetClusterName csr \<noteq> [] \<and> getApprovalType csr = []"

definition approveExistingManagedClusterCSR :: "server \<Rightarrow> CSR \<Rightarrow> (call, err + bool) prog" where
  "approveExistingManagedClusterCSR srv csr =
    (if \<not> validUsername csr (GetClusterName csr) then return (Inr False)
     else do {
       r \<leftarrow> api_GetManagedCluster srv (GetClusterName csr);
       return (case r of
         Inl e \<Rightarrow> if IsNotFound e then Inr False else Inl e
       | Inr _ \<Rightarrow> Inr True) })"

text \<open>
  The loop over the approval conditions: the first match or the first error ends it. A condition
  that panics has the value \<open>None\<close>.
\<close>

type_synonym approval = "CSR \<Rightarrow> (call, (err + bool) option) prog"

fun any_approval :: "approval list \<Rightarrow> approval" where
  "any_approval [] csr = return (Some (Inr False))"
| "any_approval (condition # conds) csr = do {
     r \<leftarrow> condition csr;
     case r of
       None \<Rightarrow> return None
     | Some x \<Rightarrow>
         (case x of
            Inl e \<Rightarrow> return (Some (Inl e))
          | Inr matched \<Rightarrow> if matched then return (Some (Inr True)) else any_approval conds csr) }"

definition default_approval :: "server \<Rightarrow> approval" where
  "default_approval srv csr = do { r \<leftarrow> approveExistingManagedClusterCSR srv csr; return (Some r) }"

definition approvedCondition :: CSRCondition where
  "approvedCondition = \<lparr>CSRType = ''Approved'', CSRStatus = ConditionTrue,
     CSRReason = ''AutoApprovedByCSRController'',
     CSRMessage = ''The managedcluster-import-controller auto approval automatically approved this CSR''\<rparr>"

definition approve :: "CSR \<Rightarrow> CSR" where
  "approve csr = csr\<lparr>CSRConditions := CSRConditions csr @ [approvedCondition]\<rparr>"

text \<open>The conditions are those of \<open>csr.Add\<close>: the default one, then the extra ones.\<close>

definition csr_Reconcile ::
  "server \<Rightarrow> crypto \<Rightarrow> approval list \<Rightarrow> string \<Rightarrow> (call, outcome) prog" where
  "csr_Reconcile srv cr extras reqName = do {
     r \<leftarrow> api_GetCSR srv reqName;
     case r of
       Inl e \<Rightarrow> return (Return emptyResult (IgnoreNotFound e))
     | Inr csr \<Rightarrow>
         if isCSRInTerminalState (CSRConditions csr) then return done_ok
         else do {
           a \<leftarrow> any_approval (default_approval srv # extras) csr;
           case a of
             None \<Rightarrow> return Panicked
           | Some (Inl e) \<Rightarrow> return (Return emptyResult (Some e))
           | Some (Inr shouldApprove) \<Rightarrow>
               if \<not> shouldApprove then return done_ok
               else if \<not> ValidateClusterCSRRequest cr csr (GetClusterName csr) then return done_ok
               else do {
                 e \<leftarrow> api_write srv (UpdateApproval (approve csr));
                 case e of
                   Some x \<Rightarrow> return (Return emptyResult (Some x))
                 | None \<Rightarrow> do {
                     emit (Event ''ManagedClusterCSRAutoApproved''
                       (''managed cluster csr '' @ quoted (Name csr) @ '' is auto approved by import controller''));
                     return done_ok } } } }"

section \<open>What a valid request says\<close>

lemma single_org:
  "length (filter P (remdups xs)) = 1 \<and> x \<in> set (filter P (remdups xs)) \<longleftrightarrow> {y \<in> set xs. P y} = {x}"
proof
  assume *: "length (filter P (remdups xs)) = 1 \<and> x \<in> set (filter P (remdups xs))"
  then have "filter P (remdups xs) = [x]"
    by (cases "filter P (remdups xs)") auto
  then have "set (filter P (remdups xs)) = {x}" by simp
  then show "{y \<in> set xs. P y} = {x}" by auto
next
  assume *: "{y \<in> set xs. P y} = {x}"
  then have "set (filter P (remdups xs)) = {x}" by auto
  moreover have "distinct (filter P (remdups xs))" by simp
  ultimately have "length (filter P (remdups xs)) = 1"
    using distinct_card [of "filter P (remdups xs)"] by simp
  with \<open>set (filter P (remdups xs)) = {x}\<close>
  show "length (filter P (remdups xs)) = 1 \<and> x \<in> set (filter P (remdups xs))" by simp
qed

lemma agent_common_name:
  "HasPrefix cn p \<and> Split (TrimPrefix cn p) [d] = [c, a] \<longleftrightarrow>
     cn = p @ c @ d # a \<and> d \<notin> set c \<and> d \<notin> set a"
  by (auto simp: Split_two_iff HasPrefix_iff)

lemma case_two_iff:
  "(case xs of [c, a] \<Rightarrow> P c a | _ \<Rightarrow> False) \<longleftrightarrow> (\<exists>c a. xs = [c, a] \<and> P c a)"
  by (auto split: list.splits)

lemma case_some_pair_iff:
  "(case x of None \<Rightarrow> False | Some (a, b) \<Rightarrow> P a b) \<longleftrightarrow> (\<exists>a b. x = Some (a, b) \<and> P a b)"
  by (auto split: option.splits)

lemma agent_subject_iff:
  "HasPrefix cn SubjectPrefix \<and>
   (case Split (TrimPrefix cn SubjectPrefix) '':'' of
      [c, a] \<Rightarrow> c \<noteq> [] \<and> a \<noteq> [] \<and> c = cluster | _ \<Rightarrow> False) \<longleftrightarrow>
   cluster \<noteq> [] \<and> (\<exists>agent. cn = SubjectPrefix @ cluster @ CHR '':'' # agent \<and>
     CHR '':'' \<notin> set cluster \<and> agent \<noteq> [] \<and> CHR '':'' \<notin> set agent)"
  using agent_common_name [of cn SubjectPrefix "CHR '':''"] by (auto simp: case_two_iff)

text \<open>
  C15. A request passes validation exactly when the cluster name is not empty, the signer is one
  of the two allowed ones, the request is a PEM encoded certificate request whose subject has
  the common name prefix:cluster:agent with a non-empty agent name and no further colon, and
  whose organizations, the managed clusters group aside, are exactly the one of the cluster.
\<close>

theorem ValidateClusterCSRRequest_iff:
  "ValidateClusterCSRRequest cr csr cluster \<longleftrightarrow>
     cluster \<noteq> [] \<and> SignerName csr \<in> {KubeAPIServerClientSignerName, GRPCAuthSigner} \<and>
     (\<exists>bytes cn orgs agent.
        pem_Decode cr (Request csr) = Some (''CERTIFICATE REQUEST'', bytes) \<and>
        x509_ParseCertificateRequest cr bytes = Some (cn, orgs) \<and>
        {x \<in> set orgs. x \<noteq> ManagedClustersGroup} = {SubjectPrefix @ cluster} \<and>
        cn = SubjectPrefix @ cluster @ CHR '':'' # agent \<and>
        CHR '':'' \<notin> set cluster \<and> agent \<noteq> [] \<and> CHR '':'' \<notin> set agent)"
proof -
  have "ValidateClusterCSRRequest cr csr cluster \<longleftrightarrow>
     cluster \<noteq> [] \<and> SignerName csr \<in> {KubeAPIServerClientSignerName, GRPCAuthSigner} \<and>
     (\<exists>ty bytes. pem_Decode cr (Request csr) = Some (ty, bytes) \<and> ty = ''CERTIFICATE REQUEST'' \<and>
       (\<exists>cn orgs. x509_ParseCertificateRequest cr bytes = Some (cn, orgs) \<and>
          (length (filter (\<lambda>x. x \<noteq> ManagedClustersGroup) (remdups orgs)) = 1 \<and>
           SubjectPrefix @ cluster \<in> set (filter (\<lambda>x. x \<noteq> ManagedClustersGroup) (remdups orgs))) \<and>
          HasPrefix cn SubjectPrefix \<and>
          (case Split (TrimPrefix cn SubjectPrefix) '':'' of
             [c, a] \<Rightarrow> c \<noteq> [] \<and> a \<noteq> [] \<and> c = cluster | _ \<Rightarrow> False)))"
    unfolding ValidateClusterCSRRequest_def IsAllowedAutoApproveSigner_def Let_def
      if_bool_eq_conj case_two_iff case_some_pair_iff by blast
  then show ?thesis
    unfolding agent_subject_iff single_org by blast
qed

section \<open>Who may ask\<close>

lemma length_BootstrapSASuffix [simp]: "length BootstrapSASuffix = 12"
  by (simp add: BootstrapSASuffix_def)

lemma GetBootstrapSAName_take:
  "GetBootstrapSAName n = take 50 n @ ''-'' @ BootstrapSASuffix"
  by (simp add: GetBootstrapSAName_def)

text \<open>
  The name of the bootstrap service account is never longer than the 63 characters of a DNS
  label: it has the length of the cluster name plus 13 up to that limit, and without its suffix
  it is the cluster name itself when that has at most 50 characters, so that two such clusters
  never share a service account name.
\<close>

theorem GetBootstrapSAName_bounds:
  "length (GetBootstrapSAName n) = min 63 (length n + 13) \<and>
   TrimSuffix (GetBootstrapSAName n) (''-'' @ BootstrapSASuffix) = (if length n \<le> 50 then n else take 50 n)"
  unfolding GetBootstrapSAName_take
  using TrimSuffix_append [of "take 50 n" "''-'' @ BootstrapSASuffix"] by simp

lemma append_sep_inj:
  "d \<notin> set a \<Longrightarrow> d \<notin> set a' \<Longrightarrow> a @ d # s = a' @ d # s' \<longleftrightarrow> a = a' \<and> s = s'"
proof (induction a arbitrary: a')
  case Nil
  then show ?case by (cases a') auto
next
  case (Cons c a)
  then show ?case by (cases a') auto
qed

lemma user_name_inj:
  "CHR '':'' \<notin> set a \<Longrightarrow> CHR '':'' \<notin> set a' \<Longrightarrow>
   user_name a s = user_name a' s' \<longleftrightarrow> a = a' \<and> s = s'"
  using append_sep_inj [of "CHR '':''" a a' s s'] by (simp add: user_name_def)

text \<open>
  For two names that can be namespaces (they have no colon), a request whose user name is
  accepted for both comes from the hub's gRPC server unless the two names are the same: the
  bootstrap service account of one cluster is never accepted for another cluster.
\<close>

theorem validUsername_unique:
  assumes "CHR '':'' \<notin> set a" and "CHR '':'' \<notin> set b"
    and "validUsername csr a" and "validUsername csr b"
  shows "a = b \<or> Username csr = user_name HubNamespace GRPCSAName"
  using assms user_name_inj by (auto simp: validUsername_def)

definition agent_csr :: CSR where
  "agent_csr = ObjectMeta.extend
     ((new_meta [] ''csr-1'')\<lparr>Labels := fmap_of_list [(CSRClusterNameLabel, ''c1'')]\<rparr>)
     \<lparr>SignerName = KubeAPIServerClientSignerName,
      Username = ''system:serviceaccount:c1:c1-bootstrap-sa'',
      Request = ''pem'', CSRConditions = []\<rparr>"

theorem validUsername_unique_witness:
  "validUsername agent_csr ''c1'' \<and> (''c1'' = ''c1'' \<or> Username agent_csr = user_name HubNamespace GRPCSAName)"
proof -
  have v: "validUsername agent_csr ''c1''" by code_simp
  have "CHR '':'' \<notin> set ''c1''" by simp
  from v validUsername_unique [OF this this v v] show ?thesis by blast
qed

section \<open>Approval\<close>

lemma getApprovalType_Nil_iff:
  "getApprovalType csr = [] \<longleftrightarrow> \<not> isCSRInTerminalState (CSRConditions csr)"
proof (cases "find (\<lambda>c. CSRType c = ''Approved'' \<or> CSRType c = ''Denied'') (CSRConditions csr)")
  case None
  then show ?thesis
    by (simp add: getApprovalType_def isCSRInTerminalState_def) (auto simp: find_None_iff list_ex_iff)
next
  case (Some c)
  then have "CSRType c \<noteq> []" and "isCSRInTerminalState (CSRConditions csr)"
    by (auto simp: find_Some_iff isCSRInTerminalState_def list_ex_iff)
  with Some show ?thesis by (simp add: getApprovalType_def)
qed

lemma approve_terminal: "isCSRInTerminalState (CSRConditions (approve csr))"
  by (simp add: approve_def approvedCondition_def isCSRInTerminalState_def)

text \<open>
  The interface of an approval condition: it reads and never writes. \<open>grounds csr h\<close> is what the
  condition has established when it answers yes to \<open>csr\<close> after the calls \<open>h\<close>.
\<close>

locale approval_condition =
  fixes condition :: approval
    and grounds :: "CSR \<Rightarrow> call list \<Rightarrow> bool"
  assumes reads_only: "calls_only (\<lambda>c. \<not> is_write c) (condition csr)"
    and matches: "result (condition csr) h = Some (Inr True) \<Longrightarrow> grounds csr h"
begin

lemma wp_condition:
  "wp (condition csr)
     (\<lambda>r h'. list_all (\<lambda>c. \<not> is_write c) (drop (length h) h') \<and> (r = Some (Inr True) \<longrightarrow> grounds csr h)) h"
  using calls_onlyD [OF reads_only, of csr h] matches [of csr h] by (auto simp: wp_run result_def)

end

text \<open>Two conditions asked one after the other, as the controller does with its list.\<close>

locale two_conditions =
  fst: approval_condition c1 g1 + snd: approval_condition c2 g2 for c1 g1 c2 g2
begin

lemma wp_any_approval:
  "wp (any_approval [c1, c2] csr)
     (\<lambda>r h'. list_all (\<lambda>c. \<not> is_write c) (drop (length h) h') \<and>
        (r = Some (Inr True) \<longrightarrow> g1 csr h \<or> (\<exists>pre. g2 csr (h @ pre) \<and> list_all (\<lambda>c. \<not> is_write c) pre))) h"
proof -
  obtain r1 cs1 where 1: "run_state (c1 csr) h = (r1, h @ cs1)" "list_all (\<lambda>c. \<not> is_write c) cs1"
    using calls_onlyD [OF fst.reads_only, of csr h] by (metis prod.collapse)
  obtain r2 cs2 where 2: "run_state (c2 csr) (h @ cs1) = (r2, h @ cs1 @ cs2)"
      "list_all (\<lambda>c. \<not> is_write c) cs2"
    using calls_onlyD [OF snd.reads_only, of csr "h @ cs1"] by (metis append.assoc prod.collapse)
  from 1 2 fst.matches [of csr h] snd.matches [of csr "h @ cs1"] show ?thesis
    by (auto simp: wp_def result_def split: sum.splits option.splits)
qed

lemma issues_any_approval:
  assumes "\<And>c. \<not> is_write c \<Longrightarrow> P c"
    and "\<And>r h'. (r = Some (Inr True) \<Longrightarrow> g1 csr h \<or> (\<exists>pre. g2 csr (h @ pre))) \<Longrightarrow> issues P (f r) h'"
  shows "issues P (State_Monad.bind (any_approval [c1, c2] csr) f) h"
proof (rule issues_bind_calls [where R = "\<lambda>c. \<not> is_write c"])
  show "calls_only (\<lambda>c. \<not> is_write c) (any_approval [c1, c2] csr)"
    by (auto intro!: calls_intros fst.reads_only snd.reads_only)
  show "issues P (f r) (h @ cs)" if "run_state (any_approval [c1, c2] csr) h = (r, h @ cs)" for r cs
    by (rule assms(2)) (use that wp_any_approval [of csr h] in \<open>auto simp: wp_run\<close>)
qed (rule assms(1))

end

definition existing_cluster_grounds :: "server \<Rightarrow> CSR \<Rightarrow> call list \<Rightarrow> bool" where
  "existing_cluster_grounds srv csr h \<longleftrightarrow>
     validUsername csr (GetClusterName csr) \<and>
     (\<exists>mc. on_GetManagedCluster srv h (GetClusterName csr) = Inr mc)"

interpretation existing: approval_condition "default_approval srv" "existing_cluster_grounds srv"
  for srv
proof
  show "calls_only (\<lambda>c. \<not> is_write c) (default_approval srv csr)" for csr
    unfolding default_approval_def approveExistingManagedClusterCSR_def by (intro calls_intros) auto
next
  fix csr h
  assume "result (default_approval srv csr) h = Some (Inr True)"
  then have "wp (default_approval srv csr) (\<lambda>r _. r = Some (Inr True)) h"
    by (simp add: wp_run result_def)
  then show "existing_cluster_grounds srv csr h"
    unfolding default_approval_def approveExistingManagedClusterCSR_def existing_cluster_grounds_def
    by (auto simp: wp_simps split: if_splits sum.splits)
qed

end
