(* ===== verification/Apply.thy ===== *)
theory Apply
  imports Meta_Helpers
begin

text \<open>
  \<open>ApplyResources\<close> of \<open>pkg/helpers/helpers.go\<close>: the controller reference, the dispatch on the type
  of the object, and the routines that get an object, compare it with the required one and
  create or update it. The routines of \<open>resourceapply\<close> are requests of the server. The shape
  that the four comparing routines share is the locale \<open>applier\<close>, interpreted on each of them.
\<close>

section \<open>Controller references\<close>

text \<open>The group of an API version, when it parses.\<close>

definition ParseGroup :: "string \<Rightarrow> string option" where
  "ParseGroup gv =
     (if gv = [] \<or> gv = ''/'' then Some []
      else (case Split gv ''/'' of
          [v] \<Rightarrow> Some []
        | [g, v] \<Rightarrow> Some g
        | _ \<Rightarrow> None))"

definition referSameObject :: "OwnerReference \<Rightarrow> OwnerReference \<Rightarrow> bool" where
  "referSameObject a b \<longleftrightarrow>
     ParseGroup (APIVersion a) \<noteq> None \<and> ParseGroup (APIVersion b) \<noteq> None \<and>
     ParseGroup (APIVersion a) = ParseGroup (APIVersion b) \<and>
     RefKind a = RefKind b \<and> RefName a = RefName b"

fun upsertOwnerRef :: "OwnerReference \<Rightarrow> OwnerReference list \<Rightarrow> OwnerReference list" where
  "upsertOwnerRef ref [] = [ref]"
| "upsertOwnerRef ref (r # rs) = (if referSameObject r ref then ref # rs else r # upsertOwnerRef ref rs)"

definition GetControllerOf :: "OwnerReference list \<Rightarrow> OwnerReference option" where
  "GetControllerOf refs = find (\<lambda>r. IsController r = Some True) refs"

definition validateOwner :: "string \<Rightarrow> string \<Rightarrow> err option" where
  "validateOwner ownerNs objNs =
     (if ownerNs \<noteq> [] then
        (if objNs = [] then Some (ErrorString
           (''cluster-scoped resource must not have a namespace-scoped owner, owner's namespace '' @ ownerNs))
         else if ownerNs \<noteq> objNs then Some (ErrorString
           (''cross-namespace owner references are disallowed, owner's namespace '' @ ownerNs @
            '', obj's namespace '' @ objNs))
         else None)
      else None)"

text \<open>The reference to a managed cluster; its group, version and kind are those of the scheme.\<close>

definition controllerRef :: "ManagedCluster \<Rightarrow> OwnerReference" where
  "controllerRef owner = \<lparr>APIVersion = ''cluster.open-cluster-management.io/v1'', RefKind = ''ManagedCluster'',
     RefName = Name owner, UID = ObjUID owner, IsController = Some True, BlockOwnerDeletion = Some True\<rparr>"

definition SetControllerReference ::
  "ManagedCluster \<Rightarrow> 'a ObjectMeta_scheme \<Rightarrow> err + 'a ObjectMeta_scheme" where
  "SetControllerReference owner controlled =
     (case validateOwner (Namespace owner) (Namespace controlled) of
        Some e \<Rightarrow> Inl e
      | None \<Rightarrow>
          (let ref = controllerRef owner in
           case GetControllerOf (OwnerReferences controlled) of
             Some existing \<Rightarrow>
               if \<not> referSameObject existing ref
               then Inl (ErrorString (''Object '' @ Namespace controlled @ ''/'' @ Name controlled @
                      '' is already owned by another '' @ RefKind existing @ '' controller '' @ RefName existing))
               else Inr (controlled\<lparr>OwnerReferences := upsertOwnerRef ref (OwnerReferences controlled)\<rparr>)
           | None \<Rightarrow> Inr (controlled\<lparr>OwnerReferences := upsertOwnerRef ref (OwnerReferences controlled)\<rparr>)))"

text \<open>The reference set on an object of any kind; an object without metadata is an error.\<close>

fun own_obj :: "ManagedCluster \<Rightarrow> obj \<Rightarrow> err + obj" where
  "own_obj owner (ServiceAccountObj x) = map_sum id ServiceAccountObj (SetControllerReference owner x)"
| "own_obj owner (SecretObj x) = map_sum id SecretObj (SetControllerReference owner x)"
| "own_obj owner (NamespaceObj x) = map_sum id NamespaceObj (SetControllerReference owner x)"
| "own_obj owner (DeploymentObj x) = map_sum id DeploymentObj (SetControllerReference owner x)"
| "own_obj owner (ClusterRoleObj x) = map_sum id ClusterRoleObj (SetControllerReference owner x)"
| "own_obj owner (ClusterRoleBindingObj x) = map_sum id ClusterRoleBindingObj (SetControllerReference owner x)"
| "own_obj owner (CRDObj x) = map_sum id CRDObj (SetControllerReference owner x)"
| "own_obj owner (ManifestWorkObj x) = map_sum id ManifestWorkObj (SetControllerReference owner x)"
| "own_obj owner (KlusterletObj x) = map_sum id KlusterletObj (SetControllerReference owner x)"
| "own_obj owner (PriorityClassObj x) = map_sum id PriorityClassObj (SetControllerReference owner x)"
| "own_obj owner (NetworkPolicyObj x) = map_sum id NetworkPolicyObj (SetControllerReference owner x)"
| "own_obj owner (UnknownObj t (Some m)) =
     map_sum id (\<lambda>m'. UnknownObj t (Some m')) (SetControllerReference owner m)"
| "own_obj owner (UnknownObj t None) =
     Inl (ErrorString (t @ '' is not a metav1.Object, cannot call SetControllerReference''))"
| "own_obj owner NilObj =
     Inl (ErrorString ''<nil> is not a metav1.Object, cannot call SetControllerReference'')"

section \<open>Merging metadata\<close>

definition SetStringIfSet :: "bool \<Rightarrow> string \<Rightarrow> string \<Rightarrow> bool \<times> string" where
  "SetStringIfSet modified existing required =
     (if required = [] then (modified, existing)
      else if required \<noteq> existing then (True, required) else (modified, existing))"

definition ownerRefMatched :: "OwnerReference \<Rightarrow> OwnerReference \<Rightarrow> bool" where
  "ownerRefMatched existing required \<longleftrightarrow>
     RefName existing = RefName required \<and> RefKind existing = RefKind required \<and>
     ParseGroup (APIVersion existing) \<noteq> None \<and> ParseGroup (APIVersion required) \<noteq> None \<and>
     ParseGroup (APIVersion existing) = ParseGroup (APIVersion required)"

text \<open>One required reference against the existing ones: the first match is replaced or removed.\<close>

fun merge_owner_ref :: "OwnerReference \<Rightarrow> OwnerReference list \<Rightarrow> bool \<times> OwnerReference list" where
  "merge_owner_ref r [] = (if HasSuffix (UID r) ''-'' then (False, []) else (True, [r]))"
| "merge_owner_ref r (e # es) =
     (if ownerRefMatched r e then
        (if HasSuffix (UID r) ''-'' then (True, es)
         else if r \<noteq> e then (True, r # es) else (False, e # es))
      else (case merge_owner_ref r es of (m, es') \<Rightarrow> (m, e # es')))"

fun MergeOwnerRefs :: "bool \<Rightarrow> OwnerReference list \<Rightarrow> OwnerReference list \<Rightarrow> bool \<times> OwnerReference list" where
  "MergeOwnerRefs modified existing [] = (modified, existing)"
| "MergeOwnerRefs modified existing (r # required) =
     (case merge_owner_ref r existing of (m, existing') \<Rightarrow>
        MergeOwnerRefs (modified \<or> m) existing' required)"

text \<open>\<open>labels\<close> and \<open>annotations\<close> are the required ones in the order the loops visit them.\<close>

definition EnsureObjectMeta ::
  "(string \<times> string) list \<Rightarrow> (string \<times> string) list \<Rightarrow>
   bool \<Rightarrow> 'a ObjectMeta_scheme \<Rightarrow> 'b ObjectMeta_scheme \<Rightarrow> bool \<times> 'a ObjectMeta_scheme" where
  "EnsureObjectMeta labels annotations modified existing required = (
     let (m1, ns) = SetStringIfSet modified (Namespace existing) (Namespace required);
         (m2, n) = SetStringIfSet m1 (Name existing) (Name required);
         (m3, ls) = MergeMap m2 (Labels existing) labels;
         (m4, as) = MergeMap m3 (Annotations existing) annotations;
         (m5, os) = MergeOwnerRefs m4 (OwnerReferences existing) (OwnerReferences required)
     in (m5, existing\<lparr>Namespace := ns, Name := n, Labels := ls, Annotations := as, OwnerReferences := os\<rparr>))"

section \<open>Comparing manifests\<close>

definition ManifestsEqual :: "string list \<Rightarrow> string list \<Rightarrow> bool" where
  "ManifestsEqual new old \<longleftrightarrow> length new = length old \<and> list_all (\<lambda>(a, b). a = b) (zip new old)"

definition ManifestConfigsEqual :: "ManifestConfigOption list \<Rightarrow> ManifestConfigOption list \<Rightarrow> bool" where
  "ManifestConfigsEqual new old \<longleftrightarrow> length new = length old \<and> list_all (\<lambda>(a, b). a = b) (zip new old)"

lemma zip_equal_iff: "length xs = length ys \<and> list_all (\<lambda>(a, b). a = b) (zip xs ys) \<longleftrightarrow> xs = ys"
proof
  assume *: "length xs = length ys \<and> list_all (\<lambda>(a, b). a = b) (zip xs ys)"
  then have "\<forall>i < length xs. xs ! i = ys ! i" by (auto simp: list_all_length)
  with * show "xs = ys" by (simp add: nth_equalityI)
qed (auto simp: list_all_length)

lemma ManifestsEqual_iff [simp]: "ManifestsEqual xs ys \<longleftrightarrow> xs = ys"
  by (simp add: ManifestsEqual_def zip_equal_iff)

lemma ManifestConfigsEqual_iff [simp]: "ManifestConfigsEqual xs ys \<longleftrightarrow> xs = ys"
  by (simp add: ManifestConfigsEqual_def zip_equal_iff)

section \<open>Applying one object\<close>

definition reportEvent :: "'a ObjectMeta_scheme \<Rightarrow> string \<Rightarrow> string \<Rightarrow> string \<Rightarrow> call" where
  "reportEvent metaObj objKind title action =
     Event (objKind @ title)
       ((if length (Namespace metaObj) \<noteq> 0 then Namespace metaObj @ ''/'' @ Name metaObj else Name metaObj)
        @ '' is '' @ action)"

definition applyDeployment :: "server \<Rightarrow> holder \<Rightarrow> Deployment \<Rightarrow> (call, bool \<times> err option) prog" where
  "applyDeployment srv cl required = do {
     r \<leftarrow> api_GetDeployment srv cl (Namespace required) (Name required);
     case r of
       Inl e \<Rightarrow> if IsNotFound e then api_ResourceApply srv cl (DeploymentObj required) (- 1)
                else return (False, Some e)
     | Inr existing \<Rightarrow> api_ResourceApply srv cl (DeploymentObj required) (Generation existing) }"

definition applyKlusterlet :: "server \<Rightarrow> holder \<Rightarrow> SpecObj \<Rightarrow> (call, bool \<times> err option) prog" where
  "applyKlusterlet srv cl required = do {
     r \<leftarrow> api_GetKlusterlet srv cl (Name required);
     case r of
       Inl e \<Rightarrow>
         if IsNotFound e then do {
           c \<leftarrow> api_write srv (CreateKlusterlet cl required);
           case c of
             Some e' \<Rightarrow> return (False, Some e')
           | None \<Rightarrow> do {
               emit (reportEvent required ''Klusterlet'' ''Created'' ''created'');
               return (True, None) } }
         else return (False, Some e)
     | Inr existing \<Rightarrow>
         if Spec existing = Spec required then return (False, None)
         else do {
           u \<leftarrow> api_write srv (UpdateKlusterlet cl (existing\<lparr>Spec := Spec required\<rparr>));
           case u of
             Some e' \<Rightarrow> return (False, Some e')
           | None \<Rightarrow> do {
               emit (reportEvent required ''Klusterlet'' ''Updated'' ''updated'');
               return (True, None) } } }"

definition applyManifestWork :: "server \<Rightarrow> ManifestWork \<Rightarrow> (call, bool \<times> err option) prog" where
  "applyManifestWork srv required = do {
     r \<leftarrow> api_GetManifestWork srv (Namespace required) (Name required);
     case r of
       Inl e \<Rightarrow>
         if IsNotFound e then do {
           c \<leftarrow> api_write srv (CreateManifestWork required);
           case c of
             Some e' \<Rightarrow> return (False, Some e')
           | None \<Rightarrow> do {
               emit (reportEvent required ''ManifestWork'' ''Created'' ''created'');
               return (True, None) } }
         else return (False, Some e)
     | Inr existing \<Rightarrow> do {
         ls \<leftarrow> peek (\<lambda>h. on_range srv h (Labels required));
         as \<leftarrow> peek (\<lambda>h. on_range srv h (Annotations required));
         let (modified, existing') = EnsureObjectMeta ls as False existing required;
         let modified' = (modified \<or> \<not> ManifestsEqual (Manifests existing) (Manifests required) \<or>
           \<not> ManifestConfigsEqual (ManifestConfigs existing) (ManifestConfigs required));
         if \<not> modified' then return (False, None)
         else do {
           u \<leftarrow> api_write srv (UpdateManifestWork (existing'\<lparr>Manifests := Manifests required,
                  ManifestConfigs := ManifestConfigs required, DeleteOption := DeleteOption required\<rparr>));
           case u of
             Some e' \<Rightarrow> return (False, Some e')
           | None \<Rightarrow> do {
               emit (reportEvent required ''ManifestWork'' ''Updated'' ''updated'');
               return (True, None) } } } }"

definition applyPriorityClass :: "server \<Rightarrow> holder \<Rightarrow> PriorityClass \<Rightarrow> (call, bool \<times> err option) prog" where
  "applyPriorityClass srv cl required = do {
     r \<leftarrow> api_GetPriorityClass srv cl (Name required);
     case r of
       Inl e \<Rightarrow>
         if IsNotFound e then do {
           c \<leftarrow> api_write srv (CreatePriorityClass cl required);
           case c of
             Some e' \<Rightarrow> return (False, Some e')
           | None \<Rightarrow> do {
               emit (reportEvent required ''PriorityClass'' ''Created'' ''created'');
               return (True, None) } }
         else return (False, Some e)
     | Inr existing \<Rightarrow>
         if Value existing = Value required \<and> GlobalDefault existing = GlobalDefault required \<and>
            Description existing = Description required \<and>
            PreemptionPolicy existing = PreemptionPolicy required then return (False, None)
         else do {
           u \<leftarrow> api_write srv (UpdatePriorityClass cl (existing\<lparr>Value := Value required,
                  GlobalDefault := GlobalDefault required, Description := Description required,
                  PreemptionPolicy := PreemptionPolicy required\<rparr>));
           case u of
             Some e' \<Rightarrow> return (False, Some e')
           | None \<Rightarrow> do {
               emit (reportEvent required ''PriorityClass'' ''Updated'' ''updated'');
               return (True, None) } } }"

definition applyNetworkPolicy :: "server \<Rightarrow> holder \<Rightarrow> SpecObj \<Rightarrow> (call, bool \<times> err option) prog" where
  "applyNetworkPolicy srv cl required = do {
     r \<leftarrow> api_GetNetworkPolicy srv cl (Namespace required) (Name required);
     case r of
       Inl e \<Rightarrow>
         if IsNotFound e then do {
           c \<leftarrow> api_write srv (CreateNetworkPolicy cl required);
           case c of
             Some e' \<Rightarrow> return (False, Some e')
           | None \<Rightarrow> do {
               emit (reportEvent required ''NetworkPolicy'' ''Created'' ''created'');
               return (True, None) } }
         else return (False, Some e)
     | Inr existing \<Rightarrow>
         if Spec existing = Spec required then return (False, None)
         else do {
           u \<leftarrow> api_write srv (UpdateNetworkPolicy cl (existing\<lparr>Spec := Spec required\<rparr>));
           case u of
             Some e' \<Rightarrow> return (False, Some e')
           | None \<Rightarrow> do {
               emit (reportEvent required ''NetworkPolicy'' ''Updated'' ''updated'');
               return (True, None) } } }"

section \<open>Applying a list of objects\<close>

fun apply_obj :: "server \<Rightarrow> holder \<Rightarrow> obj \<Rightarrow> (call, bool \<times> err option) prog" where
  "apply_obj srv cl (ServiceAccountObj x) = api_ResourceApply srv cl (ServiceAccountObj x) 0"
| "apply_obj srv cl (SecretObj x) = api_ResourceApply srv cl (SecretObj x) 0"
| "apply_obj srv cl (NamespaceObj x) = api_ResourceApply srv cl (NamespaceObj x) 0"
| "apply_obj srv cl (DeploymentObj x) = applyDeployment srv cl x"
| "apply_obj srv cl (ClusterRoleObj x) = api_ResourceApply srv cl (ClusterRoleObj x) 0"
| "apply_obj srv cl (ClusterRoleBindingObj x) = api_ResourceApply srv cl (ClusterRoleBindingObj x) 0"
| "apply_obj srv cl (CRDObj x) = api_ResourceApply srv cl (CRDObj x) 0"
| "apply_obj srv cl (ManifestWorkObj x) = applyManifestWork srv x"
| "apply_obj srv cl (KlusterletObj x) = applyKlusterlet srv cl x"
| "apply_obj srv cl (PriorityClassObj x) = applyPriorityClass srv cl x"
| "apply_obj srv cl (NetworkPolicyObj x) = applyNetworkPolicy srv cl x"
| "apply_obj srv cl (UnknownObj t m) = return (False, Some (ErrorString (''unknown type '' @ t)))"
| "apply_obj srv cl NilObj = return (False, Some (ErrorString ''unknown type <nil>''))"

fun apply_objs ::
  "server \<Rightarrow> holder \<Rightarrow> ManagedCluster option \<Rightarrow> obj list \<Rightarrow> bool \<Rightarrow> err option list \<Rightarrow>
   (call, bool \<times> err option) prog" where
  "apply_objs srv cl owner [] changed errs = return (changed, NewAggregate errs)"
| "apply_objs srv cl owner (obj # objs) changed errs =
     (case (case owner of None \<Rightarrow> Inr obj | Some o' \<Rightarrow> own_obj o' obj) of
        Inl e \<Rightarrow> apply_objs srv cl owner objs changed (errs @ [Some e])
      | Inr required \<Rightarrow> do {
          (modified, e) \<leftarrow> apply_obj srv cl required;
          apply_objs srv cl owner objs (changed \<or> modified) (errs @ [e]) })"

definition ApplyResources ::
  "server \<Rightarrow> holder \<Rightarrow> ManagedCluster option \<Rightarrow> obj list \<Rightarrow> (call, bool \<times> err option) prog" where
  "ApplyResources srv cl owner objs = apply_objs srv cl owner objs False []"

section \<open>Which requests are made\<close>

text \<open>The writes of \<open>ApplyResources\<close> with the clients \<open>cl\<close>; manifest works go to the hub.\<close>

fun apply_write :: "holder \<Rightarrow> request \<Rightarrow> bool" where
  "apply_write cl (CreateKlusterlet c x) = (c = cl)"
| "apply_write cl (UpdateKlusterlet c x) = (c = cl)"
| "apply_write cl (CreatePriorityClass c x) = (c = cl)"
| "apply_write cl (UpdatePriorityClass c x) = (c = cl)"
| "apply_write cl (CreateNetworkPolicy c x) = (c = cl)"
| "apply_write cl (UpdateNetworkPolicy c x) = (c = cl)"
| "apply_write cl (ResourceApply c x g) = (c = cl)"
| "apply_write cl (CreateManifestWork w) = True"
| "apply_write cl (UpdateManifestWork w) = True"
| "apply_write cl _ = False"

fun apply_call :: "holder \<Rightarrow> call \<Rightarrow> bool" where
  "apply_call cl (Read q) = True"
| "apply_call cl (Write w) = apply_write cl w"
| "apply_call cl (Event r m) = True"
| "apply_call cl _ = False"

lemma apply_call_reportEvent [simp]: "apply_call cl (reportEvent m k t a)"
  by (simp add: reportEvent_def)

lemma calls_apply_obj: "calls_only (apply_call cl) (apply_obj srv cl obj)"
  by (cases obj) (auto intro!: calls_intros simp: applyDeployment_def applyManifestWork_def
      applyKlusterlet_def applyPriorityClass_def applyNetworkPolicy_def Let_def)

lemma calls_apply_objs: "calls_only (apply_call cl) (apply_objs srv cl owner objs changed errs)"
  by (induction objs arbitrary: changed errs) (auto intro!: calls_intros calls_apply_obj)

lemma calls_ApplyResources: "calls_only (apply_call cl) (ApplyResources srv cl owner objs)"
  unfolding ApplyResources_def by (rule calls_apply_objs)

section \<open>The contract of the comparing routines\<close>

text \<open>
  \<open>get\<close> is the server's answer to the first read; \<open>merged\<close> is nothing when the existing object is
  as required, and otherwise the object that is sent in the update. The law \<open>wp_apply\<close> says
  which calls are made and what is returned on every branch; the other laws say that what was
  created or merged needs no further update (for required objects that are \<open>ok\<close>).
\<close>

locale applier =
  fixes applyf :: "server \<Rightarrow> holder \<Rightarrow> 'o \<Rightarrow> (call, bool \<times> err option) prog"
    and get :: "server \<Rightarrow> call list \<Rightarrow> holder \<Rightarrow> 'o \<Rightarrow> err + 'o"
    and get_query :: "holder \<Rightarrow> 'o \<Rightarrow> query"
    and create :: "holder \<Rightarrow> 'o \<Rightarrow> request"
    and update :: "holder \<Rightarrow> 'o \<Rightarrow> request"
    and merged :: "server \<Rightarrow> call list \<Rightarrow> 'o \<Rightarrow> 'o \<Rightarrow> 'o option"
    and event :: "bool \<Rightarrow> 'o \<Rightarrow> call"
    and ok :: "server \<Rightarrow> 'o \<Rightarrow> bool"
  assumes wp_apply: "wp (applyf srv cl req) Q h =
      (let send = (\<lambda>w new.
         (case on_write srv (h @ [Read (get_query cl req)]) w of
            Some e \<Rightarrow> Q (False, Some e) (h @ [Read (get_query cl req), Write w])
          | None \<Rightarrow> Q (True, None) (h @ [Read (get_query cl req), Write w, event new req]))) in
       case get srv h cl req of
         Inl e \<Rightarrow> if IsNotFound e then send (create cl req) True
                  else Q (False, Some e) (h @ [Read (get_query cl req)])
       | Inr existing \<Rightarrow>
           (case merged srv (h @ [Read (get_query cl req)]) existing req of
              None \<Rightarrow> Q (False, None) (h @ [Read (get_query cl req)])
            | Some new \<Rightarrow> send (update cl new) False))"
    and event_no_write: "\<not> is_write (event fresh req)"
    and requests_differ: "create cl a = create cl b \<longleftrightarrow> a = b" "update cl a = update cl b \<longleftrightarrow> a = b"
      "create cl a \<noteq> update cl b"
    and created_stable: "ok srv req \<Longrightarrow> merged srv h req req = None"
    and merged_stable:
      "\<lbrakk>ok srv req; merged srv h existing req = Some new\<rbrakk> \<Longrightarrow> merged srv h new req = None"
    and order_irrelevant: "\<lbrakk>ok srv req; merged srv h existing req = None\<rbrakk> \<Longrightarrow> merged srv g existing req = None"
begin

lemma apply_writes:
  "wp (applyf srv cl req) (\<lambda>(modified, e) h'.
     length (filter is_write (drop (length h) h')) \<le> 1 \<and>
     (modified \<longleftrightarrow> e = None \<and> filter is_write (drop (length h) h') \<noteq> [])) h"
  unfolding wp_apply Let_def by (auto simp: event_no_write split: sum.splits option.splits)

lemma apply_modified:
  assumes "result (applyf srv cl req) h = (True, e)"
  shows "e = None \<and> (\<exists>w. filter is_write (new_calls (applyf srv cl req) h) = [Write w])"
proof -
  have "wp (applyf srv cl req) (\<lambda>r h'. r = (True, e) \<longrightarrow>
      e = None \<and> (\<exists>w. filter is_write (drop (length h) h') = [Write w])) h"
    unfolding wp_apply Let_def by (auto simp: event_no_write split: sum.splits option.splits)
  with assms show ?thesis by (simp add: wp_run result_def new_calls_def)
qed

text \<open>A second run after a successful one finds what it wrote, and makes no write.\<close>

lemma converges:
  assumes ok: "ok srv req"
    and first: "result (applyf srv cl req) h = (changed, None)"
    and created: "Write (create cl req) \<in> set (new_calls (applyf srv cl req) h) \<Longrightarrow>
      get srv h' cl req = Inr req"
    and updated: "\<And>new. Write (update cl new) \<in> set (new_calls (applyf srv cl req) h) \<Longrightarrow>
      get srv h' cl req = Inr new"
    and unchanged: "filter is_write (new_calls (applyf srv cl req) h) = [] \<Longrightarrow>
      get srv h' cl req = get srv h cl req"
  shows "new_calls (applyf srv cl req) h' = [Read (get_query cl req)]"
    and "result (applyf srv cl req) h' = (False, None)"
proof -
  have "\<exists>x. get srv h' cl req = Inr x \<and> (\<forall>b. merged srv b x req = None)"
  proof -
    have "wp (applyf srv cl req) (\<lambda>r g. (r = (changed, None) \<and>
        (Write (create cl req) \<in> set (drop (length h) g) \<longrightarrow> get srv h' cl req = Inr req) \<and>
        (\<forall>new. Write (update cl new) \<in> set (drop (length h) g) \<longrightarrow> get srv h' cl req = Inr new) \<and>
        (filter is_write (drop (length h) g) = [] \<longrightarrow> get srv h' cl req = get srv h cl req)) \<longrightarrow>
        (\<exists>x. get srv h' cl req = Inr x \<and> (\<exists>b. merged srv b x req = None))) h"
      unfolding wp_apply Let_def
      using created_stable [OF ok] merged_stable [OF ok]
      by (auto simp: event_no_write requests_differ split: sum.splits option.splits) blast+
    with first created updated unchanged have "\<exists>x. get srv h' cl req = Inr x \<and> (\<exists>b. merged srv b x req = None)"
      by (auto simp: wp_run result_def new_calls_def)
    then show ?thesis using order_irrelevant [OF ok] by blast
  qed
  then have "wp (applyf srv cl req) (\<lambda>r g. r = (False, None) \<and> drop (length h') g = [Read (get_query cl req)]) h'"
    unfolding wp_apply Let_def by auto
  then show "new_calls (applyf srv cl req) h' = [Read (get_query cl req)]"
    and "result (applyf srv cl req) h' = (False, None)"
    by (simp_all add: wp_run result_def new_calls_def)
qed

end

section \<open>What was merged needs no further merge\<close>

definition ref_key :: "OwnerReference \<Rightarrow> string \<times> string \<times> string option" where
  "ref_key r = (RefName r, RefKind r, ParseGroup (APIVersion r))"

lemma ownerRefMatched_iff:
  "ownerRefMatched a b \<longleftrightarrow> ref_key a = ref_key b \<and> ParseGroup (APIVersion b) \<noteq> None"
  by (auto simp: ownerRefMatched_def ref_key_def)

definition plain_refs :: "OwnerReference list \<Rightarrow> bool" where
  "plain_refs refs \<longleftrightarrow> distinct (map ref_key refs) \<and>
     list_all (\<lambda>r. \<not> HasSuffix (UID r) ''-'' \<and> ParseGroup (APIVersion r) \<noteq> None) refs"

definition plain_keys :: "smap \<Rightarrow> bool" where
  "plain_keys m \<longleftrightarrow> (\<forall>k. haskey m k \<longrightarrow> \<not> HasSuffix k ''-'')"

lemma merge_owner_ref_unmodified:
  "\<not> HasSuffix (UID r) ''-'' \<Longrightarrow>
   merge_owner_ref r es = (False, es') \<longleftrightarrow> es' = es \<and> find (ownerRefMatched r) es = Some r"
proof (induction es arbitrary: es')
  case (Cons e es)
  then show ?case by (cases "merge_owner_ref r es"; cases "fst (merge_owner_ref r es)") auto
qed simp

lemma merge_owner_ref_found:
  "\<lbrakk>\<not> HasSuffix (UID r) ''-''; ParseGroup (APIVersion r) \<noteq> None\<rbrakk> \<Longrightarrow>
   find (ownerRefMatched r) (snd (merge_owner_ref r es)) = Some r"
  by (induction es) (auto simp: ownerRefMatched_iff split: prod.splits)

lemma merge_owner_ref_other:
  "\<lbrakk>\<not> HasSuffix (UID r) ''-''; ref_key r \<noteq> ref_key q\<rbrakk> \<Longrightarrow>
   find (ownerRefMatched q) (snd (merge_owner_ref r es)) = find (ownerRefMatched q) es"
  by (induction es) (auto simp: ownerRefMatched_iff split: prod.splits)

lemma MergeOwnerRefs_unmodified:
  assumes "list_all (\<lambda>r. \<not> HasSuffix (UID r) ''-'') required"
  shows "MergeOwnerRefs m es required = (False, es') \<longleftrightarrow>
    \<not> m \<and> es' = es \<and> list_all (\<lambda>r. find (ownerRefMatched r) es = Some r) required"
  using assms
proof (induction required arbitrary: m es)
  case (Cons r required)
  obtain n es1 where 1: "merge_owner_ref r es = (n, es1)" by (cases "merge_owner_ref r es")
  show ?case
  proof (cases n)
    case True
    then have "\<not> (find (ownerRefMatched r) es = Some r)"
      using 1 merge_owner_ref_unmodified [of r es es] Cons.prems by auto
    with 1 True Cons show ?thesis by simp
  next
    case False
    then have "es1 = es" and "find (ownerRefMatched r) es = Some r"
      using 1 merge_owner_ref_unmodified [of r es es1] Cons.prems by auto
    with 1 False Cons show ?thesis by simp
  qed
qed auto

lemma MergeOwnerRefs_keeps:
  assumes "list_all (\<lambda>r. \<not> HasSuffix (UID r) ''-'') required" and "ref_key q \<notin> ref_key ` set required"
  shows "find (ownerRefMatched q) (snd (MergeOwnerRefs m es required)) = find (ownerRefMatched q) es"
  using assms
proof (induction required arbitrary: m es)
  case (Cons r required)
  then have "find (ownerRefMatched q) (snd (merge_owner_ref r es)) = find (ownerRefMatched q) es"
    using merge_owner_ref_other by auto
  with Cons show ?case by (auto split: prod.splits)
qed simp

lemma MergeOwnerRefs_found:
  assumes "plain_refs required" and "r \<in> set required"
  shows "find (ownerRefMatched r) (snd (MergeOwnerRefs m es required)) = Some r"
  using assms
proof (induction required arbitrary: m es)
  case (Cons q required)
  obtain n es1 where 1: "merge_owner_ref q es = (n, es1)" by (cases "merge_owner_ref q es")
  show ?case
  proof (cases "r = q")
    case True
    have "find (ownerRefMatched q) es1 = Some q"
      using merge_owner_ref_found [of q es] 1 Cons.prems by (simp add: plain_refs_def)
    moreover have "ref_key q \<notin> ref_key ` set required"
        and "list_all (\<lambda>r. \<not> HasSuffix (UID r) ''-'') required"
      using Cons.prems by (auto simp: plain_refs_def list_all_iff)
    ultimately show ?thesis using True 1 MergeOwnerRefs_keeps by simp
  next
    case False
    with Cons 1 show ?thesis by (simp add: plain_refs_def)
  qed
qed simp

lemma MergeOwnerRefs_stable:
  assumes "plain_refs required"
  shows "MergeOwnerRefs False (snd (MergeOwnerRefs m es required)) required =
    (False, snd (MergeOwnerRefs m es required))"
  using assms MergeOwnerRefs_found [OF assms]
    MergeOwnerRefs_unmodified [of required False "snd (MergeOwnerRefs m es required)"]
  by (simp add: plain_refs_def list_all_iff)

lemma MergeOwnerRefs_self:
  assumes "plain_refs refs"
  shows "MergeOwnerRefs False refs refs = (False, refs)"
proof -
  have "find (ownerRefMatched r) rs = Some r" if "r \<in> set rs" "plain_refs rs" for r rs
    using that by (induction rs) (auto simp: plain_refs_def ownerRefMatched_iff image_iff)
  then show ?thesis
    using assms MergeOwnerRefs_unmodified [of refs False refs refs] by (auto simp: plain_refs_def list_all_iff)
qed

lemma MergeMap_unmodified_iff:
  assumes "\<forall>p \<in> set required. \<not> HasSuffix (fst p) ''-''" and "distinct (map fst required)"
  shows "\<not> fst (MergeMap m existing required) \<longleftrightarrow>
    \<not> m \<and> (\<forall>(k, v) \<in> set required. fmlookup existing k = Some v)"
  using assms
proof (induction required arbitrary: m existing)
  case (Cons p required)
  obtain k v where [simp]: "p = (k, v)" by (cases p)
  have "\<not> (fmlookup existing k \<noteq> Some v \<and> \<not> fst (MergeMap True (fmupd k v existing) required))"
    using MergeMap_modified by simp
  with Cons show ?case by auto
qed simp

lemma range_plain:
  assumes "visits_once srv" and "plain_keys m"
  shows "\<forall>p \<in> set (on_range srv h m). \<not> HasSuffix (fst p) ''-''"
    and "distinct (map fst (on_range srv h m))"
    and "map_of (on_range srv h m) = fmlookup m"
    and "(k, v) \<in> set (on_range srv h m) \<longleftrightarrow> fmlookup m k = Some v"
proof -
  show d: "distinct (map fst (on_range srv h m))" using assms(1) by (simp add: visits_once_def)
  have "fmap_of_list (on_range srv h m) = m" using assms(1) by (simp add: visits_once_def)
  then show l: "map_of (on_range srv h m) = fmlookup m" by (metis fmap_of_list.rep_eq)
  with d show "(k, v) \<in> set (on_range srv h m) \<longleftrightarrow> fmlookup m k = Some v" for k v
    by (metis map_of_eq_Some_iff)
  with assms(2) show "\<forall>p \<in> set (on_range srv h m). \<not> HasSuffix (fst p) ''-''"
    by (auto simp: plain_keys_def haskey_def)
qed

lemma MergeMap_range:
  assumes "visits_once srv" and "plain_keys m"
  shows "\<not> fst (MergeMap b existing (on_range srv h m)) \<longleftrightarrow>
      \<not> b \<and> (\<forall>k v. fmlookup m k = Some v \<longrightarrow> fmlookup existing k = Some v)"
    and "snd (MergeMap b existing (on_range srv h m)) = existing ++\<^sub>f m"
proof -
  note r = range_plain [OF assms]
  show "\<not> fst (MergeMap b existing (on_range srv h m)) \<longleftrightarrow>
      \<not> b \<and> (\<forall>k v. fmlookup m k = Some v \<longrightarrow> fmlookup existing k = Some v)"
    unfolding MergeMap_unmodified_iff [OF r(1,2)] using r(4) by blast
  show "snd (MergeMap b existing (on_range srv h m)) = existing ++\<^sub>f m"
    using MergeMap_lookup [OF r(1,2)] r(3)
    by (auto intro!: fmap_ext simp del: fmlookup_add simp: fmadd.rep_eq map_add_def)
qed

section \<open>The four routines meet the contract\<close>

definition spec_merged :: "server \<Rightarrow> call list \<Rightarrow> SpecObj \<Rightarrow> SpecObj \<Rightarrow> SpecObj option" where
  "spec_merged srv h existing req =
     (if Spec existing = Spec req then None else Some (existing\<lparr>Spec := Spec req\<rparr>))"

definition priority_merged ::
  "server \<Rightarrow> call list \<Rightarrow> PriorityClass \<Rightarrow> PriorityClass \<Rightarrow> PriorityClass option" where
  "priority_merged srv h existing req =
     (if Value existing = Value req \<and> GlobalDefault existing = GlobalDefault req \<and>
         Description existing = Description req \<and> PreemptionPolicy existing = PreemptionPolicy req
      then None
      else Some (existing\<lparr>Value := Value req, GlobalDefault := GlobalDefault req,
        Description := Description req, PreemptionPolicy := PreemptionPolicy req\<rparr>))"

definition work_merged ::
  "server \<Rightarrow> call list \<Rightarrow> ManifestWork \<Rightarrow> ManifestWork \<Rightarrow> ManifestWork option" where
  "work_merged srv h existing req = (
     let (modified, existing') = EnsureObjectMeta (on_range srv h (Labels req))
           (on_range srv h (Annotations req)) False existing req in
     if \<not> modified \<and> Manifests existing = Manifests req \<and> ManifestConfigs existing = ManifestConfigs req
     then None
     else Some (existing'\<lparr>Manifests := Manifests req, ManifestConfigs := ManifestConfigs req,
       DeleteOption := DeleteOption req\<rparr>))"

definition plain_work :: "server \<Rightarrow> ManifestWork \<Rightarrow> bool" where
  "plain_work srv req \<longleftrightarrow> visits_once srv \<and> plain_keys (Labels req) \<and> plain_keys (Annotations req) \<and>
     plain_refs (OwnerReferences req)"

definition apply_event :: "string \<Rightarrow> bool \<Rightarrow> 'a ObjectMeta_scheme \<Rightarrow> call" where
  "apply_event kind fresh req = (if fresh then reportEvent req kind ''Created'' ''created''
     else reportEvent req kind ''Updated'' ''updated'')"

lemma reportEvent_no_write [simp]: "\<not> is_write (reportEvent req kind title action)"
  by (simp add: reportEvent_def)

interpretation klusterlet: applier applyKlusterlet "\<lambda>srv h cl req. on_GetKlusterlet srv h cl (Name req)"
  "\<lambda>cl req. GetKlusterlet cl (Name req)" CreateKlusterlet UpdateKlusterlet spec_merged
  "apply_event ''Klusterlet''" "\<lambda>_ _. True"
  by unfold_locales (auto simp: applyKlusterlet_def wp_simps spec_merged_def apply_event_def
      Let_def split: sum.splits option.splits if_splits)

interpretation networkpolicy: applier applyNetworkPolicy
  "\<lambda>srv h cl req. on_GetNetworkPolicy srv h cl (Namespace req) (Name req)"
  "\<lambda>cl req. GetNetworkPolicy cl (Namespace req) (Name req)" CreateNetworkPolicy UpdateNetworkPolicy
  spec_merged "apply_event ''NetworkPolicy''" "\<lambda>_ _. True"
  by unfold_locales (auto simp: applyNetworkPolicy_def wp_simps spec_merged_def apply_event_def
      Let_def split: sum.splits option.splits if_splits)

interpretation priorityclass: applier applyPriorityClass "\<lambda>srv h cl req. on_GetPriorityClass srv h cl (Name req)"
  "\<lambda>cl req. GetPriorityClass cl (Name req)" CreatePriorityClass UpdatePriorityClass priority_merged
  "apply_event ''PriorityClass''" "\<lambda>_ _. True"
  by unfold_locales (auto simp: applyPriorityClass_def wp_simps priority_merged_def apply_event_def
      Let_def split: sum.splits option.splits if_splits)

text \<open>For a manifest work: when its metadata is as required, and the merged metadata.\<close>

definition meta_current :: "'a ObjectMeta_scheme \<Rightarrow> 'b ObjectMeta_scheme \<Rightarrow> bool" where
  "meta_current ex req \<longleftrightarrow>
     (Namespace req = [] \<or> Namespace req = Namespace ex) \<and> (Name req = [] \<or> Name req = Name ex) \<and>
     (\<forall>k v. fmlookup (Labels req) k = Some v \<longrightarrow> fmlookup (Labels ex) k = Some v) \<and>
     (\<forall>k v. fmlookup (Annotations req) k = Some v \<longrightarrow> fmlookup (Annotations ex) k = Some v) \<and>
     MergeOwnerRefs False (OwnerReferences ex) (OwnerReferences req) = (False, OwnerReferences ex)"

definition meta_merge :: "'a ObjectMeta_scheme \<Rightarrow> 'b ObjectMeta_scheme \<Rightarrow> 'a ObjectMeta_scheme" where
  "meta_merge ex req = ex\<lparr>Namespace := (if Namespace req = [] then Namespace ex else Namespace req),
     Name := (if Name req = [] then Name ex else Name req),
     Labels := Labels ex ++\<^sub>f Labels req, Annotations := Annotations ex ++\<^sub>f Annotations req,
     OwnerReferences := snd (MergeOwnerRefs False (OwnerReferences ex) (OwnerReferences req))\<rparr>"

lemma MergeOwnerRefs_flag:
  "MergeOwnerRefs m es required =
     (m \<or> fst (MergeOwnerRefs False es required), snd (MergeOwnerRefs False es required))"
proof (induction required arbitrary: m es)
  case (Cons r required)
  obtain n es1 where 1: "merge_owner_ref r es = (n, es1)" by (cases "merge_owner_ref r es")
  show ?case using Cons [of "m \<or> n" es1] Cons [of n es1] 1 by simp
qed simp

lemma MergeOwnerRefs_fst:
  assumes "plain_refs required"
  shows "\<not> fst (MergeOwnerRefs False es required) \<longleftrightarrow> MergeOwnerRefs False es required = (False, es)"
  using assms MergeOwnerRefs_unmodified [of required False es "snd (MergeOwnerRefs False es required)"]
  by (cases "MergeOwnerRefs False es required") (auto simp: plain_refs_def list_all_iff)

lemma EnsureObjectMeta_plain:
  assumes v: "visits_once srv" and l: "plain_keys (Labels req)" and a: "plain_keys (Annotations req)"
    and o: "plain_refs (OwnerReferences req)"
  shows "EnsureObjectMeta (on_range srv h (Labels req)) (on_range srv g (Annotations req)) False ex req =
    (\<not> meta_current ex req, meta_merge ex req)"
proof -
  obtain m1 ns where 1: "SetStringIfSet False (Namespace ex) (Namespace req) = (m1, ns)" by fastforce
  obtain m2 n where 2: "SetStringIfSet m1 (Name ex) (Name req) = (m2, n)" by fastforce
  obtain m3 ls where 3: "MergeMap m2 (Labels ex) (on_range srv h (Labels req)) = (m3, ls)" by fastforce
  obtain m4 as where 4: "MergeMap m3 (Annotations ex) (on_range srv g (Annotations req)) = (m4, as)"
    by fastforce
  have b1: "\<not> m1 \<longleftrightarrow> Namespace req = [] \<or> Namespace req = Namespace ex"
    and c1: "ns = (if Namespace req = [] then Namespace ex else Namespace req)"
    using 1 by (auto simp: SetStringIfSet_def split: if_splits)
  have b2: "\<not> m2 \<longleftrightarrow> \<not> m1 \<and> (Name req = [] \<or> Name req = Name ex)"
    and c2: "n = (if Name req = [] then Name ex else Name req)"
    using 2 by (auto simp: SetStringIfSet_def split: if_splits)
  have b3: "\<not> m3 \<longleftrightarrow> \<not> m2 \<and> (\<forall>k v. fmlookup (Labels req) k = Some v \<longrightarrow> fmlookup (Labels ex) k = Some v)"
    and c3: "ls = Labels ex ++\<^sub>f Labels req"
    using MergeMap_range [OF v l, of m2 "Labels ex" h] 3 by auto
  have b4: "\<not> m4 \<longleftrightarrow> \<not> m3 \<and>
      (\<forall>k v. fmlookup (Annotations req) k = Some v \<longrightarrow> fmlookup (Annotations ex) k = Some v)"
    and c4: "as = Annotations ex ++\<^sub>f Annotations req"
    using MergeMap_range [OF v a, of m3 "Annotations ex" g] 4 by auto
  have "EnsureObjectMeta (on_range srv h (Labels req)) (on_range srv g (Annotations req)) False ex req =
    (m4 \<or> fst (MergeOwnerRefs False (OwnerReferences ex) (OwnerReferences req)), meta_merge ex req)"
    by (subst EnsureObjectMeta_def, subst MergeOwnerRefs_flag)
      (simp add: 1 2 3 4 c1 c2 c3 c4 meta_merge_def)
  moreover have "meta_current ex req \<longleftrightarrow>
      \<not> m4 \<and> \<not> fst (MergeOwnerRefs False (OwnerReferences ex) (OwnerReferences req))"
    unfolding meta_current_def MergeOwnerRefs_fst [OF o] using b1 b2 b3 b4 by auto
  ultimately show ?thesis by simp
qed

lemma work_merged_plain:
  assumes "plain_work srv req"
  shows "work_merged srv h existing req =
    (if meta_current existing req \<and> Manifests existing = Manifests req \<and>
        ManifestConfigs existing = ManifestConfigs req then None
     else Some ((meta_merge existing req)\<lparr>Manifests := Manifests req,
       ManifestConfigs := ManifestConfigs req, DeleteOption := DeleteOption req\<rparr>))"
  using assms by (auto simp: work_merged_def plain_work_def EnsureObjectMeta_plain)

lemma meta_current_merge:
  "plain_refs (OwnerReferences req) \<Longrightarrow>
   meta_current ((meta_merge ex req)\<lparr>Manifests := a, ManifestConfigs := b, DeleteOption := c\<rparr>) req"
  by (auto simp: meta_current_def meta_merge_def MergeOwnerRefs_stable dest: fmdomI)

interpretation work: applier "\<lambda>srv _. applyManifestWork srv"
  "\<lambda>srv h cl req. on_GetManifestWork srv h (Namespace req) (Name req)"
  "\<lambda>cl req. GetManifestWork (Namespace req) (Name req)" "\<lambda>_. CreateManifestWork" "\<lambda>_. UpdateManifestWork"
  work_merged "apply_event ''ManifestWork''" plain_work
proof
  show "wp (applyManifestWork srv req) Q h =
      (let send = (\<lambda>w new.
         (case on_write srv (h @ [Read (GetManifestWork (Namespace req) (Name req))]) w of
            Some e \<Rightarrow> Q (False, Some e) (h @ [Read (GetManifestWork (Namespace req) (Name req)), Write w])
          | None \<Rightarrow> Q (True, None) (h @ [Read (GetManifestWork (Namespace req) (Name req)), Write w,
              apply_event ''ManifestWork'' new req]))) in
       case on_GetManifestWork srv h (Namespace req) (Name req) of
         Inl e \<Rightarrow> if IsNotFound e then send (CreateManifestWork req) True
                  else Q (False, Some e) (h @ [Read (GetManifestWork (Namespace req) (Name req))])
       | Inr existing \<Rightarrow>
           (case work_merged srv (h @ [Read (GetManifestWork (Namespace req) (Name req))]) existing req of
              None \<Rightarrow> Q (False, None) (h @ [Read (GetManifestWork (Namespace req) (Name req))])
            | Some new \<Rightarrow> send (UpdateManifestWork new) False))" for srv req Q h
    unfolding applyManifestWork_def Let_def work_merged_def apply_event_def
    by (auto simp: wp_simps split: sum.splits option.splits prod.splits if_splits)
  show "plain_work srv req \<Longrightarrow> work_merged srv h req req = None" for srv req h
    by (simp add: work_merged_plain) (simp add: plain_work_def meta_current_def MergeOwnerRefs_self)
  show "plain_work srv req \<Longrightarrow> work_merged srv h existing req = Some new \<Longrightarrow>
      work_merged srv h new req = None" for srv req h existing new
    using meta_current_merge by (auto simp: work_merged_plain plain_work_def split: if_splits)
  show "plain_work srv req \<Longrightarrow> work_merged srv h existing req = None \<Longrightarrow>
      work_merged srv g existing req = None" for srv req h existing g
    by (simp add: work_merged_plain)
qed (auto simp: apply_event_def)
section \<open>Properties\<close>

text \<open>
  A second run of the manifest work routine after a successful one makes no write: when the
  first run returned without error, and the later history answers the read with what the first
  run created or updated (or with what it found, if it wrote nothing), then the second run makes
  exactly that read and reports no change. The required work has no label or annotation key that
  asks for a removal and no duplicate owner; Go may visit its maps in any order.
\<close>

theorem applyManifestWork_converges:
  assumes "plain_work srv req"
    and "result (applyManifestWork srv req) h = (changed, None)"
    and "Write (CreateManifestWork req) \<in> set (new_calls (applyManifestWork srv req) h) \<Longrightarrow>
      on_GetManifestWork srv h' (Namespace req) (Name req) = Inr req"
    and "\<And>new. Write (UpdateManifestWork new) \<in> set (new_calls (applyManifestWork srv req) h) \<Longrightarrow>
      on_GetManifestWork srv h' (Namespace req) (Name req) = Inr new"
    and "filter is_write (new_calls (applyManifestWork srv req) h) = [] \<Longrightarrow>
      on_GetManifestWork srv h' (Namespace req) (Name req) =
      on_GetManifestWork srv h (Namespace req) (Name req)"
  shows "new_calls (applyManifestWork srv req) h' = [Read (GetManifestWork (Namespace req) (Name req))] \<and>
    result (applyManifestWork srv req) h' = (False, None)"
  using work.converges [where srv = srv and req = req and h = h and h' = h' and changed = changed]
    assms by blast

definition sample_work :: ManifestWork where
  "sample_work = ObjectMeta.extend (new_meta ''c1'' ''c1-klusterlet'')
     \<lparr>Manifests = [''m''], ManifestConfigs = [], DeleteOption = Some Orphan, WorkConditions = [],
      ManifestStatuses = []\<rparr>"

definition remembering_server :: server where
  "remembering_server = empty_server\<lparr>on_GetManifestWork :=
     (\<lambda>h ns n. if h = [] then Inl notFoundErr else Inr sample_work)\<rparr>"

lemma plain_sample_work: "plain_work remembering_server sample_work"
  using visits_once_empty_server
  by (simp add: plain_work_def sample_work_def remembering_server_def plain_keys_def haskey_def
      plain_refs_def visits_once_def new_meta_def ObjectMeta.defs)

theorem applyManifestWork_converges_witness:
  "new_calls (applyManifestWork remembering_server sample_work)
     (snd (run_state (applyManifestWork remembering_server sample_work) [])) =
     [Read (GetManifestWork ''c1'' ''c1-klusterlet'')]"
proof -
  have calls: "new_calls (applyManifestWork remembering_server sample_work) [] =
      [Read (GetManifestWork ''c1'' ''c1-klusterlet''), Write (CreateManifestWork sample_work),
       reportEvent sample_work ''ManifestWork'' ''Created'' ''created'']"
    and nm: "Namespace sample_work = ''c1''" "Name sample_work = ''c1-klusterlet''"
    by code_simp+
  have "result (applyManifestWork remembering_server sample_work) [] = (True, None)" by code_simp
  from applyManifestWork_converges [OF plain_sample_work this,
      of "snd (run_state (applyManifestWork remembering_server sample_work) [])"]
  have "on_GetManifestWork remembering_server
      (snd (run_state (applyManifestWork remembering_server sample_work) [])) ''c1'' ''c1-klusterlet'' =
      Inr sample_work \<Longrightarrow> ?thesis"
    unfolding calls nm by (simp add: reportEvent_def)
  moreover have "on_GetManifestWork remembering_server
      (snd (run_state (applyManifestWork remembering_server sample_work) [])) ''c1'' ''c1-klusterlet'' =
      Inr sample_work"
    by code_simp
  ultimately show ?thesis .
qed

text \<open>Every object on its own, in order; the outcomes are collected.\<close>

definition attempt ::
  "server \<Rightarrow> holder \<Rightarrow> ManagedCluster option \<Rightarrow> obj \<Rightarrow> (call, bool \<times> err option) prog" where
  "attempt srv cl owner obj =
     (case (case owner of None \<Rightarrow> Inr obj | Some o' \<Rightarrow> own_obj o' obj) of
        Inl e \<Rightarrow> return (False, Some e)
      | Inr required \<Rightarrow> apply_obj srv cl required)"

fun attempt_all ::
  "server \<Rightarrow> holder \<Rightarrow> ManagedCluster option \<Rightarrow> obj list \<Rightarrow> (call, (bool \<times> err option) list) prog" where
  "attempt_all srv cl owner [] = return []"
| "attempt_all srv cl owner (obj # objs) = do {
     r \<leftarrow> attempt srv cl owner obj;
     rs \<leftarrow> attempt_all srv cl owner objs;
     return (r # rs) }"

lemma apply_objs_attempt:
  "apply_objs srv cl owner objs changed errs = do {
     rs \<leftarrow> attempt_all srv cl owner objs;
     return (changed \<or> list_ex fst rs, NewAggregate (errs @ map snd rs)) }"
proof (induction objs arbitrary: changed errs)
  case (Cons obj objs)
  have step: "apply_objs srv cl owner (obj # objs) changed errs = do {
      (modified, e) \<leftarrow> attempt srv cl owner obj;
      apply_objs srv cl owner objs (changed \<or> modified) (errs @ [e]) }"
    by (cases "case owner of None \<Rightarrow> Inr obj | Some o' \<Rightarrow> own_obj o' obj") (simp_all add: attempt_def)
  show ?case
    unfolding step by (simp add: Cons case_prod_unfold disj_assoc)
qed simp

text \<open>
  C30. \<open>ApplyResources\<close> tries every object in order, whatever happened to the earlier ones, and
  returns whether any of them was modified and the aggregate of all their errors, including the
  objects that could not be owned: it makes the same calls as the plain sequence of attempts.
\<close>

theorem ApplyResources_attempts_all:
  "ApplyResources srv cl owner objs = do {
     rs \<leftarrow> attempt_all srv cl owner objs;
     return (list_ex fst rs, NewAggregate (map snd rs)) }"
  by (simp add: ApplyResources_def apply_objs_attempt)

end
