(* ===== verification/Import_Helper.thy ===== *)
theory Import_Helper
  imports Apply Cluster_Helpers
begin

text \<open>
  \<open>pkg/helpers/autoimport.go\<close> with the parts of \<open>pkg/helpers/helpers.go\<close> it rests on: building
  the clients of a managed cluster from a secret, turning an import secret into objects and
  applying them, and \<open>ImportHelper.Import\<close>, the step that the three importing controllers share.
  A Go panic is the value \<open>None\<close>.
\<close>

section \<open>Clients from secrets\<close>

text \<open>The eight constructors of \<open>buildImportClient\<close>, in order; the first error ends the function.\<close>

definition client_parts :: "client_part list" where
  "client_parts = [ClientConfigPart, KubeClientPart, APIExtensionsPart, OperatorPart, RuntimePart,
     RoutePart, HTTPPart, MapperPart]"

fun build_parts :: "server \<Rightarrow> KubeConfig \<Rightarrow> client_part list \<Rightarrow> (call, err + holder) prog" where
  "build_parts srv config [] = return (Inr (Remote config))"
| "build_parts srv config (p # ps) = do {
     e \<leftarrow> api_BuildClient srv p config;
     case e of
       Some x \<Rightarrow> return (Inl x)
     | None \<Rightarrow> build_parts srv config ps }"

definition buildImportClient :: "server \<Rightarrow> KubeConfig \<Rightarrow> (call, Result \<times> (err + holder)) prog" where
  "buildImportClient srv config = do {
     r \<leftarrow> build_parts srv config client_parts;
     return (emptyResult, r) }"

definition buildKubeConfigFileWithToken :: "string \<Rightarrow> string \<Rightarrow> KubeConfig" where
  "buildKubeConfigFileWithToken apiURL token = \<lparr>
     Clusters = fmap_of_list [(kubeconfigDefaultCluster,
       \<lparr>Server = apiURL, InsecureSkipTLSVerify = True, CertificateAuthority = [],
        CertificateAuthorityData = [], ProxyURL = []\<rparr>)],
     AuthInfos = fmap_of_list [(kubeconfigDefaultAuth, token)],
     Contexts = fmap_of_list [(kubeconfigDefaultContext,
       \<lparr>CtxCluster = kubeconfigDefaultCluster, CtxAuthInfo = kubeconfigDefaultAuth, CtxNamespace = []\<rparr>)],
     CurrentContext = kubeconfigDefaultContext\<rparr>"

definition GenerateImportClientFromKubeConfigSecret ::
  "server \<Rightarrow> codec \<Rightarrow> Secret \<Rightarrow> (call, Result \<times> (err + holder)) prog" where
  "GenerateImportClientFromKubeConfigSecret srv cd secret =
     (case fmlookup (Data secret) ''kubeconfig'' of
        Some kubeconfig \<Rightarrow>
          (case clientcmd_Load cd kubeconfig of
             Inl e \<Rightarrow> return (emptyResult, Inl e)
           | Inr config \<Rightarrow> buildImportClient srv config)
      | None \<Rightarrow> return (emptyResult, Inl (ErrorString ''kubeconfig is missing'')))"

definition GenerateImportClientFromKubeTokenSecret ::
  "server \<Rightarrow> Secret \<Rightarrow> (call, Result \<times> (err + holder)) prog" where
  "GenerateImportClientFromKubeTokenSecret srv secret =
     (case (fmlookup (Data secret) ''token'', fmlookup (Data secret) ''server'') of
        (Some token, Some server) \<Rightarrow> buildImportClient srv (buildKubeConfigFileWithToken server token)
      | _ \<Rightarrow> return (emptyResult, Inl (ErrorString ''kube token or server is missing'')))"

section \<open>Objects from the import secret\<close>

definition MustCreateObject :: "codec \<Rightarrow> string \<Rightarrow> obj option" where
  "MustCreateObject cd raw =
     (if length raw = 0 then Some NilObj
      else (case decode cd raw of Inl e \<Rightarrow> None | Inr obj \<Rightarrow> Some obj))"

fun must_create_all :: "codec \<Rightarrow> string list \<Rightarrow> obj list option" where
  "must_create_all cd [] = Some []"
| "must_create_all cd (y # ys) =
     (case MustCreateObject cd y of
        None \<Rightarrow> None
      | Some obj \<Rightarrow> map_option (Cons obj) (must_create_all cd ys))"

definition import_objects :: "codec \<Rightarrow> Secret \<Rightarrow> obj list option" where
  "import_objects cd importSecret =
     must_create_all cd
       ((case fmlookup (Data importSecret) ImportSecretCRDSYamlKey of
           Some val \<Rightarrow> if length val > 0 then [val] else []
         | None \<Rightarrow> [])
        @ SplitYamls (goidx (Data importSecret) ImportSecretImportYamlKey))"

definition ImportManagedClusterFromSecret ::
  "server \<Rightarrow> codec \<Rightarrow> holder \<Rightarrow> Secret \<Rightarrow> (call, (bool \<times> err option) option) prog" where
  "ImportManagedClusterFromSecret srv cd cl importSecret =
     (case ValidateImportSecret importSecret of
        Some e \<Rightarrow> return (Some (False, Some e))
      | None \<Rightarrow>
          (case import_objects cd importSecret of
             None \<Rightarrow> return None
           | Some objs \<Rightarrow> do {
               r \<leftarrow> ApplyResources srv cl None objs;
               return (Some r) }))"

text \<open>The loop leaves the last object it has decoded: the bootstrap secret if it met it.\<close>

fun bootstrap_loop :: "codec \<Rightarrow> string list \<Rightarrow> obj \<Rightarrow> obj option" where
  "bootstrap_loop cd [] obj = Some obj"
| "bootstrap_loop cd (yaml # yamls) obj =
     (case MustCreateObject cd yaml of
        None \<Rightarrow> None
      | Some obj' \<Rightarrow>
          (case obj' of
             SecretObj secret \<Rightarrow>
               if Name secret = DefaultBootstrapHubKubeConfigSecretName then Some obj'
               else bootstrap_loop cd yamls obj'
           | _ \<Rightarrow> bootstrap_loop cd yamls obj'))"

definition UpdateManagedClusterBootstrapSecret ::
  "server \<Rightarrow> codec \<Rightarrow> holder \<Rightarrow> Secret \<Rightarrow> (call, (bool \<times> err option) option) prog" where
  "UpdateManagedClusterBootstrapSecret srv cd cl importSecret =
     (case bootstrap_loop cd (SplitYamls (goidx (Data importSecret) ImportSecretImportYamlKey)) NilObj of
        None \<Rightarrow> return None
      | Some obj \<Rightarrow>
          if obj = NilObj then return (Some (False, Some (ErrorString
            (''failed to find bootstrap-hub-kubeconfig in import secret '' @ Namespace importSecret @
             ''/'' @ Name importSecret))))
          else do {
            r \<leftarrow> ApplyResources srv cl None [obj];
            return (Some r) })"

definition applyResourcesFunc ::
  "server \<Rightarrow> codec \<Rightarrow> bool \<Rightarrow> holder \<Rightarrow> Secret \<Rightarrow> (call, (bool \<times> err option) option) prog" where
  "applyResourcesFunc srv cd backupRestore cl importSecret =
     (if backupRestore then UpdateManagedClusterBootstrapSecret srv cd cl importSecret
      else ImportManagedClusterFromSecret srv cd cl importSecret)"

section \<open>Classification of errors\<close>

fun aggregated :: "err \<Rightarrow> err list" where
  "aggregated (Aggregate es) = es"
| "aggregated _ = []"

definition ContainAuthError :: "err \<Rightarrow> bool" where
  "ContainAuthError e \<longleftrightarrow>
     IsUnauthorized e \<or> IsForbidden e \<or>
     list_ex (\<lambda>x. IsUnauthorized x \<or> IsForbidden x) (aggregated e)"

definition is_internal_server_error :: "err \<Rightarrow> bool" where
  "is_internal_server_error e \<longleftrightarrow>
     IsAlreadyExists e \<or> IsConflict e \<or> IsInternalError e \<or> IsTooManyRequests e"

definition ContainInternalServerError :: "err \<Rightarrow> bool" where
  "ContainInternalServerError e \<longleftrightarrow>
     is_internal_server_error e \<or> list_ex is_internal_server_error (aggregated e)"

definition failureMessageOfInvalidAutoImportSecret :: "Secret option \<Rightarrow> err \<Rightarrow> string" where
  "failureMessageOfInvalidAutoImportSecret secret e =
     (case secret of
        Some s \<Rightarrow> ''AutoImportSecretInvalid '' @ Namespace s @ ''/'' @ Name s @
          ''; generate kube client by secret error: '' @ Error e
      | None \<Rightarrow> ''Generate kube client error: '' @ Error e)"

definition failureMessageOfInvalidAutoImportSecretPrivileges :: "Secret option \<Rightarrow> err \<Rightarrow> string" where
  "failureMessageOfInvalidAutoImportSecretPrivileges secret e =
     (case secret of
        Some s \<Rightarrow> ''AutoImportSecretInvalid '' @ Namespace s @ ''/'' @ Name s @
          ''; please check its permission, apply resources error: '' @ Error e
      | None \<Rightarrow> ''Apply resources error, please check kube client permission: '' @ Error e)"

section \<open>Import\<close>

abbreviation importing :: "string \<Rightarrow> Condition" where
  "importing \<equiv> NewManagedClusterImportSucceededCondition ConditionFalse ConditionReasonManagedClusterImporting"

abbreviation import_failed :: "string \<Rightarrow> Condition" where
  "import_failed \<equiv> NewManagedClusterImportSucceededCondition ConditionFalse ConditionReasonManagedClusterImportFailed"

type_synonym import_outcome = "Result \<times> Condition \<times> bool \<times> err option"

definition apply_failed_condition :: "Secret option \<Rightarrow> err \<Rightarrow> Condition" where
  "apply_failed_condition secret e = (
     let c1 = import_failed (''Try to import managed cluster, error: '' @ Error e);
         c2 = (if ContainAuthError e
               then c1\<lparr>Message := failureMessageOfInvalidAutoImportSecretPrivileges secret e\<rparr> else c1)
     in if ContainInternalServerError e
        then c2\<lparr>Reason := ConditionReasonManagedClusterImporting,
             Message := ''Try to import managed cluster, apply resources error: '' @ Error e @ ''. Will Retry''\<rparr>
        else c2)"

text \<open>
  \<open>gen\<close> is the generator of the managed cluster's clients applied to the secret; \<open>g\<close> is the state
  it keeps between reconciles, returned updated. The outcome \<open>None\<close> is a panic.
\<close>

definition Import ::
  "server \<Rightarrow> codec \<Rightarrow> ('g \<Rightarrow> (call, 'g \<times> Result \<times> (err + holder)) prog) \<Rightarrow> 'g \<Rightarrow>
   bool \<Rightarrow> ManagedCluster \<Rightarrow> Secret option \<Rightarrow> (call, 'g \<times> import_outcome option) prog" where
  "Import srv cd gen g backupRestore cluster secret = (
     let ic = FindStatusCondition (Conditions cluster) ConditionManagedClusterImportSucceeded in
     if (case ic of None \<Rightarrow> True | Some c \<Rightarrow> Reason c = ConditionReasonManagedClusterWaitForImporting)
     then return (g, Some (emptyResult\<lparr>Requeue := True\<rparr>, importing ''Start to import managed cluster'', False, None))
     else do {
       w \<leftarrow> api_ListerKlusterletWorks srv (Name cluster) (Some (KlusterletWorksLabel, LabelValueTrue));
       case w of
         Inl e \<Rightarrow>
           if \<not> IsNotFound e then return (g, Some (emptyResult,
             importing (''Get klusterlet manifestwork failed: '' @ Error e @ ''. Will retry''), False, Some e))
           else return (g, Some (emptyResult\<lparr>RequeueAfter := 3 * second\<rparr>,
             importing ''Expect klusterlet manifestworks created, but got none. Will retry'', False, None))
       | Inr works \<Rightarrow>
           if length works = 0 then return (g, Some (emptyResult\<lparr>RequeueAfter := 3 * second\<rparr>,
             importing ''Expect klusterlet manifestworks created, but got none. Will retry'', False, None))
           else do {
             (g', res, c) \<leftarrow> gen g;
             case c of
               Inl e \<Rightarrow> return (g', Some (res,
                 import_failed (failureMessageOfInvalidAutoImportSecret secret e), False, Some e))
             | Inr cl \<Rightarrow> do {
                 s \<leftarrow> api_ListerImportSecret srv (Name cluster) (Name cluster @ ''-'' @ ImportSecretNameSuffix);
                 case s of
                   Inl e \<Rightarrow>
                     if IsNotFound e
                     then return (g', Some (emptyResult, importing ''Wait for import secret'', False, None))
                     else return (g', Some (emptyResult,
                       import_failed (''Get import secret failed: '' @ Error e @ ''. Will retry''), False, Some e))
                 | Inr importSecret \<Rightarrow> do {
                     a \<leftarrow> applyResourcesFunc srv cd backupRestore cl importSecret;
                     return (g', (case a of
                       None \<Rightarrow> None
                     | Some (modified, Some e) \<Rightarrow>
                         Some (emptyResult, apply_failed_condition secret e, modified, Some e)
                     | Some (modified, None) \<Rightarrow>
                         Some (emptyResult, importing conditionMessageImportingResourcesApplied,
                           modified, None))) } } } })"

definition DeleteAutoImportSecret :: "server \<Rightarrow> Secret \<Rightarrow> (call, err option) prog" where
  "DeleteAutoImportSecret srv secret =
     (if haskey (Annotations secret) AnnotationKeepingAutoImportSecret then do {
        emit (Event ''AutoImportSecretSaved''
          (''The auto import secret '' @ Namespace secret @ ''/'' @ Name secret @ '' is saved''));
        return None }
      else do {
        d \<leftarrow> api_write srv (DeleteSecret (Namespace secret) (Name secret));
        case d of
          Some e \<Rightarrow> return (Some e)
        | None \<Rightarrow> do {
            emit (Event ''AutoImportSecretDeleted''
              (''The auto import secret '' @ Namespace secret @ ''/'' @ Name secret @ '' is deleted''));
            return None } })"

section \<open>The shape of the outcome\<close>

lemma ConditionReasons_differ [simp]:
  "ConditionReasonManagedClusterImporting \<noteq> ConditionReasonManagedClusterImportFailed"
  "ConditionReasonManagedClusterImportFailed \<noteq> ConditionReasonManagedClusterImporting"
  by (simp_all add: ConditionReasonManagedClusterImporting_def ConditionReasonManagedClusterImportFailed_def)

lemma Type_apply_failed_condition [simp]:
  "Type (apply_failed_condition secret e) = ConditionManagedClusterImportSucceeded"
  "Status (apply_failed_condition secret e) = ConditionFalse"
  by (simp_all add: apply_failed_condition_def Let_def)

lemma Reason_apply_failed_condition [simp]:
  "Reason (apply_failed_condition secret e) =
     (if ContainInternalServerError e then ConditionReasonManagedClusterImporting
      else ConditionReasonManagedClusterImportFailed)"
  by (simp add: apply_failed_condition_def Let_def)

lemma applied_message_iff [simp]:
  "c # s = conditionMessageImportingResourcesApplied \<longleftrightarrow>
     c = CHR ''I'' \<and> s = tl conditionMessageImportingResourcesApplied"
  by (simp add: conditionMessageImportingResourcesApplied_def)

lemma apply_failed_not_applied [simp]: "\<not> ImportingResourcesApplied (apply_failed_condition secret e)"
  by (simp add: ImportingResourcesApplied_def apply_failed_condition_def Let_def)

definition import_outcome_ok :: "ManagedCluster \<Rightarrow> import_outcome \<Rightarrow> bool" where
  "import_outcome_ok cluster out = (case out of (res, cond, modified, e) \<Rightarrow>
     Type cond = ConditionManagedClusterImportSucceeded \<and> Status cond = ConditionFalse \<and>
     Reason cond \<in> {ConditionReasonManagedClusterImporting, ConditionReasonManagedClusterImportFailed} \<and>
     (ImportingResourcesApplied cond \<longrightarrow> e = None \<and> res = emptyResult) \<and>
     (Reason cond = ConditionReasonManagedClusterImportFailed \<longrightarrow> e \<noteq> None))"

lemma import_outcome_ok_importing:
  "m \<noteq> conditionMessageImportingResourcesApplied \<Longrightarrow> import_outcome_ok cluster (res, importing m, b, e)"
  "import_outcome_ok cluster (res, import_failed m, b, Some x)"
  "import_outcome_ok cluster (emptyResult, importing conditionMessageImportingResourcesApplied, b, None)"
  "import_outcome_ok cluster (emptyResult, apply_failed_condition secret x, b, Some x)"
  using apply_failed_not_applied [of secret x]
  by (simp_all add: import_outcome_ok_def) (auto simp: ImportingResourcesApplied_def)

lemma wp_Import_ok:
  "wp (Import srv cd gen g backup cluster secret)
     (\<lambda>(g', out) h'. case out of None \<Rightarrow> True | Some x \<Rightarrow> import_outcome_ok cluster x) h"
  unfolding Import_def Let_def
  by (auto simp: wp_simps import_outcome_ok_importing wp_run split: sum.splits option.splits prod.splits)

text \<open>
  C23. Whatever the servers answer and whatever client generator is used, \<open>Import\<close> either panics or
  returns a condition of the import type with status False and reason Importing or ImportFailed;
  it reports that the resources are applied only without an error and without asking for a
  requeue, and it never reports a failed import without returning the error.
\<close>

theorem Import_outcome:
  "case snd (result (Import srv cd gen g backup cluster secret) h) of
     None \<Rightarrow> True
   | Some (res, cond, modified, e) \<Rightarrow>
       Type cond = ConditionManagedClusterImportSucceeded \<and> Status cond = ConditionFalse \<and>
       Reason cond \<in> {ConditionReasonManagedClusterImporting, ConditionReasonManagedClusterImportFailed} \<and>
       (if ImportingResourcesApplied cond then e = None \<and> res = emptyResult else True) \<and>
       (if Reason cond = ConditionReasonManagedClusterImportFailed then e \<noteq> None else True)"
  using wp_Import_ok [of srv cd gen g backup cluster secret h]
  by (auto simp: wp_run result_def import_outcome_ok_def split: prod.splits option.splits)

text \<open>
  As long as the informer knows no klusterlet manifest work of the cluster, \<open>Import\<close> makes no
  call but that one read: no client is built, nothing is applied to the managed cluster, and the
  outcome never says that the resources are applied.
\<close>

theorem Import_waits_for_works:
  assumes "case on_ListerKlusterletWorks srv h (Name cluster) (Some (KlusterletWorksLabel, LabelValueTrue)) of
    Inl e \<Rightarrow> True | Inr works \<Rightarrow> works = []"
  shows "new_calls (Import srv cd gen g backup cluster secret) h \<in>
      {[], [Read (ListerKlusterletWorks (Name cluster) (Some (KlusterletWorksLabel, LabelValueTrue)))]} \<and>
    (\<exists>res cond e. result (Import srv cd gen g backup cluster secret) h = (g, Some (res, cond, False, e)) \<and>
       \<not> ImportingResourcesApplied cond)"
proof -
  have "wp (Import srv cd gen g backup cluster secret) (\<lambda>r h'.
      drop (length h) h' \<in>
        {[], [Read (ListerKlusterletWorks (Name cluster) (Some (KlusterletWorksLabel, LabelValueTrue)))]} \<and>
      (\<exists>res cond e. r = (g, Some (res, cond, False, e)) \<and> \<not> ImportingResourcesApplied cond)) h"
    using assms unfolding Import_def Let_def
    by (auto simp: wp_simps ImportingResourcesApplied_def split: sum.splits option.splits)
  then show ?thesis by (simp add: wp_run result_def new_calls_def)
qed

definition importing_cluster :: ManagedCluster where
  "importing_cluster = (new_cluster ''c1'')\<lparr>Conditions := [importing ''Start to import managed cluster'']\<rparr>"

theorem Import_waits_for_works_witness:
  "new_calls (Import empty_server (undefined :: codec) (\<lambda>g. return (g, emptyResult, Inr Hub)) () False
     importing_cluster None) [] \<in>
   {[], [Read (ListerKlusterletWorks ''c1'' (Some (KlusterletWorksLabel, LabelValueTrue)))]}"
proof -
  have n: "Name importing_cluster = ''c1''" by code_simp
  show ?thesis
    using Import_waits_for_works [of empty_server "[]" importing_cluster undefined
      "\<lambda>g. return (g, emptyResult, Inr Hub)" "()" False None]
    unfolding n by (simp add: empty_server_def)
qed

section \<open>Restoring from a backup\<close>

fun is_bootstrap_secret :: "obj \<Rightarrow> bool" where
  "is_bootstrap_secret (SecretObj s) = (Name s = DefaultBootstrapHubKubeConfigSecretName)"
| "is_bootstrap_secret _ = False"

lemma bootstrap_loop_eq:
  "must_create_all cd yamls = Some objs \<Longrightarrow>
   bootstrap_loop cd yamls obj = Some (case find is_bootstrap_secret objs of
     Some b \<Rightarrow> b | None \<Rightarrow> (if objs = [] then obj else last objs))"
proof (induction yamls arbitrary: objs obj)
  case (Cons y yamls)
  then obtain x xs where "MustCreateObject cd y = Some x" "must_create_all cd yamls = Some xs" "objs = x # xs"
    by (auto split: option.splits)
  with Cons.IH [of xs x] show ?case by (cases x) (auto split: option.splits)
qed simp

lemma must_create_all_length: "must_create_all cd yamls = Some objs \<Longrightarrow> length objs = length yamls"
  by (induction yamls arbitrary: objs) (auto split: option.splits)

text \<open>
  When every document of the import secret decodes, restoring from a backup applies exactly one
  object: the first bootstrap kubeconfig secret among them, but the last document of whatever
  kind when there is no bootstrap secret; the error that there is no bootstrap secret is
  returned only if that last document is empty.
\<close>

theorem UpdateManagedClusterBootstrapSecret_eq:
  assumes "must_create_all cd (SplitYamls (goidx (Data s) ImportSecretImportYamlKey)) = Some objs"
  shows "UpdateManagedClusterBootstrapSecret srv cd cl s =
    (let obj = (case find is_bootstrap_secret objs of Some b \<Rightarrow> b | None \<Rightarrow> last objs) in
     if obj = NilObj then return (Some (False, Some (ErrorString
       (''failed to find bootstrap-hub-kubeconfig in import secret '' @ Namespace s @ ''/'' @ Name s))))
     else do { r \<leftarrow> ApplyResources srv cl None [obj]; return (Some r) })"
proof -
  have "objs \<noteq> []" using must_create_all_length [OF assms] by auto
  with bootstrap_loop_eq [OF assms, of NilObj] show ?thesis
    by (simp add: UpdateManagedClusterBootstrapSecret_def Let_def)
qed

definition sample_codec :: codec where
  "sample_codec = \<lparr>decode = (\<lambda>raw. Inr (KlusterletObj (ObjectMeta.extend (new_meta [] raw) \<lparr>Spec = raw\<rparr>))),
     decoded_gvk = (\<lambda>_. (''operator.open-cluster-management.io'', ''v1'', ''Klusterlet'')),
     YAMLToJSON = Inr, unstructured_kind = (\<lambda>_. Inr ''Klusterlet''),
     clientcmd_Load = (\<lambda>s. Inr (buildKubeConfigFileWithToken s s)),
     clientcmd_Encode = (\<lambda>c. Inr (CurrentContext c))\<rparr>"

definition sample_import_secret :: Secret where
  "sample_import_secret = ObjectMeta.extend (new_meta ''c1'' ''c1-import'')
     \<lparr>SecretType = ''Opaque'', Data = fmap_of_list [(ImportSecretImportYamlKey, YamlSperator @ ''klusterlet'')]\<rparr>"

theorem UpdateManagedClusterBootstrapSecret_eq_witness:
  "UpdateManagedClusterBootstrapSecret empty_server sample_codec Hub sample_import_secret =
     do { r \<leftarrow> ApplyResources empty_server Hub None
            [KlusterletObj (ObjectMeta.extend (new_meta [] ''klusterlet'') \<lparr>Spec = ''klusterlet''\<rparr>)];
          return (Some r) }"
proof -
  have "must_create_all sample_codec (SplitYamls (goidx (Data sample_import_secret) ImportSecretImportYamlKey)) =
     Some [KlusterletObj (ObjectMeta.extend (new_meta [] ''klusterlet'') \<lparr>Spec = ''klusterlet''\<rparr>)]"
    by code_simp
  from UpdateManagedClusterBootstrapSecret_eq [OF this, of empty_server Hub] show ?thesis by simp
qed

end
