(* ===== verification/Image_Registry.thy ===== *)
theory Image_Registry
  imports Meta_Helpers
begin

text \<open>
  \<open>pkg/helpers/imageregistry/client.go\<close>, \<open>pkg/bootstrap/imagepullsecret.go\<close> and the functions of
  \<open>pkg/bootstrap/render.go\<close> and \<open>pkg/bootstrap/sidecar.go\<close> that choose images: which image and
  which pull secret a managed cluster gets. The JSON decoding of the annotation is the parameter
  \<open>parse\<close>, the environment is the parameter \<open>env\<close>.
\<close>

definition ClusterImageRegistriesAnnotation :: string where
  "ClusterImageRegistriesAnnotation = ''open-cluster-management.io/image-registries''"

definition EmptyImagePullSecret :: string where
  "EmptyImagePullSecret = ''empty-image-pull-secret''"

record ImageRegistries =
  RegPullSecret :: string
  Registries :: "Registry list"

section \<open>Image names\<close>

definition imageOverride :: "string \<Rightarrow> string \<Rightarrow> string \<Rightarrow> string" where
  "imageOverride source mirror imageName = (
     let source = TrimSuffix source ''/'';
         mirror = TrimSuffix mirror ''/'';
         imageNameTag = last (Split imageName ''/'') in
     if source = [] then (if mirror = [] then imageNameTag else mirror @ ''/'' @ imageNameTag)
     else if \<not> HasPrefix imageName source then imageName
     else mirror @ TrimPrefix imageName source)"

text \<open>
  \<open>bootstrap/render.go\<close> has a copy of this function, for which the definition above is used as well.
\<close>

definition render_imageOverride :: "string \<Rightarrow> string \<Rightarrow> string \<Rightarrow> string" where
  "render_imageOverride source mirror imageName = (
     let source = TrimSuffix source ''/'';
         mirror = TrimSuffix mirror ''/'';
         imageSegments = Split imageName ''/'';
         imageNameTag = imageSegments ! (length imageSegments - 1) in
     if source = [] then
       if mirror = [] then imageNameTag else mirror @ ''/'' @ imageNameTag
     else if \<not> HasPrefix imageName source then imageName
     else (let trimSegment = TrimPrefix imageName source in mirror @ trimSegment))"

lemma Split_nonempty: "Split s sep \<noteq> []"
proof -
  have "split_aux sep acc s \<noteq> []" for acc by (induction sep acc s rule: split_aux.induct) auto
  then show ?thesis by (simp add: Split_def)
qed

lemma render_imageOverride_eq: "render_imageOverride = imageOverride"
  by (simp add: fun_eq_iff render_imageOverride_def imageOverride_def Let_def last_conv_nth Split_nonempty)

text \<open>The loop over the registries: a later registry that changes the name wins.\<close>

fun override_loop :: "string \<Rightarrow> Registry list \<Rightarrow> string \<Rightarrow> string" where
  "override_loop imageName [] current = current"
| "override_loop imageName (r # rs) current =
     (let name = imageOverride (Source r) (Mirror r) imageName in
      override_loop imageName rs (if name \<noteq> imageName then name else current))"

definition OverrideImageByAnnotation ::
  "(string \<Rightarrow> err + ImageRegistries) \<Rightarrow> smap \<Rightarrow> string \<Rightarrow> err + string" where
  "OverrideImageByAnnotation parse annotations imageName =
     (case fmlookup annotations ClusterImageRegistriesAnnotation of
        None \<Rightarrow> Inr imageName
      | Some v \<Rightarrow>
          (case parse v of
             Inl e \<Rightarrow> Inl e
           | Inr imageRegistries \<Rightarrow>
               if length (Registries imageRegistries) = 0 then Inr imageName
               else Inr (override_loop imageName (Registries imageRegistries) imageName)))"

definition getImageRegistries :: "(string \<Rightarrow> err + ImageRegistries) \<Rightarrow> smap \<Rightarrow> err + ImageRegistries" where
  "getImageRegistries parse annotations =
     (case fmlookup annotations ClusterImageRegistriesAnnotation of
        None \<Rightarrow> Inr \<lparr>RegPullSecret = [], Registries = []\<rparr>
      | Some v \<Rightarrow> parse v)"

definition ImageOverride :: "(string \<Rightarrow> err + ImageRegistries) \<Rightarrow> smap \<Rightarrow> string \<Rightarrow> err + string" where
  "ImageOverride parse annotations imageName =
     (case getImageRegistries parse annotations of
        Inl e \<Rightarrow> Inl e
      | Inr imageRegistries \<Rightarrow>
          if length (Registries imageRegistries) = 0 then Inr imageName
          else Inr (override_loop imageName (Registries imageRegistries) imageName))"

definition agentImageEnvNames :: "string list" where
  "agentImageEnvNames =
     [RegistrationOperatorImageEnvVarName, RegistrationImageEnvVarName, WorkImageEnvVarName]"

text \<open>The image of one environment variable, then the loop over the three of them.\<close>

definition agent_image ::
  "(string \<Rightarrow> err + ImageRegistries) \<Rightarrow> (string \<Rightarrow> string) \<Rightarrow> Registry list \<Rightarrow> smap \<Rightarrow> string \<Rightarrow> err + string" where
  "agent_image parse env kcRegistries annotations n = (
     let defaultImage = env n in
     if defaultImage = [] then Inl (ErrorString (''environment variable '' @ n @ '' not defined''))
     else if length kcRegistries \<noteq> 0 then Inr (override_loop defaultImage kcRegistries defaultImage)
     else OverrideImageByAnnotation parse annotations defaultImage)"

fun agent_images_loop ::
  "(string \<Rightarrow> err + ImageRegistries) \<Rightarrow> (string \<Rightarrow> string) \<Rightarrow> Registry list \<Rightarrow> smap \<Rightarrow>
   string list \<Rightarrow> smap \<Rightarrow> err + smap" where
  "agent_images_loop parse env kcRegistries annotations [] images = Inr images"
| "agent_images_loop parse env kcRegistries annotations (n # ns) images =
     (case agent_image parse env kcRegistries annotations n of
        Inl e \<Rightarrow> Inl e
      | Inr img \<Rightarrow> agent_images_loop parse env kcRegistries annotations ns (fmupd n img images))"

definition getKlusterletAgentImages ::
  "(string \<Rightarrow> err + ImageRegistries) \<Rightarrow> (string \<Rightarrow> string) \<Rightarrow> Registry list \<Rightarrow> smap \<Rightarrow> err + smap" where
  "getKlusterletAgentImages parse env kcRegistries annotations =
     agent_images_loop parse env kcRegistries annotations agentImageEnvNames
       (fmap_of_list (map (\<lambda>n. (n, env n)) agentImageEnvNames))"

text \<open>The side car's image: here the first registry that changes the name wins.\<close>

fun first_override :: "string \<Rightarrow> Registry list \<Rightarrow> string" where
  "first_override defaultImage [] = defaultImage"
| "first_override defaultImage (r # rs) =
     (let name = imageOverride (Source r) (Mirror r) defaultImage in
      if name \<noteq> defaultImage then name else first_override defaultImage rs)"

definition getTLSProfileSyncImage ::
  "(string \<Rightarrow> err + ImageRegistries) \<Rightarrow> (string \<Rightarrow> string) \<Rightarrow> Registry list \<Rightarrow> smap \<Rightarrow> err + string" where
  "getTLSProfileSyncImage parse env kcRegistries annotations = (
     let defaultImage = env TLSProfileSyncImageEnvVarName in
     if defaultImage = [] then Inl (ErrorString
       (''environment variable '' @ TLSProfileSyncImageEnvVarName @ '' not defined''))
     else if length kcRegistries \<noteq> 0 then Inr (first_override defaultImage kcRegistries)
     else OverrideImageByAnnotation parse annotations defaultImage)"

definition isManagedClusterOpenShift :: "ManagedCluster option \<Rightarrow> bool" where
  "isManagedClusterOpenShift mc =
     (case mc of None \<Rightarrow> False | Some c \<Rightarrow> goidx (Labels c) ''vendor'' = ''OpenShift'')"

section \<open>Pull secrets\<close>

definition PullSecret ::
  "server \<Rightarrow> (string \<Rightarrow> err + ImageRegistries) \<Rightarrow> smap \<Rightarrow> (call, err + Secret option) prog" where
  "PullSecret srv parse annotations =
     (case getImageRegistries parse annotations of
        Inl e \<Rightarrow> return (Inl e)
      | Inr imageRegistries \<Rightarrow>
          if RegPullSecret imageRegistries = [] then return (Inr None)
          else (case Split (RegPullSecret imageRegistries) ''.'' of
              [ns, pullSecret] \<Rightarrow> do {
                r \<leftarrow> api_GetSecret srv ns pullSecret;
                return (map_sum id Some r) }
            | _ \<Rightarrow> return (Inl (ErrorString (''wrong pullSecret format '' @ RegPullSecret imageRegistries @
                '' in the annotation '' @ ClusterImageRegistriesAnnotation)))))"

definition emptyPullSecret :: Secret where
  "emptyPullSecret = ObjectMeta.extend (new_meta [] EmptyImagePullSecret)
     \<lparr>SecretType = ''kubernetes.io/dockerconfigjson'', Data = fmap_of_list [(''.dockerconfigjson'', ''{}'')]\<rparr>"

definition getDefaultImagePullSecret :: "server \<Rightarrow> (string \<Rightarrow> string) \<Rightarrow> (call, err + Secret) prog" where
  "getDefaultImagePullSecret srv env =
     (if env DefaultImagePullSecretEnvVarName = [] then return (Inr emptyPullSecret)
      else api_GetSecret srv (env PodNamespaceEnvVarName) (env DefaultImagePullSecretEnvVarName))"

definition getImagePullSecret ::
  "server \<Rightarrow> (string \<Rightarrow> err + ImageRegistries) \<Rightarrow> (string \<Rightarrow> string) \<Rightarrow> string \<times> string \<Rightarrow> smap \<Rightarrow>
   (call, err + Secret) prog" where
  "getImagePullSecret srv parse env kcImagePullSecret annotations =
     (case kcImagePullSecret of (ns, n) \<Rightarrow>
        if n \<noteq> [] then api_GetSecret srv ns n
        else do {
          r \<leftarrow> PullSecret srv parse annotations;
          case r of
            Inl e \<Rightarrow> return (Inl e)
          | Inr (Some secret) \<Rightarrow> return (Inr secret)
          | Inr None \<Rightarrow> getDefaultImagePullSecret srv env })"

section \<open>Properties\<close>

definition changes :: "string \<Rightarrow> Registry \<Rightarrow> bool" where
  "changes imageName r \<longleftrightarrow> imageOverride (Source r) (Mirror r) imageName \<noteq> imageName"

lemma override_loop_eq:
  "override_loop imageName rs current =
     (if filter (changes imageName) rs = [] then current
      else imageOverride (Source (last (filter (changes imageName) rs)))
        (Mirror (last (filter (changes imageName) rs))) imageName)"
proof (induction rs arbitrary: current)
  case (Cons r rs)
  have "override_loop imageName (r # rs) current =
      override_loop imageName rs (if changes imageName r then imageOverride (Source r) (Mirror r) imageName else current)"
    by (simp add: changes_def Let_def)
  with Cons show ?case by simp
qed simp

lemma first_override_eq:
  "first_override imageName rs =
     (if filter (changes imageName) rs = [] then imageName
      else imageOverride (Source (hd (filter (changes imageName) rs)))
        (Mirror (hd (filter (changes imageName) rs))) imageName)"
proof (induction rs)
  case (Cons r rs)
  have "first_override imageName (r # rs) =
      (if changes imageName r then imageOverride (Source r) (Mirror r) imageName else first_override imageName rs)"
    by (simp add: changes_def Let_def)
  with Cons show ?case by simp
qed simp

text \<open>
  The two accessors of the image override agree: looking the annotation up on the client and
  overriding an image by the annotation give the same image or the same error, and without the
  annotation the image is unchanged. Among the registries that change the name the last one wins.
\<close>

theorem OverrideImage_agree:
  "OverrideImageByAnnotation parse annotations img = ImageOverride parse annotations img \<and>
   (if haskey annotations ClusterImageRegistriesAnnotation then True
    else OverrideImageByAnnotation parse annotations img = Inr img) \<and>
   override_loop img rs img =
     (if filter (changes img) rs = [] then img
      else imageOverride (Source (last (filter (changes img) rs))) (Mirror (last (filter (changes img) rs))) img)"
  by (auto simp: OverrideImageByAnnotation_def ImageOverride_def getImageRegistries_def haskey_def
      override_loop_eq Let_def split: option.splits sum.splits list.splits)

text \<open>
  With registries in the klusterlet configuration, the agents and the side car that
  synchronizes the TLS profile take their images by different rules: the agents from the last
  registry that changes the name, the side car from the first one.
\<close>

theorem sidecar_first_agents_last:
  assumes "filter (changes (env n)) rs = filter (changes (env TLSProfileSyncImageEnvVarName)) rs"
    and "filter (changes (env n)) rs = r # mid @ [r']"
    and "env n \<noteq> []" and "env TLSProfileSyncImageEnvVarName \<noteq> []"
  shows "agent_image parse env rs annotations n = Inr (imageOverride (Source r') (Mirror r') (env n)) \<and>
    getTLSProfileSyncImage parse env rs annotations =
      Inr (imageOverride (Source r) (Mirror r) (env TLSProfileSyncImageEnvVarName))"
proof -
  have "rs \<noteq> []" using assms(2) by auto
  moreover have "filter (changes (env TLSProfileSyncImageEnvVarName)) rs = r # mid @ [r']"
    using assms(1,2) by simp
  ultimately show ?thesis using assms(2-4)
    by (simp add: agent_image_def getTLSProfileSyncImage_def override_loop_eq first_override_eq Let_def)
qed

definition two_mirrors :: "Registry list" where
  "two_mirrors = [\<lparr>Mirror = ''m1'', Source = ''quay.io''\<rparr>, \<lparr>Mirror = ''m2'', Source = ''quay.io''\<rparr>]"

definition sample_env :: "string \<Rightarrow> string" where
  "sample_env n = ''quay.io/'' @ n"

theorem sidecar_first_agents_last_witness:
  "agent_image (\<lambda>_. Inl notFoundErr) sample_env two_mirrors fmempty WorkImageEnvVarName =
     Inr (''m2/'' @ WorkImageEnvVarName) \<and>
   getTLSProfileSyncImage (\<lambda>_. Inl notFoundErr) sample_env two_mirrors fmempty =
     Inr (''m1/'' @ TLSProfileSyncImageEnvVarName)"
proof -
  let ?r = "\<lparr>Mirror = ''m1'', Source = ''quay.io''\<rparr>" and ?r' = "\<lparr>Mirror = ''m2'', Source = ''quay.io''\<rparr>"
  have 1: "filter (changes (sample_env WorkImageEnvVarName)) two_mirrors = ?r # [] @ [?r']"
    and 2: "filter (changes (sample_env TLSProfileSyncImageEnvVarName)) two_mirrors = ?r # [] @ [?r']"
    by code_simp+
  have "agent_image (\<lambda>_. Inl notFoundErr) sample_env two_mirrors fmempty WorkImageEnvVarName =
      Inr (imageOverride ''quay.io'' ''m2'' (sample_env WorkImageEnvVarName)) \<and>
    getTLSProfileSyncImage (\<lambda>_. Inl notFoundErr) sample_env two_mirrors fmempty =
      Inr (imageOverride ''quay.io'' ''m1'' (sample_env TLSProfileSyncImageEnvVarName))"
    using sidecar_first_agents_last [of sample_env WorkImageEnvVarName two_mirrors ?r "[]" ?r'
      "\<lambda>_. Inl notFoundErr" fmempty] 1 2 by (simp add: sample_env_def)
  moreover have "imageOverride ''quay.io'' ''m2'' (sample_env WorkImageEnvVarName) = ''m2/'' @ WorkImageEnvVarName"
    and "imageOverride ''quay.io'' ''m1'' (sample_env TLSProfileSyncImageEnvVarName) =
      ''m1/'' @ TLSProfileSyncImageEnvVarName"
    by code_simp+
  ultimately show ?thesis by simp
qed

text \<open>
  Overriding an image by a registry and back by the registry with source and mirror swapped
  gives the original image, for every image of the source registry (source and mirror are not
  empty, a trailing slash aside).
\<close>

theorem imageOverride_roundtrip:
  assumes "TrimSuffix source ''/'' \<noteq> []" and "TrimSuffix mirror ''/'' \<noteq> []"
    and "HasPrefix img (TrimSuffix source ''/'')"
  shows "imageOverride mirror source (imageOverride source mirror img) = img"
  using assms by (auto simp: imageOverride_def Let_def HasPrefix_iff)

theorem imageOverride_roundtrip_witness:
  "imageOverride ''mirror.local/a/'' ''quay.io'' (imageOverride ''quay.io'' ''mirror.local/a/'' ''quay.io/b/c:1'') =
   ''quay.io/b/c:1''"
proof -
  have "TrimSuffix ''quay.io'' ''/'' \<noteq> []" "TrimSuffix ''mirror.local/a/'' ''/'' \<noteq> []"
    "HasPrefix ''quay.io/b/c:1'' (TrimSuffix ''quay.io'' ''/'')"
    by code_simp+
  then show ?thesis by (rule imageOverride_roundtrip)
qed

text \<open>
  A registry with an empty mirror is not ignored: it removes the source prefix from the image
  names it matches.
\<close>

theorem imageOverride_empty_mirror:
  "imageOverride source [] (TrimSuffix source ''/'' @ rest) =
     (if TrimSuffix source ''/'' = [] then last (Split rest ''/'') else rest)"
  by (simp add: imageOverride_def Let_def TrimSuffix_def HasSuffix_def HasPrefix_def)

end
