(* ===== verification/Render.thy ===== *)
theory Render
  imports Cluster_Helpers "HOL-Library.Sublist"
begin

text \<open>
  Parts of \<open>pkg/bootstrap/render.go\<close>: how the rendered objects become the import YAML
  (\<open>AggregateObjects\<close>) and come back out of it (\<open>SplitYamls\<close>), the names of the klusterlet and of
  its namespace, the override of image names, and the endpoint of the gRPC server.
\<close>

section \<open>Aggregating objects\<close>

text \<open>
  \<open>kind\<close> is the parsed kind of a document, nothing when it does not parse. The accumulator has the
  namespaces, the other objects and the klusterlet (empty when there is none so far).
\<close>

fun classify_objects ::
  "(string \<Rightarrow> string option) \<Rightarrow> string list \<Rightarrow> string list \<times> string list \<times> string \<Rightarrow>
   string list \<times> string list \<times> string" where
  "classify_objects kind [] acc = acc"
| "classify_objects kind (obj # objs) (namespaces, otherObjs, klusterlet) =
     (case kind obj of
        None \<Rightarrow> classify_objects kind objs (namespaces, otherObjs, klusterlet)
      | Some k \<Rightarrow>
          if k = ''Namespace'' then classify_objects kind objs (namespaces @ [obj], otherObjs, klusterlet)
          else if k = ''Klusterlet'' then classify_objects kind objs (namespaces, otherObjs, obj)
          else if k = [] then classify_objects kind objs (namespaces, otherObjs, klusterlet)
          else classify_objects kind objs (namespaces, otherObjs @ [obj], klusterlet))"

definition write_manifests :: "string list \<Rightarrow> string" where
  "write_manifests docs = concat (map (\<lambda>d. YamlSperator @ d) docs)"

definition AggregateObjects :: "(string \<Rightarrow> string option) \<Rightarrow> string list \<Rightarrow> string" where
  "AggregateObjects kind objects =
     (case classify_objects kind objects ([], [], []) of (namespaces, otherObjs, klusterlet) \<Rightarrow>
        write_manifests namespaces @ write_manifests (sort otherObjs) @
        (if klusterlet \<noteq> [] then write_manifests [klusterlet] else []))"

section \<open>Reading the aggregate back\<close>

text \<open>A document that has no separator in it and does not complete one with the separator after it.\<close>

definition yaml_document :: "string \<Rightarrow> bool" where
  "yaml_document d \<longleftrightarrow> \<not> Contains (d @ butlast YamlSperator) YamlSperator"

lemma Contains_prefix: "Contains s p \<Longrightarrow> Contains (s @ t) p"
  by (metis Contains_iff append.assoc)

lemma split_aux_document:
  assumes "sep \<noteq> []" and "\<not> Contains (d @ butlast sep) sep"
  shows "split_aux sep acc (d @ sep @ t) = (acc @ d) # split_aux sep [] t"
  using assms(2)
proof (induction d arbitrary: acc)
  case Nil
  obtain c s where "sep = c # s" using assms(1) by (cases sep) auto
  then show ?case using HasPrefix_append [of sep t] by simp
next
  case (Cons c d)
  have "\<not> HasPrefix (c # d @ sep @ t) sep"
  proof
    assume "HasPrefix (c # d @ sep @ t) sep"
    then have "sep = take (length sep) ((c # d @ butlast sep) @ last sep # t)"
      using assms(1) by (simp add: HasPrefix_def append_butlast_last_id)
        (metis append.assoc append_Cons append_Nil append_butlast_last_id)
    also have "\<dots> = take (length sep) (c # d @ butlast sep)"
      by (cases sep) simp_all
    finally have "HasPrefix ((c # d) @ butlast sep) sep" by (simp add: HasPrefix_def)
    then have "Contains ((c # d) @ butlast sep) sep" by simp
    with Cons.prems show False by simp
  qed
  moreover have "\<not> Contains (d @ butlast sep) sep" using Cons.prems by auto
  ultimately show ?case using Cons.IH assms(1) by simp
qed

lemma split_aux_last:
  assumes "sep \<noteq> []" and "\<not> Contains d sep"
  shows "split_aux sep acc d = [acc @ d]"
  using assms(2) by (induction d arbitrary: acc) (auto simp: assms(1))

lemma YamlSperator_nonempty [simp]: "YamlSperator \<noteq> []"
  by (simp add: YamlSperator_def)

lemma yaml_document_Contains: "yaml_document d \<Longrightarrow> \<not> Contains d YamlSperator"
  using Contains_prefix by (auto simp: yaml_document_def)

lemma Split_write_manifests:
  assumes "list_all yaml_document (d # docs)"
  shows "split_aux YamlSperator [] (d @ write_manifests docs) = d # docs"
  using assms
proof (induction docs arbitrary: d)
  case Nil
  then show ?case
    by (simp add: write_manifests_def split_aux_last yaml_document_Contains)
next
  case (Cons e docs)
  have "split_aux YamlSperator [] (d @ YamlSperator @ e @ write_manifests docs) =
      d # split_aux YamlSperator [] (e @ write_manifests docs)"
    using split_aux_document [OF YamlSperator_nonempty, of d "[]" "e @ write_manifests docs"] Cons.prems
    by (simp add: yaml_document_def)
  with Cons show ?case by (simp add: write_manifests_def)
qed

lemma RemoveFirst_prefix: "p \<noteq> [] \<Longrightarrow> RemoveFirst (p @ s) p = s"
  by (cases p) (use HasPrefix_append [of p s] in auto)

lemma SplitYamls_write_manifests:
  assumes "list_all yaml_document docs" and "docs \<noteq> []"
  shows "SplitYamls (write_manifests docs) = docs"
proof -
  obtain d ds where "docs = d # ds" using assms(2) by (cases docs) auto
  then show ?thesis
    using Split_write_manifests [of d ds] assms(1) RemoveFirst_prefix [of YamlSperator]
    by (simp add: SplitYamls_def Split_def write_manifests_def)
qed

section \<open>Order of the documents\<close>

definition of_kind :: "(string \<Rightarrow> string option) \<Rightarrow> string \<Rightarrow> string \<Rightarrow> bool" where
  "of_kind kind k obj \<longleftrightarrow> kind obj = Some k"

definition other_kind :: "(string \<Rightarrow> string option) \<Rightarrow> string \<Rightarrow> bool" where
  "other_kind kind obj \<longleftrightarrow> kind obj \<notin> {None, Some [], Some ''Namespace'', Some ''Klusterlet''}"

definition aggregate_docs :: "(string \<Rightarrow> string option) \<Rightarrow> string list \<Rightarrow> string list" where
  "aggregate_docs kind objects =
     filter (of_kind kind ''Namespace'') objects @ sort (filter (other_kind kind) objects) @
     (if filter (of_kind kind ''Klusterlet'') objects = [] then []
      else [last (filter (of_kind kind ''Klusterlet'') objects)])"

lemma classify_objects_eq:
  "classify_objects kind objs (nss, os, kl) =
     (nss @ filter (of_kind kind ''Namespace'') objs, os @ filter (other_kind kind) objs,
      (if filter (of_kind kind ''Klusterlet'') objs = [] then kl
       else last (filter (of_kind kind ''Klusterlet'') objs)))"
proof (induction objs arbitrary: nss os kl)
  case (Cons obj objs)
  then show ?case by (cases "kind obj") (auto simp: of_kind_def [of kind _ obj] other_kind_def [of kind obj])
qed simp

lemma write_manifests_append: "write_manifests (xs @ ys) = write_manifests xs @ write_manifests ys"
  by (simp add: write_manifests_def)

lemma last_filter_P: "filter P xs \<noteq> [] \<Longrightarrow> P (last (filter P xs))"
  using last_in_set [of "filter P xs"] by simp

lemma AggregateObjects_docs:
  assumes "\<not> of_kind kind ''Klusterlet'' []"
  shows "AggregateObjects kind objects = write_manifests (aggregate_docs kind objects)"
proof (cases "filter (of_kind kind ''Klusterlet'') objects = []")
  case True
  then show ?thesis
    by (simp add: AggregateObjects_def classify_objects_eq aggregate_docs_def write_manifests_append)
next
  case False
  then have "last (filter (of_kind kind ''Klusterlet'') objects) \<noteq> []"
    using last_filter_P [OF False] assms by metis
  with False show ?thesis
    by (simp add: AggregateObjects_def classify_objects_eq aggregate_docs_def write_manifests_append)
qed

text \<open>
  The documents of the import YAML come back out of it in the order in which they were put in:
  the namespaces first, then the other objects sorted, and the klusterlet (the last one, if there
  are several) at the very end. The objects contain no separator, at least one of them is
  written, and the empty document is not a klusterlet.
\<close>

theorem SplitYamls_AggregateObjects:
  assumes "list_all yaml_document objects" and "aggregate_docs kind objects \<noteq> []"
    and "kind [] \<noteq> Some ''Klusterlet''"
  shows "SplitYamls (AggregateObjects kind objects) = aggregate_docs kind objects"
proof -
  have "set (aggregate_docs kind objects) \<subseteq> set objects"
    using last_in_set [of "filter (of_kind kind ''Klusterlet'') objects"]
    by (auto simp: aggregate_docs_def)
  with assms(1) have "list_all yaml_document (aggregate_docs kind objects)" by (auto simp: list_all_iff)
  then show ?thesis
    using assms SplitYamls_write_manifests AggregateObjects_docs by (simp add: of_kind_def)
qed

definition sample_kind :: "string \<Rightarrow> string option" where
  "sample_kind d = (if HasPrefix d ''ns'' then Some ''Namespace'' else if HasPrefix d ''kl'' then Some ''Klusterlet''
     else if d = [] then Some [] else Some ''Secret'')"

theorem SplitYamls_AggregateObjects_witness:
  "SplitYamls (AggregateObjects sample_kind [''kl'', ''b'', ''ns'', ''a'']) = [''ns'', ''a'', ''b'', ''kl'']"
proof -
  have 1: "list_all yaml_document [''kl'', ''b'', ''ns'', ''a'']" by code_simp
  have 2: "aggregate_docs sample_kind [''kl'', ''b'', ''ns'', ''a''] = [''ns'', ''a'', ''b'', ''kl'']" by code_simp
  have 3: "sample_kind [] \<noteq> Some ''Klusterlet''" by code_simp
  from SplitYamls_AggregateObjects [of "[''kl'', ''b'', ''ns'', ''a'']" sample_kind] 1 2 3 show ?thesis by simp
qed

section \<open>Names\<close>

definition InstallModeNoOperator :: string where
  "InstallModeNoOperator = ''noOperator''"

definition installNoOperator :: "string \<Rightarrow> KlusterletConfig option \<Rightarrow> bool" where
  "installNoOperator mode config =
     (if mode = InstallModeHosted \<or> mode = InstallModeSingletonHosted then True
      else (case config of
          None \<Rightarrow> False
        | Some kc \<Rightarrow>
            (case KCInstallMode kc of
               None \<Rightarrow> False
             | Some (t, _) \<Rightarrow> if t = InstallModeNoOperator then True else False)))"

definition getKlusterletNamespaceName ::
  "KlusterletConfig option \<Rightarrow> string \<Rightarrow> smap \<Rightarrow> string \<Rightarrow> string \<times> string" where
  "getKlusterletNamespaceName config clusterName annotation mode = (
     let hosted = (mode = InstallModeHosted \<or> mode = InstallModeSingletonHosted);
         klusterletName = (if hosted then KlusterletSuffix @ ''-'' @ clusterName else KlusterletSuffix);
         ns = (if hosted
               then (let full = ''open-cluster-management-'' @ clusterName in
                     if length full > 57 then take 57 full else full)
               else DefaultKlusterletNamespace);
         klusterletNamespace = (case fmlookup annotation KlusterletNamespaceAnnotation of
           Some v \<Rightarrow> v | None \<Rightarrow> ns) in
     case config of
       None \<Rightarrow> (klusterletName, klusterletNamespace)
     | Some kc \<Rightarrow>
         (case KCInstallMode kc of
            None \<Rightarrow> (klusterletName, klusterletNamespace)
          | Some (t, noOperator) \<Rightarrow>
              if t \<noteq> InstallModeNoOperator then (klusterletName, klusterletNamespace)
              else (case noOperator of
                  None \<Rightarrow> (klusterletName, klusterletNamespace)
                | Some postfix \<Rightarrow>
                    (klusterletName @ ''-'' @ postfix, ''open-cluster-management-'' @ postfix))))"

text \<open>
  For a hosted cluster without configuration the klusterlet carries the cluster's name, its
  namespace has at most 57 characters unless an annotation names another one, and two hosted
  clusters whose names have at most 33 characters never share the namespace.
\<close>

theorem hosted_klusterlet_namespace:
  assumes "mode = InstallModeHosted \<or> mode = InstallModeSingletonHosted"
    and "fmlookup annotation KlusterletNamespaceAnnotation = None"
  shows "\<exists>ns. getKlusterletNamespaceName None n annotation mode = (KlusterletSuffix @ ''-'' @ n, ns) \<and>
    length ns = min 57 (length n + 24) \<and>
    (length n \<le> 33 \<and> length m \<le> 33 \<longrightarrow>
       (getKlusterletNamespaceName None m annotation mode = (KlusterletSuffix @ ''-'' @ m, ns) \<longleftrightarrow> m = n))"
  using assms by (auto simp: getKlusterletNamespaceName_def Let_def)

theorem hosted_klusterlet_namespace_witness:
  "\<exists>ns. getKlusterletNamespaceName None ''c1'' fmempty InstallModeHosted = (KlusterletSuffix @ ''-'' @ ''c1'', ns) \<and>
    length ns = 26"
  using hosted_klusterlet_namespace [of InstallModeHosted fmempty "''c1''" "''c2''"] by auto

section \<open>The endpoint of the gRPC server\<close>

definition grpcRouteName :: string where "grpcRouteName = ''grpc-server''"
definition grpcServiceName :: string where "grpcServiceName = ''cluster-manager-grpc-server''"
definition grpcCAConfigmap :: string where "grpcCAConfigmap = ''ca-bundle-configmap''"

text \<open>\<open>marshal\<close> is the YAML encoding of the gRPC configuration (CA data, URL, token).\<close>

definition buildGRPCConfigData ::
  "server \<Rightarrow> (string \<Rightarrow> string \<Rightarrow> string \<Rightarrow> err + string) \<Rightarrow> string \<Rightarrow> string \<Rightarrow> (call, err + string) prog" where
  "buildGRPCConfigData srv marshal token caData = (
     let finish = (\<lambda>grpcURL. case marshal caData grpcURL token of
         Inl e \<Rightarrow> Inl (ErrorString (''failed to marshal GRPC server configuration. '' @ Error e))
       | Inr data \<Rightarrow> Inr data) in do {
     route \<leftarrow> api_GetRoute srv HubNamespace grpcRouteName;
     case route of
       Inr host \<Rightarrow>
         if host = [] then return (Inl (ErrorString ''grpc-server route has no host specified''))
         else return (finish host)
     | Inl e \<Rightarrow>
         if IsNotFound e then do {
           service \<leftarrow> api_GetService srv HubNamespace grpcServiceName;
           case service of
             Inl e' \<Rightarrow> return (Inl (ErrorString (''failed to get grpc-server service: '' @ Error e')))
           | Inr (t, ingress) \<Rightarrow>
               if t \<noteq> ''LoadBalancer'' then return (Inl (ErrorString
                 (''grpc-server service is not of type LoadBalancer, got: '' @ t)))
               else (case ingress of
                   [] \<Rightarrow> return (Inl (ErrorString ''grpc-server service has no LoadBalancer ingress status''))
                 | (ip, hostname) # _ \<Rightarrow>
                     if ip \<noteq> [] then return (finish (ip @ '':443''))
                     else if hostname \<noteq> [] then return (finish (hostname @ '':443''))
                     else return (Inl (ErrorString
                       ''grpc-server service LoadBalancer has neither IP nor hostname''))) }
         else return (Inl (ErrorString (''failed to get grpc-server route: '' @ Error e))) })"

definition GetGRCPCaBundleFromConfigMap :: "server \<Rightarrow> (call, err + string) prog" where
  "GetGRCPCaBundleFromConfigMap srv = do {
     r \<leftarrow> api_GetConfigMap srv HubNamespace grpcCAConfigmap;
     return (case r of
       Inl e \<Rightarrow> Inl (ErrorString (''failed to get ca-bundle-configmap from hub namespace: '' @ Error e))
     | Inr configMap \<Rightarrow>
         (case fmlookup (ConfigData configMap) ''ca-bundle.crt'' of
            None \<Rightarrow> Inl (ErrorString ''ca-bundle.crt key not found in configmap ca-bundle-configmap'')
          | Some caBundleData \<Rightarrow> Inr caBundleData)) }"

text \<open>The kubeconfig secrets of several hubs, read in order from the pod's namespace.\<close>

fun convertKubeConfigSecrets ::
  "server \<Rightarrow> string \<Rightarrow> string list \<Rightarrow> (call, err + (string \<times> string) list) prog" where
  "convertKubeConfigSecrets srv podNs [] = return (Inr [])"
| "convertKubeConfigSecrets srv podNs (s # ss) = do {
     r \<leftarrow> api_GetSecret srv podNs s;
     case r of
       Inl e \<Rightarrow> return (Inl e)
     | Inr secret \<Rightarrow>
         (case fmlookup (Data secret) ''kubeconfig'' of
            None \<Rightarrow> return (Inl (ErrorString (''kubeconfig key not found in secret '' @ s)))
          | Some kubeconfig \<Rightarrow> do {
              rest \<leftarrow> convertKubeConfigSecrets srv podNs ss;
              return (map_sum id (\<lambda>ks. (s, kubeconfig) # ks) rest) }) }"

text \<open>
  The configuration for the gRPC server is built from the route when it exists, and from the
  load balancer only when there is no route: the URL is the route's non-empty host, or the first
  ingress's IP, or its host name when it has no IP, with port 443.
\<close>

theorem buildGRPCConfigData_endpoint:
  "result (buildGRPCConfigData srv (\<lambda>ca url t. Inr url) token caData) h = Inr url \<longleftrightarrow>
     (on_GetRoute srv h HubNamespace grpcRouteName = Inr url \<and> url \<noteq> []) \<or>
     (\<exists>e ip hostname rest. on_GetRoute srv h HubNamespace grpcRouteName = Inl e \<and> IsNotFound e \<and>
        on_GetService srv (h @ [Read (GetRoute HubNamespace grpcRouteName)]) HubNamespace grpcServiceName =
          Inr (''LoadBalancer'', (ip, hostname) # rest) \<and>
        (ip \<noteq> [] \<and> url = ip @ '':443'' \<or> ip = [] \<and> hostname \<noteq> [] \<and> url = hostname @ '':443''))"
proof -
  have "wp (buildGRPCConfigData srv (\<lambda>ca url t. Inr url) token caData) (\<lambda>r _. r = Inr url) h \<longleftrightarrow>
     (on_GetRoute srv h HubNamespace grpcRouteName = Inr url \<and> url \<noteq> []) \<or>
     (\<exists>e ip hostname rest. on_GetRoute srv h HubNamespace grpcRouteName = Inl e \<and> IsNotFound e \<and>
        on_GetService srv (h @ [Read (GetRoute HubNamespace grpcRouteName)]) HubNamespace grpcServiceName =
          Inr (''LoadBalancer'', (ip, hostname) # rest) \<and>
        (ip \<noteq> [] \<and> url = ip @ '':443'' \<or> ip = [] \<and> hostname \<noteq> [] \<and> url = hostname @ '':443''))"
    unfolding buildGRPCConfigData_def Let_def
    by (auto simp: wp_simps split: sum.splits list.splits if_splits)
  then show ?thesis by (simp add: wp_run result_def)
qed

end
