(* ===== verification/Managed_Cluster.thy ===== *)
theory Managed_Cluster
  imports Cluster_Helpers
begin

text \<open>
  \<open>pkg/controller/managedcluster/managedcluster_controller.go\<close>: the name label, the created-via
  annotation, the addon hosting annotation and the import finalizer of a managed cluster, and
  the labels of its namespace.
\<close>

section \<open>Operations\<close>

definition validCreatedViaValues :: "string list" where
  "validCreatedViaValues = [CreatedViaAI, CreatedViaHive, CreatedViaDiscovery, CreatedViaHypershift]"

definition ensureCreateViaAnnotation :: "bool \<Rightarrow> ManagedCluster \<Rightarrow> bool \<times> ManagedCluster" where
  "ensureCreateViaAnnotation modified cluster = (
     let set_other = (case MergeMap modified (Annotations cluster) [(CreatedViaAnnotation, createdViaOther)] of
           (m, as) \<Rightarrow> (m, cluster\<lparr>Annotations := as\<rparr>)) in
     case fmlookup (Annotations cluster) CreatedViaAnnotation of
       None \<Rightarrow> set_other
     | Some viaAnnotation \<Rightarrow>
         if viaAnnotation \<notin> set validCreatedViaValues then set_other else (modified, cluster))"

definition ensureAddonHostingAnnotation :: "bool \<Rightarrow> ManagedCluster \<Rightarrow> bool \<times> ManagedCluster" where
  "ensureAddonHostingAnnotation modified cluster = (
     let annotations = Annotations cluster;
         enabledHostedAddon = goidx annotations AddonEnableHostedModeAnnotation;
         hostingClusterName = goidx annotations HostingClusterNameAnnotation;
         addonHostingClusterName = goidx annotations HostingClusterNameAnnotationKey;
         existed = haskey annotations HostingClusterNameAnnotationKey in
     if \<not> IsHostedCluster cluster \<or> enabledHostedAddon \<noteq> LabelValueTrue \<or> hostingClusterName = [] then
       (if existed
        then (True, cluster\<lparr>Annotations := fmdrop HostingClusterNameAnnotationKey annotations\<rparr>)
        else (modified, cluster))
     else if hostingClusterName \<noteq> addonHostingClusterName then
       (case MergeMap modified annotations [(HostingClusterNameAnnotationKey, hostingClusterName)] of
          (m, as) \<Rightarrow> (m, cluster\<lparr>Annotations := as\<rparr>))
     else (modified, cluster))"

text \<open>The changes to the metadata, with the messages that are collected on the way.\<close>

definition ensure_meta :: "ManagedCluster \<Rightarrow> bool \<times> string list \<times> ManagedCluster" where
  "ensure_meta c0 = (
     let (m1, ls) = MergeMap False (Labels c0) [(clusterNameLabel, Name c0)];
         msgs1 = (if m1 then [''cluster name label is added''] else []);
         (m2, c2) = ensureCreateViaAnnotation m1 (c0\<lparr>Labels := ls\<rparr>);
         msgs2 = msgs1 @ (if m2 then [''created-via annotaion is added''] else []);
         (m3, c3) = ensureAddonHostingAnnotation m2 c2;
         msgs3 = msgs2 @ (if m3 then [''addon hosting cluster name annotation is added''] else []);
         (m4, c4) = AddManagedClusterFinalizer m3 c3 ImportFinalizer;
         msgs4 = msgs3 @ (if m4 then [''import finalizer is added''] else [])
     in (m4, msgs4, c4))"

definition ensureManagedClusterMetaObj :: "server \<Rightarrow> ManagedCluster \<Rightarrow> (call, err + ManagedCluster) prog" where
  "ensureManagedClusterMetaObj srv managedCluster =
     (case ensure_meta managedCluster of (modified, msgs, changed) \<Rightarrow>
        if \<not> modified then return (Inr managedCluster)
        else do {
          r \<leftarrow> api_PatchManagedCluster srv managedCluster changed;
          case r of
            Inl e \<Rightarrow> return (Inl e)
          | Inr patched \<Rightarrow> do {
              emit (Event ''ManagedClusterMetaObjModified''
                (''The managed cluster '' @ Name patched @ '' meta data is modified: '' @ join '','' msgs));
              return (Inr patched) } })"

text \<open>The two keys of the namespace labels differ and neither asks for a removal, so that the
  order in which Go visits them does not matter.\<close>

definition managedcluster_Reconcile :: "server \<Rightarrow> string \<Rightarrow> (call, outcome) prog" where
  "managedcluster_Reconcile srv reqName = do {
     r \<leftarrow> api_GetManagedCluster srv reqName;
     case r of
       Inl e \<Rightarrow> return (Return emptyResult (IgnoreNotFound e))
     | Inr managedCluster \<Rightarrow>
         if deleting managedCluster then return done_ok
         else do {
           m \<leftarrow> ensureManagedClusterMetaObj srv managedCluster;
           case m of
             Inl e \<Rightarrow> return (Return emptyResult (Some e))
           | Inr cluster \<Rightarrow> do {
               n \<leftarrow> api_GetNamespace srv (Name cluster);
               case n of
                 Inl e \<Rightarrow> return (Return emptyResult (IgnoreNotFound e))
               | Inr ns \<Rightarrow>
                   (case MergeMap False (Labels ns)
                       [(ClusterLabel, Name cluster), (ClusterNameLabelKey, Name cluster)] of
                      (modified, labels) \<Rightarrow>
                        if \<not> modified then return done_ok
                        else do {
                          u \<leftarrow> api_write srv (UpdateNamespace (ns\<lparr>Labels := labels\<rparr>));
                          case u of
                            Some e \<Rightarrow> return (Return emptyResult (Some e))
                          | None \<Rightarrow> do {
                              emit (Event ''ManagedClusterNamespaceLabelUpdated''
                                (''The managed cluster '' @ Name cluster @ '' namespace label is added''));
                              return done_ok } }) } } }"

section \<open>The metadata that is ensured\<close>

definition addon_hosting_wanted :: "ManagedCluster \<Rightarrow> string option" where
  "addon_hosting_wanted c =
     (if IsHostedCluster c \<and> goidx (Annotations c) AddonEnableHostedModeAnnotation = LabelValueTrue \<and>
         goidx (Annotations c) HostingClusterNameAnnotation \<noteq> []
      then Some (goidx (Annotations c) HostingClusterNameAnnotation) else None)"

definition label_ok :: "ManagedCluster \<Rightarrow> bool" where
  "label_ok c \<longleftrightarrow> fmlookup (Labels c) clusterNameLabel = Some (Name c)"

definition via_ok :: "ManagedCluster \<Rightarrow> bool" where
  "via_ok c \<longleftrightarrow>
     (\<exists>v \<in> set (createdViaOther # validCreatedViaValues). fmlookup (Annotations c) CreatedViaAnnotation = Some v)"

definition addon_ok :: "ManagedCluster \<Rightarrow> bool" where
  "addon_ok c \<longleftrightarrow> fmlookup (Annotations c) HostingClusterNameAnnotationKey = addon_hosting_wanted c"

definition finalizer_ok :: "ManagedCluster \<Rightarrow> bool" where
  "finalizer_ok c \<longleftrightarrow> ImportFinalizer \<in> set (Finalizers c)"

definition meta_ensured :: "ManagedCluster \<Rightarrow> bool" where
  "meta_ensured c \<longleftrightarrow> label_ok c \<and> via_ok c \<and> addon_ok c \<and> finalizer_ok c"

lemma meta_keys [simp]:
  "\<not> HasSuffix clusterNameLabel ''-''" "\<not> HasSuffix CreatedViaAnnotation ''-''"
  "\<not> HasSuffix HostingClusterNameAnnotationKey ''-''"
  "\<not> HasSuffix ClusterLabel ''-''" "\<not> HasSuffix ClusterNameLabelKey ''-''"
  by code_simp+

lemma annotation_keys_differ [simp]:
  "CreatedViaAnnotation \<noteq> HostingClusterNameAnnotationKey"
  "AddonEnableHostedModeAnnotation \<noteq> HostingClusterNameAnnotationKey"
  "AddonEnableHostedModeAnnotation \<noteq> CreatedViaAnnotation"
  "HostingClusterNameAnnotation \<noteq> HostingClusterNameAnnotationKey"
  "HostingClusterNameAnnotation \<noteq> CreatedViaAnnotation"
  "KlusterletDeployModeAnnotation \<noteq> HostingClusterNameAnnotationKey"
  "KlusterletDeployModeAnnotation \<noteq> CreatedViaAnnotation"
  "ClusterLabel \<noteq> ClusterNameLabelKey"
  by code_simp+

lemmas annotation_keys_differ_sym [simp] = annotation_keys_differ [symmetric]

lemma addon_hosting_wanted_cong:
  assumes "\<forall>k \<in> {AddonEnableHostedModeAnnotation, HostingClusterNameAnnotation, KlusterletDeployModeAnnotation}.
    fmlookup (Annotations c) k = fmlookup (Annotations c') k"
  shows "addon_hosting_wanted c = addon_hosting_wanted c'"
  using assms
  by (simp add: addon_hosting_wanted_def IsHostedCluster_def DetermineKlusterletMode_def goidx_def)

text \<open>The four repairs. Each establishes its own part and leaves the other three alone.\<close>

definition fix_label :: "ManagedCluster \<Rightarrow> ManagedCluster" where
  "fix_label c = c\<lparr>Labels := fmupd clusterNameLabel (Name c) (Labels c)\<rparr>"

definition fix_via :: "ManagedCluster \<Rightarrow> ManagedCluster" where
  "fix_via c = c\<lparr>Annotations := fmupd CreatedViaAnnotation createdViaOther (Annotations c)\<rparr>"

definition fix_addon :: "ManagedCluster \<Rightarrow> ManagedCluster" where
  "fix_addon c = c\<lparr>Annotations := (case addon_hosting_wanted c of
     None \<Rightarrow> fmdrop HostingClusterNameAnnotationKey (Annotations c)
   | Some n \<Rightarrow> fmupd HostingClusterNameAnnotationKey n (Annotations c))\<rparr>"

definition fix_finalizer :: "ManagedCluster \<Rightarrow> ManagedCluster" where
  "fix_finalizer c = c\<lparr>Finalizers := Finalizers c @ [ImportFinalizer]\<rparr>"

lemma wanted_fix [simp]:
  "addon_hosting_wanted (fix_label c) = addon_hosting_wanted c"
  "addon_hosting_wanted (fix_via c) = addon_hosting_wanted c"
  "addon_hosting_wanted (fix_addon c) = addon_hosting_wanted c"
  by (rule addon_hosting_wanted_cong;
      simp add: fix_label_def fix_via_def fix_addon_def split: option.splits)+

lemma wanted_finalizers [simp]: "addon_hosting_wanted (fix_finalizer c) = addon_hosting_wanted c"
  by (rule addon_hosting_wanted_cong) (simp add: fix_finalizer_def)

lemma fix_establishes [simp]:
  "label_ok (fix_label c)" "via_ok (fix_via c)" "addon_ok (fix_addon c)" "finalizer_ok (fix_finalizer c)"
proof -
  show "addon_ok (fix_addon c)"
    unfolding addon_ok_def wanted_fix by (simp add: fix_addon_def split: option.splits)
qed (simp_all add: label_ok_def fix_label_def via_ok_def fix_via_def finalizer_ok_def fix_finalizer_def)

lemma fix_keeps [simp]:
  "via_ok (fix_label c) = via_ok c" "addon_ok (fix_label c) = addon_ok c"
  "finalizer_ok (fix_label c) = finalizer_ok c"
  "label_ok (fix_via c) = label_ok c" "addon_ok (fix_via c) = addon_ok c"
  "finalizer_ok (fix_via c) = finalizer_ok c"
  "label_ok (fix_addon c) = label_ok c" "via_ok (fix_addon c) = via_ok c"
  "finalizer_ok (fix_addon c) = finalizer_ok c"
  "label_ok (fix_finalizer c) = label_ok c" "via_ok (fix_finalizer c) = via_ok c"
  "addon_ok (fix_finalizer c) = addon_ok c"
  unfolding addon_ok_def wanted_fix wanted_finalizers
  by (simp_all add: label_ok_def via_ok_def finalizer_ok_def fix_label_def fix_via_def fix_addon_def
      fix_finalizer_def split: option.splits)

lemma fix_Name [simp]:
  "Name (fix_label c) = Name c" "Name (fix_via c) = Name c" "Name (fix_addon c) = Name c"
  "Name (fix_finalizer c) = Name c"
  by (simp_all add: fix_label_def fix_via_def fix_addon_def fix_finalizer_def)

text \<open>Each step of the code is its repair, and reports a change exactly when it makes one.\<close>

lemma ensureCreateVia_cases: "ensureCreateViaAnnotation m c = (if via_ok c then (m, c) else (True, fix_via c))"
  by (auto simp: ensureCreateViaAnnotation_def Let_def via_ok_def fix_via_def split: option.splits)

lemma ensureAddonHosting_cases: "ensureAddonHostingAnnotation m c = (if addon_ok c then (m, c) else (True, fix_addon c))"
  by (auto simp: ensureAddonHostingAnnotation_def addon_ok_def fix_addon_def addon_hosting_wanted_def Let_def
      haskey_def goidx_def split: option.splits)

lemma finalizer_cases:
  "AddManagedClusterFinalizer m c ImportFinalizer = (if finalizer_ok c then (m, c) else (True, fix_finalizer c))"
  by (simp add: AddManagedClusterFinalizer_def finalizer_ok_def fix_finalizer_def)

lemma label_cases:
  "MergeMap False (Labels c) [(clusterNameLabel, Name c)] =
     (\<not> label_ok c, if label_ok c then Labels c else Labels (fix_label c))"
  by (simp add: label_ok_def fix_label_def)

definition repaired :: "ManagedCluster \<Rightarrow> ManagedCluster" where
  "repaired c = (
     let c1 = (if label_ok c then c else fix_label c);
         c2 = (if via_ok c1 then c1 else fix_via c1);
         c3 = (if addon_ok c2 then c2 else fix_addon c2)
     in if finalizer_ok c3 then c3 else fix_finalizer c3)"

lemma ensure_meta_eq:
  "ensure_meta c = (\<not> meta_ensured c,
     (if label_ok c then [] else [''cluster name label is added'']) @
     (if label_ok c \<and> via_ok c then [] else [''created-via annotaion is added'']) @
     (if label_ok c \<and> via_ok c \<and> addon_ok c then []
      else [''addon hosting cluster name annotation is added'']) @
     (if meta_ensured c then [] else [''import finalizer is added'']),
     repaired c)"
proof -
  have "c\<lparr>Labels := Labels (fix_label c)\<rparr> = fix_label c" by (simp add: fix_label_def)
  then show ?thesis
    by (simp add: ensure_meta_def label_cases ensureCreateVia_cases ensureAddonHosting_cases finalizer_cases
        meta_ensured_def repaired_def Let_def del: MergeMap.simps)
qed

lemma ensure_meta_repaired [simp]: "snd (snd (ensure_meta c)) = repaired c"
  by (simp add: ensure_meta_eq)

lemma meta_ensured_repaired [simp]: "meta_ensured (repaired c)"
  by (simp add: repaired_def meta_ensured_def Let_def)

lemma repaired_id: "meta_ensured c \<Longrightarrow> repaired c = c"
  by (simp add: repaired_def meta_ensured_def Let_def)

lemma repaired_Name [simp]: "Name (repaired c) = Name c"
  by (simp add: repaired_def Let_def)

lemma wp_ensureManagedClusterMetaObj:
  "wp (ensureManagedClusterMetaObj srv c) Q h =
     (if meta_ensured c then Q (Inr c) h
      else (case on_PatchManagedCluster srv h c (repaired c) of
          Inl e \<Rightarrow> Q (Inl e) (h @ [Write (PatchManagedCluster c (repaired c))])
        | Inr p \<Rightarrow> Q (Inr p) (h @ [Write (PatchManagedCluster c (repaired c)),
            Event ''ManagedClusterMetaObjModified'' (''The managed cluster '' @ Name p @
              '' meta data is modified: '' @ join '','' (fst (snd (ensure_meta c))))])))"
proof -
  obtain msgs where e: "ensure_meta c = (\<not> meta_ensured c, msgs, repaired c)" using ensure_meta_eq by blast
  show ?thesis
    unfolding ensureManagedClusterMetaObj_def by (simp add: wp_simps e split: sum.split)
qed

definition namespace_ok :: "string \<Rightarrow> smap \<Rightarrow> bool" where
  "namespace_ok n ls \<longleftrightarrow> fmlookup ls ClusterLabel = Some n \<and> fmlookup ls ClusterNameLabelKey = Some n"

definition namespace_labels :: "string \<Rightarrow> smap \<Rightarrow> smap" where
  "namespace_labels n ls = fmupd ClusterNameLabelKey n (fmupd ClusterLabel n ls)"

lemma fmupd_triv: "fmlookup m k = Some v \<Longrightarrow> fmupd k v m = m"
  by (auto intro!: fmap_ext)

lemma namespace_labels_eq:
  "MergeMap False ls [(ClusterLabel, n), (ClusterNameLabelKey, n)] = (\<not> namespace_ok n ls, namespace_labels n ls)"
  by (simp add: namespace_ok_def namespace_labels_def fmupd_triv)

section \<open>Properties\<close>

text \<open>
  C31. The metadata step reports a change exactly when something is missing or wrong, it leaves a
  cluster whose metadata is as it should be (the name label, a known created-via value, the addon
  hosting annotation exactly when hosted addons are enabled, the import finalizer), and it
  changes nothing when it reports no change; so a second run makes no further change.
\<close>

theorem ensure_meta_correct:
  "case ensure_meta c of (modified, msgs, c') \<Rightarrow>
     (modified \<longleftrightarrow> \<not> meta_ensured c) \<and> meta_ensured c' \<and> Name c' = Name c \<and>
     (if modified then True else c' = c \<and> msgs = []) \<and> fst (ensure_meta c') = False"
  by (simp add: ensure_meta_eq repaired_id) (auto simp: meta_ensured_def)

text \<open>
  Once the name label of a cluster had to be set, the recorded event names all four changes,
  also those that were not made: the flag that the steps share is never cleared between them.
\<close>

theorem ensure_meta_messages_stick:
  assumes "fmlookup (Labels c) clusterNameLabel \<noteq> Some (Name c)"
  shows "fst (snd (ensure_meta c)) =
    [''cluster name label is added'', ''created-via annotaion is added'',
     ''addon hosting cluster name annotation is added'', ''import finalizer is added'']"
  using assms by (simp add: ensure_meta_eq label_ok_def meta_ensured_def)

definition unlabelled_cluster :: ManagedCluster where
  "unlabelled_cluster = (new_cluster ''c1'')\<lparr>
     Annotations := fmap_of_list [(CreatedViaAnnotation, createdViaOther)], Finalizers := [ImportFinalizer]\<rparr>"

theorem ensure_meta_messages_stick_witness:
  "via_ok unlabelled_cluster \<and> addon_ok unlabelled_cluster \<and> finalizer_ok unlabelled_cluster \<and>
   length (fst (snd (ensure_meta unlabelled_cluster))) = 4"
proof -
  have "via_ok unlabelled_cluster" "addon_ok unlabelled_cluster" "finalizer_ok unlabelled_cluster"
    and l: "fmlookup (Labels unlabelled_cluster) clusterNameLabel \<noteq> Some (Name unlabelled_cluster)"
    by code_simp+
  then show ?thesis using ensure_meta_messages_stick [OF l] by simp
qed

text \<open>
  The controller patches the managed cluster exactly when the requested cluster exists, is not
  being deleted and its metadata is not yet as it should be, and the patch it sends makes it so.
\<close>

theorem managedcluster_patch_iff:
  "Write (PatchManagedCluster from to) \<in> set (new_calls (managedcluster_Reconcile srv n) h) \<longleftrightarrow>
     on_GetManagedCluster srv h n = Inr from \<and> \<not> deleting from \<and> \<not> meta_ensured from \<and>
     to = snd (snd (ensure_meta from))"
  unfolding new_calls_wp [symmetric, where Q = "\<lambda>_ cs. Write (PatchManagedCluster from to) \<in> set cs"]
    managedcluster_Reconcile_def
  by (simp add: wp_simps wp_ensureManagedClusterMetaObj namespace_labels_eq del: MergeMap.simps
      split: sum.split option.split) blast

text \<open>
  The controller updates a namespace only as it read it, under the cluster's name, and with both
  cluster labels set to that name, and only when one of them was missing or different; every
  other label and the rest of the namespace are kept.
\<close>

theorem managedcluster_namespace_labels:
  "if Write (UpdateNamespace ns') \<in> set (new_calls (managedcluster_Reconcile srv n) h) then
     (\<exists>ns cn h'. on_GetNamespace srv h' cn = Inr ns \<and>
        \<not> (fmlookup (Labels ns) ClusterLabel = Some cn \<and> fmlookup (Labels ns) ClusterNameLabelKey = Some cn) \<and>
        ns' = ns\<lparr>Labels := fmupd ClusterNameLabelKey cn (fmupd ClusterLabel cn (Labels ns))\<rparr>)
   else True"
proof -
  have "wp (managedcluster_Reconcile srv n) (\<lambda>_ h'. Write (UpdateNamespace ns') \<in> set (drop (length h) h') \<longrightarrow>
     (\<exists>ns cn h'. on_GetNamespace srv h' cn = Inr ns \<and> \<not> namespace_ok cn (Labels ns) \<and> ns' = ns\<lparr>Labels := namespace_labels cn (Labels ns)\<rparr>)) h"
    unfolding managedcluster_Reconcile_def
    by (simp add: wp_simps wp_ensureManagedClusterMetaObj namespace_labels_eq
        del: MergeMap.simps split: sum.split option.split) blast
  then show ?thesis by (auto simp: wp_run new_calls_def namespace_ok_def namespace_labels_def)
qed

end
