(* ===== verification/Import_Status.thy ===== *)
theory Import_Status
  imports Work_Helpers
begin

text \<open>
  \<open>pkg/controller/importstatus/importstatus_controller.go\<close>: the import condition of a cluster from
  the availability of its klusterlet manifest work.
\<close>

definition wait_for_importing :: Condition where
  "wait_for_importing = NewManagedClusterImportSucceededCondition ConditionFalse
     ConditionReasonManagedClusterWaitForImporting ''Wait for importing''"

definition import_succeeded :: Condition where
  "import_succeeded = NewManagedClusterImportSucceededCondition ConditionTrue
     ConditionReasonManagedClusterImported ''Import succeeded''"

definition klusterlet_work_name :: "string \<Rightarrow> string" where
  "klusterlet_work_name n = n @ ''-'' @ KlusterletSuffix"

definition importstatus_Reconcile :: "server \<Rightarrow> string \<Rightarrow> (call, outcome) prog" where
  "importstatus_Reconcile srv reqName = do {
     r \<leftarrow> api_GetManagedCluster srv reqName;
     case r of
       Inl e \<Rightarrow> return (Return emptyResult (IgnoreNotFound e))
     | Inr managedCluster \<Rightarrow>
         if DetermineKlusterletMode managedCluster = InstallModeHosted then return done_ok
         else if deleting managedCluster then return done_ok
         else if FindStatusCondition (Conditions managedCluster) ConditionManagedClusterImportSucceeded = None
         then do {
           e \<leftarrow> UpdateManagedClusterImportCondition srv managedCluster wait_for_importing;
           return (Return (emptyResult\<lparr>Requeue := True\<rparr>) e) }
         else do {
           a \<leftarrow> IsManifestWorksAvailable srv reqName [klusterlet_work_name reqName];
           case a of
             Inl e \<Rightarrow> return (Return emptyResult (Some e))
           | Inr available \<Rightarrow>
               if \<not> available then return done_ok
               else do {
                 i \<leftarrow> (if IsImmediateImport (Annotations managedCluster)
                       then SetImmediateImportCompleted srv (Name managedCluster) else return None);
                 case i of
                   Some e \<Rightarrow> return (Return emptyResult (Some e))
                 | None \<Rightarrow> do {
                     e \<leftarrow> UpdateManagedClusterImportCondition srv managedCluster import_succeeded;
                     return (Return emptyResult e) } } } }"

section \<open>When the condition is written\<close>

definition sets_condition :: "ManagedCluster \<Rightarrow> Condition \<Rightarrow> bool" where
  "sets_condition mc' cond \<longleftrightarrow> (\<exists>mc now. mc' = mc\<lparr>Conditions := SetStatusCondition now (Conditions mc) cond\<rparr>)"

text \<open>The updates of the status of a cluster that a call may make.\<close>

fun status_update :: "(ManagedCluster \<Rightarrow> bool) \<Rightarrow> call \<Rightarrow> bool" where
  "status_update P (Write (UpdateManagedClusterStatus mc)) = P mc"
| "status_update P _ = True"

lemma status_call_update:
  "status_call n cond c \<Longrightarrow> (\<And>mc. sets_condition mc cond \<Longrightarrow> P mc) \<Longrightarrow> status_update P c"
  by (cases "(P, c)" rule: status_update.cases) (auto simp: sets_condition_def)

lemma issues_UpdateImportCondition:
  assumes "\<And>mc'. sets_condition mc' cond \<Longrightarrow> P mc'" and "\<And>a h'. issues (status_update P) (f a) h'"
  shows "issues (status_update P) (State_Monad.bind (UpdateManagedClusterImportCondition srv mc cond) f) h"
  by (rule issues_bind_calls [OF calls_UpdateManagedClusterImportCondition])
    (use assms status_call_update in blast)+

lemma issues_SetImmediateImportCompleted:
  assumes "\<And>a h'. issues (status_update P) (f a) h'"
  shows "issues (status_update P) (State_Monad.bind (SetImmediateImportCompleted srv n) f) h"
proof -
  have "calls_only (status_update P) (SetImmediateImportCompleted srv n)"
    unfolding SetImmediateImportCompleted_def by (intro calls_intros) simp_all
  then show ?thesis by (rule issues_bind_calls) (use assms in auto)
qed

definition klusterlet_work_available :: "server \<Rightarrow> call list \<Rightarrow> string \<Rightarrow> bool" where
  "klusterlet_work_available srv h n \<longleftrightarrow>
     (\<exists>work. on_GetManifestWork srv h n (klusterlet_work_name n) = Inr work \<and>
        IsStatusConditionTrue (WorkConditions work) WorkAvailable)"

lemma importstatus_writes:
  assumes "Write (UpdateManagedClusterStatus mc') \<in> set (new_calls (importstatus_Reconcile srv n) h)"
  shows "\<exists>cluster. on_GetManagedCluster srv h n = Inr cluster \<and> \<not> deleting cluster \<and>
    DetermineKlusterletMode cluster \<noteq> InstallModeHosted \<and>
    (if FindStatusCondition (Conditions cluster) ConditionManagedClusterImportSucceeded = None
     then sets_condition mc' wait_for_importing
     else sets_condition mc' import_succeeded \<and>
       klusterlet_work_available srv (h @ [Read (GetManagedCluster n)]) n)"
proof -
  let ?P = "\<lambda>mc'. \<exists>cluster. on_GetManagedCluster srv h n = Inr cluster \<and> \<not> deleting cluster \<and>
    DetermineKlusterletMode cluster \<noteq> InstallModeHosted \<and>
    (if FindStatusCondition (Conditions cluster) ConditionManagedClusterImportSucceeded = None
     then sets_condition mc' wait_for_importing
     else sets_condition mc' import_succeeded \<and>
       klusterlet_work_available srv (h @ [Read (GetManagedCluster n)]) n)"
  have "issues (status_update ?P) (importstatus_Reconcile srv n) h"
    unfolding importstatus_Reconcile_def IsManifestWorksAvailable.simps
    by (intro issues_intros issues_UpdateImportCondition issues_SetImmediateImportCompleted)
      (auto simp: klusterlet_work_available_def split: if_splits)
  from issues_new_calls [OF this assms] show ?thesis by simp
qed

text \<open>
  C24. The import status controller writes the status of a cluster in two cases only: it adds the
  condition WaitForImporting to a cluster that has no import condition, or it sets the condition
  to Imported after it has seen the klusterlet manifest work available. The cluster it read is
  not in hosted mode and is not being deleted.
\<close>

theorem importstatus_two_cases:
  assumes "Write (UpdateManagedClusterStatus mc') \<in> set (new_calls (importstatus_Reconcile srv n) h)"
  shows "\<exists>cluster. on_GetManagedCluster srv h n = Inr cluster \<and> \<not> deleting cluster \<and>
    DetermineKlusterletMode cluster \<noteq> InstallModeHosted \<and>
    (if FindStatusCondition (Conditions cluster) ConditionManagedClusterImportSucceeded = None
     then sets_condition mc' wait_for_importing
     else sets_condition mc' import_succeeded \<and>
       klusterlet_work_available srv (h @ [Read (GetManagedCluster n)]) n)"
  using assms by (rule importstatus_writes)

definition waiting_server :: server where
  "waiting_server = empty_server\<lparr>on_GetManagedCluster := (\<lambda>_ n. Inr (new_cluster n))\<rparr>"

theorem importstatus_two_cases_witness:
  "\<exists>mc'. Write (UpdateManagedClusterStatus mc') \<in> set (new_calls (importstatus_Reconcile waiting_server ''c1'') []) \<and>
     sets_condition mc' wait_for_importing"
proof -
  let ?mc = "(new_cluster ''c1'')\<lparr>Conditions := SetStatusCondition 0 [] wait_for_importing\<rparr>"
  have w: "Write (UpdateManagedClusterStatus ?mc) \<in> set (new_calls (importstatus_Reconcile waiting_server ''c1'') [])"
    by code_simp
  from importstatus_two_cases [OF w] w show ?thesis
    by (auto simp: waiting_server_def new_cluster_def new_meta_def FindStatusCondition_def ObjectMeta.defs
        split: if_splits)
qed

end
