(* ===== verification/Rosa.thy ===== *)
theory Rosa
  imports Import_Helper
begin

text \<open>
  \<open>pkg/helpers/rosa.go\<close> and \<open>GenerateImportClientFromRosaCluster\<close> of \<open>pkg/helpers/helpers.go\<close>: the
  kubeconfig of a ROSA cluster by way of a temporary import user of the OpenShift cluster
  manager. The getter is kept between reconciles; every method returns it updated. The builders
  of the cluster manager's SDK only collect values and do not fail.
\<close>

section \<open>The getter\<close>

record RosaGetter =
  apiServerURL :: string
  tokenURL :: string
  rosaToken :: string
  clientID :: string
  clientSecret :: string
  clusterID :: string
  importUserPasswd :: string
  totalRetryTimes :: int
  currentRetryTimes :: int
  authMethod :: string

definition defaultAPIServerURL :: string where
  "defaultAPIServerURL = ''https://api.openshift.com''"

definition defaultTokenURL :: string where
  "defaultTokenURL = ''https://sso.redhat.com/auth/realms/redhat-external/protocol/openid-connect/token''"

definition clusterAdminGroup :: string where "clusterAdminGroup = ''cluster-admins''"
definition importHTPasswdIDProvider :: string where "importHTPasswdIDProvider = ''acm-import''"
definition importHTPasswdUser :: string where "importHTPasswdUser = ''acm-import''"
definition rosaImportRetryPeriod :: int where "rosaImportRetryPeriod = 30 * second"
definition defaultRetryTimes :: int where "defaultRetryTimes = 20"

definition NewRosaKubeConfigGetter :: RosaGetter where
  "NewRosaKubeConfigGetter = \<lparr>apiServerURL = defaultAPIServerURL, tokenURL = defaultTokenURL, rosaToken = [],
     clientID = [], clientSecret = [], clusterID = [], importUserPasswd = [],
     totalRetryTimes = defaultRetryTimes, currentRetryTimes = 0,
     authMethod = AutoImportSecretRosaConfigAuthMethodOfflineToken\<rparr>"

definition SetAPIServerURL :: "string \<Rightarrow> RosaGetter \<Rightarrow> RosaGetter" where "SetAPIServerURL u g = g\<lparr>apiServerURL := u\<rparr>"
definition SetTokenURL :: "string \<Rightarrow> RosaGetter \<Rightarrow> RosaGetter" where "SetTokenURL u g = g\<lparr>tokenURL := u\<rparr>"
definition SetToken :: "string \<Rightarrow> RosaGetter \<Rightarrow> RosaGetter" where "SetToken t g = g\<lparr>rosaToken := t\<rparr>"
definition SetClusterID :: "string \<Rightarrow> RosaGetter \<Rightarrow> RosaGetter" where "SetClusterID i g = g\<lparr>clusterID := i\<rparr>"
definition SetAuthMethod :: "string \<Rightarrow> RosaGetter \<Rightarrow> RosaGetter" where "SetAuthMethod m g = g\<lparr>authMethod := m\<rparr>"
definition SetClientID :: "string \<Rightarrow> RosaGetter \<Rightarrow> RosaGetter" where "SetClientID i g = g\<lparr>clientID := i\<rparr>"
definition SetClientSecret :: "string \<Rightarrow> RosaGetter \<Rightarrow> RosaGetter" where "SetClientSecret c g = g\<lparr>clientSecret := c\<rparr>"

lemmas rosa_setters [simp] = SetAPIServerURL_def SetTokenURL_def SetToken_def SetClusterID_def SetAuthMethod_def
  SetClientID_def SetClientSecret_def

definition SetRetryTimes :: "string \<Rightarrow> RosaGetter \<Rightarrow> RosaGetter" where
  "SetRetryTimes retryTimes g =
     (case Atoi retryTimes of
        None \<Rightarrow> g
      | Some retryTimesInt \<Rightarrow> if retryTimesInt \<le> 0 then g else g\<lparr>totalRetryTimes := retryTimesInt\<rparr>)"

definition newConnection :: "server \<Rightarrow> RosaGetter \<Rightarrow> (call, err + ocm_connection) prog" where
  "newConnection srv g = (
     let build = (\<lambda>conn. do {
       e \<leftarrow> api_OcmConnect srv conn;
       return (case e of Some x \<Rightarrow> Inl x | None \<Rightarrow> Inr conn) }) in
     if authMethod g = AutoImportSecretRosaConfigAuthMethodOfflineToken
     then build (OfflineTokenConn (apiServerURL g) (tokenURL g) (rosaToken g))
     else if authMethod g = AutoImportSecretRosaConfigAuthMethodServiceAccount
     then build (ServiceAccountConn (clientID g) (clientSecret g))
     else return (Inl (ErrorString (''invalid auth method '' @ authMethod g))))"

section \<open>The import user\<close>

text \<open>\<open>Each\<close> visits the providers until the first match; a nil provider is passed over.\<close>

fun first_provider :: "ocm_provider option list \<Rightarrow> string" where
  "first_provider [] = []"
| "first_provider (None # ps) = first_provider ps"
| "first_provider (Some p # ps) =
     (if ProviderType p \<noteq> ''HTPasswdIdentityProvider'' then first_provider ps
      else if ProviderName p \<noteq> importHTPasswdIDProvider then first_provider ps
      else ProviderID p)"

definition findHTPasswdIDProvider :: "server \<Rightarrow> ocm_connection \<Rightarrow> string \<Rightarrow> (call, err + string) prog" where
  "findHTPasswdIDProvider srv conn cid = do {
     r \<leftarrow> api_OcmListIDProviders srv conn cid;
     return (case r of
       Inl e \<Rightarrow> Inl e
     | Inr None \<Rightarrow> Inr []
     | Inr (Some providers) \<Rightarrow> Inr (first_provider providers)) }"

fun first_user :: "ocm_user option list \<Rightarrow> string" where
  "first_user [] = []"
| "first_user (None # us) = first_user us"
| "first_user (Some u # us) = (if OcmUsername u \<noteq> importHTPasswdUser then first_user us else OcmUserID u)"

definition findHTPasswdUser ::
  "server \<Rightarrow> ocm_connection \<Rightarrow> string \<Rightarrow> string \<Rightarrow> (call, err + string) prog" where
  "findHTPasswdUser srv conn cid providerID = do {
     r \<leftarrow> api_OcmListHTPasswdUsers srv conn cid providerID;
     return (map_sum id first_user r) }"

definition findImportUserFromClusterAdminGroup ::
  "server \<Rightarrow> ocm_connection \<Rightarrow> string \<Rightarrow> (call, err + bool) prog" where
  "findImportUserFromClusterAdminGroup srv conn cid = do {
     r \<leftarrow> api_OcmGetAdmin srv conn cid importHTPasswdUser;
     return (case r of
       Inl (e, status) \<Rightarrow> if status = Some 404 then Inr False else Inl e
     | Inr _ \<Rightarrow> Inr True) }"

definition addImportUserToClusterAdminGroup ::
  "server \<Rightarrow> ocm_connection \<Rightarrow> string \<Rightarrow> (call, err option) prog" where
  "addImportUserToClusterAdminGroup srv conn cid = do {
     r \<leftarrow> findImportUserFromClusterAdminGroup srv conn cid;
     case r of
       Inl e \<Rightarrow> return (Some e)
     | Inr found \<Rightarrow> if found then return None else api_write srv (OcmAddAdmin conn cid importHTPasswdUser) }"

text \<open>The three ways to give the import user a fresh password; each returns the password.\<close>

definition with_password :: "server \<Rightarrow> (string \<Rightarrow> request) \<Rightarrow> (call, err + string) prog" where
  "with_password srv req = do {
     p \<leftarrow> peek (on_password srv);
     case p of
       Inl e \<Rightarrow> return (Inl e)
     | Inr pw \<Rightarrow> do {
         w \<leftarrow> api_write srv (req pw);
         return (case w of Some e \<Rightarrow> Inl e | None \<Rightarrow> Inr pw) } }"

definition createHTPasswdIDProviderWithUser ::
  "server \<Rightarrow> ocm_connection \<Rightarrow> string \<Rightarrow> (call, err + string) prog" where
  "createHTPasswdIDProviderWithUser srv conn cid =
     with_password srv (\<lambda>pw. OcmAddIDProvider conn cid importHTPasswdIDProvider importHTPasswdUser pw)"

definition addHTPasswdUser ::
  "server \<Rightarrow> ocm_connection \<Rightarrow> string \<Rightarrow> string \<Rightarrow> (call, err + string) prog" where
  "addHTPasswdUser srv conn cid providerID =
     with_password srv (\<lambda>pw. OcmAddHTPasswdUser conn cid providerID importHTPasswdUser pw)"

definition updateHTPasswdUserPassword ::
  "server \<Rightarrow> ocm_connection \<Rightarrow> string \<Rightarrow> string \<Rightarrow> string \<Rightarrow> (call, err + string) prog" where
  "updateHTPasswdUserPassword srv conn cid providerID userID =
     with_password srv (\<lambda>pw. OcmUpdateHTPasswdUser conn cid providerID userID pw)"

definition createImportUserWithHTPasswdIDProvider ::
  "server \<Rightarrow> ocm_connection \<Rightarrow> string \<Rightarrow> (call, err + string) prog" where
  "createImportUserWithHTPasswdIDProvider srv conn cid = do {
     p \<leftarrow> findHTPasswdIDProvider srv conn cid;
     case p of
       Inl e \<Rightarrow> return (Inl e)
     | Inr providerID \<Rightarrow>
         if length providerID = 0 then createHTPasswdIDProviderWithUser srv conn cid
         else do {
           u \<leftarrow> findHTPasswdUser srv conn cid providerID;
           case u of
             Inl e \<Rightarrow> return (Inl e)
           | Inr userID \<Rightarrow>
               if length userID = 0 then addHTPasswdUser srv conn cid providerID
               else updateHTPasswdUserPassword srv conn cid providerID userID } }"

definition deleteHTPasswdIDProvider :: "server \<Rightarrow> ocm_connection \<Rightarrow> string \<Rightarrow> (call, err option) prog" where
  "deleteHTPasswdIDProvider srv conn cid = do {
     p \<leftarrow> findHTPasswdIDProvider srv conn cid;
     case p of
       Inl e \<Rightarrow> return (Some e)
     | Inr providerID \<Rightarrow>
         if length providerID = 0 then return None
         else api_write srv (OcmDeleteIDProvider conn cid providerID) }"

definition removeImportUserFromClusterAdminGroup ::
  "server \<Rightarrow> ocm_connection \<Rightarrow> string \<Rightarrow> (call, err option) prog" where
  "removeImportUserFromClusterAdminGroup srv conn cid = do {
     r \<leftarrow> findImportUserFromClusterAdminGroup srv conn cid;
     case r of
       Inl e \<Rightarrow> return (Some e)
     | Inr found \<Rightarrow>
         if \<not> found then return None else api_write srv (OcmRemoveAdmin conn cid importHTPasswdUser) }"

section \<open>Retries, clean-up and the kubeconfig\<close>

definition shouldRetry :: "server \<Rightarrow> RosaGetter \<Rightarrow> ocm_connection \<Rightarrow> (call, RosaGetter \<times> bool) prog" where
  "shouldRetry srv g conn =
     (if currentRetryTimes g \<ge> totalRetryTimes g then do {
        _ \<leftarrow> deleteHTPasswdIDProvider srv conn (clusterID g);
        _ \<leftarrow> removeImportUserFromClusterAdminGroup srv conn (clusterID g);
        return (g, False) }
      else return (g\<lparr>currentRetryTimes := currentRetryTimes g + 1\<rparr>, True))"

definition GetterCleanup :: "server \<Rightarrow> RosaGetter \<Rightarrow> (call, err option) prog" where
  "GetterCleanup srv g = do {
     c \<leftarrow> newConnection srv g;
     case c of
       Inl e \<Rightarrow> return (Some e)
     | Inr conn \<Rightarrow> do {
         e1 \<leftarrow> deleteHTPasswdIDProvider srv conn (clusterID g);
         e2 \<leftarrow> removeImportUserFromClusterAdminGroup srv conn (clusterID g);
         return (NewAggregate [e1, e2]) } }"

text \<open>The import user, created only while no password is remembered.\<close>

definition ensure_user :: "server \<Rightarrow> RosaGetter \<Rightarrow> ocm_connection \<Rightarrow> (call, RosaGetter \<times> err option) prog" where
  "ensure_user srv g conn =
     (if length (importUserPasswd g) = 0 then do {
        p \<leftarrow> createImportUserWithHTPasswdIDProvider srv conn (clusterID g);
        case p of
          Inl e \<Rightarrow> return (g, Some e)
        | Inr importUserPassword \<Rightarrow> do {
            a \<leftarrow> addImportUserToClusterAdminGroup srv conn (clusterID g);
            case a of
              Some e \<Rightarrow> return (g, Some e)
            | None \<Rightarrow> return (g\<lparr>importUserPasswd := importUserPassword\<rparr>, None) } }
      else return (g, None))"

text \<open>The token of the import user, or the decision to retry.\<close>

definition request_token ::
  "server \<Rightarrow> ocm_connection \<Rightarrow> string \<Rightarrow> RosaGetter \<Rightarrow> (call, RosaGetter \<times> bool \<times> (err + KubeConfig)) prog" where
  "request_token srv conn url g = do {
     t \<leftarrow> api_OcmRequestToken srv url importHTPasswdUser (importUserPasswd g);
     case t of
       Inr tok \<Rightarrow> return (g, False, Inr (buildKubeConfigFileWithToken url tok))
     | Inl _ \<Rightarrow> do {
         (g', retry) \<leftarrow> shouldRetry srv g conn;
         if retry then return (g', True, Inl (ErrorString
           (''kubeconfig for rosa cluster '' @ clusterID g' @ '' is not ready, retry after '' @
            Itoa (quot rosaImportRetryPeriod second) @ '' seconds'')))
         else return (g', False, Inl (ErrorString
           (''failed to get kubeconfig for rosa cluster '' @ clusterID g' @ '' after '' @
            Itoa (quot (wrap64 (rosaImportRetryPeriod * totalRetryTimes g')) second) @
            '' seconds, err''))) } }"

definition GetterKubeConfig :: "server \<Rightarrow> RosaGetter \<Rightarrow> (call, RosaGetter \<times> bool \<times> (err + KubeConfig)) prog" where
  "GetterKubeConfig srv g = do {
     c \<leftarrow> newConnection srv g;
     case c of
       Inl e \<Rightarrow> return (g, False, Inl e)
     | Inr conn \<Rightarrow> do {
         r \<leftarrow> api_OcmGetCluster srv conn (clusterID g);
         case r of
           Inl e \<Rightarrow> return (g, False, Inl e)
         | Inr None \<Rightarrow> return (g, False, Inl (ErrorString
             (''rosa cluster api url is not found, clusterID: '' @ clusterID g)))
         | Inr (Some url) \<Rightarrow> do {
             (g1, e) \<leftarrow> ensure_user srv g conn;
             case e of
               Some x \<Rightarrow> return (g1, False, Inl x)
             | None \<Rightarrow> request_token srv conn url g1 } } }"

text \<open>The fields of the secret set the getter up; a missing one is an error.\<close>

definition setup_auth :: "Secret \<Rightarrow> RosaGetter \<Rightarrow> RosaGetter \<times> err option" where
  "setup_auth secret g = (
     let auth = goidx (Data secret) AutoImportSecretRosaConfigAuthMethodKey in
     if auth = AutoImportSecretRosaConfigAuthMethodServiceAccount then
       (let g1 = SetAuthMethod AutoImportSecretRosaConfigAuthMethodServiceAccount g in
        case fmlookup (Data secret) AutoImportSecretRosaConfigClientIDKey of
          None \<Rightarrow> (g1, Some (ErrorString ''client_id is missing''))
        | Some cid \<Rightarrow>
            (case fmlookup (Data secret) AutoImportSecretRosaConfigClientSecretKey of
               None \<Rightarrow> (g1, Some (ErrorString ''client_secret is missing''))
             | Some cs \<Rightarrow> (SetClientSecret cs (SetClientID cid g1), None)))
     else if auth = AutoImportSecretRosaConfigAuthMethodOfflineToken \<or> auth = [] then
       (let g1 = SetAuthMethod AutoImportSecretRosaConfigAuthMethodOfflineToken g in
        case fmlookup (Data secret) AutoImportSecretRosaConfigAPITokenKey of
          None \<Rightarrow> (g1, Some (ErrorString ''api_token is missing''))
        | Some tok \<Rightarrow> (SetToken tok g1, None))
     else (g, Some (ErrorString (''unsupported auth method '' @ auth))))"

definition GenerateImportClientFromRosaCluster ::
  "server \<Rightarrow> Secret \<Rightarrow> RosaGetter \<Rightarrow> (call, RosaGetter \<times> Result \<times> (err + holder)) prog" where
  "GenerateImportClientFromRosaCluster srv secret g =
     (case setup_auth secret g of
        (g1, Some e) \<Rightarrow> return (g1, emptyResult, Inl e)
      | (g1, None) \<Rightarrow>
          (case fmlookup (Data secret) AutoImportSecretRosaConfigClusterIDKey of
             None \<Rightarrow> return (g1, emptyResult, Inl (ErrorString ''cluster_id is missing''))
           | Some cid \<Rightarrow> do {
               let g2 = SetClusterID cid g1;
               let g3 = (case fmlookup (Data secret) AutoImportSecretRosaConfigAPIURLKey of
                 Some u \<Rightarrow> SetAPIServerURL u g2 | None \<Rightarrow> g2);
               let g4 = (case fmlookup (Data secret) AutoImportSecretRosaConfigTokenURLKey of
                 Some u \<Rightarrow> SetTokenURL u g3 | None \<Rightarrow> g3);
               let g5 = (case fmlookup (Data secret) AutoImportSecretRosaConfigRetryTimesKey of
                 Some n \<Rightarrow> SetRetryTimes n g4 | None \<Rightarrow> g4);
               (g6, requeue, r) \<leftarrow> GetterKubeConfig srv g5;
               case r of
                 Inl e \<Rightarrow> return (g6, \<lparr>Requeue = requeue, RequeueAfter = rosaImportRetryPeriod\<rparr>, Inl e)
               | Inr config \<Rightarrow> do {
                   (res, c) \<leftarrow> buildImportClient srv config;
                   return (g6, res, c) } }))"

section \<open>Properties\<close>

text \<open>The calls that create the import user or make it an administrator.\<close>

fun creates_user :: "call \<Rightarrow> bool" where
  "creates_user (Write (OcmAddIDProvider c a b d e)) = True"
| "creates_user (Write (OcmAddHTPasswdUser c a b d e)) = True"
| "creates_user (Write (OcmUpdateHTPasswdUser c a b d e)) = True"
| "creates_user (Write (OcmAddAdmin c a b)) = True"
| "creates_user _ = False"

lemmas rosa_defs = newConnection_def findHTPasswdIDProvider_def findHTPasswdUser_def
  findImportUserFromClusterAdminGroup_def addImportUserToClusterAdminGroup_def with_password_def
  createHTPasswdIDProviderWithUser_def addHTPasswdUser_def updateHTPasswdUserPassword_def
  createImportUserWithHTPasswdIDProvider_def deleteHTPasswdIDProvider_def
  removeImportUserFromClusterAdminGroup_def

lemma calls_rosa [calls_intros]:
  "calls_only (\<lambda>_. True) (createImportUserWithHTPasswdIDProvider srv conn cid)"
  "calls_only (\<lambda>_. True) (addImportUserToClusterAdminGroup srv conn cid)"
  "calls_only (\<lambda>c. \<not> creates_user c) (newConnection srv g)"
  "calls_only (\<lambda>c. \<not> creates_user c) (deleteHTPasswdIDProvider srv conn cid)"
  "calls_only (\<lambda>c. \<not> creates_user c) (removeImportUserFromClusterAdminGroup srv conn cid)"
  unfolding rosa_defs Let_def by (intro calls_intros; simp)+

lemma wp_ensure_user:
  "wp (ensure_user srv g conn) (\<lambda>(g', e) h'.
     totalRetryTimes g' = totalRetryTimes g \<and> currentRetryTimes g' = currentRetryTimes g \<and>
     (importUserPasswd g \<noteq> [] \<longrightarrow> g' = g \<and> e = None)) h"
  by (auto simp: ensure_user_def wp_simps intro!: wp_calls_only [OF calls_rosa(1)] wp_calls_only [OF calls_rosa(2)]
      split: sum.split option.split)

lemma wp_shouldRetry:
  "wp (shouldRetry srv g conn) (\<lambda>(g', retry) h'.
     retry = (currentRetryTimes g < totalRetryTimes g) \<and>
     g' = (if retry then g\<lparr>currentRetryTimes := currentRetryTimes g + 1\<rparr> else g)) h"
  by (auto simp: shouldRetry_def wp_simps intro!: wp_calls_only [OF calls_rosa(4)] wp_calls_only [OF calls_rosa(5)])

definition retry_step :: "RosaGetter \<Rightarrow> RosaGetter \<Rightarrow> bool \<Rightarrow> err + KubeConfig \<Rightarrow> bool" where
  "retry_step g g' requeue r \<longleftrightarrow>
     totalRetryTimes g' = totalRetryTimes g \<and>
     currentRetryTimes g' = currentRetryTimes g + (if requeue then 1 else 0) \<and>
     (requeue \<longrightarrow> currentRetryTimes g < totalRetryTimes g \<and> (\<exists>e. r = Inl e)) \<and>
     (importUserPasswd g \<noteq> [] \<longrightarrow> importUserPasswd g' = importUserPasswd g) \<and>
     (importUserPasswd g \<noteq> [] \<and> \<not> requeue \<longrightarrow> g' = g)"

lemma wp_request_token:
  "wp (request_token srv conn url g) (\<lambda>(g', requeue, r) h'. retry_step g g' requeue r) h"
  unfolding request_token_def retry_step_def
  by (auto simp: wp_simps split: sum.split intro!: wp_mono [OF wp_shouldRetry])

lemma calls_newConnection_True: "calls_only (\<lambda>_. True) (newConnection srv g)"
  by (rule calls_only_mono [OF calls_rosa(3)]) simp

lemma retry_step_same: "retry_step g g False r"
  by (simp add: retry_step_def)

lemma wp_GetterKubeConfig:
  "wp (GetterKubeConfig srv g) (\<lambda>(g', requeue, r) h'. retry_step g g' requeue r) h"
proof -
  have user: "wp (ensure_user srv g conn) (\<lambda>a. wp (case a of (g1, e) \<Rightarrow> (case e of
        Some x \<Rightarrow> return (g1, False, Inl x) | None \<Rightarrow> request_token srv conn url g1))
      (\<lambda>(g', requeue, r) h'. retry_step g g' requeue r)) h0" for conn url h0
    by (rule wp_mono [OF wp_ensure_user])
      (auto simp: wp_simps retry_step_def split: option.split intro!: wp_mono [OF wp_request_token])
  show ?thesis
    unfolding GetterKubeConfig_def wp_bind
    by (rule wp_calls_only [OF calls_newConnection_True])
      (auto simp: wp_simps retry_step_same user split: sum.split option.split)
qed

text \<open>A number of attempts, one after the other, with the same getter.\<close>

fun attempts :: "server \<Rightarrow> nat \<Rightarrow> RosaGetter \<Rightarrow> (call, RosaGetter \<times> bool list) prog" where
  "attempts srv 0 g = return (g, [])"
| "attempts srv (Suc k) g = do {
     (g', requeue, _) \<leftarrow> GetterKubeConfig srv g;
     (g'', flags) \<leftarrow> attempts srv k g';
     return (g'', requeue # flags) }"

lemma wp_attempts:
  "currentRetryTimes g \<le> totalRetryTimes g \<Longrightarrow>
   wp (attempts srv k g) (\<lambda>(g', flags) h'.
     int (length (filter (\<lambda>b. b) flags)) \<le> totalRetryTimes g - currentRetryTimes g) h"
proof (induction k arbitrary: g h)
  case (Suc k)
  have step: "wp (attempts srv k g') (\<lambda>a. wp (case a of (g'', flags) \<Rightarrow> return (g'', requeue # flags))
      (\<lambda>(g', flags) h'. int (length (filter (\<lambda>b. b) flags)) \<le> totalRetryTimes g - currentRetryTimes g)) h'"
    if "retry_step g g' requeue r" for g' requeue r h'
  proof -
    from that Suc.prems have le: "currentRetryTimes g' \<le> totalRetryTimes g'"
      and eq: "totalRetryTimes g - currentRetryTimes g =
        totalRetryTimes g' - currentRetryTimes g' + (if requeue then 1 else 0)"
      by (auto simp: retry_step_def)
    show ?thesis by (rule wp_mono [OF Suc.IH [OF le]]) (auto simp: wp_simps eq)
  qed
  show ?case
    unfolding attempts.simps wp_bind
    by (rule wp_mono [OF wp_GetterKubeConfig]) (use step in \<open>auto simp: wp_bind\<close>)
qed (simp add: wp_simps)

text \<open>
  C38. However the cluster manager answers, a new getter asks for a retry at most as often as its
  limit says: with the default limit, at most 20 of any number of attempts.
\<close>

theorem rosa_retries_bounded:
  "length (filter (\<lambda>b. b) (snd (result (attempts srv k NewRosaKubeConfigGetter) h))) \<le> 20"
  using wp_attempts [of NewRosaKubeConfigGetter srv k h]
  by (auto simp: NewRosaKubeConfigGetter_def defaultRetryTimes_def wp_run result_def split: prod.splits)

text \<open>
  A getter that remembers a password and has used up its retries never changes again: no
  attempt creates the import user or adds it to the administrators, none asks for a retry, and
  the getter stays as it is, although giving up deletes the user on the cluster manager's side.
\<close>

theorem rosa_gives_up_for_good:
  assumes "importUserPasswd g \<noteq> []" and "currentRetryTimes g \<ge> totalRetryTimes g"
  shows "fst (result (GetterKubeConfig srv g) h) = g \<and> \<not> fst (snd (result (GetterKubeConfig srv g) h)) \<and>
    list_all (\<lambda>c. \<not> creates_user c) (new_calls (GetterKubeConfig srv g) h)"
proof -
  have "retry_step g (fst (result (GetterKubeConfig srv g) h)) (fst (snd (result (GetterKubeConfig srv g) h)))
      (snd (snd (result (GetterKubeConfig srv g) h)))"
    using wp_GetterKubeConfig [of srv g h] by (simp add: wp_run result_def case_prod_unfold)
  then have 1: "\<not> fst (snd (result (GetterKubeConfig srv g) h))" "fst (result (GetterKubeConfig srv g) h) = g"
    using assms by (auto simp: retry_step_def)
  have "calls_only (\<lambda>c. \<not> creates_user c) (GetterKubeConfig srv g)"
    using assms(1) unfolding GetterKubeConfig_def ensure_user_def request_token_def shouldRetry_def
    by (auto intro!: calls_intros)
  then have "list_all (\<lambda>c. \<not> creates_user c) (new_calls (GetterKubeConfig srv g) h)"
    using calls_only_new_calls by (fastforce simp: list_all_iff)
  with 1 show ?thesis by simp
qed

definition spent_getter :: RosaGetter where
  "spent_getter = NewRosaKubeConfigGetter\<lparr>importUserPasswd := ''secret'', currentRetryTimes := 20\<rparr>"

theorem rosa_gives_up_for_good_witness:
  "list_all (\<lambda>c. \<not> creates_user c) (new_calls (GetterKubeConfig empty_server spent_getter) [])"
proof -
  have "importUserPasswd spent_getter \<noteq> []" "currentRetryTimes spent_getter \<ge> totalRetryTimes spent_getter"
    by code_simp+
  then show ?thesis using rosa_gives_up_for_good by blast
qed

text \<open>
  Cleaning up never creates anything: the calls of the clean-up delete the identity provider of
  the import user and remove the user from the administrators, and nothing else is written.
\<close>

theorem rosa_cleanup_only_deletes:
  "list_all (\<lambda>c. case c of
      Write w \<Rightarrow> (\<exists>conn p. w = OcmDeleteIDProvider conn (clusterID g) p) \<or>
        (\<exists>conn. w = OcmRemoveAdmin conn (clusterID g) importHTPasswdUser)
    | Read q \<Rightarrow> True | _ \<Rightarrow> False) (new_calls (GetterCleanup srv g) h)"
proof -
  have "calls_only (\<lambda>c. case c of
      Write w \<Rightarrow> (\<exists>conn p. w = OcmDeleteIDProvider conn (clusterID g) p) \<or>
        (\<exists>conn. w = OcmRemoveAdmin conn (clusterID g) importHTPasswdUser)
    | Read q \<Rightarrow> True | _ \<Rightarrow> False) (GetterCleanup srv g)"
    unfolding GetterCleanup_def rosa_defs Let_def by (intro calls_intros) auto
  then show ?thesis using calls_only_new_calls unfolding list_all_iff by fast
qed

end
