(* ===== verification/Import_Gate.thy ===== *)
theory Import_Gate
  imports Import_Helper Import_Status
begin

text \<open>
  What the three controllers that import clusters (auto-import secret, Hive cluster deployment,
  self-managed cluster) have in common: the auto-import strategy, the recording of the outcome
  of \<open>Import\<close>, and their contract as a locale. A controller touches a cluster only behind the
  gate, and never reports a successful import: that is left to the import status controller.
\<close>

definition strategy_skips :: "ManagedCluster \<Rightarrow> string \<Rightarrow> bool" where
  "strategy_skips managedCluster autoImportStrategy \<longleftrightarrow>
     \<not> IsImmediateImport (Annotations managedCluster) \<and>
     autoImportStrategy = AutoImportStrategyImportOnly \<and>
     IsStatusConditionTrue (Conditions managedCluster) ConditionManagedClusterImportSucceeded"

text \<open>A condition of applied resources is recorded only when something was modified.\<close>

definition record_condition :: "server \<Rightarrow> ManagedCluster \<Rightarrow> Condition \<Rightarrow> bool \<Rightarrow> (call, err option) prog" where
  "record_condition srv managedCluster condition modified =
     (if \<not> ImportingResourcesApplied condition \<or> modified
      then UpdateManagedClusterImportCondition srv managedCluster condition else return None)"

section \<open>The contract\<close>

text \<open>Reads of the hub, the finalizer of a cluster deployment and events: no import takes place.\<close>

fun harmless :: "call \<Rightarrow> bool" where
  "harmless (Read (GetManagedCluster n)) = True"
| "harmless (Read (GetClusterDeployment ns n)) = True"
| "harmless (Read (ListerAutoImportSecret ns n)) = True"
| "harmless (Read (ListerConfigMap ns n)) = True"
| "harmless (Write (PatchClusterDeployment from to)) = True"
| "harmless (Event r m) = True"
| "harmless _ = False"

definition may_import :: "server \<Rightarrow> string \<Rightarrow> ManagedCluster \<Rightarrow> bool" where
  "may_import srv componentNamespace mc \<longleftrightarrow>
     \<not> deleting mc \<and> \<not> autoImportDisabled mc \<and>
     (\<exists>h strategy. result (GetAutoImportStrategy srv componentNamespace) h = Inr strategy \<and>
        \<not> strategy_skips mc strategy)"

definition in_progress :: "Condition \<Rightarrow> bool" where
  "in_progress cond \<longleftrightarrow>
     Type cond = ConditionManagedClusterImportSucceeded \<and> Status cond = ConditionFalse \<and>
     Reason cond \<in> {ConditionReasonManagedClusterImporting, ConditionReasonManagedClusterImportFailed}"

abbreviation progress_update :: "call \<Rightarrow> bool" where
  "progress_update \<equiv> status_update (\<lambda>mc'. \<exists>cond. sets_condition mc' cond \<and> in_progress cond)"

lemma FindStatusCondition_SetStatusCondition:
  "\<exists>c. FindStatusCondition (SetStatusCondition now cs cond) (Type cond) = Some c \<and> Status c = Status cond"
  by (induction now cs cond rule: SetStatusCondition.induct)
    (auto simp: FindStatusCondition_def Let_def)

lemma in_progress_not_succeeded:
  assumes "sets_condition mc' cond" and "in_progress cond"
  shows "\<not> IsStatusConditionTrue (Conditions mc') ConditionManagedClusterImportSucceeded"
proof -
  from assms obtain mc now where mc': "mc' = mc\<lparr>Conditions := SetStatusCondition now (Conditions mc) cond\<rparr>"
    and t: "Type cond = ConditionManagedClusterImportSucceeded" and s: "Status cond = ConditionFalse"
    by (auto simp: sets_condition_def in_progress_def)
  from FindStatusCondition_SetStatusCondition [of now "Conditions mc" cond] obtain c where
    "FindStatusCondition (Conditions mc') ConditionManagedClusterImportSucceeded = Some c" "Status c = ConditionFalse"
    using mc' t s by auto
  then show ?thesis by (simp add: IsStatusConditionTrue_def IsStatusConditionPresentAndEqual_def FindStatusCondition_def)
qed

locale import_controller =
  fixes reconcile :: "server \<Rightarrow> codec \<Rightarrow> string \<Rightarrow> string \<Rightarrow> (call, 'r) prog"
    and read_cluster :: "server \<Rightarrow> call list \<Rightarrow> string \<Rightarrow> err + ManagedCluster"
  assumes gated: "issues (\<lambda>c. harmless c \<or> (\<exists>mc. read_cluster srv h n = Inr mc \<and> may_import srv ns mc))
      (reconcile srv cd ns n) h"
    and reports: "issues progress_update (reconcile srv cd ns n) h"
begin

lemma untouched:
  assumes "\<And>mc. read_cluster srv h n = Inr mc \<Longrightarrow> \<not> may_import srv ns mc"
  shows "list_all harmless (new_calls (reconcile srv cd ns n) h)"
  using issues_new_calls [OF gated] assms by (fastforce simp: list_all_iff)

lemma paused:
  assumes "read_cluster srv h n = Inr mc" and "deleting mc \<or> autoImportDisabled mc"
  shows "list_all harmless (new_calls (reconcile srv cd ns n) h)"
  by (rule untouched) (use assms in \<open>auto simp: may_import_def\<close>)

lemma import_only:
  assumes "read_cluster srv h n = Inr mc" and "\<not> IsImmediateImport (Annotations mc)"
    and "IsStatusConditionTrue (Conditions mc) ConditionManagedClusterImportSucceeded"
    and "\<And>h. result (GetAutoImportStrategy srv ns) h = Inr AutoImportStrategyImportOnly"
  shows "list_all harmless (new_calls (reconcile srv cd ns n) h)"
  by (rule untouched) (use assms in \<open>auto simp: may_import_def strategy_skips_def\<close>)

lemma never_succeeds:
  assumes "Write (UpdateManagedClusterStatus mc') \<in> set (new_calls (reconcile srv cd ns n) h)"
  shows "\<not> IsStatusConditionTrue (Conditions mc') ConditionManagedClusterImportSucceeded"
  using issues_new_calls [OF reports assms] in_progress_not_succeeded by auto

lemma status_writes:
  assumes "Write (UpdateManagedClusterStatus mc') \<in> set (new_calls (reconcile srv cd ns n) h)"
  shows "(\<exists>mc. read_cluster srv h n = Inr mc \<and> \<not> deleting mc) \<and> (\<exists>cond. sets_condition mc' cond \<and> in_progress cond)"
  using issues_new_calls [OF gated assms] issues_new_calls [OF reports assms] by (auto simp: may_import_def)

end

section \<open>Lemmas for the controllers\<close>

text \<open>Behind the gate every call is allowed; the programs only have to extend the history.\<close>

abbreviation extends :: "(call, 'a) prog \<Rightarrow> bool" where
  "extends m \<equiv> calls_only (\<lambda>_. True) m"

text \<open>The work of importing: neither a status of a cluster nor a secret is written.\<close>

fun import_work :: "call \<Rightarrow> bool" where
  "import_work (Write (UpdateManagedClusterStatus mc)) = False"
| "import_work (Write (DeleteSecret ns n)) = False"
| "import_work _ = True"

lemma extends_calls: "calls_only P m \<Longrightarrow> extends m"
  by (erule calls_only_mono) simp

lemma issues_gate: "extends m \<Longrightarrow> G \<Longrightarrow> issues (\<lambda>c. P c \<or> G) m h"
  by (auto intro!: issues_calls_only elim: calls_only_mono)

lemma status_update_mono: "status_update P c \<Longrightarrow> (\<And>mc. P mc \<Longrightarrow> Q mc) \<Longrightarrow> status_update Q c"
  by (cases "(P, c)" rule: status_update.cases) auto

lemma extends_UpdateImportCondition [calls_intros]: "extends (UpdateManagedClusterImportCondition srv mc cond)"
  by (rule extends_calls [OF calls_UpdateManagedClusterImportCondition])

lemma extends_record_condition [calls_intros]: "extends (record_condition srv mc cond modified)"
  unfolding record_condition_def by (intro calls_intros)

lemma import_work_status_update: "import_work c \<Longrightarrow> status_update P c"
  by (cases "(P, c)" rule: status_update.cases) auto

lemma import_work_apply_call: "apply_call cl c \<Longrightarrow> import_work c"
  by (cases c rule: import_work.cases) auto

lemma import_work_applyResourcesFunc [calls_intros]: "calls_only import_work (applyResourcesFunc srv cd backup cl s)"
  unfolding applyResourcesFunc_def UpdateManagedClusterBootstrapSecret_def ImportManagedClusterFromSecret_def Let_def
  by (intro calls_intros calls_only_mono [OF calls_ApplyResources import_work_apply_call])

lemma import_work_build_parts [calls_intros]: "calls_only import_work (build_parts srv config ps)"
  by (induction ps) (auto intro!: calls_intros)

lemma import_work_buildImportClient [calls_intros]: "calls_only import_work (buildImportClient srv config)"
  unfolding buildImportClient_def by (intro calls_intros)

lemma import_work_GenerateFromKubeConfig [calls_intros]:
  "calls_only import_work (GenerateImportClientFromKubeConfigSecret srv cd secret)"
  "calls_only import_work (GenerateImportClientFromKubeTokenSecret srv secret)"
  unfolding GenerateImportClientFromKubeConfigSecret_def GenerateImportClientFromKubeTokenSecret_def
  by (intro calls_intros)+

lemma import_work_Import:
  assumes "\<And>g. calls_only import_work (gen g)"
  shows "calls_only import_work (Import srv cd gen g backup mc secret)"
  unfolding Import_def Let_def by (intro calls_intros assms) simp_all

lemma calls_DeleteAutoImportSecret:
  "calls_only (\<lambda>c. import_work c \<or> c = Write (DeleteSecret (Namespace s) (Name s)) \<and>
     \<not> haskey (Annotations s) AnnotationKeepingAutoImportSecret) (DeleteAutoImportSecret srv s)"
  unfolding DeleteAutoImportSecret_def by (intro calls_intros) simp_all

lemmas extends_Import = extends_calls [OF import_work_Import]

lemma issues_record_condition:
  assumes "in_progress cond" and "\<And>a h'. issues progress_update (f a) h'"
  shows "issues progress_update (State_Monad.bind (record_condition srv mc cond modified) f) h"
  unfolding record_condition_def
  by (intro issues_intros issues_UpdateImportCondition) (use assms in auto)

lemma issues_bind_strategy:
  assumes "P (Read (ListerConfigMap ns ControllerConfigConfigMapName))"
    and "\<And>e h'. issues P (f (Inl e)) h'"
    and "\<And>s h' h0. result (GetAutoImportStrategy srv ns) h0 = Inr s \<Longrightarrow> issues P (f (Inr s)) h'"
  shows "issues P (State_Monad.bind (GetAutoImportStrategy srv ns) f) h"
proof (rule issues_bindI)
  show "issues P (GetAutoImportStrategy srv ns) h"
    by (rule issues_calls_only, rule calls_GetAutoImportStrategy) (rule assms(1))
  fix a cs
  assume "run_state (GetAutoImportStrategy srv ns) h = (a, h @ cs)"
  then show "issues P (f a) (h @ cs)"
    by (cases a) (auto intro: assms(2) assms(3) [of h] simp: result_def)
qed

text \<open>After \<open>Import\<close> the condition at hand is one of an import in progress.\<close>

lemma issues_Import:
  assumes "\<And>g. calls_only import_work (gen g)"
    and "\<And>g' h'. issues progress_update (f (g', None)) h'"
    and "\<And>g' res cond m e h'. in_progress cond \<Longrightarrow> issues progress_update (f (g', Some (res, cond, m, e))) h'"
  shows "issues progress_update (State_Monad.bind (Import srv cd gen g backup mc secret) f) h"
proof (rule issues_bind_calls [OF import_work_Import [OF assms(1)]])
  fix a cs
  assume r: "run_state (Import srv cd gen g backup mc secret) h = (a, h @ cs)"
  obtain g' out where a: "a = (g', out)" by (cases a)
  show "issues progress_update (f a) (h @ cs)"
  proof (cases out)
    case None
    then show ?thesis using assms(2) a by simp
  next
    case (Some x)
    obtain res cond m e where x: "x = (res, cond, m, e)" by (cases x)
    with Some a r wp_Import_ok [of srv cd gen g backup mc secret h] have "in_progress cond"
      by (simp add: wp_run import_outcome_ok_def in_progress_def)
    then show ?thesis using assms(3) a Some x by simp
  qed
qed (rule import_work_status_update)

end
