(* ===== verification/Auto_Import.thy ===== *)
theory Auto_Import
  imports Rosa Import_Gate
begin

text \<open>
  \<open>pkg/controller/autoimport\<close>: importing a managed cluster with its auto-import secret
  (\<open>autoimport_controller.go\<close>) and recording its API server URL (\<open>apiserverurl.go\<close>). The map of
  getters for ROSA clusters is the controller's own state: the reconcile takes it and returns it
  updated.
\<close>

section \<open>The API server URL\<close>

definition SecretTypeOpaque :: string where
  "SecretTypeOpaque = ''Opaque''"

definition getAPISeverURLFromKubeConfig :: "codec \<Rightarrow> string \<Rightarrow> err + string" where
  "getAPISeverURLFromKubeConfig cd kubeConfig =
     (case clientcmd_Load cd kubeConfig of
        Inl e \<Rightarrow> Inl (ErrorString (''failed to load kubeConfig: '' @ Error e))
      | Inr config \<Rightarrow>
          if CurrentContext config = [] then Inl (ErrorString ''currentContext in the kubeConfig is empty'')
          else (case fmlookup (Contexts config) (CurrentContext config) of
              None \<Rightarrow> Inl (ErrorString ''currentContext not found in the kubeConfig'')
            | Some ctx \<Rightarrow>
                if CtxCluster ctx = [] then
                  Inl (ErrorString ''the cluster in the currentContext not found in the kubeConfig'')
                else (case fmlookup (Clusters config) (CtxCluster ctx) of
                    None \<Rightarrow> Inl (ErrorString ''the cluster in the currentContext not found in the kubeConfig'')
                  | Some cluster \<Rightarrow> Inr (Server cluster))))"

definition getAPIServerURL :: "codec \<Rightarrow> Secret \<Rightarrow> err + string" where
  "getAPIServerURL cd secret = (
     let where = Namespace secret @ ''/'' @ Name secret in
     if SecretType secret = SecretTypeOpaque then
       (case fmlookup (Data secret) AutoImportSecretKubeConfigKey of
          Some kubeConfig \<Rightarrow> getAPISeverURLFromKubeConfig cd kubeConfig
        | None \<Rightarrow>
            (case fmlookup (Data secret) AutoImportSecretKubeServerKey of
               Some kubeServer \<Rightarrow> Inr kubeServer
             | None \<Rightarrow> Inl (ErrorString (''secret '' @ where @ '' does not have an APIServer URL''))))
     else if SecretType secret = AutoImportSecretKubeConfig then
       (case fmlookup (Data secret) AutoImportSecretKubeConfigKey of
          Some kubeConfig \<Rightarrow> getAPISeverURLFromKubeConfig cd kubeConfig
        | None \<Rightarrow> Inl (ErrorString (''secret '' @ where @ '' does not have an kubeConfig URL'')))
     else if SecretType secret = AutoImportSecretKubeToken then
       (case fmlookup (Data secret) AutoImportSecretKubeServerKey of
          Some kubeServer \<Rightarrow> Inr kubeServer
        | None \<Rightarrow> Inl (ErrorString (''cannot get APIServer URL from secret '' @ where)))
     else if SecretType secret = AutoImportSecretRosaConfig then Inr []
     else Inl (ErrorString (''unsupported secret type '' @ SecretType secret)))"

definition updateClusterURL :: "server \<Rightarrow> codec \<Rightarrow> ManagedCluster \<Rightarrow> Secret \<Rightarrow> (call, err option) prog" where
  "updateClusterURL srv cd managedCluster autoImportSecret =
     (case getAPIServerURL cd autoImportSecret of
        Inl e \<Rightarrow> return (Some e)
      | Inr url \<Rightarrow>
          if url = [] then return None
          else (let apiServerURL = TrimSuffix url ''/'' in
            if list_ex (\<lambda>config. TrimSuffix (URL config) ''/'' = apiServerURL)
                 (ManagedClusterClientConfigs managedCluster) then return None
            else api_write srv (UpdateManagedCluster (managedCluster\<lparr>ManagedClusterClientConfigs :=
              ManagedClusterClientConfigs managedCluster @ [\<lparr>URL = apiServerURL, CABundle = []\<rparr>]\<rparr>))))"

section \<open>Choosing how to build the clients\<close>

type_synonym getters = "(string, RosaGetter) fmap"

datatype generator = FromKubeConfig | FromKubeToken | FromRosa

definition getGenerateClientHolderFuncFromAutoImportSecret ::
  "getters \<Rightarrow> string \<Rightarrow> Secret \<Rightarrow> getters \<times> (err + generator)" where
  "getGenerateClientHolderFuncFromAutoImportSecret getters clusterName secret =
     (if SecretType secret = SecretTypeOpaque then
        (if haskey (Data secret) AutoImportSecretKubeConfigKey then (getters, Inr FromKubeConfig)
         else if haskey (Data secret) AutoImportSecretKubeTokenKey \<and>
                 haskey (Data secret) AutoImportSecretKubeServerKey then (getters, Inr FromKubeToken)
         else (getters, Inl (ErrorString ''kubeconfig or token/server pair is missing'')))
      else if SecretType secret = AutoImportSecretKubeConfig then (getters, Inr FromKubeConfig)
      else if SecretType secret = AutoImportSecretKubeToken then (getters, Inr FromKubeToken)
      else if SecretType secret = AutoImportSecretRosaConfig then
        (case fmlookup getters clusterName of
           None \<Rightarrow> (fmupd clusterName NewRosaKubeConfigGetter getters, Inr FromRosa)
         | Some _ \<Rightarrow> (getters, Inr FromRosa))
      else (getters, Inl (ErrorString (''unsupported secret type '' @ SecretType secret))))"

text \<open>The chosen generator, run on the secret. The closure for ROSA keeps the getter of the cluster.\<close>

definition run_generator ::
  "server \<Rightarrow> codec \<Rightarrow> string \<Rightarrow> Secret \<Rightarrow> generator \<Rightarrow> getters \<Rightarrow>
   (call, getters \<times> Result \<times> (err + holder)) prog" where
  "run_generator srv cd clusterName secret g getters =
     (case g of
        FromKubeConfig \<Rightarrow> do {
          (res, c) \<leftarrow> GenerateImportClientFromKubeConfigSecret srv cd secret;
          return (getters, res, c) }
      | FromKubeToken \<Rightarrow> do {
          (res, c) \<leftarrow> GenerateImportClientFromKubeTokenSecret srv secret;
          return (getters, res, c) }
      | FromRosa \<Rightarrow>
          (let getter = (case fmlookup getters clusterName of
             Some x \<Rightarrow> x | None \<Rightarrow> NewRosaKubeConfigGetter) in do {
          (getter', res, c) \<leftarrow> GenerateImportClientFromRosaCluster srv secret getter;
          return (fmupd clusterName getter' getters, res, c) }))"

section \<open>The reconcile\<close>

text \<open>The clean-up of a ROSA import user, when there is one for the cluster.\<close>

definition rosa_cleanup :: "server \<Rightarrow> string \<Rightarrow> getters \<Rightarrow> (call, getters \<times> err option) prog" where
  "rosa_cleanup srv n getters =
     (case fmlookup getters n of
        None \<Rightarrow> return (getters, None)
      | Some getter \<Rightarrow> do {
          e \<leftarrow> GetterCleanup srv getter;
          case e of
            Some x \<Rightarrow> return (getters, Some x)
          | None \<Rightarrow> return (fmdrop n getters, None) })"

definition secret_invalid :: "Secret \<Rightarrow> err \<Rightarrow> Condition" where
  "secret_invalid s e = import_failed
     (''AutoImportSecretInvalid '' @ Namespace s @ ''/'' @ Name s @ ''; '' @ Error e)"

text \<open>After \<open>Import\<close>: the condition, and when the resources are applied the rest of the clean-up.\<close>

definition after_import ::
  "server \<Rightarrow> codec \<Rightarrow> string \<Rightarrow> ManagedCluster \<Rightarrow> Secret \<Rightarrow> import_outcome \<Rightarrow> getters \<Rightarrow>
   (call, getters \<times> outcome) prog" where
  "after_import srv cd n managedCluster autoImportSecret out getters =
     (case out of (res, condition, modified, iErr) \<Rightarrow> do {
        u \<leftarrow> record_condition srv managedCluster condition modified;
        case u of
          Some e \<Rightarrow> return (getters, Return emptyResult (Some e))
        | None \<Rightarrow>
            if ImportingResourcesApplied condition then do {
              (getters', e) \<leftarrow> rosa_cleanup srv n getters;
              case e of
                Some x \<Rightarrow> return (getters', Return emptyResult (Some x))
              | None \<Rightarrow> do {
                  c \<leftarrow> updateClusterURL srv cd managedCluster autoImportSecret;
                  case c of
                    Some x \<Rightarrow> return (getters', Return emptyResult (Some x))
                  | None \<Rightarrow> do {
                      d \<leftarrow> DeleteAutoImportSecret srv autoImportSecret;
                      return (getters', Return emptyResult d) } } }
            else return (getters, Return res iErr) })"

definition import_with_secret ::
  "server \<Rightarrow> codec \<Rightarrow> string \<Rightarrow> ManagedCluster \<Rightarrow> Secret \<Rightarrow> getters \<Rightarrow> (call, getters \<times> outcome) prog" where
  "import_with_secret srv cd n managedCluster autoImportSecret getters = (
     let backupRestore = (case fmlookup (Labels autoImportSecret) LabelAutoImportRestore of
       Some v \<Rightarrow> EqualFold v ''true'' | None \<Rightarrow> False) in
     case getGenerateClientHolderFuncFromAutoImportSecret getters n autoImportSecret of
       (getters1, Inl e) \<Rightarrow> do {
         u \<leftarrow> UpdateManagedClusterImportCondition srv managedCluster (secret_invalid autoImportSecret e);
         case u of
           Some x \<Rightarrow> return (getters1, Return emptyResult (Some x))
         | None \<Rightarrow> return (getters1, Return emptyResult (Some e)) }
     | (getters1, Inr g) \<Rightarrow> do {
         (getters2, out) \<leftarrow> Import srv cd (run_generator srv cd n autoImportSecret g) getters1
           backupRestore managedCluster (Some autoImportSecret);
         case out of
           None \<Rightarrow> return (getters2, Panicked)
         | Some x \<Rightarrow> after_import srv cd n managedCluster autoImportSecret x getters2 })"

definition autoimport_Reconcile ::
  "server \<Rightarrow> codec \<Rightarrow> string \<Rightarrow> getters \<Rightarrow> string \<Rightarrow> (call, getters \<times> outcome) prog" where
  "autoimport_Reconcile srv cd componentNamespace getters n = do {
     r \<leftarrow> api_GetManagedCluster srv n;
     case r of
       Inl e \<Rightarrow> return (getters, Return emptyResult (IgnoreNotFound e))
     | Inr managedCluster \<Rightarrow>
         if DetermineKlusterletMode managedCluster = InstallModeHosted then return (getters, done_ok)
         else if deleting managedCluster then return (getters, done_ok)
         else if autoImportDisabled managedCluster then return (getters, done_ok)
         else do {
           s \<leftarrow> GetAutoImportStrategy srv componentNamespace;
           case s of
             Inl e \<Rightarrow> return (getters, Return emptyResult (Some e))
           | Inr autoImportStrategy \<Rightarrow>
               if strategy_skips managedCluster autoImportStrategy then return (getters, done_ok)
               else do {
                 a \<leftarrow> api_ListerAutoImportSecret srv n AutoImportSecretName;
                 case a of
                   Inl e \<Rightarrow> return (getters, Return emptyResult (IgnoreNotFound e))
                 | Inr autoImportSecret \<Rightarrow>
                     import_with_secret srv cd n managedCluster autoImportSecret getters } } }"

section \<open>The contract\<close>

lemma import_work_rosa [calls_intros]:
  "calls_only import_work (newConnection srv g)"
  "calls_only import_work (createImportUserWithHTPasswdIDProvider srv conn cid)"
  "calls_only import_work (addImportUserToClusterAdminGroup srv conn cid)"
  "calls_only import_work (deleteHTPasswdIDProvider srv conn cid)"
  "calls_only import_work (removeImportUserFromClusterAdminGroup srv conn cid)"
  unfolding rosa_defs Let_def by (intro calls_intros; simp)+

lemma import_work_GetterKubeConfig [calls_intros]: "calls_only import_work (GetterKubeConfig srv g)"
  unfolding GetterKubeConfig_def ensure_user_def request_token_def shouldRetry_def Let_def
  by (intro calls_intros) simp_all

lemma import_work_GetterCleanup [calls_intros]: "calls_only import_work (GetterCleanup srv g)"
  unfolding GetterCleanup_def Let_def by (intro calls_intros)

lemma import_work_run_generator [calls_intros]: "calls_only import_work (run_generator srv cd n s gen g)"
  unfolding run_generator_def GenerateImportClientFromRosaCluster_def Let_def
  by (cases gen) (auto intro!: calls_intros)

lemma import_work_updateClusterURL [calls_intros]: "calls_only import_work (updateClusterURL srv cd mc s)"
  unfolding updateClusterURL_def Let_def by (intro calls_intros) simp_all

lemma import_work_rosa_cleanup [calls_intros]: "calls_only import_work (rosa_cleanup srv n g)"
  unfolding rosa_cleanup_def by (intro calls_intros)

text \<open>The clean-up after an import whose resources are applied.\<close>

lemma progress_after_import:
  "in_progress cond \<Longrightarrow> issues progress_update (after_import srv cd n mc s (res, cond, m, e) g) h"
  unfolding after_import_def prod.case
  by (intro issues_record_condition issues_intros issues_bind_calls [OF import_work_rosa_cleanup]
      issues_bind_calls [OF import_work_updateClusterURL] issues_bind_calls [OF calls_DeleteAutoImportSecret])
    (auto intro: import_work_status_update)

lemma extends_after_import: "extends (after_import srv cd n mc s out g)"
  unfolding after_import_def
  by (intro calls_intros extends_calls [OF import_work_rosa_cleanup] extends_calls [OF import_work_updateClusterURL]
      extends_calls [OF calls_DeleteAutoImportSecret])

lemma extends_import_with_secret: "extends (import_with_secret srv cd n mc s g)"
  unfolding import_with_secret_def Let_def
  by (intro calls_intros extends_Import extends_after_import)

lemma in_progress_import_failed: "in_progress (secret_invalid s e)"
  by (simp add: in_progress_def secret_invalid_def)

lemma progress_import_with_secret: "issues progress_update (import_with_secret srv cd n mc s g) h"
  unfolding import_with_secret_def Let_def
  by (intro issues_intros issues_Import)
    (auto intro!: issues_intros calls_intros issues_UpdateImportCondition progress_after_import
      in_progress_import_failed)

lemma autoimport_gated:
  "issues (\<lambda>c. harmless c \<or> (\<exists>mc. on_GetManagedCluster srv h n = Inr mc \<and> may_import srv ns mc))
     (autoimport_Reconcile srv cd ns g n) h"
  unfolding autoimport_Reconcile_def
  by (intro issues_intros issues_bind_strategy)
    (auto intro!: issues_gate calls_intros extends_import_with_secret simp: may_import_def)

lemma autoimport_reports: "issues progress_update (autoimport_Reconcile srv cd ns g n) h"
  unfolding autoimport_Reconcile_def
  by (intro issues_intros issues_bind_strategy progress_import_with_secret) simp_all

text \<open>For every state of the getters.\<close>

interpretation autoimport: import_controller "\<lambda>srv cd ns. autoimport_Reconcile srv cd ns g"
  "\<lambda>srv h n. on_GetManagedCluster srv h n" for g
  by unfold_locales (rule autoimport_gated autoimport_reports)+

section \<open>The auto-import secret\<close>

fun secret_deletion :: "(string \<Rightarrow> string \<Rightarrow> bool) \<Rightarrow> call \<Rightarrow> bool" where
  "secret_deletion P (Write (DeleteSecret ns n)) = P ns n"
| "secret_deletion P _ = True"

lemma import_work_secret_deletion: "import_work c \<Longrightarrow> secret_deletion P c"
  by (cases "(P, c)" rule: secret_deletion.cases) auto

lemma status_call_secret_deletion: "status_call n cond c \<Longrightarrow> secret_deletion P c"
  by (cases "(P, c)" rule: secret_deletion.cases) auto

lemma issues_condition_deletion:
  assumes "\<And>a h'. issues (secret_deletion P) (f a) h'"
  shows "issues (secret_deletion P) (State_Monad.bind (UpdateManagedClusterImportCondition srv mc cond) f) h"
  by (rule issues_bind_calls [OF calls_UpdateManagedClusterImportCondition])
    (use assms status_call_secret_deletion in blast)+

lemma after_import_deletion:
  assumes "ImportingResourcesApplied cond \<Longrightarrow> \<not> haskey (Annotations s) AnnotationKeepingAutoImportSecret \<Longrightarrow>
    P (Namespace s) (Name s)"
  shows "issues (secret_deletion P) (after_import srv cd n mc s (res, cond, m, e) g) h"
  unfolding after_import_def prod.case record_condition_def
  by (intro issues_intros issues_condition_deletion issues_bind_calls [OF import_work_rosa_cleanup]
      issues_bind_calls [OF import_work_updateClusterURL] issues_bind_calls [OF calls_DeleteAutoImportSecret])
    (use assms in \<open>auto intro: import_work_secret_deletion\<close>)

text \<open>The import of the run: the cluster, the secret and the outcome of \<open>Import\<close>.\<close>

definition imported_in_run ::
  "server \<Rightarrow> codec \<Rightarrow> string \<Rightarrow> getters \<Rightarrow> string \<Rightarrow> call list \<Rightarrow> ManagedCluster \<Rightarrow> Secret \<Rightarrow> bool" where
  "imported_in_run srv cd ns g n h mc s \<longleftrightarrow> (
     let h2 = h @ [Read (GetManagedCluster n), Read (ListerConfigMap ns ControllerConfigConfigMapName)];
         h3 = h2 @ [Read (ListerAutoImportSecret n AutoImportSecretName)] in
     on_GetManagedCluster srv h n = Inr mc \<and> on_ListerAutoImportSecret srv h2 n AutoImportSecretName = Inr s \<and>
     (\<exists>g1 gen backup g2 res cond modified e.
        getGenerateClientHolderFuncFromAutoImportSecret g n s = (g1, Inr gen) \<and>
        result (Import srv cd (run_generator srv cd n s gen) g1 backup mc (Some s)) h3 =
          (g2, Some (res, cond, modified, e)) \<and> ImportingResourcesApplied cond))"

lemma issues_Import_result:
  assumes "\<And>g' h'. issues (secret_deletion P) (f (g', None)) h'"
    and "\<And>g' out h'. result (Import srv cd (run_generator srv cd n s gen) g backup mc secret) h = (g', Some out) \<Longrightarrow>
      issues (secret_deletion P) (f (g', Some out)) h'"
  shows "issues (secret_deletion P)
    (State_Monad.bind (Import srv cd (run_generator srv cd n s gen) g backup mc secret) f) h"
proof (rule issues_bind_calls [OF import_work_Import [OF import_work_run_generator]])
  fix a cs
  assume "run_state (Import srv cd (run_generator srv cd n s gen) g backup mc secret) h = (a, h @ cs)"
  then show "issues (secret_deletion P) (f a) (h @ cs)"
    using assms by (cases a; cases "snd a") (auto simp: result_def)
qed (rule import_work_secret_deletion)

lemma import_with_secret_deletion:
  assumes "\<And>g1 gen backup g2 res cond modified e.
      getGenerateClientHolderFuncFromAutoImportSecret g n s = (g1, Inr gen) \<Longrightarrow>
      result (Import srv cd (run_generator srv cd n s gen) g1 backup mc (Some s)) h =
          (g2, Some (res, cond, modified, e)) \<Longrightarrow> ImportingResourcesApplied cond \<Longrightarrow>
      \<not> haskey (Annotations s) AnnotationKeepingAutoImportSecret \<Longrightarrow> P (Namespace s) (Name s)"
  shows "issues (secret_deletion P) (import_with_secret srv cd n mc s g) h"
  unfolding import_with_secret_def Let_def
  by (intro issues_intros issues_condition_deletion issues_Import_result)
    (auto intro!: issues_intros after_import_deletion intro: assms)

text \<open>
  C4. The auto-import secret is deleted only at the end of a run in which \<open>Import\<close> reported that the
  resources are applied with a client built from this very secret, for a cluster that is not in
  hosted mode, not being deleted and not excluded from auto-import, and never when the secret
  carries the annotation that asks to keep it.
\<close>

theorem autoimport_secret_deleted_after_import:
  assumes "Write (DeleteSecret sns sn) \<in> set (new_calls (autoimport_Reconcile srv cd ns g n) h)"
  shows "\<exists>mc s. imported_in_run srv cd ns g n h mc s \<and> sns = Namespace s \<and> sn = Name s \<and>
    \<not> haskey (Annotations s) AnnotationKeepingAutoImportSecret \<and>
    DetermineKlusterletMode mc \<noteq> InstallModeHosted \<and> \<not> deleting mc \<and> \<not> autoImportDisabled mc"
proof -
  let ?P = "\<lambda>sns sn. \<exists>mc s. imported_in_run srv cd ns g n h mc s \<and> sns = Namespace s \<and> sn = Name s \<and>
    \<not> haskey (Annotations s) AnnotationKeepingAutoImportSecret \<and>
    DetermineKlusterletMode mc \<noteq> InstallModeHosted \<and> \<not> deleting mc \<and> \<not> autoImportDisabled mc"
  have "issues (secret_deletion ?P) (autoimport_Reconcile srv cd ns g n) h"
    unfolding autoimport_Reconcile_def GetAutoImportStrategy_def
    by (intro issues_intros import_with_secret_deletion) (auto simp: imported_in_run_def Let_def, blast)
  from issues_new_calls [OF this assms] show ?thesis by simp
qed

text \<open>A cluster that is being imported with a kubeconfig; the work and the import secret exist.\<close>

definition auto_import_secret :: Secret where
  "auto_import_secret = ObjectMeta.extend (new_meta ''c1'' AutoImportSecretName)
     \<lparr>SecretType = AutoImportSecretKubeConfig, Data = fmap_of_list [(AutoImportSecretKubeConfigKey, ''https://c1:6443'')]\<rparr>"

definition importing_server :: server where
  "importing_server = empty_server\<lparr>
     on_GetManagedCluster := (\<lambda>h n. Inr importing_cluster),
     on_ListerAutoImportSecret := (\<lambda>h ns n. Inr auto_import_secret),
     on_ListerKlusterletWorks := (\<lambda>h ns sel. Inr [sample_work]),
     on_ListerImportSecret := (\<lambda>h ns n. Inr sample_import_secret)\<rparr>"

theorem autoimport_secret_deleted_witness:
  "\<exists>mc s. imported_in_run importing_server sample_codec ''hub'' fmempty ''c1'' [] mc s \<and>
     ''c1'' = Namespace s \<and> AutoImportSecretName = Name s \<and> \<not> deleting mc"
proof -
  have "Write (DeleteSecret ''c1'' AutoImportSecretName) \<in>
    set (new_calls (autoimport_Reconcile importing_server sample_codec ''hub'' fmempty ''c1'') [])"
    by code_simp
  from autoimport_secret_deleted_after_import [OF this] show ?thesis by blast
qed

section \<open>The URL is recorded once\<close>

lemma getAPIServerURL_cases:
  "updateClusterURL srv cd mc s =
     (case getAPIServerURL cd s of
        Inl e \<Rightarrow> return (Some e)
      | Inr url \<Rightarrow>
          if url = [] \<or> TrimSuffix url ''/'' \<in> (\<lambda>c. TrimSuffix (URL c) ''/'') ` set (ManagedClusterClientConfigs mc)
          then return None
          else api_write srv (UpdateManagedCluster (mc\<lparr>ManagedClusterClientConfigs :=
            ManagedClusterClientConfigs mc @ [\<lparr>URL = TrimSuffix url ''/'', CABundle = []\<rparr>]\<rparr>)))"
  by (auto simp: updateClusterURL_def Let_def list_ex_iff image_iff split: sum.splits)

lemma TrimSuffix_slash_twice:
  assumes "\<not> HasSuffix url ''//''"
  shows "TrimSuffix (TrimSuffix url ''/'') ''/'' = TrimSuffix url ''/''"
proof (cases "HasSuffix url ''/''")
  case True
  then obtain t where t: "url = t @ ''/''" by (auto simp: HasSuffix_iff)
  have "\<not> HasSuffix t ''/''"
  proof
    assume "HasSuffix t ''/''"
    then obtain u where "t = u @ ''/''" by (auto simp: HasSuffix_iff)
    with t assms show False by (auto simp: HasSuffix_iff)
  qed
  with t show ?thesis by (simp add: TrimSuffix_def)
next
  case False
  then show ?thesis by (simp add: TrimSuffix_def)
qed

text \<open>
  Recording the API server URL adds exactly one client configuration, whose URL has lost one
  trailing slash and was not there before, and recording it again on the cluster as it was
  updated writes nothing. This needs a URL that does not end in two slashes: one slash is
  removed from the new URL but a second one from the recorded URL it is compared with.
\<close>

theorem updateClusterURL_once:
  assumes "Write (UpdateManagedCluster mc') \<in> set (new_calls (updateClusterURL srv cd mc s) h)"
    and "getAPIServerURL cd s = Inr url" and "\<not> HasSuffix url ''//''"
  shows "mc' = mc\<lparr>ManagedClusterClientConfigs :=
      ManagedClusterClientConfigs mc @ [\<lparr>URL = TrimSuffix url ''/'', CABundle = []\<rparr>]\<rparr> \<and>
    TrimSuffix url ''/'' \<notin> URL ` set (ManagedClusterClientConfigs mc) \<and>
    new_calls (updateClusterURL srv cd mc' s) h' = []"
proof -
  from assms(1,2) have mc': "mc' = mc\<lparr>ManagedClusterClientConfigs :=
      ManagedClusterClientConfigs mc @ [\<lparr>URL = TrimSuffix url ''/'', CABundle = []\<rparr>]\<rparr>"
    and new: "TrimSuffix url ''/'' \<notin> (\<lambda>c. TrimSuffix (URL c) ''/'') ` set (ManagedClusterClientConfigs mc)"
    by (auto simp: getAPIServerURL_cases new_calls_def ask_def split: if_splits)
  have "TrimSuffix url ''/'' \<notin> URL ` set (ManagedClusterClientConfigs mc)"
    using new TrimSuffix_slash_twice [OF assms(3)] by force
  with mc' show ?thesis
    using assms(2) TrimSuffix_slash_twice [OF assms(3)] by (simp add: getAPIServerURL_cases new_calls_def)
qed

theorem updateClusterURL_once_witness:
  "new_calls (updateClusterURL empty_server sample_codec ((new_cluster ''c1'')\<lparr>ManagedClusterClientConfigs :=
      [\<lparr>URL = ''https://c1:6443'', CABundle = []\<rparr>]\<rparr>) auto_import_secret) [] = []"
proof -
  have "Write (UpdateManagedCluster ((new_cluster ''c1'')\<lparr>ManagedClusterClientConfigs :=
      [\<lparr>URL = ''https://c1:6443'', CABundle = []\<rparr>]\<rparr>)) \<in>
    set (new_calls (updateClusterURL empty_server sample_codec (new_cluster ''c1'') auto_import_secret) [])"
    by code_simp
  moreover have "getAPIServerURL sample_codec auto_import_secret = Inr ''https://c1:6443''" by code_simp
  moreover have "\<not> HasSuffix ''https://c1:6443'' ''//''" by code_simp
  ultimately show ?thesis by (rule updateClusterURL_once [THEN conjunct2, THEN conjunct2])
qed

end
