(* ===== verification/Cluster_Deployment.thy ===== *)
theory Cluster_Deployment
  imports Import_Gate
begin

text \<open>
  \<open>pkg/controller/clusterdeployment/clusterdeployment_controller.go\<close>: importing a cluster that
  Hive has installed, with the administrator kubeconfig of its cluster deployment.
\<close>

section \<open>Operations\<close>

text \<open>The cluster is returned as the patch leaves it; a failed patch ends the reconcile.\<close>

definition setCreatedViaAnnotation ::
  "server \<Rightarrow> ClusterDeployment \<Rightarrow> ManagedCluster \<Rightarrow> (call, err + ManagedCluster) prog" where
  "setCreatedViaAnnotation srv clusterDeployment cluster = (
     let viaAnnotation = goidx (Annotations cluster) CreatedViaAnnotation in
     if viaAnnotation = CreatedViaDiscovery then return (Inr cluster)
     else (case MergeMap False (Annotations cluster)
         [(CreatedViaAnnotation, if AgentBareMetal clusterDeployment then CreatedViaAI else CreatedViaHive)] of
       (modified, annotations) \<Rightarrow>
         if \<not> modified then return (Inr cluster)
         else do {
           r \<leftarrow> api_PatchManagedCluster srv cluster (cluster\<lparr>Annotations := annotations\<rparr>);
           case r of
             Inl e \<Rightarrow> return (Inl e)
           | Inr cluster' \<Rightarrow> do {
               emit (Event ''ManagedClusterLabelsUpdated''
                 (''The managed cluster '' @ Name cluster' @ '' labels is added''));
               return (Inr cluster') } }))"

definition removeImportFinalizer :: "server \<Rightarrow> ClusterDeployment \<Rightarrow> (call, err option) prog" where
  "removeImportFinalizer srv clusterDeployment =
     (if \<not> list_ex (\<lambda>f. f = ImportFinalizer) (Finalizers clusterDeployment) then return None
      else if length (Finalizers clusterDeployment) \<noteq> 1 then return None
      else do {
        e \<leftarrow> api_write srv (PatchClusterDeployment clusterDeployment (clusterDeployment\<lparr>Finalizers := []\<rparr>));
        case e of
          Some x \<Rightarrow> return (Some x)
        | None \<Rightarrow> do {
            emit (Event ''ClusterDeploymentFinalizerRemoved''
              (''The clusterdeployment '' @ Name clusterDeployment @ '' finalizer '' @ ImportFinalizer @ '' is removed''));
            return None } })"

text \<open>Whether Hive has finished: installed, and claimed when it comes from a cluster pool.\<close>

definition deployment_ready :: "ClusterDeployment \<Rightarrow> bool" where
  "deployment_ready clusterDeployment \<longleftrightarrow>
     Installed clusterDeployment \<and> ClusterPoolRef clusterDeployment \<noteq> Some None"

definition import_deployment ::
  "server \<Rightarrow> codec \<Rightarrow> string \<Rightarrow> ClusterDeployment \<Rightarrow> ManagedCluster \<Rightarrow> (call, outcome) prog" where
  "import_deployment srv cd clusterName clusterDeployment managedCluster = do {
     a \<leftarrow> api_ListerAutoImportSecret srv clusterName AutoImportSecretName;
     case a of
       Inr _ \<Rightarrow> return done_ok
     | Inl e \<Rightarrow>
         if \<not> IsNotFound e then return (Return emptyResult (Some e))
         else (case ClusterMetadata clusterDeployment of
             None \<Rightarrow> return done_ok
           | Some secretRefName \<Rightarrow> do {
               s \<leftarrow> api_GetSecret srv clusterName secretRefName;
               case s of
                 Inl e \<Rightarrow> return (Return emptyResult (Some e))
               | Inr hiveSecret \<Rightarrow> do {
                   (g, out) \<leftarrow> Import srv cd (\<lambda>g. do {
                       (res, c) \<leftarrow> GenerateImportClientFromKubeConfigSecret srv cd hiveSecret;
                       return (g, res, c) }) () False managedCluster (Some hiveSecret);
                   case out of
                     None \<Rightarrow> return Panicked
                   | Some (res, condition, modified, iErr) \<Rightarrow> do {
                       u \<leftarrow> record_condition srv managedCluster condition modified;
                       case u of
                         Some e \<Rightarrow> return (Return emptyResult (Some e))
                       | None \<Rightarrow> return (Return res iErr) } } }) }"

definition clusterdeployment_Reconcile ::
  "server \<Rightarrow> codec \<Rightarrow> string \<Rightarrow> string \<Rightarrow> (call, outcome) prog" where
  "clusterdeployment_Reconcile srv cd componentNamespace clusterName = do {
     d \<leftarrow> api_GetClusterDeployment srv clusterName clusterName;
     case d of
       Inl e \<Rightarrow> return (Return emptyResult (IgnoreNotFound e))
     | Inr clusterDeployment \<Rightarrow>
         if deleting clusterDeployment then do {
           e \<leftarrow> removeImportFinalizer srv clusterDeployment;
           return (Return emptyResult e) }
         else do {
           r \<leftarrow> api_GetManagedCluster srv clusterName;
           case r of
             Inl e \<Rightarrow> return (Return emptyResult (IgnoreNotFound e))
           | Inr managedCluster \<Rightarrow>
               if deleting managedCluster then return done_ok
               else if autoImportDisabled managedCluster then return done_ok
               else do {
                 s \<leftarrow> GetAutoImportStrategy srv componentNamespace;
                 case s of
                   Inl e \<Rightarrow> return (Return emptyResult (Some e))
                 | Inr autoImportStrategy \<Rightarrow>
                     if strategy_skips managedCluster autoImportStrategy then return done_ok
                     else if \<not> deployment_ready clusterDeployment then return done_ok
                     else do {
                       v \<leftarrow> setCreatedViaAnnotation srv clusterDeployment managedCluster;
                       case v of
                         Inl e \<Rightarrow> return (Return emptyResult (Some e))
                       | Inr managedCluster' \<Rightarrow>
                           import_deployment srv cd clusterName clusterDeployment managedCluster' } } } }"

section \<open>The contract\<close>

lemma import_work_generator [calls_intros]:
  "calls_only import_work (do { (res, c) \<leftarrow> GenerateImportClientFromKubeConfigSecret srv cd s; return (g, res, c) })"
  by (intro calls_intros)

lemma extends_import_deployment: "extends (import_deployment srv cd n d mc)"
  unfolding import_deployment_def
  by (intro calls_intros extends_Import) simp_all

lemma extends_setCreatedViaAnnotation: "extends (setCreatedViaAnnotation srv d mc)"
  unfolding setCreatedViaAnnotation_def Let_def by (intro calls_intros) simp_all

lemma harmless_removeImportFinalizer: "calls_only harmless (removeImportFinalizer srv d)"
  unfolding removeImportFinalizer_def by (intro calls_intros) simp_all

lemma clusterdeployment_gated:
  "issues (\<lambda>c. harmless c \<or> (\<exists>mc. on_GetManagedCluster srv (h @ [Read (GetClusterDeployment n n)]) n = Inr mc \<and>
      may_import srv ns mc)) (clusterdeployment_Reconcile srv cd ns n) h"
  unfolding clusterdeployment_Reconcile_def
  by (intro issues_intros issues_bind_strategy issues_bind_calls [OF harmless_removeImportFinalizer])
    (auto intro!: issues_gate calls_intros extends_import_deployment extends_setCreatedViaAnnotation
      simp: may_import_def)

lemma progress_import_deployment: "issues progress_update (import_deployment srv cd n d mc) h"
  unfolding import_deployment_def
  by (intro issues_intros issues_Import)
    (auto intro!: issues_intros calls_intros issues_record_condition)

lemma progress_setCreatedViaAnnotation: "calls_only import_work (setCreatedViaAnnotation srv d mc)"
  unfolding setCreatedViaAnnotation_def Let_def by (intro calls_intros) simp_all

lemma progress_removeImportFinalizer: "calls_only import_work (removeImportFinalizer srv d)"
  unfolding removeImportFinalizer_def by (intro calls_intros) simp_all

lemma clusterdeployment_reports: "issues progress_update (clusterdeployment_Reconcile srv cd ns n) h"
  unfolding clusterdeployment_Reconcile_def
  by (intro issues_intros issues_bind_strategy issues_bind_calls [OF progress_removeImportFinalizer]
      issues_bind_calls [OF progress_setCreatedViaAnnotation] progress_import_deployment)
    (auto intro: import_work_status_update)

interpretation clusterdeployment: import_controller clusterdeployment_Reconcile
  "\<lambda>srv h n. on_GetManagedCluster srv (h @ [Read (GetClusterDeployment n n)]) n"
  by unfold_locales (rule clusterdeployment_gated clusterdeployment_reports)+

end
