(* ===== verification/Self_Managed.thy ===== *)
theory Self_Managed
  imports Import_Gate
begin

text \<open>
  \<open>pkg/controller/selfmanagedcluster/selfmanagedcluster_controller.go\<close>: importing the hub itself,
  with the controller's own clients.
\<close>

definition selfmanaged_Reconcile ::
  "server \<Rightarrow> codec \<Rightarrow> string \<Rightarrow> string \<Rightarrow> (call, outcome) prog" where
  "selfmanaged_Reconcile srv cd componentNamespace n = do {
     r \<leftarrow> api_GetManagedCluster srv n;
     case r of
       Inl e \<Rightarrow> return (Return emptyResult (IgnoreNotFound e))
     | Inr managedCluster \<Rightarrow>
         if deleting managedCluster then return done_ok
         else if (case fmlookup (Labels managedCluster) SelfManagedLabel of
             None \<Rightarrow> True | Some selfManaged \<Rightarrow> \<not> EqualFold selfManaged ''true'') then return done_ok
         else do {
           a \<leftarrow> api_ListerAutoImportSecret srv n AutoImportSecretName;
           case a of
             Inr _ \<Rightarrow> return done_ok
           | Inl e \<Rightarrow>
               if \<not> IsNotFound e then return (Return emptyResult (Some e))
               else if autoImportDisabled managedCluster then return done_ok
               else do {
                 s \<leftarrow> GetAutoImportStrategy srv componentNamespace;
                 case s of
                   Inl e \<Rightarrow> return (Return emptyResult (Some e))
                 | Inr autoImportStrategy \<Rightarrow>
                     if strategy_skips managedCluster autoImportStrategy then return done_ok
                     else do {
                       (g, out) \<leftarrow> Import srv cd (\<lambda>g. return (g, emptyResult, Inr Hub)) () False managedCluster None;
                       case out of
                         None \<Rightarrow> return Panicked
                       | Some (res, condition, modified, iErr) \<Rightarrow> do {
                           u \<leftarrow> record_condition srv managedCluster condition modified;
                           case u of
                             Some e \<Rightarrow> return (Return emptyResult (Some e))
                           | None \<Rightarrow> return (Return res iErr) } } } } }"

section \<open>The contract\<close>

lemma selfmanaged_gated:
  "issues (\<lambda>c. harmless c \<or> (\<exists>mc. on_GetManagedCluster srv h n = Inr mc \<and> may_import srv ns mc))
     (selfmanaged_Reconcile srv cd ns n) h"
  unfolding selfmanaged_Reconcile_def
  by (intro issues_intros issues_bind_strategy)
    (auto intro!: issues_gate calls_intros extends_Import simp: may_import_def)

lemma selfmanaged_reports: "issues progress_update (selfmanaged_Reconcile srv cd ns n) h"
  unfolding selfmanaged_Reconcile_def
  by (intro issues_intros issues_bind_strategy issues_Import)
    (auto intro!: issues_intros calls_intros issues_record_condition)

interpretation selfmanaged: import_controller selfmanaged_Reconcile "\<lambda>srv h n. on_GetManagedCluster srv h n"
  by unfold_locales (rule selfmanaged_gated selfmanaged_reports)+

end
