(* ===== verification/Manifest_Work.thy ===== *)
theory Manifest_Work
  imports Work_Helpers Import_Helper
begin

text \<open>
  \<open>pkg/controller/manifestwork/manifestwork_controller.go\<close>: the manifest works that carry the
  klusterlet and its CRDs to a managed cluster, built from the import secret. A Go panic is the
  value \<open>None\<close>.
\<close>

section \<open>Operations\<close>

text \<open>\<open>strings.ToLower\<close> on the ASCII names of kinds.\<close>

definition ToLower :: "string \<Rightarrow> string" where
  "ToLower = map lower_char"

text \<open>The plural resource of \<open>meta.UnsafeGuessKindToResource\<close>.\<close>

definition UnsafeGuessKindToResource :: "string \<Rightarrow> string" where
  "UnsafeGuessKindToResource kindName =
     (if length kindName = 0 then []
      else (let singularName = ToLower kindName in
        if HasSuffix singularName ''endpoints'' then singularName
        else if last singularName = CHR ''s'' then singularName @ ''es''
        else if last singularName = CHR ''y'' then TrimSuffix singularName ''y'' @ ''ies''
        else singularName @ ''s''))"

text \<open>\<open>meta.Accessor\<close>: the metadata of an object, if it has any.\<close>

fun Accessor :: "obj \<Rightarrow> ObjectMeta option" where
  "Accessor (ServiceAccountObj x) = Some (ObjectMeta.truncate x)"
| "Accessor (SecretObj x) = Some (ObjectMeta.truncate x)"
| "Accessor (NamespaceObj x) = Some (ObjectMeta.truncate x)"
| "Accessor (DeploymentObj x) = Some (ObjectMeta.truncate x)"
| "Accessor (ClusterRoleObj x) = Some (ObjectMeta.truncate x)"
| "Accessor (ClusterRoleBindingObj x) = Some (ObjectMeta.truncate x)"
| "Accessor (CRDObj x) = Some (ObjectMeta.truncate x)"
| "Accessor (ManifestWorkObj x) = Some (ObjectMeta.truncate x)"
| "Accessor (KlusterletObj x) = Some (ObjectMeta.truncate x)"
| "Accessor (PriorityClassObj x) = Some (ObjectMeta.truncate x)"
| "Accessor (NetworkPolicyObj x) = Some (ObjectMeta.truncate x)"
| "Accessor (UnknownObj t m) = m"
| "Accessor NilObj = None"

definition readonly_config :: "codec \<Rightarrow> string \<Rightarrow> ObjectMeta \<Rightarrow> ManifestConfigOption" where
  "readonly_config cd raw metadata = (case decoded_gvk cd raw of (grp, version, kind) \<Rightarrow>
     \<lparr>RIGroup = grp, RIResource = UnsafeGuessKindToResource kind, RIName = Name metadata,
      RINamespace = Namespace metadata, FeedbackPaths = [], UpdateStrategy = Some ReadOnly\<rparr>)"

fun readonly_configs :: "codec \<Rightarrow> string list \<Rightarrow> ManifestConfigOption list option" where
  "readonly_configs cd [] = Some []"
| "readonly_configs cd (raw # manifests) =
     (case MustCreateObject cd raw of
        None \<Rightarrow> None
      | Some obj \<Rightarrow>
          (case Accessor obj of
             None \<Rightarrow> readonly_configs cd manifests
           | Some metadata \<Rightarrow>
               map_option (Cons (readonly_config cd raw metadata)) (readonly_configs cd manifests)))"

definition buildManifestConfigs ::
  "codec \<Rightarrow> ManagedCluster \<Rightarrow> string list \<Rightarrow> ManifestConfigOption list option" where
  "buildManifestConfigs cd managedCluster manifests =
     (if \<not> autoImportDisabled managedCluster then Some [] else readonly_configs cd manifests)"

fun yamls_to_json :: "codec \<Rightarrow> string list \<Rightarrow> string list option" where
  "yamls_to_json cd [] = Some []"
| "yamls_to_json cd (y # ys) =
     (case YAMLToJSON cd y of
        Inl e \<Rightarrow> None
      | Inr j \<Rightarrow> map_option (Cons j) (yamls_to_json cd ys))"

definition last_to_be_deleted :: smap where
  "last_to_be_deleted = fmap_of_list [(CleanupPriorityAnnotationKey, ''100'')]"

definition klusterlet_work_meta :: "ManagedCluster \<Rightarrow> string \<Rightarrow> smap \<Rightarrow> ObjectMeta" where
  "klusterlet_work_meta managedCluster suffix annotations =
     (new_meta (Name managedCluster) (Name managedCluster @ ''-'' @ suffix))\<lparr>
        Labels := fmap_of_list [(KlusterletWorksLabel, LabelValueTrue)], Annotations := annotations\<rparr>"

definition crd_work ::
  "codec \<Rightarrow> ManagedCluster \<Rightarrow> string \<Rightarrow> ManifestWork option" where
  "crd_work cd managedCluster crdYaml =
     (case yamls_to_json cd [crdYaml] of
        None \<Rightarrow> None
      | Some crdManifests \<Rightarrow>
          map_option (\<lambda>configs.
            ObjectMeta.extend (klusterlet_work_meta managedCluster KlusterletCRDsSuffix last_to_be_deleted)
              \<lparr>Manifests = crdManifests, ManifestConfigs = configs, DeleteOption = None,
               WorkConditions = [], ManifestStatuses = []\<rparr>)
            (buildManifestConfigs cd managedCluster crdManifests))"

definition klusterlet_work ::
  "codec \<Rightarrow> ManagedCluster \<Rightarrow> string \<Rightarrow> string \<Rightarrow> ManifestWork option" where
  "klusterlet_work cd managedCluster crdYaml importYaml =
     (case yamls_to_json cd (SplitYamls importYaml) of
        None \<Rightarrow> None
      | Some manifests \<Rightarrow>
          map_option (\<lambda>configs.
            ObjectMeta.extend (klusterlet_work_meta managedCluster KlusterletSuffix
                (if length crdYaml = 0 then last_to_be_deleted else fmempty))
              \<lparr>Manifests = manifests, ManifestConfigs = configs,
               DeleteOption = Some (if length crdYaml = 0 then Foreground else Orphan),
               WorkConditions = [], ManifestStatuses = []\<rparr>)
            (buildManifestConfigs cd managedCluster manifests))"

definition createManifestWorks :: "codec \<Rightarrow> ManagedCluster \<Rightarrow> Secret \<Rightarrow> obj list option" where
  "createManifestWorks cd managedCluster importSecret = (
     let crdYaml = goidx (Data importSecret) ImportSecretCRDSYamlKey;
         importYaml = goidx (Data importSecret) ImportSecretImportYamlKey in
     case (if length crdYaml > 0 then map_option (\<lambda>w. [ManifestWorkObj w]) (crd_work cd managedCluster crdYaml)
           else Some []) of
       None \<Rightarrow> None
     | Some works \<Rightarrow>
         map_option (\<lambda>w. works @ [ManifestWorkObj w]) (klusterlet_work cd managedCluster crdYaml importYaml))"

fun ensure_readonly :: "server \<Rightarrow> codec \<Rightarrow> ManagedCluster \<Rightarrow> ManifestWork list \<Rightarrow> (call, outcome) prog" where
  "ensure_readonly srv cd managedCluster [] = return done_ok"
| "ensure_readonly srv cd managedCluster (mw # mws) =
     (case buildManifestConfigs cd managedCluster (Manifests mw) of
        None \<Rightarrow> return Panicked
      | Some desiredConfigs \<Rightarrow>
          if ManifestConfigsEqual (ManifestConfigs mw) desiredConfigs
          then ensure_readonly srv cd managedCluster mws
          else do {
            u \<leftarrow> api_write srv (UpdateManifestWork (mw\<lparr>ManifestConfigs := desiredConfigs\<rparr>));
            case u of
              Some e \<Rightarrow> return (Return emptyResult (Some e))
            | None \<Rightarrow> ensure_readonly srv cd managedCluster mws })"

definition apply_from_import_secret :: "server \<Rightarrow> codec \<Rightarrow> string \<Rightarrow> ManagedCluster \<Rightarrow> (call, outcome) prog" where
  "apply_from_import_secret srv cd managedClusterName managedCluster = do {
     s \<leftarrow> api_ListerImportSecret srv managedClusterName (managedClusterName @ ''-'' @ ImportSecretNameSuffix);
     case s of
       Inl e \<Rightarrow> return (Return emptyResult (IgnoreNotFound e))
     | Inr importSecret \<Rightarrow>
         (case ValidateImportSecret importSecret of
            Some e \<Rightarrow> return (Return emptyResult (Some e))
          | None \<Rightarrow>
              (case createManifestWorks cd managedCluster importSecret of
                 None \<Rightarrow> return Panicked
               | Some works \<Rightarrow> do {
                   (changed, e) \<leftarrow> ApplyResources srv Hub (Some managedCluster) works;
                   return (Return emptyResult e) })) }"

definition manifestwork_Reconcile :: "server \<Rightarrow> codec \<Rightarrow> string \<Rightarrow> (call, outcome) prog" where
  "manifestwork_Reconcile srv cd managedClusterName = do {
     r \<leftarrow> api_GetManagedCluster srv managedClusterName;
     case r of
       Inl e \<Rightarrow> return (Return emptyResult (IgnoreNotFound e))
     | Inr managedCluster \<Rightarrow>
         if IsHostedCluster managedCluster then return done_ok
         else if deleting managedCluster then return done_ok
         else do {
           l \<leftarrow> api_ListerKlusterletWorks srv managedClusterName (Some (KlusterletWorksLabel, LabelValueTrue));
           case l of
             Inl e \<Rightarrow> return (Return emptyResult (Some e))
           | Inr manifestWorks \<Rightarrow> do {
               a \<leftarrow> AssertManifestWorkFinalizer srv managedCluster (length manifestWorks);
               case a of
                 Inl e \<Rightarrow> return (Return emptyResult (Some e))
               | Inr managedCluster' \<Rightarrow>
                   if autoImportDisabled managedCluster' \<and> length manifestWorks > 0
                   then ensure_readonly srv cd managedCluster' manifestWorks
                   else apply_from_import_secret srv cd managedClusterName managedCluster' } } }"

section \<open>The works of a cluster\<close>

lemma klusterlet_work_meta_fields [simp]:
  "Name (klusterlet_work_meta mc suffix a) = Name mc @ ''-'' @ suffix"
  "Namespace (klusterlet_work_meta mc suffix a) = Name mc"
  "fmlookup (Labels (klusterlet_work_meta mc suffix a)) KlusterletWorksLabel = Some LabelValueTrue"
  "Annotations (klusterlet_work_meta mc suffix a) = a"
  by (simp_all add: klusterlet_work_meta_def new_meta_def fmlookup_of_list)

lemma extend_fields [simp]:
  "Name (ObjectMeta.extend m x) = Name m" "Namespace (ObjectMeta.extend m x) = Namespace m"
  "Labels (ObjectMeta.extend m x) = Labels m" "Annotations (ObjectMeta.extend m x) = Annotations m"
  by (simp_all add: ObjectMeta.defs)

lemma extend_work_fields [simp]:
  "Manifests (ObjectMeta.extend m \<lparr>Manifests = a, ManifestConfigs = b, DeleteOption = c, WorkConditions = d, ManifestStatuses = e\<rparr>) = a"
  "ManifestConfigs (ObjectMeta.extend m \<lparr>Manifests = a, ManifestConfigs = b, DeleteOption = c, WorkConditions = d, ManifestStatuses = e\<rparr>) = b"
  "DeleteOption (ObjectMeta.extend m \<lparr>Manifests = a, ManifestConfigs = b, DeleteOption = c, WorkConditions = d, ManifestStatuses = e\<rparr>) = c"
  by (simp_all add: ObjectMeta.defs)

definition deleted_last :: "ManifestWork \<Rightarrow> bool" where
  "deleted_last w \<longleftrightarrow> fmlookup (Annotations w) CleanupPriorityAnnotationKey = Some ''100''"

lemma last_to_be_deleted_lookup [simp]:
  "fmlookup last_to_be_deleted CleanupPriorityAnnotationKey = Some ''100''"
  by (simp add: last_to_be_deleted_def fmlookup_of_list)

lemma readonly_configs_ReadOnly:
  "readonly_configs cd ms = Some configs \<Longrightarrow> list_all (\<lambda>c. UpdateStrategy c = Some ReadOnly) configs"
  by (induction ms arbitrary: configs)
    (auto simp: readonly_config_def split: option.splits prod.splits)

lemma buildManifestConfigs_ReadOnly:
  "buildManifestConfigs cd mc ms = Some configs \<Longrightarrow>
   list_all (\<lambda>c. UpdateStrategy c = Some ReadOnly) configs \<and> (\<not> autoImportDisabled mc \<longrightarrow> configs = [])"
  by (auto simp: buildManifestConfigs_def readonly_configs_ReadOnly split: if_splits)

text \<open>
  C28. The works built from an import secret are the CRD work, when the secret has CRDs, and then the
  klusterlet work, both in the cluster's namespace and labelled as klusterlet works. Exactly one
  of them is marked to be deleted last; the klusterlet work orphans its resources exactly when
  the CRD work exists; its manifests are the documents of the import YAML in order; and every
  configuration in them is read-only, with none at all unless auto-import is disabled.
\<close>

theorem createManifestWorks_shape:
  assumes "createManifestWorks cd mc s = Some objs"
  shows "\<exists>works. objs = map ManifestWorkObj works \<and>
    map Name works =
      (if goidx (Data s) ImportSecretCRDSYamlKey = [] then [] else [Name mc @ ''-'' @ KlusterletCRDsSuffix]) @
      [Name mc @ ''-'' @ KlusterletSuffix] \<and>
    list_all (\<lambda>w. Namespace w = Name mc \<and> fmlookup (Labels w) KlusterletWorksLabel = Some LabelValueTrue) works \<and>
    length (filter deleted_last works) = 1 \<and>
    DeleteOption (last works) =
      Some (if goidx (Data s) ImportSecretCRDSYamlKey = [] then Foreground else Orphan) \<and>
    yamls_to_json cd (SplitYamls (goidx (Data s) ImportSecretImportYamlKey)) = Some (Manifests (last works)) \<and>
    list_all (\<lambda>w. list_all (\<lambda>c. UpdateStrategy c = Some ReadOnly) (ManifestConfigs w) \<and>
      (if autoImportDisabled mc then True else ManifestConfigs w = [])) works"
proof -
  let ?crd = "goidx (Data s) ImportSecretCRDSYamlKey"
  let ?yaml = "goidx (Data s) ImportSecretImportYamlKey"
  from assms obtain k where k: "klusterlet_work cd mc ?crd ?yaml = Some k"
    and o: "?crd = [] \<and> objs = [ManifestWorkObj k] \<or>
      ?crd \<noteq> [] \<and> (\<exists>w. crd_work cd mc ?crd = Some w \<and> objs = [ManifestWorkObj w, ManifestWorkObj k])"
    by (auto simp: createManifestWorks_def Let_def split: option.splits if_splits)
  from k have kl: "Name k = Name mc @ ''-'' @ KlusterletSuffix" "Namespace k = Name mc"
    "fmlookup (Labels k) KlusterletWorksLabel = Some LabelValueTrue" "deleted_last k \<longleftrightarrow> ?crd = []"
    "DeleteOption k = Some (if ?crd = [] then Foreground else Orphan)"
    "yamls_to_json cd (SplitYamls ?yaml) = Some (Manifests k)"
    "buildManifestConfigs cd mc (Manifests k) = Some (ManifestConfigs k)"
    by (auto simp: klusterlet_work_def deleted_last_def split: option.splits if_splits)
  have crd: "Name w = Name mc @ ''-'' @ KlusterletCRDsSuffix \<and> Namespace w = Name mc \<and>
    fmlookup (Labels w) KlusterletWorksLabel = Some LabelValueTrue \<and> deleted_last w \<and>
    buildManifestConfigs cd mc (Manifests w) = Some (ManifestConfigs w)"
    if "crd_work cd mc ?crd = Some w" for w
    using that by (auto simp: crd_work_def deleted_last_def split: option.splits sum.splits)
  show ?thesis
  proof (cases "?crd = []")
    case True
    with o have "objs = map ManifestWorkObj [k]" by simp
    then show ?thesis
      by (intro exI [of _ "[k]"]) (use True kl buildManifestConfigs_ReadOnly [OF kl(7)] in auto)
  next
    case False
    with o obtain w where w: "crd_work cd mc ?crd = Some w" "objs = map ManifestWorkObj [w, k]" by auto
    note cw = crd [OF w(1)]
    from w(2) show ?thesis
      by (intro exI [of _ "[w, k]"])
        (use False kl cw buildManifestConfigs_ReadOnly [OF kl(7)]
           buildManifestConfigs_ReadOnly [of cd mc "Manifests w" "ManifestConfigs w"] in auto)
  qed
qed

theorem createManifestWorks_shape_witness:
  "\<exists>works. createManifestWorks sample_codec (new_cluster ''c1'') sample_import_secret = Some (map ManifestWorkObj works) \<and>
     map Name works = [''c1-klusterlet''] \<and> Manifests (last works) = [''klusterlet'']"
proof -
  have "createManifestWorks sample_codec (new_cluster ''c1'') sample_import_secret \<noteq> None" by code_simp
  then obtain objs where o: "createManifestWorks sample_codec (new_cluster ''c1'') sample_import_secret = Some objs"
    by auto
  have "yamls_to_json sample_codec (SplitYamls (goidx (Data sample_import_secret) ImportSecretImportYamlKey)) =
      Some [''klusterlet'']" "goidx (Data sample_import_secret) ImportSecretCRDSYamlKey = []"
    "Name (new_cluster ''c1'') = ''c1''" "KlusterletSuffix = ''klusterlet''"
    by code_simp+
  with createManifestWorks_shape [OF o] o show ?thesis by auto
qed

section \<open>Disabled auto-import\<close>

text \<open>The works whose configurations are not the read-only ones, and their update.\<close>

definition not_readonly :: "codec \<Rightarrow> ManifestWork \<Rightarrow> bool" where
  "not_readonly cd w \<longleftrightarrow> (case readonly_configs cd (Manifests w) of
     None \<Rightarrow> False | Some configs \<Rightarrow> ManifestConfigs w \<noteq> configs)"

definition readonly_update :: "codec \<Rightarrow> ManifestWork \<Rightarrow> call" where
  "readonly_update cd w =
     Write (UpdateManifestWork (w\<lparr>ManifestConfigs := the (readonly_configs cd (Manifests w))\<rparr>))"

lemma ensure_readonly_run:
  assumes "autoImportDisabled mc"
  shows "\<exists>k. snd (run_state (ensure_readonly srv cd mc works) h) =
      h @ map (readonly_update cd) (filter (not_readonly cd) (take k works)) \<and>
    (fst (run_state (ensure_readonly srv cd mc works) h) = done_ok \<longrightarrow> k = length works)"
proof (induction works arbitrary: h)
  case Nil
  then show ?case by simp
next
  case (Cons w ws)
  show ?case
  proof (cases "readonly_configs cd (Manifests w)")
    case None
    then show ?thesis using assms by (intro exI [of _ 0]) (simp add: buildManifestConfigs_def)
  next
    case (Some configs)
    then have nr: "not_readonly cd w \<longleftrightarrow> ManifestConfigs w \<noteq> configs" by (simp add: not_readonly_def)
    have u: "readonly_update cd w = Write (UpdateManifestWork (w\<lparr>ManifestConfigs := configs\<rparr>))"
      using Some by (simp add: readonly_update_def)
    let ?c = "readonly_update cd w"
    obtain k where k: "snd (run_state (ensure_readonly srv cd mc ws) h) =
        h @ map (readonly_update cd) (filter (not_readonly cd) (take k ws))"
      "fst (run_state (ensure_readonly srv cd mc ws) h) = done_ok \<longrightarrow> k = length ws" using Cons.IH by blast
    obtain k' where k': "snd (run_state (ensure_readonly srv cd mc ws) (h @ [?c])) =
        h @ ?c # map (readonly_update cd) (filter (not_readonly cd) (take k' ws))"
      "fst (run_state (ensure_readonly srv cd mc ws) (h @ [?c])) = done_ok \<longrightarrow> k' = length ws"
      using Cons.IH [of "h @ [?c]"] by auto
    show ?thesis
    proof (cases "ManifestConfigs w = configs")
      case True
      with Some assms k show ?thesis
        by (intro exI [of _ "Suc k"]) (simp add: buildManifestConfigs_def nr)
    next
      case False
      with Some assms k' show ?thesis
        by (cases "on_write srv h (UpdateManifestWork (w\<lparr>ManifestConfigs := configs\<rparr>))")
          (auto intro: exI [of _ "Suc k'"] exI [of _ "Suc 0"]
            simp: buildManifestConfigs_def nr u ask_def)
    qed
  qed
qed

text \<open>
  C29. While auto-import is disabled and klusterlet works exist, a reconcile issues, after the work
  finalizer is in place, only the updates that turn the listed works read-only, in their order
  and with their manifests unchanged; when it ends without an error, every work whose
  configuration differed has been updated. No work is created or replaced from the import secret.
\<close>

theorem disabled_works_become_readonly:
  assumes "on_GetManagedCluster srv h n = Inr mc" and "\<not> IsHostedCluster mc" and "\<not> deleting mc"
    and "on_ListerKlusterletWorks srv (h @ [Read (GetManagedCluster n)]) n
      (Some (KlusterletWorksLabel, LabelValueTrue)) = Inr works" and "works \<noteq> []"
    and "run_state (AssertManifestWorkFinalizer srv mc (length works)) (h @ [Read (GetManagedCluster n),
      Read (ListerKlusterletWorks n (Some (KlusterletWorksLabel, LabelValueTrue)))]) = (Inr mc', h2)"
    and "autoImportDisabled mc'"
  shows "\<exists>k. snd (run_state (manifestwork_Reconcile srv cd n) h) =
      h2 @ map (readonly_update cd) (filter (not_readonly cd) (take k works)) \<and>
    (result (manifestwork_Reconcile srv cd n) h = done_ok \<longrightarrow> k = length works)"
proof -
  have "run_state (manifestwork_Reconcile srv cd n) h = run_state (ensure_readonly srv cd mc' works) h2"
    using assms by (simp add: manifestwork_Reconcile_def ask_def)
  then show ?thesis using ensure_readonly_run [OF assms(7), of srv cd works h2] by (simp add: result_def)
qed

definition disabled_cluster :: ManagedCluster where
  "disabled_cluster = (new_cluster ''c1'')\<lparr>Annotations := fmap_of_list [(DisableAutoImportAnnotation, [])],
     Finalizers := [ManifestWorkFinalizer]\<rparr>"

definition disabled_server :: server where
  "disabled_server = empty_server\<lparr>on_GetManagedCluster := (\<lambda>_ _. Inr disabled_cluster),
     on_ListerKlusterletWorks := (\<lambda>_ _ _. Inr [sample_work])\<rparr>"

theorem disabled_works_become_readonly_witness:
  "\<exists>k. snd (run_state (manifestwork_Reconcile disabled_server sample_codec ''c1'') []) =
      [Read (GetManagedCluster ''c1''), Read (ListerKlusterletWorks ''c1'' (Some (KlusterletWorksLabel, LabelValueTrue)))] @
      map (readonly_update sample_codec) (filter (not_readonly sample_codec) (take k [sample_work]))"
proof -
  let ?h2 = "[Read (GetManagedCluster ''c1''), Read (ListerKlusterletWorks ''c1'' (Some (KlusterletWorksLabel, LabelValueTrue)))]"
  have "on_GetManagedCluster disabled_server [] ''c1'' = Inr disabled_cluster"
    "on_ListerKlusterletWorks disabled_server ([] @ [Read (GetManagedCluster ''c1'')]) ''c1''
      (Some (KlusterletWorksLabel, LabelValueTrue)) = Inr [sample_work]"
    by (simp_all add: disabled_server_def)
  moreover have "\<not> IsHostedCluster disabled_cluster" "\<not> deleting disabled_cluster" "autoImportDisabled disabled_cluster"
    by code_simp+
  moreover have "run_state (AssertManifestWorkFinalizer disabled_server disabled_cluster (length [sample_work])) ([] @ ?h2) =
      (Inr disabled_cluster, ?h2)"
    by code_simp
  ultimately show ?thesis
    using disabled_works_become_readonly [of disabled_server "[]" "''c1''" disabled_cluster "[sample_work]"] by blast
qed

section \<open>Kinds and resources\<close>

text \<open>
  For the kinds that the klusterlet works carry, the guessed resource is the one the code
  documents: the read-only configuration of each of them matches in the work agent.
\<close>

lemma klusterlet_kinds_guessed:
  "map UnsafeGuessKindToResource [''Namespace'', ''ClusterRole'', ''ClusterRoleBinding'', ''PriorityClass'',
     ''Secret'', ''ServiceAccount'', ''Deployment'', ''Klusterlet'', ''CustomResourceDefinition''] =
   [''namespaces'', ''clusterroles'', ''clusterrolebindings'', ''priorityclasses'', ''secrets'',
     ''serviceaccounts'', ''deployments'', ''klusterlets'', ''customresourcedefinitions'']"
  by code_simp

end
