(* ===== verification/Base64.thy ===== *)
theory Base64
  imports Main
begin

text \<open>
  The standard Base64 encoding of Go's library, which the controllers use for kubeconfigs and
  certificate authorities, and that it loses nothing: a decoder gives back the bytes.
\<close>

text \<open>\<open>base64.StdEncoding.EncodeToString\<close> on bytes.\<close>

definition b64_alphabet :: string where
  "b64_alphabet = ''ABCDEFGHIJKLMNOPQRSTUVWXYZabcdefghijklmnopqrstuvwxyz0123456789+/''"

definition b64 :: "nat \<Rightarrow> char" where
  "b64 n = b64_alphabet ! n"

fun EncodeToString :: "string \<Rightarrow> string" where
  "EncodeToString [] = []"
| "EncodeToString [a] = (let x = of_char a in [b64 (x div 4), b64 (x mod 4 * 16), CHR ''='', CHR ''=''])"
| "EncodeToString [a, b] = (let x = of_char a; y = of_char b in
     [b64 (x div 4), b64 (x mod 4 * 16 + y div 16), b64 (y mod 16 * 4), CHR ''=''])"
| "EncodeToString (a # b # c # s) = (let x = of_char a; y = of_char b; z = of_char c in
     [b64 (x div 4), b64 (x mod 4 * 16 + y div 16), b64 (y mod 16 * 4 + z div 64), b64 (z mod 64)]
     @ EncodeToString s)"

section \<open>Nothing is lost\<close>

text \<open>The position of a character in the alphabet, and the decoder for well-formed input.\<close>

definition unb64 :: "char \<Rightarrow> nat" where
  "unb64 c = length (takeWhile (\<lambda>d. d \<noteq> c) b64_alphabet)"

fun b64_decode :: "string \<Rightarrow> string" where
  "b64_decode (p # q # r # t # s) =
     (if r = CHR ''='' then [char_of (unb64 p * 4 + unb64 q div 16)]
      else if t = CHR ''='' then
        [char_of (unb64 p * 4 + unb64 q div 16), char_of (unb64 q mod 16 * 16 + unb64 r div 4)]
      else [char_of (unb64 p * 4 + unb64 q div 16), char_of (unb64 q mod 16 * 16 + unb64 r div 4),
        char_of (unb64 r mod 4 * 64 + unb64 t)] @ b64_decode s)"
| "b64_decode _ = []"

lemma unb64_table: "list_all (\<lambda>n. unb64 (b64 n) = n \<and> b64 n \<noteq> CHR ''='') [0..<64]"
  by code_simp

lemma unb64_b64 [simp]: "n < 64 \<Longrightarrow> unb64 (b64 n) = n" "n < 64 \<Longrightarrow> b64 n \<noteq> CHR ''=''"
  using unb64_table by (auto simp: list_all_iff)

lemma char_less_256 [simp]: "(of_char c :: nat) < 256"
  by simp

lemma three_bytes:
  fixes x y z :: nat
  assumes "x < 256" "y < 256" "z < 256"
  shows "x div 4 < 64" "x mod 4 * 16 + y div 16 < 64" "y mod 16 * 4 + z div 64 < 64" "z mod 64 < 64"
    "x mod 4 * 16 < 64" "y mod 16 * 4 < 64"
    "x div 4 * 4 + (x mod 4 * 16 + y div 16) div 16 = x"
    "(x mod 4 * 16 + y div 16) mod 16 * 16 + (y mod 16 * 4 + z div 64) div 4 = y"
    "(y mod 16 * 4 + z div 64) mod 4 * 64 + z mod 64 = z"
    "x div 4 * 4 + x mod 4 * 16 div 16 = x"
    "(x mod 4 * 16 + y div 16) mod 16 * 16 + y mod 16 * 4 div 4 = y"
proof -
  have d: "y div 16 < 16" "z div 64 < 4" "y mod 16 < 16" "x mod 4 < 4" using assms by auto
  show "x div 4 < 64" "z mod 64 < 64" using assms by auto
  show "x mod 4 * 16 + y div 16 < 64" "y mod 16 * 4 + z div 64 < 64" "x mod 4 * 16 < 64" "y mod 16 * 4 < 64"
    using d by linarith+
  have "(x mod 4 * 16 + y div 16) div 16 = x mod 4" "(x mod 4 * 16 + y div 16) mod 16 = y div 16"
    "(y mod 16 * 4 + z div 64) div 4 = y mod 16" "(y mod 16 * 4 + z div 64) mod 4 = z div 64"
    using d by auto
  then show "x div 4 * 4 + (x mod 4 * 16 + y div 16) div 16 = x"
    "(x mod 4 * 16 + y div 16) mod 16 * 16 + (y mod 16 * 4 + z div 64) div 4 = y"
    "(y mod 16 * 4 + z div 64) mod 4 * 64 + z mod 64 = z"
    "x div 4 * 4 + x mod 4 * 16 div 16 = x"
    "(x mod 4 * 16 + y div 16) mod 16 * 16 + y mod 16 * 4 div 4 = y"
    by simp_all
qed

lemma b64_decode_encode: "b64_decode (EncodeToString s) = s"
proof (induction s rule: EncodeToString.induct)
  case (2 a)
  then show ?case using three_bytes [of "of_char a" 0 0] by (simp add: Let_def)
next
  case (3 a b)
  then show ?case using three_bytes [of "of_char a" "of_char b" 0] by (simp add: Let_def)
next
  case (4 a b c s)
  then show ?case using three_bytes [of "of_char a" "of_char b" "of_char c"] by (simp add: Let_def)
qed simp

lemma EncodeToString_inj: "EncodeToString s = EncodeToString t \<longleftrightarrow> s = t"
  by (metis b64_decode_encode)

end
