(* ===== verification/Hosted.thy ===== *)
theory Hosted
  imports Import_Gate Base64
begin

text \<open>
  \<open>pkg/controller/hosted/controller.go\<close>: importing a cluster whose klusterlet runs on another
  managed cluster, the hosting cluster, by manifest works in that cluster's namespace. A Go
  panic is the value \<open>None\<close> or the outcome \<open>Panicked\<close>.
\<close>

section \<open>The works on the hosting cluster\<close>

definition operatorGroupName :: string where
  "operatorGroupName = ''operator.open-cluster-management.io''"

definition klusterletNamespace :: "string \<Rightarrow> string" where
  "klusterletNamespace managedCluster = ''klusterlet-'' @ managedCluster"

definition hostedKlusterletCRName :: "string \<Rightarrow> string" where
  "hostedKlusterletCRName managedClusterName = ''klusterlet-'' @ managedClusterName"

text \<open>The manifests: namespaces and documents that are no objects are left out.\<close>

fun hosting_manifests :: "codec \<Rightarrow> string list \<Rightarrow> string list option" where
  "hosting_manifests cd [] = Some []"
| "hosting_manifests cd (y # ys) =
     (case YAMLToJSON cd y of
        Inl e \<Rightarrow> None
      | Inr jsonData \<Rightarrow>
          (case unstructured_kind cd jsonData of
             Inl e \<Rightarrow> hosting_manifests cd ys
           | Inr kind \<Rightarrow>
               if kind = ''Namespace'' then hosting_manifests cd ys
               else map_option (Cons jsonData) (hosting_manifests cd ys)))"

definition ready_path :: "string \<Rightarrow> string" where
  "ready_path field = ''.status.conditions[?(@.type=='' @ [CHR 0x22] @ ''ReadyToApply'' @ [CHR 0x22] @ '')].'' @ field"

definition feedback_config :: "string \<Rightarrow> ManifestConfigOption" where
  "feedback_config managedClusterName =
     \<lparr>RIGroup = operatorGroupName, RIResource = ''klusterlets'', RIName = hostedKlusterletCRName managedClusterName,
      RINamespace = [],
      FeedbackPaths = [(''ReadyToApply-reason'', ready_path ''reason''),
        (readyToApplyStatusFeedback, ready_path ''status''),
        (''ReadyToApply-message'', ready_path ''message''),
        (''ReadyToApply-lastTransitionTime'', ready_path ''lastTransitionTime''),
        (''ReadyToApply-observedGeneration'', ready_path ''observedGeneration'')],
      UpdateStrategy = None\<rparr>"

definition hosted_work_meta :: "string \<Rightarrow> string \<Rightarrow> string \<Rightarrow> ObjectMeta" where
  "hosted_work_meta ns n managedClusterName =
     (new_meta ns n)\<lparr>Labels := fmap_of_list [(HostedClusterLabel, managedClusterName)]\<rparr>"

definition createHostingManifestWork :: "codec \<Rightarrow> string \<Rightarrow> Secret \<Rightarrow> string \<Rightarrow> ManifestWork option" where
  "createHostingManifestWork cd managedClusterName importSecret manifestWorkNamespace =
     map_option (\<lambda>manifests.
       ObjectMeta.extend
         ((hosted_work_meta manifestWorkNamespace (HostedKlusterletManifestWorkName managedClusterName) managedClusterName)
            \<lparr>Annotations := fmap_of_list [(CleanupPriorityAnnotationKey, ''100'')]\<rparr>)
         \<lparr>Manifests = manifests, ManifestConfigs = [feedback_config managedClusterName],
          DeleteOption = Some Foreground, WorkConditions = [], ManifestStatuses = []\<rparr>)
       (hosting_manifests cd (SplitYamls (goidx (Data importSecret) ImportSecretImportYamlKey)))"

text \<open>The file \<open>manifests/external_managed_secret.yaml\<close>, rendered with its three fields.\<close>

definition external_managed_secret :: "string \<Rightarrow> string \<Rightarrow> bool \<Rightarrow> string" where
  "external_managed_secret ns kubeconfig isLocalCluster =
     ''apiVersion: v1'' @ nl @ ''kind: Secret'' @ nl @ ''metadata:'' @ nl @
     ''  name: '' @ quoted ''external-managed-kubeconfig'' @ nl @
     ''  namespace: '' @ quoted ns @
     (if isLocalCluster
      then nl @ ''  labels:'' @ nl @ ''    cluster.open-cluster-management.io/backup: '' @ quoted ''import-controller''
      else []) @ nl @
     ''type: Opaque'' @ nl @ ''data:'' @ nl @ ''  kubeconfig: '' @ kubeconfig @ nl"

definition createManagedKubeconfigManifestWork ::
  "codec \<Rightarrow> string \<Rightarrow> Secret \<Rightarrow> string \<Rightarrow> ManagedCluster \<Rightarrow> err + ManifestWork" where
  "createManagedKubeconfigManifestWork cd managedClusterName importSecret manifestWorkNamespace hostingCluster = (
     let kubeconfig = goidx (Data importSecret) ''kubeconfig'' in
     if length kubeconfig = 0 then Inl (ErrorString
       ''import secret invalid, the field kubeconfig must exist in the secret for hosted mode'')
     else (
       let isLocalCluster = (fmlookup (Labels hostingCluster) SelfManagedLabel = Some ''true'') in
       case YAMLToJSON cd (external_managed_secret (klusterletNamespace managedClusterName)
           (EncodeToString kubeconfig) isLocalCluster) of
         Inl e \<Rightarrow> Inl e
       | Inr externalKubeJSON \<Rightarrow>
           Inr (ObjectMeta.extend
             (hosted_work_meta manifestWorkNamespace
               (HostedManagedKubeConfigManifestWorkName managedClusterName) managedClusterName)
             \<lparr>Manifests = [externalKubeJSON], ManifestConfigs = [], DeleteOption = Some Orphan,
              WorkConditions = [], ManifestStatuses = []\<rparr>)))"

text \<open>Whether the status feedback of the klusterlet says that it can be applied.\<close>

definition klusterlet_ready :: "string \<Rightarrow> ManifestWork \<Rightarrow> bool" where
  "klusterlet_ready managedClusterName mw =
     list_ex (\<lambda>manifest.
       \<not> (MSGroup manifest \<noteq> operatorGroupName \<or>
          (MSKind manifest \<noteq> ''Klusterlet'' \<and> MSResource manifest \<noteq> ''klusterlets'') \<or>
          MSName manifest \<noteq> hostedKlusterletCRName managedClusterName) \<and>
       list_ex (\<lambda>(name, val). name = readyToApplyStatusFeedback \<and>
         (case val of None \<Rightarrow> False | Some s \<Rightarrow> EqualFold s ''True'')) (StatusFeedbacks manifest))
       (ManifestStatuses mw)"

definition externalManagedKubeconfigCreated ::
  "server \<Rightarrow> string \<Rightarrow> string \<Rightarrow> (call, err + bool) prog" where
  "externalManagedKubeconfigCreated srv managedClusterName hostingClusterName = do {
     r \<leftarrow> api_GetManifestWork srv hostingClusterName (HostedKlusterletManifestWorkName managedClusterName);
     return (map_sum id (klusterlet_ready managedClusterName) r) }"

section \<open>The reconcile\<close>

abbreviation imported_condition :: Condition where
  "imported_condition \<equiv> NewManagedClusterImportSucceededCondition ConditionTrue
     ConditionReasonManagedClusterImported ''Import succeeded''"

definition feedback_condition :: "err + bool \<Rightarrow> Condition \<times> err option" where
  "feedback_condition c = (case c of
     Inl e \<Rightarrow> (importing (''Check external managed kubeconfig availability failed, error: '' @ Error e), Some e)
   | Inr created \<Rightarrow>
       if \<not> created then (importing ''Wait for the user to provide the external managed kubeconfig'', None)
       else (imported_condition, None))"

text \<open>The last steps: the external kubeconfig on the hosting cluster, and the feedback of the klusterlet.\<close>

definition provide_kubeconfig ::
  "server \<Rightarrow> codec \<Rightarrow> ManagedCluster \<Rightarrow> Secret option \<Rightarrow> ManagedCluster \<Rightarrow> string \<Rightarrow>
   (call, Condition \<times> err option) prog" where
  "provide_kubeconfig srv cd managedCluster autoImportSecret hostingCluster hostingClusterName = do {
     a \<leftarrow> (case autoImportSecret of
         None \<Rightarrow> return None
       | Some secret \<Rightarrow>
           (case createManagedKubeconfigManifestWork cd (Name managedCluster) secret hostingClusterName hostingCluster of
              Inl e \<Rightarrow> return (Some
                (importing (''Build external managed kubeconfig manifest work failed, error: '' @ Error e), e))
            | Inr work \<Rightarrow> do {
                (changed, e) \<leftarrow> ApplyResources srv Hub (Some managedCluster) [ManifestWorkObj work];
                return (map_option (\<lambda>x.
                  (importing (''Apply external managed kubeconfig to the hosting cluster failed, error: '' @ Error x), x)) e) }));
     case a of
       Some (cond, e) \<Rightarrow> return (cond, Some e)
     | None \<Rightarrow> do {
         c \<leftarrow> externalManagedKubeconfigCreated srv (Name managedCluster) hostingClusterName;
         return (feedback_condition c) } }"

text \<open>From the import secret to the available klusterlet work; \<open>None\<close> is a panic.\<close>

definition apply_klusterlet_work ::
  "server \<Rightarrow> codec \<Rightarrow> ManagedCluster \<Rightarrow> Secret option \<Rightarrow> ManagedCluster \<Rightarrow> string \<Rightarrow>
   (call, (Condition \<times> err option) option) prog" where
  "apply_klusterlet_work srv cd managedCluster autoImportSecret hostingCluster hostingClusterName = do {
     s \<leftarrow> api_ListerImportSecret srv (Name managedCluster) (Name managedCluster @ ''-'' @ ImportSecretNameSuffix);
     case s of
       Inl e \<Rightarrow>
         if IsNotFound e then return (Some (importing ''Wait for import secret to be created'', None))
         else return (Some (importing (''Get import secret failed, error: '' @ Error e), Some e))
     | Inr importSecret \<Rightarrow>
         (case ValidateImportSecret importSecret of
            Some e \<Rightarrow> return (Some (import_failed (''Import secret is invalid, error: '' @ Error e), None))
          | None \<Rightarrow>
              (case createHostingManifestWork cd (Name managedCluster) importSecret hostingClusterName of
                 None \<Rightarrow> return None
               | Some work \<Rightarrow> do {
                   (changed, e) \<leftarrow> ApplyResources srv Hub (Some managedCluster) [ManifestWorkObj work];
                   case e of
                     Some x \<Rightarrow> return (Some
                       (importing (''Apply importing resources to the hosting cluster failed, error: '' @ Error x), Some x))
                   | None \<Rightarrow> do {
                       v \<leftarrow> IsManifestWorksAvailable srv (Namespace work) [Name work];
                       case v of
                         Inl x \<Rightarrow> return (Some (importing
                           (''Check importing resources availability on the hosting cluster failed, error: '' @ Error x), Some x))
                       | Inr available \<Rightarrow>
                           if \<not> available then return (Some
                             (importing ''Wait for importing resources to be available on the hosting cluster'', None))
                           else do {
                             r \<leftarrow> provide_kubeconfig srv cd managedCluster autoImportSecret hostingCluster hostingClusterName;
                             return (Some r) } } })) }"

text \<open>
  The result is always the empty one. The cluster is returned too, as the patch of its
  finalizers leaves it.
\<close>

definition importCluster ::
  "server \<Rightarrow> codec \<Rightarrow> ManagedCluster \<Rightarrow> Secret option \<Rightarrow>
   (call, ManagedCluster \<times> (Condition \<times> err option) option) prog" where
  "importCluster srv cd managedCluster autoImportSecret =
     (case GetHostingCluster managedCluster of
        Inl e \<Rightarrow> return (managedCluster, Some (NewManagedClusterImportSucceededCondition ConditionFalse
          ConditionReasonManagedClusterWaitForImporting ''Waiting for the user to specify the hosting cluster'', None))
      | Inr hostingClusterName \<Rightarrow> do {
          r \<leftarrow> api_GetManagedCluster srv hostingClusterName;
          case r of
            Inl e \<Rightarrow> return (managedCluster, Some (importing
              (if IsNotFound e then ''Hosting cluster is not a managed cluster of the hub''
               else ''Validate the hosting cluster, get managed cluster failed, error: '' @ Error e), Some e))
          | Inr hostingCluster \<Rightarrow>
              if deleting hostingCluster
              then return (managedCluster, Some (import_failed
                (''The hosting cluster '' @ hostingClusterName @ '' is being deleted''), None))
              else do {
                l \<leftarrow> api_ListerHostedWorks srv hostingClusterName (Some (HostedClusterLabel, Name managedCluster));
                case l of
                  Inl e \<Rightarrow> return (managedCluster, Some
                    (importing (''Get hosted manifest works failed, error: '' @ Error e), Some e))
                | Inr hostedWorks \<Rightarrow> do {
                    a \<leftarrow> AssertManifestWorkFinalizer srv managedCluster (length hostedWorks);
                    case a of
                      Inl e \<Rightarrow> return (managedCluster, Some
                        (importing (''Add finalizer for manifest work failed, error: '' @ Error e), Some e))
                    | Inr managedCluster' \<Rightarrow> do {
                        x \<leftarrow> apply_klusterlet_work srv cd managedCluster' autoImportSecret hostingCluster hostingClusterName;
                        return (managedCluster', x) } } } })"

definition finish_hosted ::
  "server \<Rightarrow> ManagedCluster \<Rightarrow> Secret option \<Rightarrow> Condition \<Rightarrow> err option \<Rightarrow> (call, outcome) prog" where
  "finish_hosted srv managedCluster autoImportSecret condition iErr = do {
     u \<leftarrow> UpdateManagedClusterImportCondition srv managedCluster condition;
     case u of
       Some e \<Rightarrow> return (Return emptyResult (Some e))
     | None \<Rightarrow>
         (case autoImportSecret of
            None \<Rightarrow> return (Return emptyResult iErr)
          | Some secret \<Rightarrow>
              if Status condition = ConditionTrue then do {
                d \<leftarrow> DeleteAutoImportSecret srv secret;
                case d of
                  Some e \<Rightarrow> return (Return emptyResult (Some e))
                | None \<Rightarrow> return (Return emptyResult iErr) }
              else return (Return emptyResult iErr)) }"

definition hosted_Reconcile :: "server \<Rightarrow> codec \<Rightarrow> string \<Rightarrow> (call, outcome) prog" where
  "hosted_Reconcile srv cd managedClusterName = do {
     r \<leftarrow> api_GetManagedCluster srv managedClusterName;
     case r of
       Inl e \<Rightarrow> return (Return emptyResult (IgnoreNotFound e))
     | Inr managedCluster \<Rightarrow>
         if DetermineKlusterletMode managedCluster \<noteq> InstallModeHosted then return done_ok
         else if deleting managedCluster then return done_ok
         else if FindStatusCondition (Conditions managedCluster) ConditionManagedClusterImportSucceeded = None
         then do {
           e \<leftarrow> UpdateManagedClusterImportCondition srv managedCluster wait_for_importing;
           return (Return (emptyResult\<lparr>Requeue := True\<rparr>) e) }
         else do {
           a \<leftarrow> api_ListerAutoImportSecret srv (Name managedCluster) AutoImportSecretName;
           case a of
             Inl e \<Rightarrow>
               if \<not> IsNotFound e then return (Return emptyResult (Some e))
               else do {
                 (mc, out) \<leftarrow> importCluster srv cd managedCluster None;
                 case out of
                   None \<Rightarrow> return Panicked
                 | Some (condition, iErr) \<Rightarrow> finish_hosted srv mc None condition iErr }
           | Inr autoImportSecret \<Rightarrow> do {
               (mc, out) \<leftarrow> importCluster srv cd managedCluster (Some autoImportSecret);
               case out of
                 None \<Rightarrow> return Panicked
               | Some (condition, iErr) \<Rightarrow> finish_hosted srv mc (Some autoImportSecret) condition iErr } } }"

section \<open>When a hosted cluster counts as imported\<close>

text \<open>
  The evidence, from reads of the run that starts at \<open>h\<close>: the klusterlet work on the hosting cluster
  is available, and afterwards its feedback says that the klusterlet can be applied.
\<close>

definition hosted_evidence :: "server \<Rightarrow> call list \<Rightarrow> string \<Rightarrow> string \<Rightarrow> bool" where
  "hosted_evidence srv h hosting n \<longleftrightarrow>
     (\<exists>cs ds w w'. on_GetManifestWork srv (h @ cs) hosting (HostedKlusterletManifestWorkName n) = Inr w \<and>
        IsStatusConditionTrue (WorkConditions w) WorkAvailable \<and>
        on_GetManifestWork srv (h @ cs @ ds) hosting (HostedKlusterletManifestWorkName n) = Inr w' \<and>
        klusterlet_ready n w')"

lemma importing_not_true [simp]:
  "Status (importing m) \<noteq> ConditionTrue" "Status (import_failed m) \<noteq> ConditionTrue"
  by simp_all

lemma hosted_evidenceI:
  assumes "on_GetManifestWork srv (h @ cs) hosting (HostedKlusterletManifestWorkName n) = Inr w"
    and "IsStatusConditionTrue (WorkConditions w) WorkAvailable"
    and "on_GetManifestWork srv (h @ cs @ ds) hosting (HostedKlusterletManifestWorkName n) = Inr w'"
    and "klusterlet_ready n w'"
  shows "hosted_evidence srv h hosting n"
  using assms unfolding hosted_evidence_def by blast

lemma wp_feedback:
  "wp (externalManagedKubeconfigCreated srv (Name mc) hosting) (\<lambda>c. wp (return (feedback_condition c))
     (\<lambda>(cond, e) h'. Status cond = ConditionTrue \<longrightarrow>
       (\<exists>cs w. on_GetManifestWork srv (h @ cs) hosting (HostedKlusterletManifestWorkName (Name mc)) = Inr w \<and>
          klusterlet_ready (Name mc) w))) (h @ cs0)"
  unfolding externalManagedKubeconfigCreated_def feedback_condition_def
  by (auto simp: wp_simps map_sum_def split: sum.splits if_splits)

lemma wp_provide_kubeconfig:
  "wp (provide_kubeconfig srv cd mc secret hc hosting) (\<lambda>(cond, e) h'. Status cond = ConditionTrue \<longrightarrow>
     (\<exists>cs w. on_GetManifestWork srv (h @ cs) hosting (HostedKlusterletManifestWorkName (Name mc)) = Inr w \<and>
        klusterlet_ready (Name mc) w)) h"
  unfolding provide_kubeconfig_def
  by (auto simp: wp_simps intro!: wp_calls_only [OF calls_ApplyResources] wp_feedback wp_feedback [where ?cs0.0 = "[]", simplified]
      split: option.split sum.split)

lemma createHostingManifestWork_names:
  "createHostingManifestWork cd n s ns = Some work \<Longrightarrow>
   Namespace work = ns \<and> Name work = HostedKlusterletManifestWorkName n"
  by (auto simp: createHostingManifestWork_def hosted_work_meta_def new_meta_def ObjectMeta.defs)

lemma wp_apply_klusterlet_work:
  "wp (apply_klusterlet_work srv cd mc secret hc hosting) (\<lambda>out h'.
     case out of None \<Rightarrow> True | Some (cond, e) \<Rightarrow>
       Status cond = ConditionTrue \<longrightarrow> hosted_evidence srv h hosting (Name mc)) h"
proof -
  have *: "wp (provide_kubeconfig srv cd mc secret hc hosting) (\<lambda>r. wp (return (Some r)) (\<lambda>out h'.
     case out of None \<Rightarrow> True | Some (cond, e) \<Rightarrow>
       Status cond = ConditionTrue \<longrightarrow> hosted_evidence srv h hosting (Name mc))) (h @ cs @ [x])"
    if "on_GetManifestWork srv (h @ cs) hosting (HostedKlusterletManifestWorkName (Name mc)) = Inr w"
      "IsStatusConditionTrue (WorkConditions w) WorkAvailable" for cs w x
    by (rule wp_mono [OF wp_provide_kubeconfig])
      (auto simp: wp_simps intro: hosted_evidenceI [OF that])
  show ?thesis
    unfolding apply_klusterlet_work_def
    by (auto simp: wp_simps createHostingManifestWork_names intro!: wp_calls_only [OF calls_ApplyResources]
        intro: * [simplified] * [of "_ # _", simplified] split: option.split sum.split)
qed

text \<open>The cluster after its finalizers are asserted: as it was, or as a patch of it left it.\<close>

definition finalizer_asserted :: "server \<Rightarrow> ManagedCluster \<Rightarrow> ManagedCluster \<Rightarrow> bool" where
  "finalizer_asserted srv mc mc' \<longleftrightarrow> mc' = mc \<or> (\<exists>h to. on_PatchManagedCluster srv h mc to = Inr mc')"

lemma wp_AssertManifestWorkFinalizer:
  "wp (AssertManifestWorkFinalizer srv mc k) (\<lambda>r h'. \<exists>cs. h' = h @ cs \<and>
     (case r of Inl e \<Rightarrow> True | Inr mc' \<Rightarrow> finalizer_asserted srv mc mc')) h"
  unfolding AssertManifestWorkFinalizer_def RemoveManagedClusterFinalizer_def Let_def
  by (auto simp: wp_simps finalizer_asserted_def split: sum.split prod.split)

lemma hosted_evidence_later: "hosted_evidence srv (h @ cs) hosting n \<Longrightarrow> hosted_evidence srv h hosting n"
  unfolding hosted_evidence_def by (metis append.assoc)

lemma wp_importCluster:
  "wp (importCluster srv cd mc secret) (\<lambda>(mc', out) h'.
     case out of None \<Rightarrow> True | Some (cond, e) \<Rightarrow> Status cond = ConditionTrue \<longrightarrow>
       finalizer_asserted srv mc mc' \<and> hosted_evidence srv h (hosting_name mc) (Name mc')) h"
proof -
  let ?Q = "\<lambda>(mc', out) h'. case out of None \<Rightarrow> True | Some (cond, e) \<Rightarrow> Status cond = ConditionTrue \<longrightarrow>
       finalizer_asserted srv mc mc' \<and> hosted_evidence srv h (hosting_name mc) (Name mc')"
  have work: "wp (apply_klusterlet_work srv cd mc' secret hc (hosting_name mc)) (\<lambda>x. wp (return (mc', x)) ?Q) (h @ cs)"
    if "finalizer_asserted srv mc mc'" for mc' hc cs
    by (rule wp_mono [OF wp_apply_klusterlet_work])
      (use that in \<open>auto simp: wp_simps intro: hosted_evidence_later split: option.splits prod.splits\<close>)
  have fin: "wp (AssertManifestWorkFinalizer srv mc k) (\<lambda>a. wp (case a of
        Inl e \<Rightarrow> return (mc, Some (importing (f e), Some e))
      | Inr mc' \<Rightarrow> do { x \<leftarrow> apply_klusterlet_work srv cd mc' secret hc (hosting_name mc); return (mc', x) }) ?Q) (h @ cs)"
    for k hc cs f
    by (rule wp_mono [OF wp_AssertManifestWorkFinalizer])
      (auto simp: wp_simps split: sum.splits intro!: work)
  show ?thesis
  proof (cases "GetHostingCluster mc")
    case (Inr hosting)
    then have "hosting_name mc = hosting" by (simp add: hosting_name_def)
    then show ?thesis using Inr
      unfolding importCluster_def by (auto simp: wp_simps intro!: fin [simplified] split: sum.split)
  qed (simp add: importCluster_def wp_simps)
qed

text \<open>The calls by which a hosted cluster counts as imported.\<close>

fun success_call :: "call \<Rightarrow> bool" where
  "success_call (Write (UpdateManagedClusterStatus mc)) =
     IsStatusConditionTrue (Conditions mc) ConditionManagedClusterImportSucceeded"
| "success_call (Write (DeleteSecret ns n)) = True"
| "success_call _ = False"

lemma IsStatusConditionTrue_SetStatusCondition:
  "IsStatusConditionTrue (SetStatusCondition now cs cond) (Type cond) \<longleftrightarrow> Status cond = ConditionTrue"
  using FindStatusCondition_SetStatusCondition [of now cs cond]
  by (auto simp: IsStatusConditionTrue_def IsStatusConditionPresentAndEqual_def FindStatusCondition_def)

lemma success_status_call:
  "status_call n cond c \<Longrightarrow> Type cond = ConditionManagedClusterImportSucceeded \<Longrightarrow>
   success_call c \<Longrightarrow> Status cond = ConditionTrue"
  by (cases c rule: success_call.cases) (auto, metis IsStatusConditionTrue_SetStatusCondition)

text \<open>Everything before the last step makes no such call.\<close>

lemma import_work_success: "import_work c \<Longrightarrow> \<not> success_call c"
  by (cases c rule: success_call.cases) auto

lemma import_work_importCluster: "calls_only import_work (importCluster srv cd mc secret)"
  unfolding importCluster_def apply_klusterlet_work_def provide_kubeconfig_def externalManagedKubeconfigCreated_def
    AssertManifestWorkFinalizer_def RemoveManagedClusterFinalizer_def Let_def IsManifestWorksAvailable.simps
  by (intro calls_intros calls_only_mono [OF calls_ApplyResources import_work_apply_call]) simp_all

lemma calls_UpdateImportCondition_success:
  "calls_only (\<lambda>c. success_call c \<longrightarrow> Status cond = ConditionTrue) (UpdateManagedClusterImportCondition srv mc cond)"
proof (cases "Type cond = ConditionManagedClusterImportSucceeded")
  case True
  then show ?thesis
    by (intro calls_only_mono [OF calls_UpdateManagedClusterImportCondition]) (use success_status_call in blast)
next
  case False
  then show ?thesis
    unfolding UpdateManagedClusterImportCondition_def by (intro calls_intros) simp_all
qed

lemma success_finish_hosted:
  assumes "Status cond = ConditionTrue \<Longrightarrow> G"
  shows "issues (\<lambda>c. success_call c \<longrightarrow> G) (finish_hosted srv mc secret cond e) h"
  unfolding finish_hosted_def
  by (intro issues_intros issues_bind_calls [OF calls_UpdateImportCondition_success]
      issues_bind_calls [OF calls_DeleteAutoImportSecret])
    (use assms import_work_success in auto)

text \<open>
  C9. The hosted controller reports a cluster as imported, and deletes its auto-import secret, only
  for a cluster in hosted mode that is not being deleted, and only after reads of the same run
  have shown the klusterlet work on the hosting cluster available and its feedback ready.
\<close>

theorem hosted_success_has_evidence:
  assumes "c \<in> set (new_calls (hosted_Reconcile srv cd n) h)" and "success_call c"
  shows "\<exists>mc mc'. on_GetManagedCluster srv h n = Inr mc \<and> DetermineKlusterletMode mc = InstallModeHosted \<and>
    \<not> deleting mc \<and> finalizer_asserted srv mc mc' \<and> hosted_evidence srv h (hosting_name mc) (Name mc')"
proof -
  define G where "G \<longleftrightarrow> (\<exists>mc mc'. on_GetManagedCluster srv h n = Inr mc \<and> DetermineKlusterletMode mc = InstallModeHosted \<and>
    \<not> deleting mc \<and> finalizer_asserted srv mc mc' \<and> hosted_evidence srv h (hosting_name mc) (Name mc'))"
  have step: "issues (\<lambda>c. success_call c \<longrightarrow> G) (do {
      (mc', out) \<leftarrow> importCluster srv cd mc secret;
      case out of None \<Rightarrow> return Panicked | Some (cond, e) \<Rightarrow> finish_hosted srv mc' secret cond e }) (h @ cs)"
    if "on_GetManagedCluster srv h n = Inr mc" "DetermineKlusterletMode mc = InstallModeHosted" "\<not> deleting mc"
    for mc secret cs
  proof (rule issues_bind_calls [OF import_work_importCluster])
    fix a ds
    assume r: "run_state (importCluster srv cd mc secret) (h @ cs) = (a, (h @ cs) @ ds)"
    obtain mc' out where a: "a = (mc', out)" by (cases a)
    show "issues (\<lambda>c. success_call c \<longrightarrow> G) (case a of (mc', out) \<Rightarrow>
        case out of None \<Rightarrow> return Panicked | Some (cond, e) \<Rightarrow> finish_hosted srv mc' secret cond e) ((h @ cs) @ ds)"
      using wp_importCluster [of srv cd mc secret "h @ cs"] r a that
      by (auto simp: wp_run G_def intro!: issues_intros success_finish_hosted dest: hosted_evidence_later split: option.splits)
  qed (use import_work_success in blast)
  have "issues (\<lambda>c. success_call c \<longrightarrow> G) (hosted_Reconcile srv cd n) h"
    unfolding hosted_Reconcile_def
    by (intro issues_intros issues_bind_calls [OF calls_UpdateImportCondition_success])
      (auto simp: wait_for_importing_def intro: step)
  from issues_new_calls [OF this assms(1)] assms(2) show ?thesis unfolding G_def by blast
qed

text \<open>A hosted cluster whose klusterlet on the hosting cluster is available and ready.\<close>

definition ready_work :: ManifestWork where
  "ready_work = ObjectMeta.extend (new_meta ''hub'' ''c1-hosted-klusterlet'')
     \<lparr>Manifests = [], ManifestConfigs = [], DeleteOption = None,
      WorkConditions = [\<lparr>Type = WorkAvailable, Status = ConditionTrue, Reason = [], Message = [],
        LastTransitionTime = None, ObservedGeneration = 0\<rparr>],
      ManifestStatuses = [\<lparr>MSGroup = operatorGroupName, MSKind = ''Klusterlet'', MSResource = [],
        MSName = ''klusterlet-c1'', StatusFeedbacks = [(readyToApplyStatusFeedback, Some ''true'')]\<rparr>]\<rparr>"

definition hosted_cluster :: ManagedCluster where
  "hosted_cluster = importing_cluster\<lparr>Annotations := fmap_of_list
     [(KlusterletDeployModeAnnotation, InstallModeHosted), (HostingClusterNameAnnotation, ''hub'')]\<rparr>"

definition hosted_server :: server where
  "hosted_server = empty_server\<lparr>
     on_GetManagedCluster := (\<lambda>h n. Inr (if n = ''c1'' then hosted_cluster else new_cluster n)),
     on_ListerAutoImportSecret := (\<lambda>h ns n. Inr (sample_import_secret\<lparr>Name := n, Data := fmap_of_list [(''kubeconfig'', ''k'')]\<rparr>)),
     on_ListerImportSecret := (\<lambda>h ns n. Inr sample_import_secret),
     on_GetManifestWork := (\<lambda>h ns n. Inr ready_work)\<rparr>"

theorem hosted_success_has_evidence_witness:
  "\<exists>mc'. finalizer_asserted hosted_server hosted_cluster mc' \<and>
     hosted_evidence hosted_server [] ''hub'' (Name mc')"
proof -
  have "Write (DeleteSecret ''c1'' AutoImportSecretName) \<in> set (new_calls (hosted_Reconcile hosted_server sample_codec ''c1'') [])"
    by code_simp
  moreover have "success_call (Write (DeleteSecret ''c1'' AutoImportSecretName))" by simp
  moreover have "hosting_name hosted_cluster = ''hub''" by code_simp
  ultimately show ?thesis
    using hosted_success_has_evidence [of "Write (DeleteSecret ''c1'' AutoImportSecretName)" hosted_server sample_codec "''c1''" "[]"]
    by (auto simp: hosted_server_def)
qed

section \<open>The manifests of the klusterlet work\<close>

text \<open>The documents as JSON, when every conversion succeeds.\<close>

definition json_of :: "codec \<Rightarrow> string \<Rightarrow> string" where
  "json_of cd y = (case YAMLToJSON cd y of Inl e \<Rightarrow> [] | Inr j \<Rightarrow> j)"

definition hosted_manifest :: "codec \<Rightarrow> string \<Rightarrow> bool" where
  "hosted_manifest cd j \<longleftrightarrow> (case unstructured_kind cd j of Inl e \<Rightarrow> False | Inr kind \<Rightarrow> kind \<noteq> ''Namespace'')"

lemma json_of_Inr: "YAMLToJSON cd y = Inr j \<Longrightarrow> json_of cd y = j"
  by (simp add: json_of_def)

lemma hosted_manifest_cases:
  "unstructured_kind cd j = Inl e \<Longrightarrow> \<not> hosted_manifest cd j"
  "unstructured_kind cd j = Inr kind \<Longrightarrow> hosted_manifest cd j \<longleftrightarrow> kind \<noteq> ''Namespace''"
  by (simp_all add: hosted_manifest_def)

text \<open>
  The klusterlet work for a hosted cluster can be built exactly when every document of the import
  YAML converts to JSON; its manifests are then those documents in order, without namespaces
  and without the documents that are no objects, and it is labelled with the hosted cluster.
\<close>

theorem createHostingManifestWork_eq:
  "createHostingManifestWork cd n s ns =
     (let ys = SplitYamls (goidx (Data s) ImportSecretImportYamlKey) in
      if list_all (\<lambda>y. \<not> isl (YAMLToJSON cd y)) ys
      then Some (ObjectMeta.extend
        ((new_meta ns (n @ ''-'' @ HostedKlusterletManifestworkSuffix))\<lparr>Labels := fmap_of_list [(HostedClusterLabel, n)],
           Annotations := fmap_of_list [(CleanupPriorityAnnotationKey, ''100'')]\<rparr>)
        \<lparr>Manifests = filter (hosted_manifest cd) (map (json_of cd) ys), ManifestConfigs = [feedback_config n],
         DeleteOption = Some Foreground, WorkConditions = [], ManifestStatuses = []\<rparr>)
      else None)"
proof -
  have "hosting_manifests cd ys =
      (if list_all (\<lambda>y. \<not> isl (YAMLToJSON cd y)) ys then Some (filter (hosted_manifest cd) (map (json_of cd) ys)) else None)" for ys
    by (induction ys) (auto simp: json_of_Inr hosted_manifest_cases split: sum.splits)
  then show ?thesis
    by (simp add: createHostingManifestWork_def hosted_work_meta_def HostedKlusterletManifestWorkName_def Let_def)
qed

end
