(* ===== verification/Flightctl.thy ===== *)
theory Flightctl
  imports Csr Import_Helper Base64
begin

text \<open>
  \<open>pkg/controller/flightctl\<close>: edge devices that register as managed clusters. The manager keeps the
  address of the device service and a client for it; it answers whether a cluster is a known
  device, which is the second approval condition of the CSR controller and the reason to accept
  a cluster, and it hands a repository with a fresh registration token to the service. A call of
  a client that is not set is a Go panic, the value \<open>None\<close>.
\<close>

section \<open>The manager\<close>

record FlightCtlManager =
  flightctlServer :: string
  flightctlClient :: "string option" \<comment> \<open>the server of the client, once there is a client\<close>
  agentRegistrationServer :: string

definition FlightCtlDiscoveryConfigMap :: string where
  "FlightCtlDiscoveryConfigMap = ''flightctl-discovery''"

definition NewFlightCtlManager :: "string \<Rightarrow> FlightCtlManager" where
  "NewFlightCtlManager clusterIngressDomain = \<lparr>flightctlServer = [], flightctlClient = None,
     agentRegistrationServer = ''https://agent-registration-multicluster-engine.'' @ clusterIngressDomain\<rparr>"

definition StatusOK :: int where
  "StatusOK = 200"

definition StatusNotFound :: int where
  "StatusNotFound = 404"

text \<open>\<open>podNamespace\<close> is the environment variable \<open>POD_NAMESPACE\<close>.\<close>

definition ensureFlightCtlServer ::
  "server \<Rightarrow> string \<Rightarrow> FlightCtlManager \<Rightarrow> (call, FlightCtlManager \<times> err option) prog" where
  "ensureFlightCtlServer srv podNamespace f =
     (if flightctlServer f \<noteq> [] then return (f, None)
      else do {
        r \<leftarrow> api_GetConfigMap srv podNamespace FlightCtlDiscoveryConfigMap;
        return (case r of
          Inl e \<Rightarrow> (f, Some (ErrorString (''failed to get '' @ FlightCtlDiscoveryConfigMap @ '' configmap: '' @ Error e)))
        | Inr cm \<Rightarrow>
            (case fmlookup (ConfigData cm) ''apiEndpoint'' of
               None \<Rightarrow> (f, Some (ErrorString
                 (''apiEndpoint not found or empty in '' @ FlightCtlDiscoveryConfigMap @ '' configmap'')))
             | Some apiEndpoint \<Rightarrow>
                 if apiEndpoint = [] then (f, Some (ErrorString
                   (''apiEndpoint not found or empty in '' @ FlightCtlDiscoveryConfigMap @ '' configmap'')))
                 else (f\<lparr>flightctlServer := apiEndpoint, flightctlClient := Some apiEndpoint\<rparr>, None))) })"

text \<open>One field of the discovery config map, missing or empty being the same.\<close>

definition discovery :: "ConfigMap \<Rightarrow> string \<Rightarrow> err + string" where
  "discovery cm k = (case fmlookup (ConfigData cm) k of
     None \<Rightarrow> Inl (ErrorString (k @ '' not found in flightctl-discovery configmap''))
   | Some v \<Rightarrow> if v = [] then Inl (ErrorString (k @ '' not found in flightctl-discovery configmap'')) else Inr v)"

text \<open>The health check with the certificate authority of the secret.\<close>

definition check_health :: "server \<Rightarrow> crypto \<Rightarrow> string \<Rightarrow> string \<Rightarrow> string \<Rightarrow> (call, err option) prog" where
  "check_health srv cr healthEndpoint flightctlNamespace caSecretName = do {
     s \<leftarrow> api_GetSecret srv flightctlNamespace caSecretName;
     case s of
       Inl e \<Rightarrow> return (Some (ErrorString (''failed to get '' @ caSecretName @ '' secret: '' @ Error e)))
     | Inr caSecret \<Rightarrow>
         (case fmlookup (Data caSecret) ''ca-bundle.crt'' of
            None \<Rightarrow> return (Some (ErrorString (''ca-bundle.crt not found in '' @ caSecretName @ '' secret'')))
          | Some caCert \<Rightarrow>
              if \<not> AppendCertsFromPEM cr caCert
              then return (Some (ErrorString (''failed to parse CA certificate from '' @ caSecretName @ '' secret'')))
              else do {
                resp \<leftarrow> api_HttpGet srv healthEndpoint caCert;
                return (case resp of
                  Inl e \<Rightarrow> Some (ErrorString (''failed to perform health check: '' @ Error e))
                | Inr statusCode \<Rightarrow>
                    if statusCode \<noteq> StatusOK
                    then Some (ErrorString (''flightctl health check failed with status code: '' @ Itoa statusCode))
                    else None) }) }"

definition isFlightCtlEnabledAndHealthy :: "server \<Rightarrow> crypto \<Rightarrow> string \<Rightarrow> (call, err option) prog" where
  "isFlightCtlEnabledAndHealthy srv cr podNamespace = do {
     r \<leftarrow> api_GetConfigMap srv podNamespace FlightCtlDiscoveryConfigMap;
     case r of
       Inl e \<Rightarrow>
         if IsNotFound e
         then return (Some (ErrorString
           (''flightctl is not enabled: '' @ FlightCtlDiscoveryConfigMap @ '' configmap not found'')))
         else return (Some (ErrorString (''failed to get flightctl-discovery configmap: '' @ Error e)))
     | Inr cm \<Rightarrow>
         (case discovery cm ''healthEndpoint'' of
            Inl e \<Rightarrow> return (Some e)
          | Inr healthEndpoint \<Rightarrow>
              (case discovery cm ''namespace'' of
                 Inl e \<Rightarrow> return (Some e)
               | Inr flightctlNamespace \<Rightarrow>
                   (case discovery cm ''caSecretName'' of
                      Inl e \<Rightarrow> return (Some e)
                    | Inr caSecretName \<Rightarrow> check_health srv cr healthEndpoint flightctlNamespace caSecretName))) }"

definition getFlightCtlClientToken :: "server \<Rightarrow> (call, err + string) prog" where
  "getFlightCtlClientToken srv = do {
     r \<leftarrow> api_ReadFile srv ''/var/run/secrets/kubernetes.io/serviceaccount/token'';
     return (case r of
       Inl e \<Rightarrow> Inl (ErrorString (''failed to read service account token: '' @ Error e))
     | Inr tokenData \<Rightarrow> Inr tokenData) }"

definition getAgentRegistrationCA :: "server \<Rightarrow> (call, err + string) prog" where
  "getAgentRegistrationCA srv = do {
     r \<leftarrow> api_ReadFile srv ''/var/run/secrets/kubernetes.io/serviceaccount/ca.crt'';
     return (case r of
       Inl e \<Rightarrow> Inl (ErrorString (''failed to read service account CA: '' @ Error e))
     | Inr caData \<Rightarrow> Inr (EncodeToString caData)) }"

definition getFlightCtlAgentRegistrationServiceAccountToken :: "server \<Rightarrow> string \<Rightarrow> (call, err + string) prog" where
  "getFlightCtlAgentRegistrationServiceAccountToken srv podNamespace = do {
     r \<leftarrow> api_CreateToken srv podNamespace ''flightctl-agent-registration'' (10 * 24 * 60 * 60);
     return (case r of
       Inl e \<Rightarrow> Inl (ErrorString (''failed to create token: '' @ Error e))
     | Inr (token, creation, expiration) \<Rightarrow> Inr token) }"

definition IsManagedClusterAFlightctlDevice ::
  "server \<Rightarrow> crypto \<Rightarrow> string \<Rightarrow> FlightCtlManager \<Rightarrow> string \<Rightarrow> (call, (err + bool) option) prog" where
  "IsManagedClusterAFlightctlDevice srv cr podNamespace f managedClusterName = do {
     u \<leftarrow> isFlightCtlEnabledAndHealthy srv cr podNamespace;
     case u of
       Some e \<Rightarrow> return (Some (Inr False))
     | None \<Rightarrow> do {
         t \<leftarrow> getFlightCtlClientToken srv;
         case t of
           Inl e \<Rightarrow> return (Some (Inl e))
         | Inr token \<Rightarrow>
             (case flightctlClient f of
                None \<Rightarrow> return None
              | Some endpoint \<Rightarrow> do {
                  d \<leftarrow> api_GetDevice srv token endpoint managedClusterName;
                  return (Some (case d of
                    Inl e \<Rightarrow> Inl e
                  | Inr statusCode \<Rightarrow>
                      if statusCode = StatusNotFound then Inr False
                      else if statusCode \<noteq> StatusOK
                      then Inl (ErrorString (''failed to get device '' @ managedClusterName @ '', status code: '' @ Itoa statusCode))
                      else Inr True)) }) } }"

section \<open>The resources of the device service\<close>

definition clusterrolebinding_agentregistration :: "string \<Rightarrow> string" where
  "clusterrolebinding_agentregistration ns =
     ''apiVersion: rbac.authorization.k8s.io/v1'' @ nl @ ''kind: ClusterRoleBinding'' @ nl @ ''metadata:'' @ nl @
     ''  name: flightctl-agent-registration'' @ nl @ ''roleRef:'' @ nl @
     ''  apiGroup: rbac.authorization.k8s.io'' @ nl @ ''  kind: ClusterRole'' @ nl @
     ''  name: managedcluster-import-controller-agent-registration-client'' @ nl @ ''subjects:'' @ nl @
     ''- kind: ServiceAccount'' @ nl @ ''  name: flightctl-agent-registration'' @ nl @
     ''  namespace: '' @ quoted ns @ nl"

definition serviceaccount_agentregistration :: "string \<Rightarrow> string" where
  "serviceaccount_agentregistration ns =
     ''apiVersion: v1'' @ nl @ ''kind: ServiceAccount'' @ nl @ ''metadata:'' @ nl @
     ''  name: flightctl-agent-registration'' @ nl @ ''  namespace: '' @ quoted ns @ nl"

text \<open>\<open>None\<close> when a manifest cannot be decoded.\<close>

definition applyKuberentesResources :: "server \<Rightarrow> codec \<Rightarrow> string \<Rightarrow> (call, err option option) prog" where
  "applyKuberentesResources srv cd podNamespace =
     (case must_create_all cd [clusterrolebinding_agentregistration podNamespace,
         serviceaccount_agentregistration podNamespace] of
        None \<Rightarrow> return None
      | Some objects \<Rightarrow> do {
          (changed, e) \<leftarrow> ApplyResources srv Hub None objects;
          return (Some e) })"

definition expected_repository :: "FlightCtlManager \<Rightarrow> string \<Rightarrow> string \<Rightarrow> flight_repository" where
  "expected_repository f agentRegistrationToken ca = \<lparr>RepoName = ''acm-registration'',
     RepoURL = agentRegistrationServer f, RepoToken = agentRegistrationToken, RepoCA = ca,
     RepoValidationSuffix = ''/agent-registration''\<rparr>"

definition applyRepository :: "server \<Rightarrow> string \<Rightarrow> FlightCtlManager \<Rightarrow> (call, err option option) prog" where
  "applyRepository srv podNamespace f = do {
     t \<leftarrow> getFlightCtlClientToken srv;
     case t of
       Inl e \<Rightarrow> return (Some (Some e))
     | Inr flightctlClientToken \<Rightarrow> do {
         a \<leftarrow> getFlightCtlAgentRegistrationServiceAccountToken srv podNamespace;
         case a of
           Inl e \<Rightarrow> return (Some (Some e))
         | Inr agentRegistrationToken \<Rightarrow> do {
             c \<leftarrow> getAgentRegistrationCA srv;
             case c of
               Inl e \<Rightarrow> return (Some (Some e))
             | Inr ca \<Rightarrow>
                 (case flightctlClient f of
                    None \<Rightarrow> return None
                  | Some endpoint \<Rightarrow> do {
                      e \<leftarrow> api_write srv (ApplyRepository flightctlClientToken endpoint
                        (expected_repository f agentRegistrationToken ca));
                      return (Some e) }) } } }"

text \<open>One round of the polling loop: the manager and whether the loop ends; \<open>None\<close> is a panic.\<close>

definition sync_resources ::
  "server \<Rightarrow> codec \<Rightarrow> crypto \<Rightarrow> string \<Rightarrow> FlightCtlManager \<Rightarrow> (call, FlightCtlManager \<times> bool option) prog" where
  "sync_resources srv cd cr podNamespace f = do {
     u \<leftarrow> isFlightCtlEnabledAndHealthy srv cr podNamespace;
     case u of
       Some e \<Rightarrow> do {
         emit (Event ''FlightCtlDegraded''
           (''FlightCtl is not enabled or healthy, skipping resource reconciliation: '' @ Error e));
         return (f, Some False) }
     | None \<Rightarrow> do {
         (f', s) \<leftarrow> ensureFlightCtlServer srv podNamespace f;
         case s of
           Some e \<Rightarrow> do {
             emit (Event ''FlightCtlServerFailed'' (''Failed to ensure FlightCtl server: '' @ Error e));
             return (f', Some False) }
         | None \<Rightarrow> do {
             k \<leftarrow> applyKuberentesResources srv cd podNamespace;
             case k of
               None \<Rightarrow> return (f', None)
             | Some (Some e) \<Rightarrow> do {
                 emit (Event ''KubernetesResourcesFailed'' (''Failed to apply Kubernetes resources: '' @ Error e));
                 return (f', Some False) }
             | Some None \<Rightarrow> do {
                 r \<leftarrow> applyRepository srv podNamespace f';
                 case r of
                   None \<Rightarrow> return (f', None)
                 | Some (Some e) \<Rightarrow> do {
                     emit (Event ''RepositoryFailed'' (''Failed to apply Repository resources: '' @ Error e));
                     return (f', Some False) }
                 | Some None \<Rightarrow> do {
                     emit (Event ''ResourcesSynced'' ''Successfully synced FlightCtl resources'');
                     return (f', Some True) } } } } }"

section \<open>Accepting devices\<close>

definition flightctl_managedcluster_Reconcile ::
  "server \<Rightarrow> crypto \<Rightarrow> string \<Rightarrow> FlightCtlManager \<Rightarrow> string \<Rightarrow> (call, outcome) prog" where
  "flightctl_managedcluster_Reconcile srv cr podNamespace f n = do {
     r \<leftarrow> api_GetManagedCluster srv n;
     case r of
       Inl e \<Rightarrow> return (Return emptyResult (Some e))
     | Inr cluster \<Rightarrow>
         if deleting cluster then return done_ok
         else if HubAcceptsClient cluster then return done_ok
         else do {
           d \<leftarrow> IsManagedClusterAFlightctlDevice srv cr podNamespace f (Name cluster);
           case d of
             None \<Rightarrow> return Panicked
           | Some (Inl e) \<Rightarrow> return (Return emptyResult (Some e))
           | Some (Inr isDevice) \<Rightarrow>
               if \<not> isDevice then return done_ok
               else do {
                 u \<leftarrow> api_write srv (UpdateManagedCluster (cluster\<lparr>HubAcceptsClient := True\<rparr>));
                 return (Return emptyResult u) } } }"

section \<open>What a positive answer rests on\<close>

definition known_device ::
  "server \<Rightarrow> crypto \<Rightarrow> string \<Rightarrow> FlightCtlManager \<Rightarrow> string \<Rightarrow> call list \<Rightarrow> bool" where
  "known_device srv cr podNamespace f n h \<longleftrightarrow>
     result (isFlightCtlEnabledAndHealthy srv cr podNamespace) h = None \<and>
     (\<exists>endpoint token cs. flightctlClient f = Some endpoint \<and>
        on_GetDevice srv (h @ cs) token endpoint n = Inr StatusOK)"

lemma reads_health: "calls_only (\<lambda>c. \<not> is_write c) (isFlightCtlEnabledAndHealthy srv cr ns)"
  unfolding isFlightCtlEnabledAndHealthy_def check_health_def by (intro calls_intros) simp_all

lemma reads_device: "calls_only (\<lambda>c. \<not> is_write c) (IsManagedClusterAFlightctlDevice srv cr ns f n)"
  unfolding IsManagedClusterAFlightctlDevice_def getFlightCtlClientToken_def
  by (intro calls_intros reads_health) simp_all

lemma wp_IsManagedClusterAFlightctlDevice:
  "wp (IsManagedClusterAFlightctlDevice srv cr ns f n) (\<lambda>r h'. r = Some (Inr True) \<longrightarrow> known_device srv cr ns f n h) h"
  unfolding IsManagedClusterAFlightctlDevice_def getFlightCtlClientToken_def
  by (simp add: wp_simps, rule wp_calls_only [OF reads_health])
    (auto simp: wp_simps known_device_def result_def split: option.split sum.split if_splits)

text \<open>The extra condition of \<open>AddToManager\<close>.\<close>

definition device_approval :: "server \<Rightarrow> crypto \<Rightarrow> string \<Rightarrow> FlightCtlManager \<Rightarrow> approval" where
  "device_approval srv cr ns f csr = IsManagedClusterAFlightctlDevice srv cr ns f (GetClusterName csr)"

definition device_grounds :: "server \<Rightarrow> crypto \<Rightarrow> string \<Rightarrow> FlightCtlManager \<Rightarrow> CSR \<Rightarrow> call list \<Rightarrow> bool" where
  "device_grounds srv cr ns f csr h \<longleftrightarrow> known_device srv cr ns f (GetClusterName csr) h"

interpretation device: approval_condition "device_approval srv cr ns f" "device_grounds srv cr ns f"
  for srv cr ns f
proof
  show "calls_only (\<lambda>c. \<not> is_write c) (device_approval srv cr ns f csr)" for csr
    unfolding device_approval_def by (rule reads_device)
  show "device_grounds srv cr ns f csr h" if "result (device_approval srv cr ns f csr) h = Some (Inr True)" for csr h
    using that wp_IsManagedClusterAFlightctlDevice [of srv cr ns f "GetClusterName csr" h]
    by (simp add: device_grounds_def device_approval_def wp_run result_def)
qed

interpretation approvals: two_conditions "default_approval srv" "existing_cluster_grounds srv"
  "device_approval srv cr ns f" "device_grounds srv cr ns f" for srv cr ns f
  by unfold_locales

fun approval_update :: "(CSR \<Rightarrow> bool) \<Rightarrow> call \<Rightarrow> bool" where
  "approval_update P (Write (UpdateApproval csr)) = P csr"
| "approval_update P _ = True"

lemma read_approval_update: "\<not> is_write c \<Longrightarrow> approval_update P c"
  by (cases "(P, c)" rule: approval_update.cases) auto

text \<open>
  C2. With the two approval conditions of the program, a certificate request is approved only as it
  was read and not yet decided, with a subject and a signer that pass validation for the cluster
  it names, and only for one of two reasons: its requester is a bootstrap account of that
  cluster and the managed cluster exists, or the device service is healthy and knows a device of
  that name.
\<close>

theorem csr_approved_only_with_grounds:
  assumes "Write (UpdateApproval csr') \<in> set (new_calls (csr_Reconcile srv cr [device_approval srv cr ns f] n) h)"
  shows "\<exists>csr. on_GetCSR srv h n = Inr csr \<and> csr' = approve csr \<and>
    \<not> isCSRInTerminalState (CSRConditions csr) \<and> ValidateClusterCSRRequest cr csr (GetClusterName csr) \<and>
    (existing_cluster_grounds srv csr (h @ [Read (GetCSR n)]) \<or>
     (\<exists>cs. device_grounds srv cr ns f csr (h @ Read (GetCSR n) # cs)))"
proof -
  define G where "G csr csr' \<longleftrightarrow> csr' = approve csr \<and>
    \<not> isCSRInTerminalState (CSRConditions csr) \<and> ValidateClusterCSRRequest cr csr (GetClusterName csr) \<and>
    (existing_cluster_grounds srv csr (h @ [Read (GetCSR n)]) \<or>
     (\<exists>cs. device_grounds srv cr ns f csr (h @ Read (GetCSR n) # cs)))" for csr csr'
  have "issues (approval_update (\<lambda>csr'. \<exists>csr. on_GetCSR srv h n = Inr csr \<and> G csr csr'))
      (csr_Reconcile srv cr [device_approval srv cr ns f] n) h"
    unfolding csr_Reconcile_def
    by (intro issues_intros approvals.issues_any_approval) (auto simp: G_def intro: read_approval_update)
  from issues_new_calls [OF this assms] show ?thesis by (simp add: G_def)
qed

text \<open>A request of the bootstrap account of an existing cluster, for parameters that parse it.\<close>

definition agent_crypto :: crypto where
  "agent_crypto = \<lparr>pem_Decode = (\<lambda>s. Some (''CERTIFICATE REQUEST'', s)),
     x509_ParseCertificateRequest = (\<lambda>s. Some (SubjectPrefix @ ''c1:agent'', [SubjectPrefix @ ''c1'', ManagedClustersGroup])),
     AppendCertsFromPEM = (\<lambda>s. True)\<rparr>"

definition agent_server :: server where
  "agent_server = empty_server\<lparr>on_GetCSR := (\<lambda>h n. Inr agent_csr), on_GetManagedCluster := (\<lambda>h n. Inr (new_cluster n))\<rparr>"

theorem csr_approved_only_with_grounds_witness:
  "existing_cluster_grounds agent_server agent_csr [Read (GetCSR ''csr-1'')] \<or>
   (\<exists>cs. device_grounds agent_server agent_crypto ''hub'' (NewFlightCtlManager ''example.com'') agent_csr
      (Read (GetCSR ''csr-1'') # cs))"
proof -
  let ?f = "NewFlightCtlManager ''example.com''"
  have "Write (UpdateApproval (approve agent_csr)) \<in> set (new_calls
      (csr_Reconcile agent_server agent_crypto [device_approval agent_server agent_crypto ''hub'' ?f] ''csr-1'') [])"
    by code_simp
  from csr_approved_only_with_grounds [OF this] show ?thesis by (auto simp: agent_server_def)
qed

text \<open>
  A cluster that the hub does not accept yet is accepted by this controller only when it is not
  being deleted and the device service is healthy and knows a device of its name; nothing but
  the acceptance changes in the cluster.
\<close>

theorem device_accepted_only_when_known:
  assumes "Write (UpdateManagedCluster mc') \<in> set (new_calls (flightctl_managedcluster_Reconcile srv cr ns f n) h)"
  shows "\<exists>mc. on_GetManagedCluster srv h n = Inr mc \<and> \<not> deleting mc \<and> \<not> HubAcceptsClient mc \<and>
    known_device srv cr ns f (Name mc) (h @ [Read (GetManagedCluster n)]) \<and> mc' = mc\<lparr>HubAcceptsClient := True\<rparr>"
proof -
  define P where "P c \<longleftrightarrow> (case c of Write (UpdateManagedCluster mc') \<Rightarrow>
      (\<exists>mc. on_GetManagedCluster srv h n = Inr mc \<and> \<not> deleting mc \<and> \<not> HubAcceptsClient mc \<and>
        known_device srv cr ns f (Name mc) (h @ [Read (GetManagedCluster n)]) \<and> mc' = mc\<lparr>HubAcceptsClient := True\<rparr>)
    | _ \<Rightarrow> True)" for c
  have read: "P c" if "\<not> is_write c" for c
    using that by (cases c) (auto simp: P_def)
  have "issues P (flightctl_managedcluster_Reconcile srv cr ns f n) h"
    unfolding flightctl_managedcluster_Reconcile_def
  proof (intro issues_intros issues_bind_calls [OF reads_device])
    fix mc d cs isDevice x
    assume "on_GetManagedCluster srv h n = Inr mc" "\<not> deleting mc" "\<not> HubAcceptsClient mc"
      and "run_state (IsManagedClusterAFlightctlDevice srv cr ns f (Name mc)) (h @ [Read (GetManagedCluster n)]) =
        (d, (h @ [Read (GetManagedCluster n)]) @ cs)" "d = Some x" "x = Inr isDevice" "\<not> \<not> isDevice"
    then show "P (Write (UpdateManagedCluster (mc\<lparr>HubAcceptsClient := True\<rparr>)))"
      using wp_IsManagedClusterAFlightctlDevice [of srv cr ns f "Name mc" "h @ [Read (GetManagedCluster n)]"]
      by (auto simp: P_def wp_run)
  qed (auto intro: read)
  from issues_new_calls [OF this assms] show ?thesis by (simp add: P_def)
qed

definition device_manager :: FlightCtlManager where
  "device_manager = (NewFlightCtlManager ''example.com'')\<lparr>flightctlServer := ''https://fc'', flightctlClient := Some ''https://fc''\<rparr>"

definition device_server :: server where
  "device_server = empty_server\<lparr>
     on_GetManagedCluster := (\<lambda>h n. Inr ((new_cluster n)\<lparr>HubAcceptsClient := False\<rparr>)),
     on_GetConfigMap := (\<lambda>h ns n. Inr (ObjectMeta.extend (new_meta ns n) \<lparr>ConfigData = fmap_of_list
       [(''healthEndpoint'', ''https://fc/health''), (''namespace'', ''fc''), (''caSecretName'', ''ca'')]\<rparr>)),
     on_GetSecret := (\<lambda>h ns n. Inr (ObjectMeta.extend (new_meta ns n)
       \<lparr>SecretType = [], Data = fmap_of_list [(''ca-bundle.crt'', ''ca'')]\<rparr>)),
     on_HttpGet := (\<lambda>h url ca. Inr 200), on_ReadFile := (\<lambda>h n. Inr ''token''),
     on_GetDevice := (\<lambda>h t s n. Inr 200)\<rparr>"

theorem device_accepted_only_when_known_witness:
  "known_device device_server agent_crypto ''hub'' device_manager ''c1'' [Read (GetManagedCluster ''c1'')]"
proof -
  have "Write (UpdateManagedCluster ((new_cluster ''c1'')\<lparr>HubAcceptsClient := True\<rparr>)) \<in>
      set (new_calls (flightctl_managedcluster_Reconcile device_server agent_crypto ''hub'' device_manager ''c1'') [])"
    by code_simp
  from device_accepted_only_when_known [OF this] show ?thesis
    by (auto simp: device_server_def new_cluster_def new_meta_def ObjectMeta.defs)
qed

text \<open>
  Before the polling loop has found the address of the device service, the manager has no client:
  when the service is healthy and the token can be read, asking whether a cluster is a device
  panics, instead of answering no or returning an error.
\<close>

theorem device_check_panics_without_client:
  assumes "run_state (isFlightCtlEnabledAndHealthy srv cr ns) h = (None, h1)"
    and "on_ReadFile srv h1 ''/var/run/secrets/kubernetes.io/serviceaccount/token'' = Inr token"
  shows "result (IsManagedClusterAFlightctlDevice srv cr ns (NewFlightCtlManager domain) n) h = None"
  using assms
  by (simp add: IsManagedClusterAFlightctlDevice_def getFlightCtlClientToken_def NewFlightCtlManager_def
      result_def ask_def)

theorem device_check_panics_without_client_witness:
  "result (IsManagedClusterAFlightctlDevice device_server agent_crypto ''hub'' (NewFlightCtlManager ''example.com'') ''c1'') [] = None"
proof -
  have "fst (run_state (isFlightCtlEnabledAndHealthy device_server agent_crypto ''hub'') []) = None" by code_simp
  then have "run_state (isFlightCtlEnabledAndHealthy device_server agent_crypto ''hub'') [] =
      (None, snd (run_state (isFlightCtlEnabledAndHealthy device_server agent_crypto ''hub'') []))"
    by (metis prod.collapse)
  moreover have "on_ReadFile device_server h f = Inr ''token''" for h f by (simp add: device_server_def)
  ultimately show ?thesis by (rule device_check_panics_without_client)
qed

end
