(* ===== verification/Label_Syntax.thy ===== *)
theory Label_Syntax
  imports Kube_Objects
begin

text \<open>
  The syntax of label keys and label values, by which node selectors and tolerations are checked:
  the functions of \<open>k8s.io/apimachinery/pkg/api/validate/content\<close> with their regular expressions.
  The expressions are values of a datatype, matched by derivatives; \<open>matches_iff\<close> is the
  correctness of the matcher, and the lemmas after it say in plain words what the expressions
  of the package describe.
\<close>

section \<open>Regular expressions\<close>

datatype regexp =
    NoText
  | EmptyText
  | OneOf "char \<Rightarrow> bool"
  | Then regexp regexp
  | Or regexp regexp
  | Many regexp

fun accepts_empty :: "regexp \<Rightarrow> bool" where
  "accepts_empty NoText = False"
| "accepts_empty EmptyText = True"
| "accepts_empty (OneOf P) = False"
| "accepts_empty (Then r s) = (accepts_empty r \<and> accepts_empty s)"
| "accepts_empty (Or r s) = (accepts_empty r \<or> accepts_empty s)"
| "accepts_empty (Many r) = True"

fun after :: "char \<Rightarrow> regexp \<Rightarrow> regexp" where
  "after c NoText = NoText"
| "after c EmptyText = NoText"
| "after c (OneOf P) = (if P c then EmptyText else NoText)"
| "after c (Then r s) = (if accepts_empty r then Or (Then (after c r) s) (after c s) else Then (after c r) s)"
| "after c (Or r s) = Or (after c r) (after c s)"
| "after c (Many r) = Then (after c r) (Many r)"

text \<open>\<open>MatchString\<close> of an expression between \<open>^\<close> and \<open>$\<close>: the whole text matches.\<close>

fun MatchString :: "regexp \<Rightarrow> string \<Rightarrow> bool" where
  "MatchString r [] = accepts_empty r"
| "MatchString r (c # s) = MatchString (after c r) s"

fun texts :: "regexp \<Rightarrow> string set" where
  "texts NoText = {}"
| "texts EmptyText = {[]}"
| "texts (OneOf P) = {[c] | c. P c}"
| "texts (Then r s) = {u @ v | u v. u \<in> texts r \<and> v \<in> texts s}"
| "texts (Or r s) = texts r \<union> texts s"
| "texts (Many r) = {concat us | us. set us \<subseteq> texts r}"

lemma texts_ThenI: "u \<in> texts r \<Longrightarrow> v \<in> texts s \<Longrightarrow> u @ v \<in> texts (Then r s)"
  by auto

lemma texts_ManyI: "set us \<subseteq> texts r \<Longrightarrow> concat us \<in> texts (Many r)"
  by auto

lemma accepts_empty_iff: "accepts_empty r \<longleftrightarrow> [] \<in> texts r"
proof (induction r)
  case (Many r)
  have "[] = concat []" and "set [] \<subseteq> texts r" by simp_all
  then show ?case by (auto intro: exI [of _ "[]"])
qed auto

lemma concat_first:
  assumes "set us \<subseteq> A" and "concat us = c # w"
  shows "\<exists>u v vs. w = u @ v \<and> c # u \<in> A \<and> v = concat vs \<and> set vs \<subseteq> A"
  using assms
proof (induction us)
  case (Cons x us)
  show ?case
  proof (cases x)
    case Nil
    with Cons show ?thesis by simp
  next
    case (Cons d u)
    then show ?thesis using Cons.prems by fastforce
  qed
qed simp

lemma after_iff: "w \<in> texts (after c r) \<longleftrightarrow> c # w \<in> texts r"
proof (induction r arbitrary: w)
  case (Then r s)
  have "c # w \<in> texts (Then r s) \<longleftrightarrow>
      (\<exists>u v. w = u @ v \<and> c # u \<in> texts r \<and> v \<in> texts s) \<or> ([] \<in> texts r \<and> c # w \<in> texts s)"
    by (auto simp: Cons_eq_append_conv)
  then show ?case using Then by (auto simp: accepts_empty_iff)
next
  case (Many r)
  show ?case
  proof
    assume "w \<in> texts (after c (Many r))"
    then obtain u us where "w = u @ concat us" "c # u \<in> texts r" "set us \<subseteq> texts r"
      using Many.IH by auto
    then show "c # w \<in> texts (Many r)" using texts_ManyI [of "(c # u) # us" r] by simp
  next
    assume "c # w \<in> texts (Many r)"
    then obtain us where "set us \<subseteq> texts r" "concat us = c # w" by auto
    from concat_first [OF this] Many.IH show "w \<in> texts (after c (Many r))" by fastforce
  qed
qed (auto split: if_splits)

theorem MatchString_iff: "MatchString r w \<longleftrightarrow> w \<in> texts r"
  by (induction w arbitrary: r) (auto simp: accepts_empty_iff after_iff)

lemma texts_Many_OneOf: "w \<in> texts (Many (OneOf P)) \<longleftrightarrow> list_all P w"
proof
  assume "w \<in> texts (Many (OneOf P))"
  then obtain us where w: "w = concat us" and "set us \<subseteq> texts (OneOf P)" by auto
  then show "list_all P w" unfolding w by (induction us) auto
next
  assume "list_all P w"
  then have "w = concat (map (\<lambda>c. [c]) w) \<and> set (map (\<lambda>c. [c]) w) \<subseteq> texts (OneOf P)"
    by (auto simp: list_all_iff)
  then show "w \<in> texts (Many (OneOf P))" by (simp only: texts.simps) blast
qed

lemma texts_first: "w \<in> texts (Then (OneOf P) r) \<longleftrightarrow> w \<noteq> [] \<and> P (hd w) \<and> tl w \<in> texts r"
proof
  assume "w \<noteq> [] \<and> P (hd w) \<and> tl w \<in> texts r"
  then show "w \<in> texts (Then (OneOf P) r)" using texts_ThenI [of "[hd w]" "OneOf P" "tl w" r] by simp
qed auto

lemma texts_last: "w \<in> texts (Then r (OneOf P)) \<longleftrightarrow> w \<noteq> [] \<and> P (last w) \<and> butlast w \<in> texts r"
proof
  assume "w \<noteq> [] \<and> P (last w) \<and> butlast w \<in> texts r"
  then show "w \<in> texts (Then r (OneOf P))" using texts_ThenI [of "butlast w" r "[last w]" "OneOf P"] by simp
qed auto

lemma texts_optional: "w \<in> texts (Or r EmptyText) \<longleftrightarrow> w = [] \<or> w \<in> texts r"
  by auto

text \<open>Texts over \<open>Q\<close> that begin and end with a character of \<open>P\<close>.\<close>

lemma ends_in:
  assumes "\<And>c. P c \<Longrightarrow> Q c"
  shows "w \<noteq> [] \<and> P (last w) \<and> (butlast w = [] \<or> butlast w \<noteq> [] \<and> P (hd (butlast w)) \<and> list_all Q (tl (butlast w))) \<longleftrightarrow>
      w \<noteq> [] \<and> list_all Q w \<and> P (hd w) \<and> P (last w)"
    and "w \<noteq> [] \<and> P (hd w) \<and> (tl w = [] \<or> tl w \<noteq> [] \<and> P (last (tl w)) \<and> list_all Q (butlast (tl w))) \<longleftrightarrow>
      w \<noteq> [] \<and> list_all Q w \<and> P (hd w) \<and> P (last w)"
proof -
  have "w = [] \<or> (\<exists>a. w = [a]) \<or> (\<exists>a u b. w = a # u @ [b])"
    by (cases w; cases "tl w" rule: rev_cases) auto
  then show "w \<noteq> [] \<and> P (last w) \<and> (butlast w = [] \<or> butlast w \<noteq> [] \<and> P (hd (butlast w)) \<and> list_all Q (tl (butlast w))) \<longleftrightarrow>
      w \<noteq> [] \<and> list_all Q w \<and> P (hd w) \<and> P (last w)"
    and "w \<noteq> [] \<and> P (hd w) \<and> (tl w = [] \<or> tl w \<noteq> [] \<and> P (last (tl w)) \<and> list_all Q (butlast (tl w))) \<longleftrightarrow>
      w \<noteq> [] \<and> list_all Q w \<and> P (hd w) \<and> P (last w)"
    using assms by (auto simp: butlast_append)
qed

section \<open>Label keys and values\<close>

definition in_range :: "char \<Rightarrow> nat \<Rightarrow> nat \<Rightarrow> bool" where
  "in_range c lo hi \<longleftrightarrow> lo \<le> of_char c \<and> of_char c \<le> hi"

text \<open>The classes \<open>[A-Za-z0-9]\<close>, \<open>[-A-Za-z0-9_.]\<close>, \<open>[a-z0-9]\<close> and \<open>[-a-z0-9]\<close>.\<close>

definition labelKeyChar :: "char \<Rightarrow> bool" where
  "labelKeyChar c \<longleftrightarrow> in_range c 65 90 \<or> in_range c 97 122 \<or> in_range c 48 57"

definition labelKeyExtChar :: "char \<Rightarrow> bool" where
  "labelKeyExtChar c \<longleftrightarrow> labelKeyChar c \<or> c = CHR ''-'' \<or> c = CHR ''_'' \<or> c = CHR ''.''"

definition dnsChar :: "char \<Rightarrow> bool" where
  "dnsChar c \<longleftrightarrow> in_range c 97 122 \<or> in_range c 48 57"

definition dnsExtChar :: "char \<Rightarrow> bool" where
  "dnsExtChar c \<longleftrightarrow> dnsChar c \<or> c = CHR ''-''"

definition labelKeyRegexp :: regexp where
  "labelKeyRegexp = Then (Or (Then (OneOf labelKeyChar) (Many (OneOf labelKeyExtChar))) EmptyText) (OneOf labelKeyChar)"

definition labelValueRegexp :: regexp where
  "labelValueRegexp = Or labelKeyRegexp EmptyText"

definition dns1123Label :: regexp where
  "dns1123Label = Then (OneOf dnsChar) (Or (Then (Many (OneOf dnsExtChar)) (OneOf dnsChar)) EmptyText)"

definition dns1123SubdomainRegexp :: regexp where
  "dns1123SubdomainRegexp = Then dns1123Label (Many (Then (OneOf (\<lambda>c. c = CHR ''.'')) dns1123Label))"

text \<open>The messages; \<open>re\<close> is the text of the expression.\<close>

definition MaxLenError :: "int \<Rightarrow> string" where
  "MaxLenError n = ''must be no more than '' @ Itoa n @ '' bytes''"

definition EmptyError :: string where
  "EmptyError = ''must be non-empty''"

definition quote :: string where
  "quote = [CHR 0x27]"

fun regexp_examples :: "string list \<Rightarrow> string" where
  "regexp_examples [] = []"
| "regexp_examples [x] = quote @ x @ quote @ '', ''"
| "regexp_examples (x # xs) = quote @ x @ quote @ '', '' @ '' or '' @ regexp_examples xs"

definition RegexError :: "string \<Rightarrow> string \<Rightarrow> string list \<Rightarrow> string" where
  "RegexError msg re examples =
     (if examples = [] then msg @ '' (regex used for validation is '' @ quote @ re @ quote @ '')''
      else msg @ '' (e.g. '' @ regexp_examples examples @ ''regex used for validation is '' @ quote @ re @ quote @ '')'')"

definition labelKeyFmt :: string where
  "labelKeyFmt = ''([A-Za-z0-9][-A-Za-z0-9_.]*)?[A-Za-z0-9]''"

definition labelKeyError :: string where
  "labelKeyError = RegexError (''must consist of alphanumeric characters, '' @ quote @ ''-'' @ quote @ '', '' @
     quote @ ''_'' @ quote @ '' or '' @ quote @ ''.'' @ quote @
     '', and must start and end with an alphanumeric character'') labelKeyFmt [''MyName'', ''my.name'', ''123-abc'']"

definition labelValueError :: string where
  "labelValueError = RegexError (''a valid label must be an empty string or consist of alphanumeric characters, '' @
     quote @ ''-'' @ quote @ '', '' @ quote @ ''_'' @ quote @ '' or '' @ quote @ ''.'' @ quote @
     '', and must start and end with an alphanumeric character'') (''('' @ labelKeyFmt @ '')?'')
     [''MyValue'', ''my_value'', ''12345'']"

definition dns1123SubdomainError :: string where
  "dns1123SubdomainError = RegexError
     (''a lowercase RFC 1123 subdomain must consist of lower case alphanumeric characters, '' @
      quote @ ''-'' @ quote @ '' or '' @ quote @ ''.'' @ quote @
      '', and must start and end with an alphanumeric character'')
     (''[a-z0-9]([-a-z0-9]*[a-z0-9])?('' @ [CHR 0x5C] @ ''.[a-z0-9]([-a-z0-9]*[a-z0-9])?)*'') [''example.com'']"

definition IsDNS1123Subdomain :: "string \<Rightarrow> string list" where
  "IsDNS1123Subdomain value =
     (if length value > 253 then [MaxLenError 253] else []) @
     (if MatchString dns1123SubdomainRegexp value then [] else [dns1123SubdomainError])"

definition label_name_errors :: "string \<Rightarrow> string list" where
  "label_name_errors name =
     (if name = [] then [''name part '' @ EmptyError]
      else if length name > 63 then [''name part '' @ MaxLenError 63] else []) @
     (if MatchString labelKeyRegexp name then [] else [''name part '' @ labelKeyError])"

definition IsLabelKey :: "string \<Rightarrow> string list" where
  "IsLabelKey value =
     (case Split value ''/'' of
        [name] \<Rightarrow> label_name_errors name
      | [prefix, name] \<Rightarrow>
          (if prefix = [] then [''prefix part '' @ EmptyError]
           else map (\<lambda>m. ''prefix part '' @ m) (IsDNS1123Subdomain prefix)) @ label_name_errors name
      | _ \<Rightarrow> [''a valid label key '' @ labelKeyError @ '' with an optional DNS subdomain prefix and '' @ quote @
          ''/'' @ quote @ '' (e.g. '' @ quote @ ''example.com/MyName'' @ quote @ '')''])"

definition IsLabelValue :: "string \<Rightarrow> string list" where
  "IsLabelValue value =
     (if length value > 63 then [MaxLenError 63] else []) @
     (if MatchString labelValueRegexp value then [] else [labelValueError])"

section \<open>What the expressions describe\<close>

lemmas texts_shapes = texts_first texts_last texts_optional texts_Many_OneOf

lemma matches_label_name:
  "MatchString labelKeyRegexp w \<longleftrightarrow>
     w \<noteq> [] \<and> list_all labelKeyExtChar w \<and> labelKeyChar (hd w) \<and> labelKeyChar (last w)"
  unfolding MatchString_iff labelKeyRegexp_def texts_shapes
  by (rule ends_in(1)) (simp add: labelKeyExtChar_def)

lemma matches_label_value:
  "MatchString labelValueRegexp w \<longleftrightarrow>
     w = [] \<or> list_all labelKeyExtChar w \<and> labelKeyChar (hd w) \<and> labelKeyChar (last w)"
  using matches_label_name by (auto simp: MatchString_iff labelValueRegexp_def)

lemma dns_label:
  "w \<in> texts dns1123Label \<longleftrightarrow> w \<noteq> [] \<and> list_all dnsExtChar w \<and> dnsChar (hd w) \<and> dnsChar (last w)"
  unfolding dns1123Label_def texts_shapes by (rule ends_in(2)) (simp add: dnsExtChar_def)

text \<open>A subdomain is a sequence of labels with dots between them.\<close>

lemma dns_label_no_dot: "w \<in> texts dns1123Label \<Longrightarrow> CHR ''.'' \<notin> set w"
  by (auto simp: dns_label list_all_iff dnsExtChar_def dnsChar_def in_range_def)

lemma Split_dots:
  assumes "list_all (\<lambda>v. CHR ''.'' \<notin> set v) (u # us)"
  shows "Split (u @ concat (map (\<lambda>v. CHR ''.'' # v) us)) ''.'' = u # us"
  using assms
proof (induction us arbitrary: u)
  case Nil
  then show ?case by (simp add: Split_def split_aux_no_sep)
next
  case (Cons v us)
  then show ?case
    using split_aux_sep [of "CHR ''.''" u "[]" "v @ concat (map (\<lambda>v. CHR ''.'' # v) us)"]
    by (simp add: Split_def)
qed

lemma split_aux_join:
  "split_aux [d] acc s = p # ps \<Longrightarrow> acc @ s = p @ concat (map (\<lambda>v. d # v) ps)"
proof (induction s arbitrary: acc p ps)
  case (Cons c s)
  show ?case
  proof (cases "c = d")
    case True
    with Cons.prems have "p = acc" and ps: "split_aux [d] [] s = ps" by auto
    obtain q qs where "ps = q # qs" using ps split_aux_nonempty [of "[d]" "[]" s] by (cases ps) auto
    with Cons.IH [of "[]" q qs] ps \<open>p = acc\<close> True show ?thesis by simp
  next
    case False
    with Cons.prems have "split_aux [d] (acc @ [c]) s = p # ps" by simp
    from Cons.IH [OF this] show ?thesis by simp
  qed
qed simp

lemma matches_subdomain:
  "MatchString dns1123SubdomainRegexp w \<longleftrightarrow> list_all (\<lambda>l. l \<in> texts dns1123Label) (Split w ''.'')"
proof
  assume "MatchString dns1123SubdomainRegexp w"
  then obtain u us where w: "w = u @ concat us" and u: "u \<in> texts dns1123Label"
    and us: "set us \<subseteq> texts (Then (OneOf (\<lambda>c. c = CHR ''.'')) dns1123Label)"
    by (auto simp: MatchString_iff dns1123SubdomainRegexp_def simp del: texts.simps(4))
       (auto simp: texts.simps(4))
  have "us = map (\<lambda>v. CHR ''.'' # v) (map tl us)"
    using us by (auto simp: texts_first subset_iff neq_Nil_conv intro!: map_idI [symmetric])
  moreover have vs: "list_all (\<lambda>l. l \<in> texts dns1123Label) (u # map tl us)"
    using us u by (auto simp: texts_first subset_iff list_all_iff)
  moreover have "list_all (\<lambda>v. CHR ''.'' \<notin> set v) (u # map tl us)"
    using vs dns_label_no_dot by (auto simp: list_all_iff)
  ultimately show "list_all (\<lambda>l. l \<in> texts dns1123Label) (Split w ''.'')"
    using Split_dots [of u "map tl us"] w by simp
next
  assume a: "list_all (\<lambda>l. l \<in> texts dns1123Label) (Split w ''.'')"
  obtain u us where s: "Split w ''.'' = u # us"
    using split_aux_nonempty [of "''.''" "[]" w] by (cases "Split w ''.''") (auto simp: Split_def)
  then have "w = u @ concat (map (\<lambda>v. CHR ''.'' # v) us)"
    using split_aux_join [of "CHR ''.''" "[]" w u us] by (simp add: Split_def)
  moreover have "set (map (\<lambda>v. CHR ''.'' # v) us) \<subseteq> texts (Then (OneOf (\<lambda>c. c = CHR ''.'')) dns1123Label)"
    using a s by (auto simp: list_all_iff)
  ultimately show "MatchString dns1123SubdomainRegexp w"
    using a s texts_ThenI texts_ManyI unfolding MatchString_iff dns1123SubdomainRegexp_def
    by (metis list_all_iff list.set_intros(1))
qed

end
