(* ===== verification/Validation.thy ===== *)
theory Validation
  imports Label_Syntax Api
begin

text \<open>
  The checks of \<open>pkg/helpers/helpers.go\<close> on what users configure: node selectors, tolerations, the
  Kubernetes version of a cluster (with the version package of \<open>k8s.io/apimachinery\<close>), and the
  number of concurrent reconciles.
\<close>

section \<open>Node selectors\<close>

definition label_errors :: "string \<times> string \<Rightarrow> err option list" where
  "label_errors kv = (case kv of (key, val) \<Rightarrow>
     (let errMsgs = IsLabelKey key in if errMsgs \<noteq> [] then [Some (ErrorString (join '';'' errMsgs))] else []) @
     (let errMsgs = IsLabelValue val in if errMsgs \<noteq> [] then [Some (ErrorString (join '';'' errMsgs))] else []))"

definition ValidateNodeSelector :: "server \<Rightarrow> smap \<Rightarrow> (call, err option) prog" where
  "ValidateNodeSelector srv nodeSelector = do {
     entries \<leftarrow> peek (\<lambda>h. on_range srv h nodeSelector);
     return (NewAggregate (concat (map label_errors entries))) }"

section \<open>Tolerations\<close>

definition TolerationOpExists :: string where "TolerationOpExists = ''Exists''"
definition TolerationOpEqual :: string where "TolerationOpEqual = ''Equal''"
definition TaintEffectNoSchedule :: string where "TaintEffectNoSchedule = ''NoSchedule''"
definition TaintEffectPreferNoSchedule :: string where "TaintEffectPreferNoSchedule = ''PreferNoSchedule''"
definition TaintEffectNoExecute :: string where "TaintEffectNoExecute = ''NoExecute''"

definition toleration_key_errors :: "Toleration \<Rightarrow> err option list" where
  "toleration_key_errors t =
     (if length (TolKey t) > 0 then
        (let errMsgs = IsLabelKey (TolKey t) in
         if errMsgs \<noteq> [] then [Some (ErrorString (join '';'' errMsgs))] else [])
      else []) @
     (if length (TolKey t) = 0 \<and> TolOperator t \<noteq> TolerationOpExists then
        if length (TolOperator t) = 0 then [Some (ErrorString
          (''operator must be Exists when `key` is empty, which means '' @ quoted ''match all values and all keys''))]
        else []
      else [])"

definition toleration_operator_errors :: "Toleration \<Rightarrow> err option list" where
  "toleration_operator_errors t =
     (if TolOperator t = TolerationOpEqual \<or> TolOperator t = [] then
        (let errMsgs = IsLabelValue (TolValue t) in
         if errMsgs \<noteq> [] then [Some (ErrorString (join '';'' errMsgs))] else [])
      else if TolOperator t = TolerationOpExists then
        if length (TolValue t) > 0 then [Some (ErrorString (''value must be empty when `operator` is '' @ quote @
          ''Exists'' @ quote))] else []
      else [Some (ErrorString (''the operator '' @ quoted (TolOperator t) @ '' is not supported''))])"

definition toleration_errors :: "Toleration \<Rightarrow> err option list" where
  "toleration_errors t =
     toleration_key_errors t @
     (if TolerationSeconds t \<noteq> None \<and> TolEffect t \<noteq> TaintEffectNoExecute then [Some (ErrorString
        (''effect must be '' @ quote @ ''NoExecute'' @ quote @ '' when `tolerationSeconds` is set''))] else []) @
     toleration_operator_errors t @
     (if length (TolEffect t) > 0 then
        if TolEffect t \<in> {TaintEffectNoSchedule, TaintEffectPreferNoSchedule, TaintEffectNoExecute} then []
        else [Some (ErrorString (''the effect '' @ quoted (TolEffect t) @ '' is not supported''))]
      else [])"

definition ValidateTolerations :: "Toleration list \<Rightarrow> err option" where
  "ValidateTolerations tolerations = NewAggregate (concat (map toleration_errors tolerations))"

text \<open>\<open>unmarshal\<close> is \<open>json.Unmarshal\<close> into a map of strings, or into a list of tolerations.\<close>

definition GetNodeSelectorFromManagedClusterAnnotations :: "(string \<Rightarrow> err + smap) \<Rightarrow> smap \<Rightarrow> err + smap" where
  "GetNodeSelectorFromManagedClusterAnnotations unmarshal clusterAnnotations =
     (case fmlookup clusterAnnotations nodeSelectorAnnotation of
        None \<Rightarrow> Inr fmempty
      | Some nodeSelectorString \<Rightarrow>
          (case unmarshal nodeSelectorString of
             Inl e \<Rightarrow> Inl (ErrorString (''invalid nodeSelector annotation '' @ Error e))
           | Inr nodeSelector \<Rightarrow> Inr nodeSelector))"

definition infra_toleration :: Toleration where
  "infra_toleration = \<lparr>TolKey = ''node-role.kubernetes.io/infra'', TolOperator = TolerationOpExists,
     TolValue = [], TolEffect = TaintEffectNoSchedule, TolerationSeconds = None\<rparr>"

definition GetTolerationsFromManagedClusterAnnotations ::
  "(string \<Rightarrow> err + Toleration list) \<Rightarrow> smap \<Rightarrow> err + Toleration list" where
  "GetTolerationsFromManagedClusterAnnotations unmarshal clusterAnnotations =
     (case fmlookup clusterAnnotations tolerationsAnnotation of
        None \<Rightarrow> Inr [infra_toleration]
      | Some tolerationsString \<Rightarrow>
          (case unmarshal tolerationsString of
             Inl e \<Rightarrow> Inl (ErrorString (''invalid tolerations annotation '' @ Error e))
           | Inr tolerations \<Rightarrow> Inr tolerations))"

section \<open>Versions\<close>

definition is_digit :: "char \<Rightarrow> bool" where
  "is_digit c \<longleftrightarrow> in_range c 48 57"

definition is_space :: "char \<Rightarrow> bool" where
  "is_space c \<longleftrightarrow> of_char c \<in> {9::nat, 10, 12, 13, 32}"

text \<open>
  \<open>^\s*v?([0-9]+(?:\.[0-9]+)*)(.*)*$\<close>: the numbers are taken as far as they go, and what is left
  must be on one line.
\<close>

function version_numbers :: "string \<Rightarrow> string \<times> string" where
  "version_numbers s =
     (let ds = takeWhile is_digit s; rest = dropWhile is_digit s in
      case rest of
        c # d # t \<Rightarrow> if ds \<noteq> [] \<and> c = CHR ''.'' \<and> is_digit d
          then (case version_numbers (d # t) of (ns, rest') \<Rightarrow> (ds @ ''.'' @ ns, rest')) else (ds, rest)
      | _ \<Rightarrow> (ds, rest))"
  by pat_completeness auto
termination
proof (relation "measure length")
  fix s ds rest c t' d t
  assume "ds = takeWhile is_digit s" "rest = dropWhile is_digit s" "rest = c # t'" "t' = d # t"
  then have "Suc (Suc (length t)) \<le> length s"
    by (metis length_Cons length_dropWhile_le)
  then show "(d # t, s) \<in> measure length" by simp
qed simp

declare version_numbers.simps [simp del]

text \<open>\<open>strconv.ParseUint\<close> in base 10 for a word of 64 bits.\<close>

definition ParseUint :: "string \<Rightarrow> int option" where
  "ParseUint s = (if s = [] then None else (case digits_value s 0 of
     None \<Rightarrow> None | Some n \<Rightarrow> if n < 2 ^ 64 then Some n else None))"

fun version_components :: "string \<Rightarrow> bool \<Rightarrow> string list \<Rightarrow> err + int list" where
  "version_components str first [] = Inr []"
| "version_components str first (part # parts) =
     (if first \<and> HasPrefix part ''0'' \<and> part \<noteq> ''0''
      then Inl (ErrorString (''illegal zero-prefixed version component '' @ quoted part @ '' in '' @ quoted str))
      else (case ParseUint part of
          None \<Rightarrow> Inl (ErrorString (''illegal non-numeric version component '' @ quoted part @ '' in '' @ quoted str))
        | Some num \<Rightarrow> map_sum id (\<lambda>ns. num # ns) (version_components str False parts)))"

definition ParseGeneric :: "string \<Rightarrow> err + int list" where
  "ParseGeneric str = (
     let s = dropWhile is_space str;
         (numbers, extra) = version_numbers (TrimPrefix s ''v'') in
     if numbers = [] \<or> CHR 0x0A \<in> set extra
     then Inl (ErrorString (''could not parse '' @ quoted str @ '' as version''))
     else let components = Split numbers ''.'' in
       if length components < 2 then Inl (ErrorString (''illegal version string '' @ quoted str))
       else version_components str True components)"

definition onlyZeros :: "int list \<Rightarrow> bool" where
  "onlyZeros array = list_all (\<lambda>num. num = 0) array"

fun compareInternal :: "int list \<Rightarrow> int list \<Rightarrow> int" where
  "compareInternal (v # vs) (w # ws) = (if w < v then 1 else if w > v then -1 else compareInternal vs ws)"
| "compareInternal [] ws = (if ws \<noteq> [] \<and> \<not> onlyZeros ws then -1 else 0)"
| "compareInternal vs [] = (if vs \<noteq> [] \<and> \<not> onlyZeros vs then 1 else 0)"

definition SupportPriorityClass :: "ManagedCluster option \<Rightarrow> err + bool" where
  "SupportPriorityClass cluster =
     (case cluster of
        None \<Rightarrow> Inr False
      | Some c \<Rightarrow>
          if length (KubernetesVersion c) = 0 then Inr False
          else (case ParseGeneric (KubernetesVersion c) of
              Inl e \<Rightarrow> Inl e
            | Inr kubeVersion \<Rightarrow>
                (case ParseGeneric ''v1.14.0'' of
                   Inl e \<Rightarrow> Inr False
                 | Inr other \<Rightarrow> Inr (compareInternal kubeVersion other \<noteq> -1))))"

definition GetMaxConcurrentReconciles :: "(string \<Rightarrow> string) \<Rightarrow> int" where
  "GetMaxConcurrentReconciles env =
     (if env ''MAX_CONCURRENT_RECONCILES'' \<noteq> [] then
        (case Atoi (env ''MAX_CONCURRENT_RECONCILES'') of Some n \<Rightarrow> n | None \<Rightarrow> 1)
      else 1)"

definition ResourceIsNotFound :: "err option \<Rightarrow> bool" where
  "ResourceIsNotFound e =
     (case e of
        None \<Rightarrow> False
      | Some x \<Rightarrow> Contains (Error x) ''the server could not find the requested resource'' \<or> IsNotFound x)"

section \<open>Properties\<close>

text \<open>What the validation functions accept, without regular expressions and messages.\<close>

definition label_name :: "string \<Rightarrow> bool" where
  "label_name w \<longleftrightarrow> w \<noteq> [] \<and> length w \<le> 63 \<and> list_all labelKeyExtChar w \<and> labelKeyChar (hd w) \<and> labelKeyChar (last w)"

definition dns_subdomain :: "string \<Rightarrow> bool" where
  "dns_subdomain w \<longleftrightarrow> length w \<le> 253 \<and>
     list_all (\<lambda>l. l \<noteq> [] \<and> list_all dnsExtChar l \<and> dnsChar (hd l) \<and> dnsChar (last l)) (Split w ''.'')"

definition label_key :: "string \<Rightarrow> bool" where
  "label_key w \<longleftrightarrow> label_name w \<and> CHR ''/'' \<notin> set w \<or>
     (\<exists>prefix name. w = prefix @ ''/'' @ name \<and> CHR ''/'' \<notin> set prefix \<and> CHR ''/'' \<notin> set name \<and>
        dns_subdomain prefix \<and> label_name name)"

definition label_value :: "string \<Rightarrow> bool" where
  "label_value w \<longleftrightarrow> w = [] \<or> label_name w"

lemma IsLabelValue_Nil_iff: "IsLabelValue w = [] \<longleftrightarrow> label_value w"
  by (auto simp: IsLabelValue_def matches_label_value label_value_def label_name_def)

lemma label_name_errors_Nil_iff: "label_name_errors w = [] \<longleftrightarrow> label_name w"
  by (auto simp: label_name_errors_def matches_label_name label_name_def)

lemma IsDNS1123Subdomain_Nil_iff: "IsDNS1123Subdomain w = [] \<longleftrightarrow> dns_subdomain w"
  by (auto simp: IsDNS1123Subdomain_def matches_subdomain dns_subdomain_def dns_label)

lemma Split_one_iff: "Split s [d] = [x] \<longleftrightarrow> x = s \<and> d \<notin> set s"
  using split_aux_single_inv [of d "[]" s x] by (auto simp: Split_def split_aux_no_sep)

lemma dns_subdomain_nonempty: "dns_subdomain w \<Longrightarrow> w \<noteq> []"
  by (auto simp: dns_subdomain_def Split_def)

lemma label_key_Split:
  "label_key w \<longleftrightarrow> Split w ''/'' = [w] \<and> label_name w \<or>
     (\<exists>prefix name. Split w ''/'' = [prefix, name] \<and> dns_subdomain prefix \<and> label_name name)"
  by (auto simp: label_key_def Split_one_iff Split_two_iff)

lemma IsLabelKey_Nil_iff: "IsLabelKey w = [] \<longleftrightarrow> label_key w"
proof -
  have "Split w ''/'' = [n] \<Longrightarrow> n = w" for n by (simp add: Split_one_iff)
  then show ?thesis
    using dns_subdomain_nonempty
    by (auto simp: IsLabelKey_def label_key_Split label_name_errors_Nil_iff IsDNS1123Subdomain_Nil_iff
        split: list.split)
qed

definition valid_toleration :: "Toleration \<Rightarrow> bool" where
  "valid_toleration t \<longleftrightarrow>
     (TolKey t = [] \<or> label_key (TolKey t)) \<and> \<not> (TolKey t = [] \<and> TolOperator t = []) \<and>
     (TolOperator t \<in> {[], ''Equal''} \<and> label_value (TolValue t) \<or> TolOperator t = ''Exists'' \<and> TolValue t = []) \<and>
     TolEffect t \<in> {[], ''NoSchedule'', ''PreferNoSchedule'', ''NoExecute''} \<and>
     (TolerationSeconds t = None \<or> TolEffect t = ''NoExecute'')"

lemmas toleration_constants = TolerationOpExists_def TolerationOpEqual_def TaintEffectNoSchedule_def
  TaintEffectPreferNoSchedule_def TaintEffectNoExecute_def

lemma toleration_errors_Nil_iff: "toleration_errors t = [] \<longleftrightarrow> valid_toleration t"
  by (auto simp: toleration_errors_def toleration_key_errors_def toleration_operator_errors_def
      valid_toleration_def toleration_constants IsLabelKey_Nil_iff IsLabelValue_Nil_iff label_value_def Let_def)

lemma toleration_errors_Some: "e \<in> set (toleration_errors t) \<Longrightarrow> e \<noteq> None"
  by (auto simp: toleration_errors_def toleration_key_errors_def toleration_operator_errors_def Let_def
      split: if_splits)

lemma NewAggregate_concat_None:
  assumes "\<And>x e. x \<in> set xs \<Longrightarrow> e \<in> set (f x) \<Longrightarrow> e \<noteq> None"
  shows "NewAggregate (concat (map f xs)) = None \<longleftrightarrow> list_all (\<lambda>x. f x = []) xs"
proof -
  have "(\<forall>x \<in> set xs. \<forall>e \<in> set (f x). e = None) \<longleftrightarrow> (\<forall>x \<in> set xs. f x = [])"
    using assms by (metis empty_iff list.set(1) list.set_intros(1) neq_Nil_conv)
  then show ?thesis by (simp add: NewAggregate_None_iff list_all_iff)
qed

text \<open>
  C37. The list of tolerations passes validation exactly when every toleration has an empty or
  well-formed key, an operator Equal (or none) with a well-formed value or an operator Exists
  without value, a known effect or none, seconds only with the effect NoExecute, and not both an
  empty key and an empty operator. An empty key with the operator Equal is accepted.
\<close>

theorem ValidateTolerations_iff:
  "ValidateTolerations ts = None \<longleftrightarrow> list_all valid_toleration ts"
  unfolding ValidateTolerations_def
  using NewAggregate_concat_None [of ts toleration_errors] toleration_errors_Some
  by (simp add: toleration_errors_Nil_iff)

text \<open>The same for node selectors, in whatever order the map is visited.\<close>

lemma ValidateNodeSelector_iff:
  assumes "visits_once srv"
  shows "result (ValidateNodeSelector srv m) h = None \<longleftrightarrow>
    (\<forall>k v. fmlookup m k = Some v \<longrightarrow> label_key k \<and> label_value v)"
proof -
  have "label_errors kv = [] \<longleftrightarrow> label_key (fst kv) \<and> label_value (snd kv)" for kv
    by (cases kv) (simp add: label_errors_def IsLabelKey_Nil_iff IsLabelValue_Nil_iff)
  moreover have "e \<in> set (label_errors kv) \<Longrightarrow> e \<noteq> None" for e kv
    by (cases kv) (auto simp: label_errors_def Let_def split: if_splits)
  ultimately have "result (ValidateNodeSelector srv m) h = None \<longleftrightarrow>
      (\<forall>k v. (k, v) \<in> set (on_range srv h m) \<longrightarrow> label_key k \<and> label_value v)"
    using NewAggregate_concat_None [of "on_range srv h m" label_errors]
    by (force simp: ValidateNodeSelector_def result_def peek_def list_all_iff)
  moreover have "(k, v) \<in> set (on_range srv h m) \<longleftrightarrow> fmlookup m k = Some v" for k v
    using assms unfolding visits_once_def
    by (metis fmlookup_of_list map_of_eq_Some_iff)
  ultimately show ?thesis by simp
qed

lemma digit_nonneg: "digit c = Some d \<Longrightarrow> 0 \<le> d"
  by (auto simp: digit_def Let_def split: if_splits)

lemma digits_value_nonneg: "digits_value s acc = Some n \<Longrightarrow> 0 \<le> acc \<Longrightarrow> 0 \<le> n"
  by (induction s arbitrary: acc) (auto dest: digit_nonneg split: option.splits)

lemma version_components_shape:
  "version_components str first parts = Inr ns \<Longrightarrow> length ns = length parts \<and> list_all (\<lambda>n. 0 \<le> n) ns"
proof (induction parts arbitrary: first ns)
  case (Cons p ps)
  then show ?case
    by (cases "version_components str False ps")
      (auto simp: ParseUint_def dest: digits_value_nonneg split: if_splits option.splits)
qed simp

lemma ParseGeneric_shape:
  assumes "ParseGeneric s = Inr v"
  obtains major minor rest where "v = major # minor # rest" "0 \<le> major" "0 \<le> minor" "list_all (\<lambda>n. 0 \<le> n) rest"
proof -
  from assms have "length v \<ge> 2" and "list_all (\<lambda>n. 0 \<le> n) v"
    by (auto simp: ParseGeneric_def Let_def split: prod.splits if_splits dest: version_components_shape)
  then show thesis using that by (cases v; cases "tl v") auto
qed

lemma ParseGeneric_v1_14: "ParseGeneric ''v1.14.0'' = Inr [1, 14, 0]"
  by code_simp

text \<open>
  The priority class is used for a cluster exactly when its Kubernetes version is recorded,
  parses, and is at least 1.14 in its first two numbers; a version that does not parse is an
  error, and without a version the class is not used.
\<close>

theorem SupportPriorityClass_iff:
  "SupportPriorityClass (Some c) =
     (if KubernetesVersion c = [] then Inr False
      else case ParseGeneric (KubernetesVersion c) of
        Inl e \<Rightarrow> Inl e
      | Inr v \<Rightarrow> Inr (v ! 0 > 1 \<or> v ! 0 = 1 \<and> v ! 1 \<ge> 14))"
proof (cases "ParseGeneric (KubernetesVersion c)")
  case (Inr v)
  then obtain a b rest where v: "v = a # b # rest" and "list_all (\<lambda>n. 0 \<le> n) rest"
    by (rule ParseGeneric_shape)
  have "compareInternal vs [] \<noteq> -1" for vs by (cases vs) auto
  with \<open>list_all (\<lambda>n. 0 \<le> n) rest\<close> have "compareInternal rest [0] \<noteq> -1"
    by (cases rest) (auto simp: onlyZeros_def)
  then have "compareInternal v [1, 14, 0] \<noteq> -1 \<longleftrightarrow> a > 1 \<or> a = 1 \<and> b \<ge> 14"
    by (auto simp: v)
  with Inr v show ?thesis by (simp add: SupportPriorityClass_def ParseGeneric_v1_14)
qed (simp add: SupportPriorityClass_def)

end
