(* ===== verification/Klusterlet_Config.thy ===== *)
theory Klusterlet_Config
  imports Cluster_Helpers
begin

text \<open>
  The klusterlet configuration of a cluster: the configuration named by the cluster's annotation
  merged with the global one (\<open>pkg/helpers/klusterletconfig.go\<close> and the merge of
  \<open>cluster-lifecycle-api/helpers/klusterletconfig\<close>, which goes over the fields by reflection; here
  one field after the other). The later configuration wins where it sets a value.
\<close>

section \<open>Merging\<close>

text \<open>\<open>override\<close> for the kinds of values there are: texts, pointers and slices, structures.\<close>

definition override_with :: "('a \<Rightarrow> bool) \<Rightarrow> 'a \<Rightarrow> 'a \<Rightarrow> 'a" where
  "override_with is_zero base toMerge = (if \<not> is_zero toMerge then toMerge else base)"

definition override_text :: "string \<Rightarrow> string \<Rightarrow> string" where
  "override_text = override_with (\<lambda>s. s = [])"

definition override_option :: "'a option \<Rightarrow> 'a option \<Rightarrow> 'a option" where
  "override_option = override_with (\<lambda>x. x = None)"

definition is_zero_proxy :: "ProxyConfig \<Rightarrow> bool" where
  "is_zero_proxy p \<longleftrightarrow> HTTPProxy p = [] \<and> HTTPSProxy p = [] \<and> ProxyCABundle p = None"

definition is_zero_reference :: "ObjectReference \<Rightarrow> bool" where
  "is_zero_reference r \<longleftrightarrow> RefObjNamespace r = [] \<and> RefObjName r = [] \<and> RefObjOther r = []"

definition containsCA :: "CABundleRef list \<Rightarrow> CABundleRef \<Rightarrow> bool" where
  "containsCA bundles bundle = list_ex (\<lambda>b. BundleName b = BundleName bundle) bundles"

fun add_bundles :: "CABundleRef list \<Rightarrow> CABundleRef list \<Rightarrow> CABundleRef list" where
  "add_bundles bundles [] = bundles"
| "add_bundles bundles (caBundle # olds) =
     add_bundles (if containsCA bundles caBundle then bundles else bundles @ [caBundle]) olds"

definition mergeHubKubeAPIServerConfig ::
  "KubeAPIServerConfig option \<Rightarrow> KubeAPIServerConfig option \<Rightarrow> KubeAPIServerConfig option" where
  "mergeHubKubeAPIServerConfig base toMerge =
     (case (base, toMerge) of
        (None, _) \<Rightarrow> toMerge
      | (_, None) \<Rightarrow> base
      | (Some old, Some new) \<Rightarrow> Some (new\<lparr>
           KASURL := (if KASURL new = [] then KASURL old else KASURL new),
           KASProxyURL := (if KASProxyURL new = [] then KASProxyURL old else KASProxyURL new),
           ServerVerificationStrategy := (if ServerVerificationStrategy new = [] then ServerVerificationStrategy old
             else ServerVerificationStrategy new),
           TrustedCABundles := add_bundles (TrustedCABundles new) (TrustedCABundles old)\<rparr>))"

definition mergeFeatureGates :: "FeatureGate list \<Rightarrow> FeatureGate list \<Rightarrow> FeatureGate list" where
  "mergeFeatureGates old new = new @ filter (\<lambda>f. Feature f \<notin> Feature ` set new) old"

definition mergeClusterClaimConfiguration :: "int option \<Rightarrow> int option \<Rightarrow> int option" where
  "mergeClusterClaimConfiguration base toMerge =
     (case (base, toMerge) of
        (None, _) \<Rightarrow> toMerge
      | (_, None) \<Rightarrow> base
      | (Some old, Some new) \<Rightarrow> Some (if new < old then old else new))"

definition merge_spec :: "KlusterletConfig \<Rightarrow> KlusterletConfig \<Rightarrow> KlusterletConfig" where
  "merge_spec base toMerge = base\<lparr>
     KCRegistries := override_option (KCRegistries base) (KCRegistries toMerge),
     KCPullSecret := override_with is_zero_reference (KCPullSecret base) (KCPullSecret toMerge),
     KCNodePlacement := override_option (KCNodePlacement base) (KCNodePlacement toMerge),
     HubKubeAPIServerConfig := mergeHubKubeAPIServerConfig (HubKubeAPIServerConfig base) (HubKubeAPIServerConfig toMerge),
     HubKubeAPIServerProxyConfig := override_with is_zero_proxy (HubKubeAPIServerProxyConfig base) (HubKubeAPIServerProxyConfig toMerge),
     HubKubeAPIServerURL := override_text (HubKubeAPIServerURL base) (HubKubeAPIServerURL toMerge),
     HubKubeAPIServerCABundle := override_option (HubKubeAPIServerCABundle base) (HubKubeAPIServerCABundle toMerge),
     KCEvictionGracePeriod := override_text (KCEvictionGracePeriod base) (KCEvictionGracePeriod toMerge),
     KCInstallMode := override_option (KCInstallMode base) (KCInstallMode toMerge),
     MultipleHubsConfig := override_option (MultipleHubsConfig base) (MultipleHubsConfig toMerge),
     KCFeatureGates := mergeFeatureGates (KCFeatureGates base) (KCFeatureGates toMerge),
     MaxCustomClusterClaims := mergeClusterClaimConfiguration (MaxCustomClusterClaims base) (MaxCustomClusterClaims toMerge),
     WorkStatusSyncInterval := override_option (WorkStatusSyncInterval base) (WorkStatusSyncInterval toMerge),
     KCRegistrationDriver := override_option (KCRegistrationDriver base) (KCRegistrationDriver toMerge),
     KCAddOnRegistrationDriver := override_option (KCAddOnRegistrationDriver base) (KCAddOnRegistrationDriver toMerge)\<rparr>"

text \<open>The deprecated fields move into the structured configuration, when there is one.\<close>

definition migrate :: "KlusterletConfig \<Rightarrow> KlusterletConfig" where
  "migrate kc =
     (case HubKubeAPIServerConfig kc of
        None \<Rightarrow> kc
      | Some c \<Rightarrow> kc\<lparr>HubKubeAPIServerConfig := Some (c\<lparr>
          KASURL := (if KASURL c = [] \<and> HubKubeAPIServerURL kc \<noteq> [] then HubKubeAPIServerURL kc else KASURL c),
          KASProxyURL := (if KASProxyURL c = [] then
             if HTTPSProxy (HubKubeAPIServerProxyConfig kc) \<noteq> [] then HTTPSProxy (HubKubeAPIServerProxyConfig kc)
             else if HTTPProxy (HubKubeAPIServerProxyConfig kc) \<noteq> [] then HTTPProxy (HubKubeAPIServerProxyConfig kc)
             else KASProxyURL c
           else KASProxyURL c)\<rparr>)\<rparr>)"

definition spec_only :: "KlusterletConfig \<Rightarrow> KlusterletConfig" where
  "spec_only kc = ObjectMeta.extend (new_meta [] []) (ObjectMeta.more kc)"

definition MergeKlusterletConfigs :: "KlusterletConfig option list \<Rightarrow> KlusterletConfig option" where
  "MergeKlusterletConfigs klusterletconfigs =
     (case map the (filter (\<lambda>k. k \<noteq> None) klusterletconfigs) of
        [] \<Rightarrow> None
      | [kc] \<Rightarrow> Some kc
      | kc # kcs \<Rightarrow> Some (spec_only (migrate (foldl merge_spec kc kcs))))"

definition lister_config :: "err + KlusterletConfig \<Rightarrow> err + KlusterletConfig option" where
  "lister_config r = (case r of
     Inr kc \<Rightarrow> Inr (Some kc) | Inl e \<Rightarrow> if IsNotFound e then Inr None else Inl e)"

definition GetMergedKlusterletConfigWithGlobal :: "server \<Rightarrow> string \<Rightarrow> (call, err + KlusterletConfig option) prog" where
  "GetMergedKlusterletConfigWithGlobal srv klusterletconfigName = do {
     kc \<leftarrow> (if klusterletconfigName \<noteq> [] then do {
         r \<leftarrow> api_ListerKlusterletConfig srv klusterletconfigName;
         return (lister_config r) }
       else return (Inr None));
     case kc of
       Inl e \<Rightarrow> return (Inl (ErrorString
         (''failed to get klusterletconfig '' @ klusterletconfigName @ '': '' @ Error e)))
     | Inr kc \<Rightarrow> do {
         g \<leftarrow> api_ListerKlusterletConfig srv GlobalKlusterletConfigName;
         case lister_config g of
           Inl e \<Rightarrow> return (Inl (ErrorString (''failed to get global klusterletconfig: '' @ Error e)))
         | Inr globalKlusterletConfig \<Rightarrow> return (Inr (MergeKlusterletConfigs [globalKlusterletConfig, kc])) } }"

section \<open>Laws of the merge\<close>

lemma override_text_simps [simp]:
  "override_text base [] = base" "s \<noteq> [] \<Longrightarrow> override_text base s = s"
  by (simp_all add: override_text_def override_with_def)

lemma override_option_simps [simp]:
  "override_option base None = base" "override_option base (Some x) = Some x" "override_option None x = x"
  by (cases x; simp add: override_option_def override_with_def)+

lemma override_text_Nil [simp]: "override_text [] s = s"
  by (simp add: override_text_def override_with_def)

lemma containsCA_iff: "containsCA bs b \<longleftrightarrow> BundleName b \<in> BundleName ` set bs"
  by (metis (mono_tags, lifting) containsCA_def image_iff list_ex_iff)

lemma add_bundles_prefix: "\<exists>extra. add_bundles bs olds = bs @ extra \<and> set extra \<subseteq> set olds"
proof (induction olds arbitrary: bs)
  case (Cons b olds)
  from Cons [of "if containsCA bs b then bs else bs @ [b]"] show ?case by (auto split: if_splits)
qed simp

lemma add_bundles_names:
  "BundleName ` set (add_bundles bs olds) = BundleName ` set bs \<union> BundleName ` set olds"
  by (induction olds arbitrary: bs) (auto simp: containsCA_iff)

lemma add_bundles_distinct:
  "distinct (map BundleName bs) \<Longrightarrow> distinct (map BundleName (add_bundles bs olds))"
  by (induction olds arbitrary: bs) (auto simp: containsCA_iff)

lemma mergeHubKubeAPIServerConfig_None [simp]:
  "mergeHubKubeAPIServerConfig None x = x" "mergeHubKubeAPIServerConfig x None = x"
  by (simp_all add: mergeHubKubeAPIServerConfig_def split: option.split)

lemma merge_neutral [simp]:
  "mergeFeatureGates [] fs = fs" "mergeClusterClaimConfiguration None x = x"
  "override_with is_zero_proxy \<lparr>HTTPProxy = [], HTTPSProxy = [], ProxyCABundle = None\<rparr> p = p"
  "override_with is_zero_reference \<lparr>RefObjNamespace = [], RefObjName = [], RefObjOther = []\<rparr> r = r"
  by (simp_all add: mergeFeatureGates_def mergeClusterClaimConfiguration_def override_with_def
      is_zero_proxy_def is_zero_reference_def)

lemma merge_spec_empty: "spec_only (merge_spec (new_klusterlet_config n) kc) = spec_only kc"
  by (cases kc) (simp add: merge_spec_def new_klusterlet_config_def spec_only_def ObjectMeta.defs new_meta_def)

end
