(* ===== verification/Go_Time.thy ===== *)
theory Go_Time
  imports Prelude
begin

text \<open>
  Times and durations of the Go library as the sources use them: an instant is the number of
  nanoseconds since 1970-01-01T00:00:00Z, a duration a number of nanoseconds within 64 bits.
  \<open>parse_RFC3339\<close> is \<open>time.Parse(time.RFC3339, s)\<close>, with what it accepts beyond the layout: one digit
  for the hour, a fraction after the seconds, and zone offsets up to 24 hours and 60 minutes.
\<close>

section \<open>Dates\<close>

definition is_leap :: "int \<Rightarrow> bool" where
  "is_leap year \<longleftrightarrow> year mod 4 = 0 \<and> (year mod 100 \<noteq> 0 \<or> year mod 400 = 0)"

definition days_in_months :: "int \<Rightarrow> int list" where
  "days_in_months year = [31, if is_leap year then 29 else 28, 31, 30, 31, 30, 31, 31, 30, 31, 30, 31]"

definition daysIn :: "int \<Rightarrow> int \<Rightarrow> int" where
  "daysIn month year = days_in_months year ! nat (month - 1)"

text \<open>Days from 1970-01-01 to the first of January of a year, and to a date.\<close>

definition days_to_year :: "int \<Rightarrow> int" where
  "days_to_year year = (let y = year - 1 in 365 * y + y div 4 - y div 100 + y div 400 - 719162)"

definition days_to_date :: "int \<Rightarrow> int \<Rightarrow> int \<Rightarrow> int" where
  "days_to_date year month day =
     days_to_year year + sum_list (take (nat (month - 1)) (days_in_months year)) + (day - 1)"

section \<open>Parsing\<close>

definition getnum :: "string \<Rightarrow> bool \<Rightarrow> (int \<times> string) option" where
  "getnum s fixed =
     (case s of
        [] \<Rightarrow> None
      | c # s1 \<Rightarrow>
          (case digit c of
             None \<Rightarrow> None
           | Some a \<Rightarrow>
               (case s1 of
                  [] \<Rightarrow> if fixed then None else Some (a, s1)
                | d # s2 \<Rightarrow>
                    (case digit d of
                       None \<Rightarrow> if fixed then None else Some (a, s1)
                     | Some b \<Rightarrow> Some (a * 10 + b, s2)))))"

text \<open>A number within a range, and the literal that comes before it.\<close>

definition field :: "string \<Rightarrow> bool \<Rightarrow> int \<Rightarrow> int \<Rightarrow> string \<Rightarrow> (int \<times> string) option" where
  "field prefix fixed lo hi s =
     (if \<not> HasPrefix s prefix then None
      else case getnum (drop (length prefix) s) fixed of
          None \<Rightarrow> None
        | Some (n, rest) \<Rightarrow> if lo \<le> n \<and> n \<le> hi then Some (n, rest) else None)"

definition parse_year :: "string \<Rightarrow> (int \<times> string) option" where
  "parse_year s = (if length s < 4 then None
     else map_option (\<lambda>y. (y, drop 4 s)) (digits_value (take 4 s) 0))"

definition is_dec :: "char \<Rightarrow> bool" where
  "is_dec c \<longleftrightarrow> digit c \<noteq> None"

text \<open>The fraction after the seconds; digits after the ninth are read and dropped.\<close>

definition parse_fraction :: "string \<Rightarrow> int \<times> string" where
  "parse_fraction s =
     (case s of
        p # d # rest \<Rightarrow>
          if (p = CHR ''.'' \<or> p = CHR '','') \<and> is_dec d then
            (let ds = takeWhile is_dec (d # rest); ns = take 9 ds in
             case digits_value ns 0 of
               Some n \<Rightarrow> (n * 10 ^ (9 - length ns), dropWhile is_dec (d # rest))
             | None \<Rightarrow> (0, s))
          else (0, s)
      | _ \<Rightarrow> (0, s))"

text \<open>The zone as an offset in seconds; it must be all that is left.\<close>

definition parse_zone :: "string \<Rightarrow> int option" where
  "parse_zone s =
     (case s of
        [] \<Rightarrow> None
      | sign # s1 \<Rightarrow>
          if sign = CHR ''Z'' then if s1 = [] then Some 0 else None
          else (case field [] True 0 24 s1 of
              None \<Rightarrow> None
            | Some (hr, s2) \<Rightarrow>
                (case field '':'' True 0 60 s2 of
                   None \<Rightarrow> None
                 | Some (mm, s3) \<Rightarrow>
                     if s3 \<noteq> [] then None
                     else if sign = CHR ''+'' then Some ((hr * 60 + mm) * 60)
                     else if sign = CHR ''-'' then Some (- ((hr * 60 + mm) * 60))
                     else None)))"

definition parse_RFC3339 :: "string \<Rightarrow> int option" where
  "parse_RFC3339 value =
     Option.bind (parse_year value) (\<lambda>(year, s).
     Option.bind (field ''-'' True 1 12 s) (\<lambda>(month, s).
     Option.bind (field ''-'' True 0 99 s) (\<lambda>(day, s).
     Option.bind (field ''T'' False 0 23 s) (\<lambda>(hour, s).
     Option.bind (field '':'' True 0 59 s) (\<lambda>(min, s).
     Option.bind (field '':'' True 0 59 s) (\<lambda>(sec, s).
     case parse_fraction s of (nsec, s) \<Rightarrow>
     Option.bind (parse_zone s) (\<lambda>zoneOffset.
       if day < 1 \<or> day > daysIn month year then None
       else Some ((days_to_date year month day * 86400 + hour * 3600 + min * 60 + sec - zoneOffset) * 1000000000
         + nsec))))))))"

section \<open>Durations\<close>

text \<open>\<open>t.Sub(u)\<close>: the difference, or the largest or smallest duration when it does not fit.\<close>

definition Sub :: "int \<Rightarrow> int \<Rightarrow> int" where
  "Sub t u = max (- (2 ^ 63)) (min (2 ^ 63 - 1) (t - u))"

lemma Sub_range: "- (2 ^ 63) \<le> Sub t u" "Sub t u < 2 ^ 63"
  by (simp_all add: Sub_def)

lemma Sub_exact: "\<bar>t - u\<bar> < 2 ^ 63 \<Longrightarrow> Sub t u = t - u"
  by (auto simp: Sub_def)

lemma Sub_mono: "t \<le> t' \<Longrightarrow> Sub t u \<le> Sub t' u"
  by (auto simp: Sub_def)

lemma Sub_antimono: "u \<le> u' \<Longrightarrow> Sub t u' \<le> Sub t u"
  by (auto simp: Sub_def)

lemma quot_five: "0 \<le> d \<Longrightarrow> quot d 5 = d div 5"
  by (auto simp: quot_def sgn_if)

text \<open>Some instants.\<close>

lemma parse_RFC3339_examples:
  "parse_RFC3339 ''1970-01-01T00:00:00Z'' = Some 0"
  "parse_RFC3339 ''2024-02-29T12:30:00.5+02:00'' = Some 1709202600500000000"
  "parse_RFC3339 ''2023-02-29T12:30:00Z'' = None"
  "parse_RFC3339 ''2024-02-29T12:30:00'' = None"
  by code_simp+

end
