(* ===== verification/Certificates.thy ===== *)
theory Certificates
  imports Kube_Objects Base64
begin

text \<open>
  Bundles of certificate authorities: \<open>mergeCertificateData\<close> of \<open>pkg/bootstrap/bootstrapkubeconfig.go\<close>
  and \<open>HasCertificates\<close> of \<open>pkg/helpers/helpers.go\<close>. A certificate is its raw bytes, as the code
  compares certificates by them. The parser of PEM bundles (\<open>certutil.ParseCertsPEM\<close>, which parses
  X.509) is the parameter \<open>parse\<close>; the PEM encoding is the one of Go's library.
\<close>

section \<open>PEM\<close>

function pem_lines :: "string \<Rightarrow> string" where
  "pem_lines s = (if s = [] then [] else take 64 s @ nl @ pem_lines (drop 64 s))"
  by pat_completeness auto
termination by (relation "measure length") auto

declare pem_lines.simps [simp del]

definition pem_Encode :: "string \<Rightarrow> string \<Rightarrow> string" where
  "pem_Encode blockType bytes =
     ''-----BEGIN '' @ blockType @ ''-----'' @ nl @ pem_lines (EncodeToString bytes) @
     ''-----END '' @ blockType @ ''-----'' @ nl"

definition encode_certs :: "string list \<Rightarrow> string" where
  "encode_certs merged = concat (map (pem_Encode ''CERTIFICATE'') merged)"

section \<open>Merging and comparing bundles\<close>

fun parse_bundles :: "(string \<Rightarrow> err + string list) \<Rightarrow> string list \<Rightarrow> err + string list" where
  "parse_bundles parse [] = Inr []"
| "parse_bundles parse (caBundle # caBundles) =
     (if length caBundle = 0 then parse_bundles parse caBundles
      else case parse caBundle of
          Inl e \<Rightarrow> Inl e
        | Inr certs \<Rightarrow> map_sum id (\<lambda>rest. certs @ rest) (parse_bundles parse caBundles))"

fun remove_duplicates :: "string list \<Rightarrow> string list \<Rightarrow> string list" where
  "remove_duplicates merged [] = merged"
| "remove_duplicates merged (cert # certs) =
     remove_duplicates (if list_ex (\<lambda>m. cert = m) merged then merged else merged @ [cert]) certs"

definition mergeCertificateData :: "(string \<Rightarrow> err + string list) \<Rightarrow> string list \<Rightarrow> err + string" where
  "mergeCertificateData parse caBundles =
     map_sum id (\<lambda>certs. encode_certs (remove_duplicates [] certs)) (parse_bundles parse caBundles)"

definition HasCertificates :: "(string \<Rightarrow> err + string list) \<Rightarrow> string \<Rightarrow> string \<Rightarrow> err + bool" where
  "HasCertificates parse supersetCertData subsetCertData =
     (if length subsetCertData = 0 then Inr True
      else if length supersetCertData = 0 then Inr False
      else case parse supersetCertData of
          Inl e \<Rightarrow> Inl e
        | Inr superset \<Rightarrow>
            (case parse subsetCertData of
               Inl e \<Rightarrow> Inl e
             | Inr subCerts \<Rightarrow> Inr (list_all (\<lambda>sub. list_ex (\<lambda>super. sub = super) superset) subCerts)))"

section \<open>Laws\<close>

lemma remove_duplicates_set: "set (remove_duplicates merged certs) = set merged \<union> set certs"
  by (induction certs arbitrary: merged) (auto simp: list_ex_iff)

lemma remove_duplicates_distinct: "distinct merged \<Longrightarrow> distinct (remove_duplicates merged certs)"
  by (induction certs arbitrary: merged) (auto simp: list_ex_iff)

lemma remove_duplicates_id:
  "distinct (merged @ certs) \<Longrightarrow> remove_duplicates merged certs = merged @ certs"
  by (induction certs arbitrary: merged) (auto simp: list_ex_iff)

lemma parse_bundles_set:
  "parse_bundles parse bundles = Inr certs \<Longrightarrow> b \<in> set bundles \<Longrightarrow> b \<noteq> [] \<Longrightarrow>
   \<exists>cs. parse b = Inr cs \<and> set cs \<subseteq> set certs"
proof (induction bundles arbitrary: certs)
  case (Cons x bundles)
  show ?case
  proof (cases "x = []")
    case True
    with Cons show ?thesis by auto
  next
    case False
    with Cons.prems(1) obtain cs rest where "parse x = Inr cs" "parse_bundles parse bundles = Inr rest" "certs = cs @ rest"
      by (cases "parse x"; cases "parse_bundles parse bundles") auto
    with Cons show ?thesis by fastforce
  qed
qed simp

lemma HasCertificates_encoded:
  assumes "parse (encode_certs certs) = Inr certs" and "parse b = Inr cs" and "set cs \<subseteq> set certs" and "certs \<noteq> []"
  shows "HasCertificates parse (encode_certs certs) b = Inr True"
proof -
  have "encode_certs certs \<noteq> []" using assms(4) by (cases certs) (simp_all add: encode_certs_def pem_Encode_def)
  with assms show ?thesis by (auto simp: HasCertificates_def list_all_iff list_ex_iff)
qed

lemma encode_certs_Nil_iff: "encode_certs certs = [] \<longleftrightarrow> certs = []"
  by (cases certs) (simp_all add: encode_certs_def pem_Encode_def)

text \<open>The certificates of a bundle; a bundle that does not parse has none.\<close>

definition certs_of :: "(string \<Rightarrow> err + string list) \<Rightarrow> string \<Rightarrow> string set" where
  "certs_of parse d = (if d = [] then {} else case parse d of Inl e \<Rightarrow> {} | Inr cs \<Rightarrow> set cs)"

text \<open>
  The round trip of PEM, for certificates that the parser itself has returned from some bundle: \<open>ParseCertsPEM\<close>
  returns an error for bytes that are no X.509 certificate, and nothing is asked of it for these.
\<close>

definition parsed :: "(string \<Rightarrow> err + string list) \<Rightarrow> string \<Rightarrow> bool" where
  "parsed parse cert \<longleftrightarrow> (\<exists>bundle certs. parse bundle = Inr certs \<and> cert \<in> set certs)"

definition pem_roundtrip :: "(string \<Rightarrow> err + string list) \<Rightarrow> bool" where
  "pem_roundtrip parse \<longleftrightarrow>
     (\<forall>certs. certs \<noteq> [] \<and> (\<forall>cert\<in>set certs. parsed parse cert) \<longrightarrow> parse (encode_certs certs) = Inr certs)"

lemma parse_bundles_certs:
  "parse_bundles parse bundles = Inr certs \<Longrightarrow> set certs = (\<Union>b \<in> set bundles. certs_of parse b)"
proof (induction bundles arbitrary: certs)
  case (Cons x bundles)
  show ?case
  proof (cases "x = []")
    case True
    with Cons show ?thesis by (simp add: certs_of_def)
  next
    case False
    with Cons.prems obtain cs rest where "parse x = Inr cs" "parse_bundles parse bundles = Inr rest" "certs = cs @ rest"
      by (cases "parse x"; cases "parse_bundles parse bundles") auto
    with Cons.IH False show ?thesis by (simp add: certs_of_def)
  qed
qed simp

lemma parse_bundles_parsed: "parse_bundles parse bundles = Inr certs \<Longrightarrow> cert \<in> set certs \<Longrightarrow> parsed parse cert"
proof -
  assume "parse_bundles parse bundles = Inr certs" and "cert \<in> set certs"
  with parse_bundles_certs [of parse bundles certs] obtain b where "cert \<in> certs_of parse b" by blast
  then show "parsed parse cert" by (auto simp: certs_of_def parsed_def split: if_splits sum.splits)
qed

lemma roundtrip_merged:
  assumes "pem_roundtrip parse" and "parse_bundles parse bundles = Inr certs" and "remove_duplicates [] certs \<noteq> []"
  shows "parse (encode_certs (remove_duplicates [] certs)) = Inr (remove_duplicates [] certs)"
  using assms parse_bundles_parsed [OF assms(2)] by (simp add: pem_roundtrip_def remove_duplicates_set)

lemma certs_of_merge:
  assumes "pem_roundtrip parse" and "mergeCertificateData parse bundles = Inr merged"
  shows "certs_of parse merged = (\<Union>b \<in> set bundles. certs_of parse b)"
proof -
  obtain certs where certs: "parse_bundles parse bundles = Inr certs"
    and m: "merged = encode_certs (remove_duplicates [] certs)"
    using assms(2) by (cases "parse_bundles parse bundles") (auto simp: mergeCertificateData_def)
  have "certs_of parse merged = set (remove_duplicates [] certs)"
    using roundtrip_merged [OF assms(1) certs] by (auto simp: certs_of_def m encode_certs_Nil_iff)
  then show ?thesis using parse_bundles_certs [OF certs] by (simp add: remove_duplicates_set)
qed

text \<open>
  C33. The merged bundle has every certificate of the bundles it was made from, as
  \<open>HasCertificates\<close> tells, each of them once; and merging it again changes nothing. The parser may reject whatever
  it likes; the hypotheses say that it reads certificates which it has returned itself, encoded again, as the same
  certificates in order, and that it does not return an empty list for the bundle in question.
\<close>

theorem mergeCertificateData_complete:
  assumes "mergeCertificateData parse bundles = Inr merged"
    and "pem_roundtrip parse"
    and "b \<in> set bundles" and "b \<noteq> [] \<Longrightarrow> parse b \<noteq> Inr []"
  shows "HasCertificates parse merged b = Inr True \<and>
    (\<exists>certs. merged = encode_certs certs \<and> distinct certs) \<and>
    mergeCertificateData parse [merged] = Inr merged"
proof -
  obtain certs where certs: "parse_bundles parse bundles = Inr certs"
    and m: "merged = encode_certs (remove_duplicates [] certs)"
    using assms(1) by (cases "parse_bundles parse bundles") (auto simp: mergeCertificateData_def)
  let ?d = "remove_duplicates [] certs"
  have roundtrip: "?d \<noteq> [] \<Longrightarrow> parse (encode_certs ?d) = Inr ?d" by (rule roundtrip_merged [OF assms(2) certs])
  have d: "distinct ?d" "set ?d = set certs" by (simp_all add: remove_duplicates_distinct remove_duplicates_set)
  have has: "HasCertificates parse merged b = Inr True"
  proof (cases "b = []")
    case False
    from parse_bundles_set [OF certs assms(3) False] obtain cs where cs: "parse b = Inr cs" "set cs \<subseteq> set ?d"
      using d by auto
    then have "?d \<noteq> []" using assms(4) False by auto
    with HasCertificates_encoded [of parse ?d b cs] cs roundtrip m show ?thesis by simp
  qed (simp add: HasCertificates_def)
  have "mergeCertificateData parse [merged] = Inr merged"
  proof (cases "?d = []")
    case True
    then show ?thesis by (simp add: m mergeCertificateData_def encode_certs_def)
  next
    case False
    then show ?thesis
      using roundtrip [OF False] d remove_duplicates_id [of "[]" ?d]
      by (simp add: m mergeCertificateData_def encode_certs_Nil_iff)
  qed
  with has m d show ?thesis by blast
qed

text \<open>A parser for bundles as they are encoded here, for which the round trip holds.\<close>

function parse_encoded :: "string \<Rightarrow> string list" where
  "parse_encoded s =
     (if s = [] then []
      else let body = drop 28 s; lines = takeWhile (\<lambda>c. c \<noteq> CHR ''-'') body in
        b64_decode (filter (\<lambda>c. c \<noteq> CHR 0x0A) lines) # parse_encoded (drop (length lines + 26) body))"
  by pat_completeness auto
termination by (relation "measure length") auto

declare parse_encoded.simps [simp del]

lemma length_b64_alphabet: "length b64_alphabet = 64"
  by (simp add: b64_alphabet_def)

lemma EncodeToString_chars: "c \<in> set (EncodeToString s) \<Longrightarrow> c = CHR ''='' \<or> c \<in> set b64_alphabet"
proof -
  have b: "n < 64 \<Longrightarrow> b64 n \<in> set b64_alphabet" for n
    unfolding b64_def by (rule nth_mem) (simp add: length_b64_alphabet)
  show "c \<in> set (EncodeToString s) \<Longrightarrow> c = CHR ''='' \<or> c \<in> set b64_alphabet"
  proof (induction s rule: EncodeToString.induct)
    case (2 x)
    then show ?case using b three_bytes [of "of_char x" 0 0] by (auto simp: Let_def)
  next
    case (3 x y)
    then show ?case using b three_bytes [of "of_char x" "of_char y" 0] by (auto simp: Let_def)
  next
    case (4 x y z s)
    then show ?case using b three_bytes [of "of_char x" "of_char y" "of_char z"] by (auto simp: Let_def)
  qed simp
qed

lemma EncodeToString_no_marks: "CHR ''-'' \<notin> set (EncodeToString s)" "CHR 0x0A \<notin> set (EncodeToString s)"
proof -
  have "CHR ''-'' \<notin> set b64_alphabet" "CHR 0x0A \<notin> set b64_alphabet" by (simp_all add: b64_alphabet_def)
  then show "CHR ''-'' \<notin> set (EncodeToString s)" "CHR 0x0A \<notin> set (EncodeToString s)"
    using EncodeToString_chars by fastforce+
qed

lemma pem_lines_text: "CHR 0x0A \<notin> set s \<Longrightarrow> filter (\<lambda>c. c \<noteq> CHR 0x0A) (pem_lines s) = s"
proof (induction s rule: pem_lines.induct)
  case (1 s)
  show ?case
  proof (cases "s = []")
    case False
    have "filter (\<lambda>c. c \<noteq> CHR 0x0A) (take 64 s) = take 64 s" and "CHR 0x0A \<notin> set (drop 64 s)"
      using 1(2) by (auto simp: filter_id_conv dest: in_set_takeD in_set_dropD)
    with 1(1) False show ?thesis by (subst pem_lines.simps) (simp add: nl_def)
  qed (simp add: pem_lines.simps)
qed

lemma pem_lines_chars: "set (pem_lines s) \<subseteq> set s \<union> {CHR 0x0A}"
proof (induction s rule: pem_lines.induct)
  case (1 s)
  then show ?case
    by (subst pem_lines.simps) (auto simp: nl_def dest: in_set_takeD in_set_dropD)
qed

lemma parse_encoded_encode: "parse_encoded (encode_certs certs) = certs"
proof (induction certs)
  case (Cons c certs)
  let ?lines = "pem_lines (EncodeToString c)"
  have "CHR ''-'' \<notin> set ?lines" using pem_lines_chars [of "EncodeToString c"] EncodeToString_no_marks(1) [of c] by auto
  then have "takeWhile (\<lambda>x. x \<noteq> CHR ''-'') (?lines @ CHR ''-'' # t) = ?lines" for t
    by (subst takeWhile_append2) auto
  then show ?case
    using Cons pem_lines_text [OF EncodeToString_no_marks(2), of c]
    by (subst parse_encoded.simps) (simp add: encode_certs_def pem_Encode_def nl_def b64_decode_encode Let_def)
qed (simp add: encode_certs_def parse_encoded.simps)

text \<open>It rejects bundles without a certificate, and certificates without content.\<close>

definition strict_parse :: "string \<Rightarrow> err + string list" where
  "strict_parse s = (let certs = parse_encoded s in
     if certs = [] \<or> list_ex (\<lambda>cert. cert = []) certs then Inl (ErrorString ''no valid certificates'') else Inr certs)"

lemma strict_parse_roundtrip: "pem_roundtrip strict_parse"
proof -
  have "cert \<noteq> []" if "parsed strict_parse cert" for cert
    using that by (auto simp: parsed_def strict_parse_def Let_def list_ex_iff split: if_splits)
  then show ?thesis by (auto simp: pem_roundtrip_def strict_parse_def parse_encoded_encode list_ex_iff)
qed

theorem mergeCertificateData_complete_witness:
  "\<exists>merged. mergeCertificateData strict_parse [encode_certs [''a'', ''b''], encode_certs [''b'']] = Inr merged \<and>
     HasCertificates strict_parse merged (encode_certs [''b'']) = Inr True \<and>
     (\<exists>e. strict_parse (encode_certs [[]]) = Inl e)"
proof -
  have parse: "strict_parse (encode_certs certs) = (if certs = [] \<or> list_ex (\<lambda>cert. cert = []) certs
      then Inl (ErrorString ''no valid certificates'') else Inr certs)" for certs
    by (simp add: strict_parse_def parse_encoded_encode Let_def)
  obtain merged where m: "mergeCertificateData strict_parse [encode_certs [''a'', ''b''], encode_certs [''b'']] = Inr merged"
    by (simp add: mergeCertificateData_def parse encode_certs_Nil_iff)
  have "HasCertificates strict_parse merged (encode_certs [''b'']) = Inr True"
    using mergeCertificateData_complete [OF m strict_parse_roundtrip, of "encode_certs [''b'']"] by (simp add: parse)
  with m parse show ?thesis by auto
qed

end
