(* ===== verification/Bootstrap_Kubeconfig.thy ===== *)
theory Bootstrap_Kubeconfig
  imports Certificates Go_Time Klusterlet_Config Validation
begin

text \<open>
  \<open>pkg/bootstrap/bootstrapkubeconfig.go\<close>: the kubeconfig with which an agent first talks to the hub.
  Where the API server is, which proxy leads to it, which certificate authorities vouch for it and
  which token the agent shows. \<open>ocp\<close> is \<open>helpers.DeployOnOCP\<close>; \<open>tools\<close> has the library functions on
  URLs and certificates.
\<close>

record tools =
  ParseCertsPEM :: "string \<Rightarrow> err + string list"
  url_Parse :: "string \<Rightarrow> err + string \<times> string" \<comment> \<open>host name and port\<close>
  cert_Verify :: "string \<Rightarrow> bool" \<comment> \<open>with the roots of the system\<close>

definition apiServerInternalEndpoint :: string where
  "apiServerInternalEndpoint = ''https://kubernetes.default.svc:443''"

definition apiServerInternalEndpointCA :: string where
  "apiServerInternalEndpointCA = ''/var/run/secrets/kubernetes.io/serviceaccount/ca.crt''"

definition clusterSingletonName :: string where
  "clusterSingletonName = ''cluster''"

definition StrategyUseSystemTruststore :: string where
  "StrategyUseSystemTruststore = ''UseSystemTruststore''"

definition StrategyUseAutoDetectedCABundle :: string where
  "StrategyUseAutoDetectedCABundle = ''UseAutoDetectedCABundle''"

definition StrategyUseCustomCABundles :: string where
  "StrategyUseCustomCABundles = ''UseCustomCABundles''"

section \<open>The kubeconfig\<close>

type_synonym url = string
type_synonym bytes = string

definition bootstrap_config :: "string \<Rightarrow> url \<Rightarrow> url \<Rightarrow> string \<Rightarrow> bytes \<Rightarrow> bytes \<Rightarrow> KubeConfig" where
  "bootstrap_config ctxClusterName kubeAPIServer proxyURL ca caData token = \<lparr>
     Clusters = fmap_of_list [(ctxClusterName,
       \<lparr>Server = kubeAPIServer, InsecureSkipTLSVerify = False,
        CertificateAuthority = (if length caData > 0 then [] else ca),
        CertificateAuthorityData = caData, ProxyURL = proxyURL\<rparr>)],
     AuthInfos = fmap_of_list [(''default-auth'', token)],
     Contexts = fmap_of_list [(''default-context'',
       \<lparr>CtxCluster = ctxClusterName, CtxAuthInfo = ''default-auth'', CtxNamespace = ''default''\<rparr>)],
     CurrentContext = ''default-context''\<rparr>"

definition CreateBootstrapKubeConfig ::
  "codec \<Rightarrow> string \<Rightarrow> url \<Rightarrow> url \<Rightarrow> string \<Rightarrow> bytes \<Rightarrow> bytes \<Rightarrow> err + bytes" where
  "CreateBootstrapKubeConfig cd ctxClusterName kubeAPIServer proxyURL ca caData token =
     clientcmd_Encode cd (bootstrap_config ctxClusterName kubeAPIServer proxyURL ca caData token)"

record parsed_kubeconfig =
  PKServer :: string
  PKProxy :: string
  PKCA :: string
  PKCAData :: string
  PKToken :: string
  PKCluster :: string

definition ParseKubeConfigData :: "codec \<Rightarrow> string \<Rightarrow> err + parsed_kubeconfig" where
  "ParseKubeConfigData cd kubeConfigData =
     (case clientcmd_Load cd kubeConfigData of
        Inl e \<Rightarrow> Inl e
      | Inr config \<Rightarrow>
          (case fmlookup (Contexts config) (CurrentContext config) of
             None \<Rightarrow> Inl (ErrorString ''failed to get current context'')
           | Some ctx \<Rightarrow>
               (let token = (case fmlookup (AuthInfos config) kubeconfigDefaultAuth of None \<Rightarrow> [] | Some t \<Rightarrow> t) in
                case fmlookup (Clusters config) (CtxCluster ctx) of
                  None \<Rightarrow> Inr \<lparr>PKServer = [], PKProxy = [], PKCA = [], PKCAData = [], PKToken = token, PKCluster = []\<rparr>
                | Some cluster \<Rightarrow> Inr \<lparr>PKServer = Server cluster, PKProxy = ProxyURL cluster,
                    PKCA = CertificateAuthority cluster, PKCAData = CertificateAuthorityData cluster,
                    PKToken = token, PKCluster = CtxCluster ctx\<rparr>)))"

definition ValidateBootstrapKubeconfig ::
  "url \<Rightarrow> url \<Rightarrow> string \<Rightarrow> bytes \<Rightarrow> string \<Rightarrow>
   url \<Rightarrow> url \<Rightarrow> string \<Rightarrow> bytes \<Rightarrow> string \<Rightarrow> bool" where
  "ValidateBootstrapKubeconfig kubeAPIServer proxyURL ca caData ctxClusterName
     requiredKubeAPIServer requiredProxyURL requiredCA requiredCAData requiredCtxClusterName =
     (if kubeAPIServer \<noteq> requiredKubeAPIServer then False
      else if ca \<noteq> requiredCA then False
      else if caData \<noteq> requiredCAData then False
      else if proxyURL \<noteq> requiredProxyURL then False
      else if ctxClusterName \<noteq> requiredCtxClusterName then False
      else True)"

section \<open>Address and proxy\<close>

definition hasCustomServerURLOrStrategy :: "KlusterletConfig option \<Rightarrow> bool" where
  "hasCustomServerURLOrStrategy klusterletConfig =
     (case klusterletConfig of
        None \<Rightarrow> False
      | Some kc \<Rightarrow>
          (case HubKubeAPIServerConfig kc of
             Some c \<Rightarrow>
               if length (KASURL c) > 0 then True
               else if length (ServerVerificationStrategy c) > 0 \<and>
                 ServerVerificationStrategy c \<noteq> StrategyUseAutoDetectedCABundle then True
               else False
           | None \<Rightarrow>
               if length (HubKubeAPIServerURL kc) > 0 then True
               else (case HubKubeAPIServerCABundle kc of Some b \<Rightarrow> length b > 0 | None \<Rightarrow> False)))"

definition bundle_bytes :: "string option \<Rightarrow> string" where
  "bundle_bytes b = (case b of None \<Rightarrow> [] | Some s \<Rightarrow> s)"

definition GetProxySettings :: "KlusterletConfig option \<Rightarrow> string \<times> string" where
  "GetProxySettings klusterletConfig =
     (case klusterletConfig of
        None \<Rightarrow> ([], [])
      | Some kc \<Rightarrow>
          (let proxyConfig = HubKubeAPIServerProxyConfig kc in
           case HubKubeAPIServerConfig kc of
             Some c \<Rightarrow>
               if length (KASProxyURL c) > 0 then
                 if KASProxyURL c = HTTPSProxy proxyConfig then (KASProxyURL c, bundle_bytes (ProxyCABundle proxyConfig))
                 else (KASProxyURL c, [])
               else ([], [])
           | None \<Rightarrow>
               if length (HTTPSProxy proxyConfig) > 0 then (HTTPSProxy proxyConfig, bundle_bytes (ProxyCABundle proxyConfig))
               else (HTTPProxy proxyConfig, [])))"

definition custom_url :: "KlusterletConfig option \<Rightarrow> string" where
  "custom_url klusterletConfig =
     (case klusterletConfig of
        None \<Rightarrow> []
      | Some kc \<Rightarrow>
          (case HubKubeAPIServerConfig kc of Some c \<Rightarrow> KASURL c | None \<Rightarrow> HubKubeAPIServerURL kc))"

definition GetKubeAPIServerAddress :: "server \<Rightarrow> bool \<Rightarrow> KlusterletConfig option \<Rightarrow> (call, err + string) prog" where
  "GetKubeAPIServerAddress srv ocp klusterletConfig =
     (if length (custom_url klusterletConfig) > 0 then return (Inr (custom_url klusterletConfig))
      else if \<not> ocp then return (Inl (ErrorString ''failed get Hub kube apiserver on non-OCP cluster''))
      else do {
        r \<leftarrow> api_GetInfrastructure srv clusterSingletonName;
        return (case r of
          Inr (apiServerURL, uid) \<Rightarrow> Inr apiServerURL
        | Inl e \<Rightarrow>
            if ResourceIsNotFound (Some e) then Inl (ErrorString
              (''cannot get kubeAPIServer URL since the Infrastructure is not found, please use'' @
               ''klusterletConfig to set the hub kubeAPIServer URL''))
            else Inl e) })"

definition GetKubeconfigClusterName :: "server \<Rightarrow> bool \<Rightarrow> (call, err + string) prog" where
  "GetKubeconfigClusterName srv ocp =
     (if \<not> ocp then return (Inr ''default-cluster'')
      else do {
        r \<leftarrow> api_GetInfrastructure srv clusterSingletonName;
        return (case r of
          Inr (apiServerURL, uid) \<Rightarrow> Inr uid
        | Inl e \<Rightarrow> if ResourceIsNotFound (Some e) then Inr ''default-cluster'' else Inl e) })"

section \<open>Certificate authorities\<close>

fun first_key :: "smap \<Rightarrow> string list \<Rightarrow> string option" where
  "first_key m [] = None"
| "first_key m (key # keys) = (case fmlookup m key of Some d \<Rightarrow> Some d | None \<Rightarrow> first_key m keys)"

definition getCABundleFromConfigmap :: "server \<Rightarrow> string \<Rightarrow> string \<Rightarrow> string list \<Rightarrow> (call, err + string) prog" where
  "getCABundleFromConfigmap srv caNamespace caName caKeys = do {
     r \<leftarrow> api_GetConfigMap srv caNamespace caName;
     return (case r of
       Inl e \<Rightarrow> Inl e
     | Inr rootCA \<Rightarrow>
         (case first_key (ConfigData rootCA)
             (if length caKeys = 0 then [''ca-bundle.crt'', ''ca.crt'', ''tls.crt''] else caKeys) of
            Some d \<Rightarrow> Inr d
          | None \<Rightarrow> Inl (ErrorString (''failed to find ca data in configmap '' @ caNamespace @ ''/'' @ caName)))) }"

definition getKubeRootCABundle :: "server \<Rightarrow> string \<Rightarrow> (call, err + string) prog" where
  "getKubeRootCABundle srv caNamespace = getCABundleFromConfigmap srv caNamespace ''kube-root-ca.crt'' [''ca.crt'']"

fun named_certificate :: "string \<Rightarrow> (string list \<times> string) list \<Rightarrow> string" where
  "named_certificate dnsName [] = []"
| "named_certificate dnsName ((certNames, secretName) # rest) =
     (if list_ex (\<lambda>n. EqualFold n dnsName) certNames then secretName else named_certificate dnsName rest)"

definition getKubeAPIServerSecretName :: "server \<Rightarrow> string \<Rightarrow> (call, err + string) prog" where
  "getKubeAPIServerSecretName srv dnsName = do {
     r \<leftarrow> api_GetAPIServer srv clusterSingletonName;
     return (case r of
       Inl e \<Rightarrow> if ResourceIsNotFound (Some e) then Inr [] else Inl e
     | Inr namedCertificates \<Rightarrow> Inr (named_certificate dnsName namedCertificates)) }"

definition checkIsIBMCloud :: "server \<Rightarrow> (call, err + bool) prog" where
  "checkIsIBMCloud srv = do {
     r \<leftarrow> api_ListNodes srv;
     return (case r of
       Inl e \<Rightarrow> Inl e
     | Inr [] \<Rightarrow> Inr False
     | Inr (providerID # _) \<Rightarrow> Inr (HasPrefix providerID ''ibm'')) }"

definition getCustomKubeAPIServerCertificate :: "server \<Rightarrow> string \<Rightarrow> (call, err + string) prog" where
  "getCustomKubeAPIServerCertificate srv secretName = do {
     r \<leftarrow> api_GetSecret srv ''openshift-config'' secretName;
     return (case r of
       Inl e \<Rightarrow> if IsNotFound e then Inr [] else Inl e
     | Inr secret \<Rightarrow>
         (case fmlookup (Data secret) ''tls.crt'' of
            None \<Rightarrow> Inl (ErrorString (''failed to find data[tls.crt] in secret openshift-config/'' @ secretName))
          | Some res \<Rightarrow> Inr res)) }"

definition getValidCertificatesFromURL :: "server \<Rightarrow> tools \<Rightarrow> string \<Rightarrow> (call, err + string list) prog" where
  "getValidCertificatesFromURL srv tk serverURL =
     (case url_Parse tk serverURL of
        Inl e \<Rightarrow> return (Inl e)
      | Inr (hostname, port) \<Rightarrow> do {
          r \<leftarrow> api_TlsDial srv (hostname @ '':'' @ port) hostname;
          return (case r of
            Inl (e, unknownAuthority) \<Rightarrow> if unknownAuthority then Inr [] else Inl e
          | Inr certs \<Rightarrow> Inr (filter (cert_Verify tk) certs)) })"

text \<open>The certificate that an OpenShift API server is configured with, empty when there is none.\<close>

definition ocp_certificate :: "server \<Rightarrow> tools \<Rightarrow> string \<Rightarrow> (call, err + string) prog" where
  "ocp_certificate srv tk kubeAPIServer =
     (case url_Parse tk kubeAPIServer of
        Inl e \<Rightarrow> return (Inr [])
      | Inr (hostname, port) \<Rightarrow> do {
          n \<leftarrow> getKubeAPIServerSecretName srv hostname;
          case n of
            Inl e \<Rightarrow> return (Inl e)
          | Inr apiServerCertSecretName \<Rightarrow>
              if length apiServerCertSecretName > 0 then getCustomKubeAPIServerCertificate srv apiServerCertSecretName
              else return (Inr []) })"

definition autoDetectCAData :: "server \<Rightarrow> tools \<Rightarrow> bool \<Rightarrow> string \<Rightarrow> string \<Rightarrow> (call, err + string) prog" where
  "autoDetectCAData srv tk ocp kubeAPIServer caNamespace =
     (if \<not> ocp then getKubeRootCABundle srv caNamespace
      else do {
        c \<leftarrow> ocp_certificate srv tk kubeAPIServer;
        case c of
          Inl e \<Rightarrow> return (Inl e)
        | Inr certData \<Rightarrow>
            if length certData \<noteq> 0 then return (Inr certData)
            else do {
              i \<leftarrow> checkIsIBMCloud srv;
              case i of
                Inl e \<Rightarrow> return (Inl e)
              | Inr isROKS \<Rightarrow>
                  if isROKS then do {
                    v \<leftarrow> getValidCertificatesFromURL srv tk kubeAPIServer;
                    case v of
                      Inl e \<Rightarrow> return (Inl e)
                    | Inr certs \<Rightarrow>
                        if length certs > 0 then return (Inr []) else getKubeRootCABundle srv caNamespace }
                  else getKubeRootCABundle srv caNamespace } })"

fun custom_ca_loop :: "server \<Rightarrow> tools \<Rightarrow> CABundleRef list \<Rightarrow> string \<Rightarrow> (call, err + string) prog" where
  "custom_ca_loop srv tk [] all = return (Inr all)"
| "custom_ca_loop srv tk (caBundle # caBundles) all = do {
     r \<leftarrow> getCABundleFromConfigmap srv (BundleNamespace caBundle) (BundleConfigMap caBundle) [];
     case r of
       Inl e \<Rightarrow> return (Inl e)
     | Inr data \<Rightarrow>
         (case mergeCertificateData (ParseCertsPEM tk) [all, data] of
            Inl e \<Rightarrow> return (Inl e)
          | Inr merged \<Rightarrow> custom_ca_loop srv tk caBundles merged) }"

definition getCustomCAData :: "server \<Rightarrow> tools \<Rightarrow> CABundleRef list \<Rightarrow> (call, err + string) prog" where
  "getCustomCAData srv tk caBundles =
     (if length caBundles = 0 then return (Inr []) else custom_ca_loop srv tk caBundles [])"

definition getKubeAPIServerCADataFromConfig ::
  "server \<Rightarrow> tools \<Rightarrow> bool \<Rightarrow> string \<Rightarrow> string \<Rightarrow> KubeAPIServerConfig \<Rightarrow> (call, err + string) prog" where
  "getKubeAPIServerCADataFromConfig srv tk ocp kubeAPIServer caNamespace config =
     (if ServerVerificationStrategy config = StrategyUseSystemTruststore then return (Inr [])
      else if ServerVerificationStrategy config = StrategyUseAutoDetectedCABundle \<or>
        ServerVerificationStrategy config = [] then do {
        d \<leftarrow> autoDetectCAData srv tk ocp kubeAPIServer caNamespace;
        case d of
          Inl e \<Rightarrow> return (Inl e)
        | Inr detectedCA \<Rightarrow> do {
            c \<leftarrow> getCustomCAData srv tk (TrustedCABundles config);
            case c of
              Inl e \<Rightarrow> return (Inl e)
            | Inr customCustomCA \<Rightarrow>
                return (mergeCertificateData (ParseCertsPEM tk) [detectedCA, customCustomCA]) } }
      else if ServerVerificationStrategy config = StrategyUseCustomCABundles
      then getCustomCAData srv tk (TrustedCABundles config)
      else return (Inl (ErrorString (''unknown server verification strategy: '' @ ServerVerificationStrategy config))))"

definition getKubeAPIServerCAData ::
  "server \<Rightarrow> tools \<Rightarrow> bool \<Rightarrow> string \<Rightarrow> string \<Rightarrow> KlusterletConfig option \<Rightarrow> (call, err + string) prog" where
  "getKubeAPIServerCAData srv tk ocp kubeAPIServer caNamespace klusterletConfig =
     (case klusterletConfig of
        None \<Rightarrow> autoDetectCAData srv tk ocp kubeAPIServer caNamespace
      | Some kc \<Rightarrow>
          (case HubKubeAPIServerConfig kc of
             Some c \<Rightarrow> getKubeAPIServerCADataFromConfig srv tk ocp kubeAPIServer caNamespace c
           | None \<Rightarrow>
               if length (bundle_bytes (HubKubeAPIServerCABundle kc)) > 0
               then return (Inr (bundle_bytes (HubKubeAPIServerCABundle kc)))
               else autoDetectCAData srv tk ocp kubeAPIServer caNamespace))"

definition uses_system_truststore :: "KlusterletConfig option \<Rightarrow> bool" where
  "uses_system_truststore klusterletConfig =
     (case klusterletConfig of
        None \<Rightarrow> False
      | Some kc \<Rightarrow>
          (case HubKubeAPIServerConfig kc of
             None \<Rightarrow> False
           | Some c \<Rightarrow> ServerVerificationStrategy c = StrategyUseSystemTruststore))"

definition GetBootstrapCAData ::
  "server \<Rightarrow> tools \<Rightarrow> bool \<Rightarrow> string \<Rightarrow> string \<Rightarrow> KlusterletConfig option \<Rightarrow> (call, err + string) prog" where
  "GetBootstrapCAData srv tk ocp kubeAPIServer caNamespace klusterletConfig =
     (if uses_system_truststore klusterletConfig then return (Inr [])
      else do {
        r \<leftarrow> getKubeAPIServerCAData srv tk ocp kubeAPIServer caNamespace klusterletConfig;
        case r of
          Inl e \<Rightarrow> return (Inl e)
        | Inr apiServerCAData \<Rightarrow>
            return (mergeCertificateData (ParseCertsPEM tk) [apiServerCAData, snd (GetProxySettings klusterletConfig)]) })"

text \<open>The server, the proxy, the file and the data of the certificate authorities.\<close>

definition GetKubeAPIServerConfig ::
  "server \<Rightarrow> tools \<Rightarrow> bool \<Rightarrow> string \<Rightarrow> KlusterletConfig option \<Rightarrow> bool \<Rightarrow>
   (call, err + string \<times> string \<times> string \<times> string) prog" where
  "GetKubeAPIServerConfig srv tk ocp ns klusterletConfig selfManaged =
     (if selfManaged \<and> \<not> hasCustomServerURLOrStrategy klusterletConfig
      then return (Inr (apiServerInternalEndpoint, [], apiServerInternalEndpointCA, []))
      else do {
        u \<leftarrow> GetKubeAPIServerAddress srv ocp klusterletConfig;
        case u of
          Inl e \<Rightarrow> return (Inl e)
        | Inr url \<Rightarrow> do {
            c \<leftarrow> GetBootstrapCAData srv tk ocp url ns klusterletConfig;
            return (case c of
              Inl e \<Rightarrow> Inl e
            | Inr caData \<Rightarrow> Inr (url, fst (GetProxySettings klusterletConfig), [], caData)) } })"

section \<open>The token\<close>

definition RequestSAToken :: "server \<Rightarrow> string \<Rightarrow> string \<Rightarrow> int \<Rightarrow> (call, err + string \<times> string \<times> string) prog" where
  "RequestSAToken srv saName secretNamespace tokenExpirationSeconds = do {
     r \<leftarrow> api_CreateToken srv secretNamespace saName tokenExpirationSeconds;
     return (case r of
       Inl e \<Rightarrow> Inl (ErrorString (''create token request failed: '' @ Error e))
     | Inr (token, creation, expiration) \<Rightarrow>
         (case creation of
            Inl e \<Rightarrow> Inl e
          | Inr tokenCreation \<Rightarrow>
              (case expiration of
                 Inl e \<Rightarrow> Inl e
               | Inr tokenExpiration \<Rightarrow> Inr (token, tokenCreation, tokenExpiration)))) }"

definition SecretTypeServiceAccountToken :: string where
  "SecretTypeServiceAccountToken = ''kubernetes.io/service-account-token''"

definition MaxGeneratedNameLength :: nat where
  "MaxGeneratedNameLength = 58"

definition token_secret_prefix :: "string \<Rightarrow> string" where
  "token_secret_prefix saName = take MaxGeneratedNameLength (saName @ ''-token-'')"

text \<open>Whether a secret has a legacy token of the account, and whether the token is out of date.\<close>

definition legacy_token :: "string \<Rightarrow> Secret \<Rightarrow> string option" where
  "legacy_token saName secret =
     (if SecretType secret \<noteq> SecretTypeServiceAccountToken then None
      else if \<not> HasPrefix (Name secret) (token_secret_prefix saName) then None
      else case fmlookup (Data secret) ''token'' of
          None \<Rightarrow> None
        | Some token \<Rightarrow> if length token = 0 then None else Some token)"

definition marked_invalid :: "int \<Rightarrow> Secret \<Rightarrow> bool" where
  "marked_invalid now secret =
     (case fmlookup (Labels secret) LegacyTokenInvalidSince of
        None \<Rightarrow> False
      | Some invalidSince \<Rightarrow>
          (case parse_RFC3339 invalidSince of
             None \<Rightarrow> True
           | Some invalidTime \<Rightarrow> now > invalidTime))"

text \<open>The clock is read at every secret that carries the label; \<open>now\<close> is its value, the loop does no call.\<close>

fun first_legacy_token :: "int \<Rightarrow> string \<Rightarrow> Secret list \<Rightarrow> string option" where
  "first_legacy_token now saName [] = None"
| "first_legacy_token now saName (secret # secrets) =
     (case legacy_token saName secret of
        None \<Rightarrow> first_legacy_token now saName secrets
      | Some token \<Rightarrow>
          if marked_invalid now secret then first_legacy_token now saName secrets else Some token)"

definition GetBootstrapToken :: "server \<Rightarrow> string \<Rightarrow> string \<Rightarrow> int \<Rightarrow> (call, err + string \<times> string \<times> string) prog" where
  "GetBootstrapToken srv saName secretNamespace tokenExpirationSeconds = do {
     r \<leftarrow> api_ListSecrets srv secretNamespace;
     case r of
       Inl e \<Rightarrow> return (Inl e)
     | Inr secrets \<Rightarrow> do {
         now \<leftarrow> peek (on_now srv);
         case first_legacy_token now saName secrets of
           Some token \<Rightarrow> return (Inr (token, [], []))
         | None \<Rightarrow> RequestSAToken srv saName secretNamespace tokenExpirationSeconds } }"

section \<open>A new kubeconfig is valid\<close>

lemma kubeconfigDefaultAuth_eq: "kubeconfigDefaultAuth = ''default-auth''"
  by (simp add: kubeconfigDefaultAuth_def)

lemma ParseKubeConfigData_bootstrap:
  assumes "clientcmd_Load cd d = Inr (bootstrap_config ctx url proxy ca caData token)"
  shows "ParseKubeConfigData cd d = Inr \<lparr>PKServer = url, PKProxy = proxy,
    PKCA = (if length caData > 0 then [] else ca), PKCAData = caData, PKToken = token, PKCluster = ctx\<rparr>"
  using assms by (simp add: ParseKubeConfigData_def bootstrap_config_def kubeconfigDefaultAuth_eq)

lemma wp_GetKubeAPIServerConfig_shape:
  "wp (GetKubeAPIServerConfig srv tk ocp ns kc selfManaged)
     (\<lambda>r _. \<forall>url proxy ca caData. r = Inr (url, proxy, ca, caData) \<longrightarrow>
        (ca = [] \<or> caData = [] \<and> url = apiServerInternalEndpoint)) h"
  unfolding GetKubeAPIServerConfig_def
  by (simp add: wp_simps) (auto simp: wp_run split: sum.splits prod.splits)

text \<open>
  C32. A kubeconfig made for the settings that \<open>GetKubeAPIServerConfig\<close> requires is accepted by the
  validation against these settings and carries the token: the file and the data of the
  certificate authorities are never both required. The hypothesis is the round trip of the
  kubeconfig codec on this configuration.
\<close>

theorem new_kubeconfig_is_valid:
  assumes "result (GetKubeAPIServerConfig srv tk ocp ns kc selfManaged) h = Inr (url, proxy, ca, caData)"
    and "CreateBootstrapKubeConfig cd ctx url proxy ca caData token = Inr d"
    and roundtrip: "\<And>c. clientcmd_Encode cd c = Inr d \<Longrightarrow> clientcmd_Load cd d = Inr c"
  shows "\<exists>p. ParseKubeConfigData cd d = Inr p \<and> PKToken p = token \<and>
    ValidateBootstrapKubeconfig (PKServer p) (PKProxy p) (PKCA p) (PKCAData p) (PKCluster p) url proxy ca caData ctx"
proof -
  from assms(2) roundtrip have "clientcmd_Load cd d = Inr (bootstrap_config ctx url proxy ca caData token)"
    by (simp add: CreateBootstrapKubeConfig_def)
  note p = ParseKubeConfigData_bootstrap [OF this]
  have "ca = [] \<or> caData = []"
    using assms(1) wp_GetKubeAPIServerConfig_shape [of srv tk ocp ns kc selfManaged h]
    by (auto simp: wp_run result_def)
  with p show ?thesis by (auto simp: ValidateBootstrapKubeconfig_def)
qed

section \<open>Which address is used\<close>

fun first_set :: "string list \<Rightarrow> string" where
  "first_set [] = []"
| "first_set (s # ss) = (if s \<noteq> [] then s else first_set ss)"

definition config_url :: "KlusterletConfig \<Rightarrow> string" where
  "config_url kc = (case HubKubeAPIServerConfig kc of None \<Rightarrow> [] | Some c \<Rightarrow> KASURL c)"

lemma custom_url_spec_only [simp]: "custom_url (Some (spec_only kc)) = custom_url (Some kc)"
  by (cases kc) (simp add: spec_only_def custom_url_def ObjectMeta.defs new_meta_def split: option.split)

lemma custom_url_migrate: "custom_url (Some (migrate kc)) = first_set [config_url kc, HubKubeAPIServerURL kc]"
  by (auto simp: custom_url_def migrate_def config_url_def split: option.split)

lemma config_url_merge: "config_url (merge_spec g kc) = first_set [config_url kc, config_url g]"
  by (auto simp: config_url_def merge_spec_def mergeHubKubeAPIServerConfig_def split: option.split)

lemma deprecated_url_merge:
  "HubKubeAPIServerURL (merge_spec g kc) = first_set [HubKubeAPIServerURL kc, HubKubeAPIServerURL g]"
  by (simp add: merge_spec_def override_text_def override_with_def)

text \<open>
  When a cluster has both a configuration of its own and the global one, the address of the
  hub is the first that is set among: the structured URL of its own configuration, the one of the
  global configuration, the deprecated URL of its own configuration, the one of the global
  configuration. Without a global configuration the deprecated URL does not count as soon as the
  structured part is present: a global configuration without any content changes the address.
\<close>

theorem merged_address:
  "custom_url (MergeKlusterletConfigs [Some g, Some kc]) =
     first_set [config_url kc, config_url g, HubKubeAPIServerURL kc, HubKubeAPIServerURL g] \<and>
   custom_url (MergeKlusterletConfigs [None, Some kc]) =
     (if HubKubeAPIServerConfig kc = None then HubKubeAPIServerURL kc else config_url kc) \<and>
   custom_url (MergeKlusterletConfigs [Some (new_klusterlet_config n), Some kc]) =
     first_set [config_url kc, HubKubeAPIServerURL kc]"
proof -
  have merged: "custom_url (MergeKlusterletConfigs [Some g', Some kc]) =
      first_set [config_url kc, config_url g', HubKubeAPIServerURL kc, HubKubeAPIServerURL g']" for g'
    by (simp add: MergeKlusterletConfigs_def custom_url_migrate config_url_merge deprecated_url_merge)
  moreover have "config_url (new_klusterlet_config n) = []" "HubKubeAPIServerURL (new_klusterlet_config n) = []"
    by (simp_all add: config_url_def new_klusterlet_config_def ObjectMeta.defs new_meta_def)
  moreover have "custom_url (MergeKlusterletConfigs [None, Some kc]) =
      (if HubKubeAPIServerConfig kc = None then HubKubeAPIServerURL kc else config_url kc)"
    by (auto simp: MergeKlusterletConfigs_def custom_url_def config_url_def)
  ultimately show ?thesis by simp
qed

definition sample_tools :: tools where
  "sample_tools = \<lparr>ParseCertsPEM = Inr \<circ> parse_encoded, url_Parse = (\<lambda>u. Inr (u, ''6443'')), cert_Verify = (\<lambda>_. True)\<rparr>"

text \<open>A codec that knows one kubeconfig.\<close>

definition sample_kubeconfig :: KubeConfig where
  "sample_kubeconfig = bootstrap_config ''uid'' apiServerInternalEndpoint [] apiServerInternalEndpointCA [] ''token''"

definition sample_kubeconfig_codec :: codec where
  "sample_kubeconfig_codec = \<lparr>decode = (\<lambda>_. Inl notFoundErr), decoded_gvk = (\<lambda>_. ([], [], [])), YAMLToJSON = Inr,
     unstructured_kind = (\<lambda>_. Inr []),
     clientcmd_Load = (\<lambda>s. if s = ''kubeconfig'' then Inr sample_kubeconfig else Inl notFoundErr),
     clientcmd_Encode = (\<lambda>c. if c = sample_kubeconfig then Inr ''kubeconfig'' else Inl notFoundErr)\<rparr>"

theorem new_kubeconfig_is_valid_witness:
  "\<exists>p. ParseKubeConfigData sample_kubeconfig_codec ''kubeconfig'' = Inr p \<and> PKToken p = ''token'' \<and>
     ValidateBootstrapKubeconfig (PKServer p) (PKProxy p) (PKCA p) (PKCAData p) (PKCluster p)
       apiServerInternalEndpoint [] apiServerInternalEndpointCA [] ''uid''"
proof -
  have "result (GetKubeAPIServerConfig empty_server sample_tools True ''c1'' None True) [] =
      Inr (apiServerInternalEndpoint, [], apiServerInternalEndpointCA, [])"
    by (simp add: GetKubeAPIServerConfig_def hasCustomServerURLOrStrategy_def result_def)
  then show ?thesis
    by (rule new_kubeconfig_is_valid)
      (auto simp: CreateBootstrapKubeConfig_def sample_kubeconfig_codec_def sample_kubeconfig_def split: if_splits)
qed

section \<open>Configured certificate authorities\<close>

definition bundle_keys :: "string list" where
  "bundle_keys = [''ca-bundle.crt'', ''ca.crt'', ''tls.crt'']"

text \<open>The data of a trusted bundle, as some read after \<open>h\<close> found it.\<close>

definition bundle_read :: "server \<Rightarrow> call list \<Rightarrow> CABundleRef \<Rightarrow> string \<Rightarrow> bool" where
  "bundle_read srv h b d \<longleftrightarrow> (\<exists>cs cm. on_GetConfigMap srv (h @ cs) (BundleNamespace b) (BundleConfigMap b) = Inr cm \<and>
     first_key (ConfigData cm) bundle_keys = Some d)"

lemma bundle_read_append: "bundle_read srv (h @ cs) b d \<Longrightarrow> bundle_read srv h b d"
  by (auto simp: bundle_read_def)

definition included :: "server \<Rightarrow> tools \<Rightarrow> call list \<Rightarrow> CABundleRef list \<Rightarrow> string \<Rightarrow> bool" where
  "included srv tk h bundles data \<longleftrightarrow> (\<forall>b \<in> set bundles. \<exists>d. bundle_read srv h b d \<and>
     certs_of (ParseCertsPEM tk) d \<subseteq> certs_of (ParseCertsPEM tk) data)"

lemma wp_bundle:
  assumes "\<And>d. bundle_read srv h b d \<Longrightarrow> Q (Inr d) (h @ [Read (GetConfigMap (BundleNamespace b) (BundleConfigMap b))])"
    and "\<And>e. Q (Inl e) (h @ [Read (GetConfigMap (BundleNamespace b) (BundleConfigMap b))])"
  shows "wp (getCABundleFromConfigmap srv (BundleNamespace b) (BundleConfigMap b) []) Q h"
proof (cases "on_GetConfigMap srv h (BundleNamespace b) (BundleConfigMap b)")
  case (Inl e)
  then show ?thesis using assms(2) by (simp add: getCABundleFromConfigmap_def wp_simps)
next
  case (Inr cm)
  moreover have "bundle_read srv h b d" if "first_key (ConfigData cm) bundle_keys = Some d" for d
    unfolding bundle_read_def using that Inr by (intro exI [of _ "[]"] exI [of _ cm]) simp
  ultimately show ?thesis
    using assms by (cases "first_key (ConfigData cm) bundle_keys")
      (simp_all add: getCABundleFromConfigmap_def wp_simps bundle_keys_def)
qed

lemma wp_custom_ca_loop:
  assumes "pem_roundtrip (ParseCertsPEM tk)"
  shows "wp (custom_ca_loop srv tk bundles all) (\<lambda>r _. \<forall>data. r = Inr data \<longrightarrow>
     certs_of (ParseCertsPEM tk) all \<subseteq> certs_of (ParseCertsPEM tk) data \<and> included srv tk h bundles data) (h @ cs)"
proof (induction bundles arbitrary: all cs)
  case (Cons b bundles)
  let ?Q = "\<lambda>r _. \<forall>data. r = Inr data \<longrightarrow> certs_of (ParseCertsPEM tk) all \<subseteq> certs_of (ParseCertsPEM tk) data \<and>
    included srv tk h (b # bundles) data"
  have step: "wp (case mergeCertificateData (ParseCertsPEM tk) [all, d] of Inl e \<Rightarrow> return (Inl e)
      | Inr merged \<Rightarrow> custom_ca_loop srv tk bundles merged) ?Q (h @ ds)"
    if d: "bundle_read srv (h @ cs) b d" for d ds
  proof (cases "mergeCertificateData (ParseCertsPEM tk) [all, d]")
    case (Inr merged)
    then have "certs_of (ParseCertsPEM tk) merged = certs_of (ParseCertsPEM tk) all \<union> certs_of (ParseCertsPEM tk) d"
      using certs_of_merge [OF assms] by simp
    then show ?thesis
      using Inr bundle_read_append [OF d] Cons.IH [of merged ds] by (auto simp: included_def elim!: wp_mono)
  qed (simp add: wp_simps)
  show ?case
    unfolding custom_ca_loop.simps wp_bind by (rule wp_bundle) (use step in \<open>simp_all add: wp_simps\<close>)
qed (simp add: wp_simps included_def)

lemma reads_getCABundleFromConfigmap:
  "calls_only (\<lambda>c. \<not> is_write c) (getCABundleFromConfigmap srv ns n keys)"
  unfolding getCABundleFromConfigmap_def by (intro calls_intros) simp

lemma reads_autoDetectCAData: "calls_only (\<lambda>c. \<not> is_write c) (autoDetectCAData srv tk ocp url ns)"
  unfolding autoDetectCAData_def ocp_certificate_def getKubeRootCABundle_def getKubeAPIServerSecretName_def
    getCustomKubeAPIServerCertificate_def checkIsIBMCloud_def getValidCertificatesFromURL_def
  by (intro calls_intros reads_getCABundleFromConfigmap) simp_all

lemma reads_getCustomCAData: "calls_only (\<lambda>c. \<not> is_write c) (getCustomCAData srv tk bundles)"
proof -
  have "calls_only (\<lambda>c. \<not> is_write c) (custom_ca_loop srv tk bundles all)" for all
    by (induction bundles arbitrary: all) (auto intro!: calls_intros reads_getCABundleFromConfigmap)
  then show ?thesis unfolding getCustomCAData_def by (intro calls_intros)
qed

lemma wp_getCustomCAData:
  assumes "pem_roundtrip (ParseCertsPEM tk)"
  shows "wp (getCustomCAData srv tk bundles) (\<lambda>r _. \<forall>data. r = Inr data \<longrightarrow> included srv tk h bundles data) (h @ cs)"
  using wp_custom_ca_loop [OF assms, of srv bundles "[]" h cs]
  by (auto simp: getCustomCAData_def wp_simps included_def elim!: wp_mono)

lemma included_merge:
  assumes "pem_roundtrip (ParseCertsPEM tk)" and "mergeCertificateData (ParseCertsPEM tk) bundles = Inr data"
    and "included srv tk h refs d" and "d \<in> set bundles"
  shows "included srv tk h refs data"
proof -
  have "certs_of (ParseCertsPEM tk) d \<subseteq> certs_of (ParseCertsPEM tk) data"
    using certs_of_merge [OF assms(1,2)] assms(4) by auto
  then show ?thesis using assms(3) by (fastforce simp: included_def)
qed

lemma included_merge_first:
  "pem_roundtrip (ParseCertsPEM tk) \<Longrightarrow> mergeCertificateData (ParseCertsPEM tk) [d, e] = Inr data \<Longrightarrow>
   included srv tk h refs d \<Longrightarrow> included srv tk h refs data"
  by (rule included_merge [where d = d]) auto

lemma wp_getKubeAPIServerCADataFromConfig:
  assumes "pem_roundtrip (ParseCertsPEM tk)" and "ServerVerificationStrategy c \<noteq> StrategyUseSystemTruststore"
  shows "wp (getKubeAPIServerCADataFromConfig srv tk ocp url ns c)
    (\<lambda>r _. \<forall>data. r = Inr data \<longrightarrow> included srv tk h (TrustedCABundles c) data) h"
proof -
  have custom: "wp (getCustomCAData srv tk (TrustedCABundles c))
      (\<lambda>r _. \<forall>data. r = Inr data \<longrightarrow> included srv tk h (TrustedCABundles c) data) (h @ cs)" for cs
    by (rule wp_getCustomCAData [OF assms(1)])
  have "wp (autoDetectCAData srv tk ocp url ns) (\<lambda>d. wp (case d of Inl e \<Rightarrow> return (Inl e)
      | Inr detectedCA \<Rightarrow> do {
          c \<leftarrow> getCustomCAData srv tk (TrustedCABundles c);
          case c of Inl e \<Rightarrow> return (Inl e)
          | Inr customCustomCA \<Rightarrow> return (mergeCertificateData (ParseCertsPEM tk) [detectedCA, customCustomCA]) })
      (\<lambda>r _. \<forall>data. r = Inr data \<longrightarrow> included srv tk h (TrustedCABundles c) data)) h"
  proof (rule wp_calls_only [OF reads_autoDetectCAData])
    fix d cs
    show "wp (case d of Inl e \<Rightarrow> return (Inl e)
      | Inr detectedCA \<Rightarrow> do {
          c \<leftarrow> getCustomCAData srv tk (TrustedCABundles c);
          case c of Inl e \<Rightarrow> return (Inl e)
          | Inr customCustomCA \<Rightarrow> return (mergeCertificateData (ParseCertsPEM tk) [detectedCA, customCustomCA]) })
      (\<lambda>r _. \<forall>data. r = Inr data \<longrightarrow> included srv tk h (TrustedCABundles c) data) (h @ cs)"
    proof (cases d)
      case (Inr detectedCA)
      then show ?thesis
        by (simp add: wp_bind, intro wp_mono [OF custom])
          (auto simp: wp_simps intro: included_merge [OF assms(1)] split: sum.split)
    qed (simp add: wp_simps)
  qed
  then show ?thesis
    using custom [of "[]"] assms(2) by (simp add: getKubeAPIServerCADataFromConfig_def wp_simps)
qed

text \<open>
  Every bundle that the klusterlet configuration trusts ends up in the kubeconfig: when the
  certificate authorities could be determined and the system's trust store is not asked for, the
  result has all certificates of each trusted config map as a read of the same run found it. The
  hypothesis on the parser is the round trip of PEM.
\<close>

theorem trusted_bundles_included:
  assumes "result (GetBootstrapCAData srv tk ocp url ns (Some kc)) h = Inr caData"
    and "HubKubeAPIServerConfig kc = Some c" and "ServerVerificationStrategy c \<noteq> StrategyUseSystemTruststore"
    and "pem_roundtrip (ParseCertsPEM tk)" and "b \<in> set (TrustedCABundles c)"
  shows "\<exists>cs cm d. on_GetConfigMap srv (h @ cs) (BundleNamespace b) (BundleConfigMap b) = Inr cm \<and>
    first_key (ConfigData cm) [''ca-bundle.crt'', ''ca.crt'', ''tls.crt''] = Some d \<and>
    certs_of (ParseCertsPEM tk) d \<subseteq> certs_of (ParseCertsPEM tk) caData"
proof -
  have "wp (GetBootstrapCAData srv tk ocp url ns (Some kc))
      (\<lambda>r _. \<forall>data. r = Inr data \<longrightarrow> included srv tk h (TrustedCABundles c) data) h"
    using assms(2,3) unfolding GetBootstrapCAData_def
    by (simp add: uses_system_truststore_def getKubeAPIServerCAData_def wp_simps,
        intro wp_mono [OF wp_getKubeAPIServerCADataFromConfig [OF assms(4,3)]])
      (auto simp: wp_simps split: sum.split intro: included_merge_first [OF assms(4), rotated])
  with assms(1) have "included srv tk h (TrustedCABundles c) caData" by (simp add: wp_run result_def)
  with assms(5) show ?thesis by (fastforce simp: included_def bundle_read_def bundle_keys_def)
qed

definition ca_server :: server where
  "ca_server = empty_server\<lparr>on_GetConfigMap := (\<lambda>_ ns n. Inr (ObjectMeta.extend (new_meta ns n)
     \<lparr>ConfigData = fmap_of_list [(''ca.crt'', encode_certs [n])]\<rparr>))\<rparr>"

definition trusting_config :: KlusterletConfig where
  "trusting_config = (new_klusterlet_config ''k'')\<lparr>HubKubeAPIServerConfig := Some
     \<lparr>KASURL = ''https://hub'', KASProxyURL = [],
      TrustedCABundles = [\<lparr>BundleName = ''b'', BundleNamespace = ''ns'', BundleConfigMap = ''cm''\<rparr>],
      ServerVerificationStrategy = StrategyUseCustomCABundles\<rparr>\<rparr>"

theorem trusted_bundles_included_witness:
  "\<exists>caData. result (GetBootstrapCAData ca_server sample_tools False ''https://hub'' ''c1'' (Some trusting_config)) [] = Inr caData \<and>
     certs_of (ParseCertsPEM sample_tools) (encode_certs [''cm'']) \<subseteq> certs_of (ParseCertsPEM sample_tools) caData"
proof -
  let ?b = "\<lparr>BundleName = ''b'', BundleNamespace = ''ns'', BundleConfigMap = ''cm''\<rparr>"
  have r: "result (GetBootstrapCAData ca_server sample_tools False ''https://hub'' ''c1'' (Some trusting_config)) [] =
      Inr (encode_certs [''cm''])"
    by code_simp
  moreover have "HubKubeAPIServerConfig trusting_config = Some \<lparr>KASURL = ''https://hub'', KASProxyURL = [],
      TrustedCABundles = [?b], ServerVerificationStrategy = StrategyUseCustomCABundles\<rparr>"
    by (simp add: trusting_config_def)
  moreover have "pem_roundtrip (ParseCertsPEM sample_tools)"
    by (simp add: sample_tools_def pem_roundtrip_def parse_encoded_encode)
  ultimately show ?thesis
    using trusted_bundles_included [of ca_server sample_tools False "''https://hub''" "''c1''" trusting_config "[]" _ _ ?b]
    by (auto simp: StrategyUseCustomCABundles_def StrategyUseSystemTruststore_def)
qed

end
