(* ===== verification/Klusterlet_Chart.thy ===== *)
theory Klusterlet_Chart
  imports Bootstrap_Kubeconfig Image_Registry Render Csr Import_Helper
begin

text \<open>
  The manifests of the klusterlet: \<open>KlusterletManifestsConfig.Generate\<close> of \<open>pkg/bootstrap/render.go\<close>
  and the side car of \<open>pkg/bootstrap/sidecar.go\<close>. \<open>chart\<close> is the configuration of the Helm chart; what
  libraries do with it (rendering the chart, YAML, templates) are fields of \<open>renderer\<close>, and so is
  what the process was started with. \<open>Generate\<close> is cut at its comments into the steps that fill in
  the configuration, composed by \<open>and_then\<close> as the early returns of the function compose them.
\<close>

section \<open>Data\<close>

record SecurityContext =
  Drop :: "string list"
  Privileged :: bool
  RunAsNonRoot :: bool
  ReadOnlyRootFilesystem :: bool
  AllowPrivilegeEscalation :: bool

record chart =
  CreateNamespace :: bool
  ReplicaCount :: int
  OperatorImage :: string
  RegistrationImage :: string
  WorkImage :: string
  ImagePullPolicy :: string
  CreateImageCredentials :: bool
  DockerConfigJson :: string
  PodRunAsNonRoot :: bool
  ChartSecurityContext :: SecurityContext
  ResourceLimits :: "(string \<times> string) list"
  ResourceRequests :: "(string \<times> string) list"
  ChartNodeSelector :: smap
  ChartTolerations :: "Toleration list"
  ClusterName :: string
  Mode :: string
  KlusterletName :: string
  KlusterletNamespace :: string
  KlusterletNodePlacement :: NodePlacement
  ClusterAnnotations :: smap
  RegistrationFeatureGates :: "FeatureGate list"
  BootstrapKubeConfigs :: "(string \<times> LocalSecretsConfig option) option"
  ClusterClaims :: "(int \<times> string list) option" \<comment> \<open>the maximum and the reserved suffixes\<close>
  ChartRegistrationDriver :: "RegistrationDriver option"
  ChartAddOnRegistrationDriver :: "string option"
  EvictionGracePeriod :: "int option"
  WorkFeatureGates :: "FeatureGate list"
  StatusSyncInterval :: "int option"
  PriorityClassName :: string
  EnableSyncLabels :: bool
  BootstrapHubKubeConfig :: string
  GRPCConfig :: string
  MultiHubBootstrapHubKubeConfigs :: "(string \<times> string) list"
  ExternalManagedKubeConfig :: string
  NoOperator :: bool

record Container =
  ContainerName :: string
  ContainerImage :: string
  ContainerImagePullPolicy :: string
  Command :: "string list"
  EnvFieldRefs :: "(string \<times> string) list"
  ContainerSecurityContext :: "SecurityContext option"
  ContainerRequests :: "(string \<times> string) list"
  ContainerOther :: string

record DeploymentDoc =
  Containers :: "Container list"
  DeploymentOther :: string

record renderer =
  Getenv :: "string \<Rightarrow> string"
  EnableKlusterletNetworkPolicies :: bool
  parse_registries :: "string \<Rightarrow> err + ImageRegistries"
  parse_node_selector :: "string \<Rightarrow> err + smap"
  parse_tolerations :: "string \<Rightarrow> err + Toleration list"
  ParseDuration :: "string \<Rightarrow> err + int"
  marshal_chart :: "chart \<Rightarrow> err + string"
  marshal_grpc :: "string \<Rightarrow> string \<Rightarrow> string \<Rightarrow> err + string"
  RenderKlusterletChart :: "chart \<Rightarrow> string \<Rightarrow> err + string list \<times> string list"
  asset :: "string \<Rightarrow> err + string" \<comment> \<open>the embedded files\<close>
  execute_chart_template :: "string \<Rightarrow> chart \<Rightarrow> string option" \<comment> \<open>nothing when the template panics\<close>
  execute_hub_template :: "string \<Rightarrow> string \<times> string \<times> string \<Rightarrow> string option"
  kind_and_name :: "string \<Rightarrow> (string \<times> string) option" \<comment> \<open>of a document that parses\<close>
  unmarshal_deployment :: "string \<Rightarrow> err + DeploymentDoc"
  marshal_deployment :: "DeploymentDoc \<Rightarrow> err + string"

text \<open>\<open>newKlusterletChartConfig\<close>.\<close>

definition newKlusterletChartConfig :: "string \<Rightarrow> string \<Rightarrow> string \<Rightarrow> chart" where
  "newKlusterletChartConfig installMode clusterName bootstrapKubeConfig = \<lparr>
     CreateNamespace = \<not> (installMode = InstallModeHosted \<or> installMode = InstallModeSingletonHosted),
     ReplicaCount = 1, OperatorImage = [], RegistrationImage = [], WorkImage = [],
     ImagePullPolicy = ''IfNotPresent'', CreateImageCredentials = True, DockerConfigJson = [],
     PodRunAsNonRoot = True,
     ChartSecurityContext = \<lparr>Drop = [''ALL''], Privileged = False, RunAsNonRoot = True,
       ReadOnlyRootFilesystem = True, AllowPrivilegeEscalation = False\<rparr>,
     ResourceLimits = [(''memory'', ''2Gi'')],
     ResourceRequests = [(''memory'', ''64Mi''), (''cpu'', ''50m'')],
     ChartNodeSelector = fmempty, ChartTolerations = [], ClusterName = clusterName, Mode = installMode,
     KlusterletName = [], KlusterletNamespace = [],
     KlusterletNodePlacement = \<lparr>NodeSelector = fmempty, Tolerations = []\<rparr>, ClusterAnnotations = fmempty,
     RegistrationFeatureGates = [], BootstrapKubeConfigs = None, ClusterClaims = None,
     ChartRegistrationDriver = None, ChartAddOnRegistrationDriver = None, EvictionGracePeriod = None,
     WorkFeatureGates = [], StatusSyncInterval = None, PriorityClassName = [], EnableSyncLabels = False,
     BootstrapHubKubeConfig = bootstrapKubeConfig, GRPCConfig = [], MultiHubBootstrapHubKubeConfigs = [],
     ExternalManagedKubeConfig = [], NoOperator = False\<rparr>"

record KlusterletManifestsConfig =
  chartConfig :: chart
  managedCluster :: "ManagedCluster option"
  klusterletConfig :: "KlusterletConfig option"

definition NewKlusterletManifestsConfig :: "string \<Rightarrow> string \<Rightarrow> string \<Rightarrow> KlusterletManifestsConfig" where
  "NewKlusterletManifestsConfig installMode clusterName bootstrapKubeConfig =
     \<lparr>chartConfig = newKlusterletChartConfig installMode clusterName bootstrapKubeConfig,
      managedCluster = None, klusterletConfig = None\<rparr>"

definition WithKlusterletClusterAnnotations ::
  "smap \<Rightarrow> KlusterletManifestsConfig \<Rightarrow> KlusterletManifestsConfig" where
  "WithKlusterletClusterAnnotations a c = c\<lparr>chartConfig := (chartConfig c)\<lparr>ClusterAnnotations := a\<rparr>\<rparr>"

definition WithManagedCluster ::
  "ManagedCluster \<Rightarrow> KlusterletManifestsConfig \<Rightarrow> KlusterletManifestsConfig" where
  "WithManagedCluster mc c = c\<lparr>managedCluster := Some mc\<rparr>"

definition WithKlusterletConfig ::
  "KlusterletConfig option \<Rightarrow> KlusterletManifestsConfig \<Rightarrow> KlusterletManifestsConfig" where
  "WithKlusterletConfig kc c = c\<lparr>klusterletConfig := kc\<rparr>"

definition WithoutImagePullSecretGenerate :: "KlusterletManifestsConfig \<Rightarrow> KlusterletManifestsConfig" where
  "WithoutImagePullSecretGenerate c = c\<lparr>chartConfig := (chartConfig c)\<lparr>CreateImageCredentials := False\<rparr>\<rparr>"

definition WithPriorityClassName ::
  "string \<Rightarrow> KlusterletManifestsConfig \<Rightarrow> KlusterletManifestsConfig" where
  "WithPriorityClassName priorityClassName c =
     c\<lparr>chartConfig := (chartConfig c)\<lparr>PriorityClassName := priorityClassName\<rparr>\<rparr>"

section \<open>Steps that fill in the chart\<close>

text \<open>A step that may fail, and the next one: \<open>if err != nil { return err }\<close>.\<close>

definition and_then :: "(call, err + 'a) prog \<Rightarrow> ('a \<Rightarrow> (call, err + 'b) prog) \<Rightarrow> (call, err + 'b) prog" where
  "and_then m f = do { r \<leftarrow> m; case r of Inl e \<Rightarrow> return (Inl e) | Inr x \<Rightarrow> f x }"

definition is_hosted_mode :: "string \<Rightarrow> bool" where
  "is_hosted_mode mode \<longleftrightarrow> mode = InstallModeHosted \<or> mode = InstallModeSingletonHosted"

text \<open>The settings of the configuration that only count outside hosted mode.\<close>

record kc_settings =
  kcRegistries :: "Registry list"
  kcNodePlacement :: "NodePlacement option"
  kcImagePullSecret :: "string \<times> string"
  kcEvictionGracePeriod :: string

definition settings_of :: "string \<Rightarrow> KlusterletConfig option \<Rightarrow> err + kc_settings" where
  "settings_of installMode config = (
     let unset = \<lparr>kcRegistries = [], kcNodePlacement = None, kcImagePullSecret = ([], []), kcEvictionGracePeriod = []\<rparr> in
     if is_hosted_mode installMode then Inr unset
     else if installMode = InstallModeDefault \<or> installMode = InstallModeSingleton then
       (case config of
          None \<Rightarrow> Inr unset
        | Some kc \<Rightarrow> Inr \<lparr>kcRegistries = (case KCRegistries kc of None \<Rightarrow> [] | Some rs \<Rightarrow> rs),
            kcNodePlacement = KCNodePlacement kc,
            kcImagePullSecret = (RefObjNamespace (KCPullSecret kc), RefObjName (KCPullSecret kc)),
            kcEvictionGracePeriod = KCEvictionGracePeriod kc\<rparr>)
     else Inl (ErrorString (''invalid install mode: '' @ installMode)))"

definition cluster_annotations :: "ManagedCluster option \<Rightarrow> smap" where
  "cluster_annotations mc = (case mc of None \<Rightarrow> fmempty | Some c \<Rightarrow> Annotations c)"

definition set_images :: "renderer \<Rightarrow> kc_settings \<Rightarrow> smap \<Rightarrow> chart \<Rightarrow> err + chart" where
  "set_images rd st annotations ch =
     (case getKlusterletAgentImages (parse_registries rd) (Getenv rd) (kcRegistries st) annotations of
        Inl e \<Rightarrow> Inl e
      | Inr images \<Rightarrow> Inr (ch\<lparr>OperatorImage := goidx images RegistrationOperatorImageEnvVarName,
          RegistrationImage := goidx images RegistrationImageEnvVarName,
          WorkImage := goidx images WorkImageEnvVarName\<rparr>))"

definition choose_node_selector :: "renderer \<Rightarrow> kc_settings \<Rightarrow> smap \<Rightarrow> chart \<Rightarrow> err + smap" where
  "choose_node_selector rd st annotations ch =
     (let from_annotations = (case GetNodeSelectorFromManagedClusterAnnotations (parse_node_selector rd) annotations of
            Inl e \<Rightarrow> Inl (ErrorString (''get nodeSelector for cluster '' @ ClusterName ch @ '' failed: '' @ Error e))
          | Inr s \<Rightarrow> Inr s) in
      case kcNodePlacement st of
        Some np \<Rightarrow> if NodeSelector np \<noteq> fmempty then Inr (NodeSelector np) else from_annotations
      | None \<Rightarrow> from_annotations)"

definition set_node_selector :: "server \<Rightarrow> renderer \<Rightarrow> kc_settings \<Rightarrow> smap \<Rightarrow> chart \<Rightarrow> (call, err + chart) prog" where
  "set_node_selector srv rd st annotations ch =
     (case choose_node_selector rd st annotations ch of
        Inl e \<Rightarrow> return (Inl e)
      | Inr nodeSelector \<Rightarrow> do {
          v \<leftarrow> ValidateNodeSelector srv nodeSelector;
          return (case v of
            Some e \<Rightarrow> Inl (ErrorString (''invalid nodeSelector annotation '' @ Error e))
          | None \<Rightarrow> Inr (ch\<lparr>ChartNodeSelector := nodeSelector,
              KlusterletNodePlacement := (KlusterletNodePlacement ch)\<lparr>NodeSelector := nodeSelector\<rparr>\<rparr>)) })"

definition choose_tolerations :: "renderer \<Rightarrow> kc_settings \<Rightarrow> smap \<Rightarrow> chart \<Rightarrow> err + Toleration list" where
  "choose_tolerations rd st annotations ch =
     (let from_annotations = (case GetTolerationsFromManagedClusterAnnotations (parse_tolerations rd) annotations of
            Inl e \<Rightarrow> Inl (ErrorString (''get tolerations for cluster '' @ ClusterName ch @ '' failed: '' @ Error e))
          | Inr ts \<Rightarrow> Inr ts) in
      case kcNodePlacement st of
        Some np \<Rightarrow> if length (Tolerations np) \<noteq> 0 then Inr (Tolerations np) else from_annotations
      | None \<Rightarrow> from_annotations)"

definition set_tolerations :: "renderer \<Rightarrow> kc_settings \<Rightarrow> smap \<Rightarrow> chart \<Rightarrow> err + chart" where
  "set_tolerations rd st annotations ch =
     (case choose_tolerations rd st annotations ch of
        Inl e \<Rightarrow> Inl e
      | Inr ts \<Rightarrow>
          (case ValidateTolerations ts of
             Some e \<Rightarrow> Inl (ErrorString (''invalid tolerations annotation '' @ Error e))
           | None \<Rightarrow> Inr (ch\<lparr>ChartTolerations := ts,
               KlusterletNodePlacement := (KlusterletNodePlacement ch)\<lparr>Tolerations := ts\<rparr>\<rparr>)))"

definition set_eviction :: "renderer \<Rightarrow> kc_settings \<Rightarrow> chart \<Rightarrow> err + chart" where
  "set_eviction rd st ch = (
     let period = (if kcEvictionGracePeriod st = AppliedManifestWorkEvictionGracePeriodInfinite
       then AppliedManifestWorkEvictionGracePeriod100Years else kcEvictionGracePeriod st) in
     if period = [] then Inr (ch\<lparr>EvictionGracePeriod := None\<rparr>)
     else (case ParseDuration rd period of
         Inl e \<Rightarrow> Inl (ErrorString (''parse appliedManifestWorkEvictionGracePeriod '' @ period @ '' failed: '' @ Error e))
       | Inr d \<Rightarrow> Inr (ch\<lparr>EvictionGracePeriod := Some d\<rparr>)))"

definition set_pull_secret :: "server \<Rightarrow> renderer \<Rightarrow> kc_settings \<Rightarrow> smap \<Rightarrow> chart \<Rightarrow> (call, err + chart) prog" where
  "set_pull_secret srv rd st annotations ch =
     (if \<not> CreateImageCredentials ch then return (Inr ch)
      else do {
        r \<leftarrow> getImagePullSecret srv (parse_registries rd) (Getenv rd) (kcImagePullSecret st) annotations;
        return (case r of
          Inl e \<Rightarrow> Inl e
        | Inr imagePullSecret \<Rightarrow>
            if length (goidx (Data imagePullSecret) ''.dockerconfigjson'') = 0
            then Inl (ErrorString ''imagePullSecret.Data is empty'')
            else Inr (ch\<lparr>DockerConfigJson := goidx (Data imagePullSecret) ''.dockerconfigjson''\<rparr>)) })"

definition spokeRegistrationFeatures :: "string list" where
  "spokeRegistrationFeatures =
     [''ClusterClaim'', ''ClusterProperty'', ''AddonManagement'', ''V1beta1CSRAPICompatibility'', ''MultipleHubs'']"

definition spokeWorkFeatures :: "string list" where
  "spokeWorkFeatures = [''ExecutorValidatingCaches'', ''RawFeedbackJsonString'']"

fun add_feature_gates :: "FeatureGate list \<Rightarrow> chart \<Rightarrow> chart" where
  "add_feature_gates [] ch = ch"
| "add_feature_gates (f # fs) ch = add_feature_gates fs
     (if Feature f \<in> set spokeRegistrationFeatures
      then ch\<lparr>RegistrationFeatureGates := RegistrationFeatureGates ch @ [f]\<rparr>
      else if Feature f \<in> set spokeWorkFeatures then ch\<lparr>WorkFeatureGates := WorkFeatureGates ch @ [f]\<rparr>
      else ch)"

definition set_feature_gates :: "renderer \<Rightarrow> KlusterletConfig option \<Rightarrow> chart \<Rightarrow> chart" where
  "set_feature_gates rd config ch = (
     let ch1 = (case config of None \<Rightarrow> ch | Some kc \<Rightarrow> add_feature_gates (KCFeatureGates kc) ch) in
     if EnableKlusterletNetworkPolicies rd
     then ch1\<lparr>RegistrationFeatureGates := RegistrationFeatureGates ch1 @
       [\<lparr>Feature = ''NetworkPolicies'', FeatureMode = ''Enable''\<rparr>]\<rparr>
     else ch1)"

definition current_hub :: string where
  "current_hub = DefaultBootstrapHubKubeConfigSecretName @ ''-current-hub''"

definition includes_current_hub :: "MultipleHubs \<Rightarrow> bool" where
  "includes_current_hub m \<longleftrightarrow> GenBootstrapKubeConfigStrategy m = ''IncludeCurrentHub''"

definition add_hubs ::
  "server \<Rightarrow> renderer \<Rightarrow> MultipleHubs \<Rightarrow> LocalSecretsConfig \<Rightarrow> chart \<Rightarrow> (call, err + chart) prog" where
  "add_hubs srv rd m secrets ch = (
     let gates = RegistrationFeatureGates ch;
         gates1 = (if list_ex (\<lambda>f. Feature f = ''MultipleHubs'') gates then gates
           else gates @ [\<lparr>Feature = ''MultipleHubs'', FeatureMode = ''Enable''\<rparr>]);
         secrets1 = (if includes_current_hub m
           then secrets\<lparr>KubeConfigSecrets := KubeConfigSecrets secrets @ [current_hub]\<rparr> else secrets) in do {
       r \<leftarrow> convertKubeConfigSecrets srv (Getenv rd PodNamespaceEnvVarName) (KubeConfigSecrets secrets);
       return (case r of
         Inl e \<Rightarrow> Inl e
       | Inr bootstrapKubeConfigSecrets \<Rightarrow> Inr (ch\<lparr>RegistrationFeatureGates := gates1,
           BootstrapKubeConfigs := Some (BootstrapType m, Some secrets1),
           MultiHubBootstrapHubKubeConfigs := bootstrapKubeConfigSecrets @
             (if includes_current_hub m then [(current_hub, BootstrapHubKubeConfig ch)] else [])\<rparr>)) })"

definition set_multiple_hubs ::
  "server \<Rightarrow> renderer \<Rightarrow> ManagedCluster option \<Rightarrow> KlusterletConfig option \<Rightarrow> chart \<Rightarrow> (call, err + chart) prog" where
  "set_multiple_hubs srv rd mc config ch = (
     let localCluster = (case mc of None \<Rightarrow> False | Some c \<Rightarrow> is_self_managed c) in
     case config of
       None \<Rightarrow> return (Inr ch)
     | Some kc \<Rightarrow>
         (case MultipleHubsConfig kc of
            None \<Rightarrow> return (Inr ch)
          | Some m \<Rightarrow>
              if localCluster \<or> BootstrapType m \<noteq> ''LocalSecrets'' then return (Inr ch)
              else (case LocalSecrets m of
                  None \<Rightarrow> return (Inl (ErrorString ''local secrets should be set''))
                | Some secrets \<Rightarrow> add_hubs srv rd m secrets ch)))"

definition reservedClusterClaimSuffixes :: "string list" where
  "reservedClusterClaimSuffixes = [''openshift.io'', ''open-cluster-management.io'']"

definition setClusterClaimConfiguation :: "KlusterletConfig option \<Rightarrow> chart \<Rightarrow> chart" where
  "setClusterClaimConfiguation config ch = (
     let maximum = (case config of
       None \<Rightarrow> 0 | Some kc \<Rightarrow> (case MaxCustomClusterClaims kc of None \<Rightarrow> 0 | Some n \<Rightarrow> n)) in
     ch\<lparr>ClusterClaims := Some (maximum, reservedClusterClaimSuffixes)\<rparr>)"

definition set_registration_driver ::
  "server \<Rightarrow> renderer \<Rightarrow> codec \<Rightarrow> KlusterletConfig option \<Rightarrow> chart \<Rightarrow> (call, err + chart) prog" where
  "set_registration_driver srv rd cd config ch =
     (case config of
        None \<Rightarrow> return (Inr ch)
      | Some kc \<Rightarrow>
          (case KCRegistrationDriver kc of
             None \<Rightarrow> return (Inr ch)
           | Some d \<Rightarrow>
               if AuthType d \<noteq> ''grpc'' then return (Inr (ch\<lparr>ChartRegistrationDriver := Some d\<rparr>))
               else (case ParseKubeConfigData cd (BootstrapHubKubeConfig ch) of
                   Inl e \<Rightarrow> return (Inl (ErrorString (''failed to parse bootstrap kubeconfig: '' @ Error e)))
                 | Inr p \<Rightarrow> do {
                     c \<leftarrow> GetGRCPCaBundleFromConfigMap srv;
                     case c of
                       Inl e \<Rightarrow> return (Inl (ErrorString (''failed to get ca from hub ns: '' @ Error e)))
                     | Inr caData \<Rightarrow> do {
                         g \<leftarrow> buildGRPCConfigData srv (marshal_grpc rd) (PKToken p) caData;
                         return (case g of
                           Inl e \<Rightarrow> Inl (ErrorString (''failed to get GRPC config yaml: '' @ Error e))
                         | Inr grpc \<Rightarrow> Inr (ch\<lparr>ChartRegistrationDriver := Some d, GRPCConfig := grpc\<rparr>)) } })))"

definition set_addon_driver :: "KlusterletConfig option \<Rightarrow> chart \<Rightarrow> chart" where
  "set_addon_driver config ch =
     (case config of
        None \<Rightarrow> ch
      | Some kc \<Rightarrow> (case KCAddOnRegistrationDriver kc of None \<Rightarrow> ch | Some d \<Rightarrow> ch\<lparr>ChartAddOnRegistrationDriver := Some d\<rparr>))"

definition set_sync_interval :: "KlusterletConfig option \<Rightarrow> chart \<Rightarrow> chart" where
  "set_sync_interval config ch =
     (case config of
        None \<Rightarrow> ch
      | Some kc \<Rightarrow> (case WorkStatusSyncInterval kc of None \<Rightarrow> ch | Some i \<Rightarrow> ch\<lparr>StatusSyncInterval := Some i\<rparr>))"

definition fill_chart ::
  "server \<Rightarrow> renderer \<Rightarrow> codec \<Rightarrow> kc_settings \<Rightarrow> KlusterletManifestsConfig \<Rightarrow> (call, err + chart) prog" where
  "fill_chart srv rd cd st c = (
     let mc = managedCluster c; config = klusterletConfig c; annotations = cluster_annotations mc;
         ch = (chartConfig c)\<lparr>NoOperator := installNoOperator (Mode (chartConfig c)) config\<rparr> in
     and_then (return (set_images rd st annotations ch)) (\<lambda>ch.
     and_then (set_node_selector srv rd st annotations ch) (\<lambda>ch.
     and_then (return (set_tolerations rd st annotations ch)) (\<lambda>ch.
     let (kname, kns) = getKlusterletNamespaceName config (ClusterName ch) annotations (Mode ch);
         ch = ch\<lparr>KlusterletName := kname, KlusterletNamespace := kns\<rparr> in
     and_then (return (set_eviction rd st ch)) (\<lambda>ch.
     and_then (set_pull_secret srv rd st annotations ch) (\<lambda>ch.
     and_then (set_multiple_hubs srv rd mc config (set_feature_gates rd config ch)) (\<lambda>ch.
     and_then (set_registration_driver srv rd cd config (setClusterClaimConfiguation config ch)) (\<lambda>ch.
     return (Inr (set_sync_interval config (set_addon_driver config ch)))))))))))"

section \<open>Rendering\<close>

definition additionalClusterRoleFiles :: "string list" where
  "additionalClusterRoleFiles = [''manifests/klusterlet/clusterrole_bootstrap.yaml'',
     ''manifests/klusterlet/clusterrole_aggregate.yaml'']"

definition tlsProfileSyncRBACFiles :: "string list" where
  "tlsProfileSyncRBACFiles = [''manifests/klusterlet/clusterrole_tls_profile_sync.yaml'']"

definition hubFiles :: "string list" where
  "hubFiles = [''manifests/hub/managedcluster-service-account.yaml'',
     ''manifests/hub/managedcluster-clusterrole.yaml'', ''manifests/hub/managedcluster-clusterrolebinding.yaml'']"

text \<open>Nothing when a template panics.\<close>

fun filesToTemplateBytes :: "renderer \<Rightarrow> string list \<Rightarrow> chart \<Rightarrow> (err + string) option" where
  "filesToTemplateBytes rd [] config = Some (Inr [])"
| "filesToTemplateBytes rd (file # files) config =
     (case asset rd file of
        Inl e \<Rightarrow> Some (Inl e)
      | Inr b \<Rightarrow>
          (case execute_chart_template rd b config of
             None \<Rightarrow> None
           | Some text \<Rightarrow> map_option (map_sum id (\<lambda>rest. YamlSperator @ text @ rest))
               (filesToTemplateBytes rd files config)))"

fun FilesToObjects :: "renderer \<Rightarrow> codec \<Rightarrow> string list \<Rightarrow> string \<times> string \<times> string \<Rightarrow> (err + obj list) option" where
  "FilesToObjects rd cd [] config = Some (Inr [])"
| "FilesToObjects rd cd (file # files) config =
     (case asset rd file of
        Inl e \<Rightarrow> Some (Inl e)
      | Inr template \<Rightarrow>
          (case Option.bind (execute_hub_template rd template config) (MustCreateObject cd) of
             None \<Rightarrow> None
           | Some x \<Rightarrow> map_option (map_sum id (\<lambda>xs. x # xs)) (FilesToObjects rd cd files config)))"

definition GenerateHubBootstrapRBACObjects :: "renderer \<Rightarrow> codec \<Rightarrow> string \<Rightarrow> (err + obj list) option" where
  "GenerateHubBootstrapRBACObjects rd cd managedClusterName =
     FilesToObjects rd cd hubFiles (managedClusterName, managedClusterName, GetBootstrapSAName managedClusterName)"

definition tls_sidecar :: "string \<Rightarrow> SecurityContext \<Rightarrow> Container" where
  "tls_sidecar img securityContext = \<lparr>ContainerName = ''tls-profile-sync'', ContainerImage = img,
     ContainerImagePullPolicy = ''IfNotPresent'', Command = [''/usr/local/bin/tls-profile-sync''],
     EnvFieldRefs = [(''POD_NAMESPACE'', ''metadata.namespace'')],
     ContainerSecurityContext = Some securityContext,
     ContainerRequests = [(''memory'', ''32Mi''), (''cpu'', ''10m'')], ContainerOther = []\<rparr>"

fun injectTLSProfileSyncSidecar ::
  "renderer \<Rightarrow> string list \<Rightarrow> string \<Rightarrow> SecurityContext \<Rightarrow> err + string list" where
  "injectTLSProfileSyncSidecar rd [] img securityContext = Inr []"
| "injectTLSProfileSyncSidecar rd (x # objects) img securityContext =
     (if kind_and_name rd x \<noteq> Some (''Deployment'', ''klusterlet'')
      then map_sum id (\<lambda>xs. x # xs) (injectTLSProfileSyncSidecar rd objects img securityContext)
      else (case unmarshal_deployment rd x of
          Inl e \<Rightarrow> Inl (ErrorString (''failed to unmarshal klusterlet Deployment: '' @ Error e))
        | Inr deployment \<Rightarrow>
            (case marshal_deployment rd
                (deployment\<lparr>Containers := Containers deployment @ [tls_sidecar img securityContext]\<rparr>) of
               Inl e \<Rightarrow> Inl (ErrorString (''failed to marshal modified klusterlet Deployment: '' @ Error e))
             | Inr modified \<Rightarrow> Inr (modified # objects))))"

definition doc_kind :: "renderer \<Rightarrow> string \<Rightarrow> string option" where
  "doc_kind rd x = map_option fst (kind_and_name rd x)"

definition append_bytes :: "string \<Rightarrow> (err + string) option \<Rightarrow> (err + string) option" where
  "append_bytes b = map_option (map_sum id (\<lambda>more. b @ more))"

text \<open>The side car and its role, for OpenShift clusters: the objects and the additional documents.\<close>

definition with_sidecar ::
  "renderer \<Rightarrow> kc_settings \<Rightarrow> KlusterletManifestsConfig \<Rightarrow> chart \<Rightarrow> string list \<Rightarrow> string \<Rightarrow>
   (err + string list \<times> string) option" where
  "with_sidecar rd st c ch objects additional =
     (if \<not> isManagedClusterOpenShift (managedCluster c) then Some (Inr (objects, additional))
      else (case getTLSProfileSyncImage (parse_registries rd) (Getenv rd) (kcRegistries st)
          (cluster_annotations (managedCluster c)) of
          Inl e \<Rightarrow> Some (Inl e)
        | Inr tlsSyncImage \<Rightarrow>
            (case injectTLSProfileSyncSidecar rd objects tlsSyncImage (ChartSecurityContext ch) of
               Inl e \<Rightarrow> Some (Inl e)
             | Inr objects' \<Rightarrow> map_option (map_sum id (\<lambda>more. (objects', additional @ more)))
                 (filesToTemplateBytes rd tlsProfileSyncRBACFiles ch))))"

text \<open>The manifests, the CRDs and the values of the chart.\<close>

definition render_chart ::
  "renderer \<Rightarrow> kc_settings \<Rightarrow> KlusterletManifestsConfig \<Rightarrow> chart \<Rightarrow> (err + string \<times> string \<times> string) option" where
  "render_chart rd st c ch =
     (case marshal_chart rd ch of
        Inl e \<Rightarrow> Some (Inl (ErrorString (''failed to marshal chart config: '' @ Error e)))
      | Inr valuesBytes \<Rightarrow>
          (case RenderKlusterletChart rd ch (KlusterletNamespace ch) of
             Inl e \<Rightarrow> Some (Inl e)
           | Inr (crds, objects) \<Rightarrow>
               if NoOperator ch then Some (Inr (AggregateObjects (doc_kind rd) objects, [], valuesBytes))
               else (case filesToTemplateBytes rd additionalClusterRoleFiles ch of
                   None \<Rightarrow> None
                 | Some (Inl e) \<Rightarrow> Some (Inl e)
                 | Some (Inr additional) \<Rightarrow>
                     (case with_sidecar rd st c ch objects additional of
                        None \<Rightarrow> None
                      | Some (Inl e) \<Rightarrow> Some (Inl e)
                      | Some (Inr (objects', additional')) \<Rightarrow> Some (Inr
                          (AggregateObjects (doc_kind rd) objects' @ additional',
                           AggregateObjects (doc_kind rd) crds, valuesBytes))))))"

definition Generate ::
  "server \<Rightarrow> renderer \<Rightarrow> codec \<Rightarrow> KlusterletManifestsConfig \<Rightarrow>
   (call, (err + string \<times> string \<times> string) option) prog" where
  "Generate srv rd cd c =
     (case settings_of (Mode (chartConfig c)) (klusterletConfig c) of
        Inl e \<Rightarrow> return (Some (Inl e))
      | Inr st \<Rightarrow> do {
          r \<leftarrow> fill_chart srv rd cd st c;
          return (case r of Inl e \<Rightarrow> Some (Inl e) | Inr ch \<Rightarrow> render_chart rd st c ch) })"

section \<open>Effects\<close>

lemma calls_and_then [calls_intros]:
  "calls_only P m \<Longrightarrow> (\<And>x. calls_only P (f x)) \<Longrightarrow> calls_only P (and_then m f)"
  unfolding and_then_def by (intro calls_intros)

lemma wp_and_then [wp_simps]:
  "wp (and_then m f) Q h = wp m (\<lambda>r h'. case r of Inl e \<Rightarrow> Q (Inl e) h' | Inr x \<Rightarrow> wp (f x) Q h') h"
  by (auto simp: and_then_def wp_def split: prod.splits sum.splits)

lemma calls_only_list [calls_intros]:
  "\<lbrakk>xs = [] \<Longrightarrow> calls_only P m; \<And>y ys. xs = y # ys \<Longrightarrow> calls_only P (g y ys)\<rbrakk>
   \<Longrightarrow> calls_only P (case xs of [] \<Rightarrow> m | y # ys \<Rightarrow> g y ys)"
  by (cases xs) auto

lemma reads_convertKubeConfigSecrets:
  "calls_only (\<lambda>c. \<not> is_write c) (convertKubeConfigSecrets srv ns names)"
  by (induction names) (auto intro!: calls_intros)

lemma reads_set_multiple_hubs: "calls_only (\<lambda>c. \<not> is_write c) (set_multiple_hubs srv rd mc config ch)"
  unfolding set_multiple_hubs_def add_hubs_def Let_def
  by (intro calls_intros reads_convertKubeConfigSecrets)

lemma reads_set_pull_secret: "calls_only (\<lambda>c. \<not> is_write c) (set_pull_secret srv rd st annotations ch)"
  unfolding set_pull_secret_def getImagePullSecret_def PullSecret_def getDefaultImagePullSecret_def
  by (intro calls_intros) simp_all

lemma reads_set_registration_driver:
  "calls_only (\<lambda>c. \<not> is_write c) (set_registration_driver srv rd cd config ch)"
  unfolding set_registration_driver_def GetGRCPCaBundleFromConfigMap_def buildGRPCConfigData_def Let_def
  by (intro calls_intros) simp_all

lemma reads_set_node_selector: "calls_only (\<lambda>c. \<not> is_write c) (set_node_selector srv rd st annotations ch)"
  unfolding set_node_selector_def ValidateNodeSelector_def by (intro calls_intros)

lemma reads_fill_chart: "calls_only (\<lambda>c. \<not> is_write c) (fill_chart srv rd cd st c)"
  unfolding fill_chart_def Let_def
  by (intro calls_intros reads_set_multiple_hubs reads_set_pull_secret reads_set_registration_driver
      reads_set_node_selector)

lemma reads_Generate: "calls_only (\<lambda>c. \<not> is_write c) (Generate srv rd cd c)"
  unfolding Generate_def by (intro calls_intros reads_fill_chart)

section \<open>The chart is well-formed\<close>

text \<open>What every value that a program returns without error satisfies, from any history.\<close>

definition yields :: "('a \<Rightarrow> bool) \<Rightarrow> (call, err + 'a) prog \<Rightarrow> bool" where
  "yields P m \<longleftrightarrow> (\<forall>h x. result m h = Inr x \<longrightarrow> P x)"

lemma yieldsD: "yields P m \<Longrightarrow> result m h = Inr x \<Longrightarrow> P x"
  by (simp add: yields_def)

lemma yields_return: "(\<And>x. r = Inr x \<Longrightarrow> P x) \<Longrightarrow> yields P (return r)"
  by (simp add: yields_def result_def)

lemma yields_and_then:
  assumes "yields P m" and "\<And>x. P x \<Longrightarrow> yields Q (f x)"
  shows "yields Q (and_then m f)"
  unfolding yields_def
proof (intro allI impI)
  fix h y
  assume y: "result (and_then m f) h = Inr y"
  obtain r h' where r: "run_state m h = (r, h')" by (cases "run_state m h")
  with y obtain x where x: "r = Inr x" and "result (f x) h' = Inr y"
    by (cases r) (auto simp: and_then_def result_def)
  moreover have "result m h = Inr x" using r x by (simp add: result_def)
  ultimately show "Q y" using yieldsD [OF assms(1)] yieldsD [OF assms(2)] by blast
qed

lemma yields_mono: "yields P m \<Longrightarrow> (\<And>x. P x \<Longrightarrow> Q x) \<Longrightarrow> yields Q m"
  by (auto simp: yields_def)

lemma yields_bind: "(\<And>x. yields P (f x)) \<Longrightarrow> yields P (State_Monad.bind m f)"
  by (auto simp: yields_def result_def split: prod.splits)

definition selector_ok :: "smap \<Rightarrow> bool" where
  "selector_ok m \<longleftrightarrow> (\<forall>k v. fmlookup m k = Some v \<longrightarrow> label_key k \<and> label_value v)"

text \<open>
  The feature gate for several hubs is listed, and it is on unless it is one of the gates that the klusterlet
  configuration itself sets.
\<close>

definition configured_gates :: "KlusterletConfig option \<Rightarrow> FeatureGate list" where
  "configured_gates config = (case config of None \<Rightarrow> [] | Some kc \<Rightarrow> KCFeatureGates kc)"

definition hubs_agree :: "KlusterletConfig option \<Rightarrow> chart \<Rightarrow> bool" where
  "hubs_agree config ch \<longleftrightarrow>
     (case BootstrapKubeConfigs ch of
        None \<Rightarrow> MultiHubBootstrapHubKubeConfigs ch = []
      | Some (t, None) \<Rightarrow> False
      | Some (t, Some s) \<Rightarrow> map fst (MultiHubBootstrapHubKubeConfigs ch) = KubeConfigSecrets s \<and>
          list_ex (\<lambda>f. Feature f = ''MultipleHubs'' \<and> (FeatureMode f = ''Enable'' \<or> f \<in> set (configured_gates config)))
            (RegistrationFeatureGates ch))"

text \<open>The part of the chart that each step leaves alone once it is filled in.\<close>

definition same_frame :: "chart \<Rightarrow> chart \<Rightarrow> bool" where
  "same_frame ch ch' \<longleftrightarrow> Mode ch' = Mode ch \<and> ClusterName ch' = ClusterName ch \<and>
     BootstrapHubKubeConfig ch' = BootstrapHubKubeConfig ch \<and> NoOperator ch' = NoOperator ch \<and>
     CreateNamespace ch' = CreateNamespace ch \<and> CreateImageCredentials ch' = CreateImageCredentials ch \<and>
     PriorityClassName ch' = PriorityClassName ch"

definition hubs_unset :: "chart \<Rightarrow> bool" where
  "hubs_unset ch \<longleftrightarrow> BootstrapKubeConfigs ch = None \<and> MultiHubBootstrapHubKubeConfigs ch = [] \<and>
     RegistrationFeatureGates ch = []"

text \<open>With the gates filled in: each of them is on or as the configuration sets it.\<close>

definition hubs_ready :: "KlusterletConfig option \<Rightarrow> chart \<Rightarrow> bool" where
  "hubs_ready config ch \<longleftrightarrow> BootstrapKubeConfigs ch = None \<and> MultiHubBootstrapHubKubeConfigs ch = [] \<and>
     list_all (\<lambda>f. FeatureMode f = ''Enable'' \<or> f \<in> set (configured_gates config)) (RegistrationFeatureGates ch)"

definition placed :: "chart \<Rightarrow> bool" where
  "placed ch \<longleftrightarrow> selector_ok (ChartNodeSelector ch) \<and> list_all valid_toleration (ChartTolerations ch) \<and>
     KlusterletNodePlacement ch = \<lparr>NodeSelector = ChartNodeSelector ch, Tolerations = ChartTolerations ch\<rparr>"

lemma yields_set_images: "yields (\<lambda>x. same_frame ch x \<and> (hubs_unset ch \<longrightarrow> hubs_unset x)) (return (set_images rd st annotations ch))"
  by (rule yields_return) (auto simp: set_images_def same_frame_def hubs_unset_def split: sum.splits)

lemma yields_set_node_selector:
  assumes "visits_once srv"
  shows "yields (\<lambda>x. same_frame ch x \<and> (hubs_unset ch \<longrightarrow> hubs_unset x) \<and> selector_ok (ChartNodeSelector x) \<and>
      NodeSelector (KlusterletNodePlacement x) = ChartNodeSelector x)
    (set_node_selector srv rd st annotations ch)"
  unfolding yields_def
proof (intro allI impI)
  fix h x
  assume r: "result (set_node_selector srv rd st annotations ch) h = Inr x"
  then obtain ns where ns: "choose_node_selector rd st annotations ch = Inr ns"
    by (cases "choose_node_selector rd st annotations ch") (auto simp: set_node_selector_def result_def)
  from r ns have v: "result (ValidateNodeSelector srv ns) h = None" and
    x: "x = ch\<lparr>ChartNodeSelector := ns, KlusterletNodePlacement := (KlusterletNodePlacement ch)\<lparr>NodeSelector := ns\<rparr>\<rparr>"
    by (auto simp: set_node_selector_def result_def split: option.splits prod.splits)
  from v ValidateNodeSelector_iff [OF assms, of ns h] have "selector_ok ns" by (simp add: selector_ok_def)
  with x show "same_frame ch x \<and> (hubs_unset ch \<longrightarrow> hubs_unset x) \<and> selector_ok (ChartNodeSelector x) \<and>
      NodeSelector (KlusterletNodePlacement x) = ChartNodeSelector x"
    by (simp add: same_frame_def hubs_unset_def)
qed

lemma ValidateTolerations_None: "ValidateTolerations ts = None \<Longrightarrow> list_all valid_toleration ts"
  by (simp add: ValidateTolerations_def NewAggregate_concat_None toleration_errors_Some toleration_errors_Nil_iff)

lemma yields_set_tolerations:
  assumes "selector_ok (ChartNodeSelector ch)" and "NodeSelector (KlusterletNodePlacement ch) = ChartNodeSelector ch"
  shows "yields (\<lambda>x. same_frame ch x \<and> (hubs_unset ch \<longrightarrow> hubs_unset x) \<and> placed x)
    (return (set_tolerations rd st annotations ch))"
  using assms
  by (intro yields_return)
    (auto simp: set_tolerations_def same_frame_def hubs_unset_def placed_def dest: ValidateTolerations_None
      split: sum.splits option.splits)

definition kept :: "chart \<Rightarrow> chart \<Rightarrow> bool" where
  "kept ch x \<longleftrightarrow> same_frame ch x \<and> (placed ch \<longrightarrow> placed x)"

lemma yields_set_eviction: "yields (\<lambda>x. kept ch x \<and> (hubs_unset ch \<longrightarrow> hubs_unset x)) (return (set_eviction rd st ch))"
  by (rule yields_return) (auto simp: set_eviction_def kept_def same_frame_def hubs_unset_def placed_def Let_def
    split: sum.splits if_splits)

lemma yields_set_pull_secret:
  "yields (\<lambda>x. kept ch x \<and> (hubs_unset ch \<longrightarrow> hubs_unset x) \<and> (CreateImageCredentials x \<longrightarrow> DockerConfigJson x \<noteq> []))
    (set_pull_secret srv rd st annotations ch)"
  unfolding set_pull_secret_def
  by (auto simp: kept_def same_frame_def hubs_unset_def placed_def intro!: yields_return yields_bind
      split: sum.splits if_splits)

lemma convertKubeConfigSecrets_names:
  "yields (\<lambda>ks. map fst ks = names) (convertKubeConfigSecrets srv ns names)"
proof (induction names)
  case (Cons n names)
  show ?case
    unfolding yields_def
  proof (intro allI impI)
    fix h ks
    assume "result (convertKubeConfigSecrets srv ns (n # names)) h = Inr ks"
    then obtain kc h' rest where "result (convertKubeConfigSecrets srv ns names) h' = Inr rest" "ks = (n, kc) # rest"
      by (auto simp: result_def ask_def split: sum.splits option.splits prod.splits)
        (metis fst_conv map_sum.simps(2) obj_sumE sum.distinct(1) sum.inject(2) map_sum.simps(1))
    with Cons show "map fst ks = n # names" by (auto simp: yields_def)
  qed
qed (simp add: yields_def result_def)

lemma add_feature_gates_shape:
  "\<exists>r w. add_feature_gates fs ch = ch\<lparr>RegistrationFeatureGates := r, WorkFeatureGates := w\<rparr>"
proof (induction fs arbitrary: ch)
  case Nil
  have "ch = ch\<lparr>RegistrationFeatureGates := RegistrationFeatureGates ch, WorkFeatureGates := WorkFeatureGates ch\<rparr>" by simp
  then show ?case by (metis add_feature_gates.simps(1))
next
  case (Cons f fs)
  let ?ch = "if Feature f \<in> set spokeRegistrationFeatures
      then ch\<lparr>RegistrationFeatureGates := RegistrationFeatureGates ch @ [f]\<rparr>
      else if Feature f \<in> set spokeWorkFeatures then ch\<lparr>WorkFeatureGates := WorkFeatureGates ch @ [f]\<rparr> else ch"
  obtain r w where "add_feature_gates fs ?ch = ?ch\<lparr>RegistrationFeatureGates := r, WorkFeatureGates := w\<rparr>"
    using Cons by blast
  then show ?case by (intro exI [of _ r] exI [of _ w]) auto
qed

lemma set_feature_gates_shape:
  "\<exists>r w. set_feature_gates rd config ch = ch\<lparr>RegistrationFeatureGates := r, WorkFeatureGates := w\<rparr>"
proof -
  have "\<exists>r w. (case config of None \<Rightarrow> ch | Some kc \<Rightarrow> add_feature_gates (KCFeatureGates kc) ch) =
      ch\<lparr>RegistrationFeatureGates := r, WorkFeatureGates := w\<rparr>"
  proof (cases config)
    case None
    have "ch = ch\<lparr>RegistrationFeatureGates := RegistrationFeatureGates ch, WorkFeatureGates := WorkFeatureGates ch\<rparr>" by simp
    then show ?thesis unfolding None option.case by blast
  next
    case (Some kc)
    with add_feature_gates_shape show ?thesis by simp
  qed
  then obtain r w where rw: "(case config of None \<Rightarrow> ch | Some kc \<Rightarrow> add_feature_gates (KCFeatureGates kc) ch) =
      ch\<lparr>RegistrationFeatureGates := r, WorkFeatureGates := w\<rparr>" by blast
  have "set_feature_gates rd config ch = ch\<lparr>RegistrationFeatureGates := (if EnableKlusterletNetworkPolicies rd
      then r @ [\<lparr>Feature = ''NetworkPolicies'', FeatureMode = ''Enable''\<rparr>] else r), WorkFeatureGates := w\<rparr>"
    by (simp add: set_feature_gates_def rw)
  then show ?thesis by blast
qed

definition complete :: "chart \<Rightarrow> bool" where
  "complete ch \<longleftrightarrow> placed ch \<and> (CreateImageCredentials ch \<longrightarrow> DockerConfigJson ch \<noteq> [])"

lemma add_feature_gates_from:
  "list_all P (RegistrationFeatureGates ch) \<Longrightarrow> list_all P fs \<Longrightarrow> list_all P (RegistrationFeatureGates (add_feature_gates fs ch))"
  by (induction fs arbitrary: ch) auto

lemma set_feature_gates_from:
  assumes "RegistrationFeatureGates ch = []"
  shows "list_all (\<lambda>f. FeatureMode f = ''Enable'' \<or> f \<in> set (configured_gates config))
     (RegistrationFeatureGates (set_feature_gates rd config ch))"
  using assms add_feature_gates_from [of "\<lambda>f. FeatureMode f = ''Enable'' \<or> f \<in> set (configured_gates config)" ch "configured_gates config"]
  by (auto simp: set_feature_gates_def Let_def configured_gates_def list_all_iff split: option.split)

lemma set_feature_gates_keeps:
  "same_frame ch (set_feature_gates rd config ch)"
  "complete (set_feature_gates rd config ch) \<longleftrightarrow> complete ch"
  "hubs_unset ch \<Longrightarrow> hubs_ready config (set_feature_gates rd config ch)"
  using set_feature_gates_shape [of rd config ch] set_feature_gates_from [of ch config rd]
  by (auto simp: same_frame_def complete_def placed_def hubs_unset_def hubs_ready_def)

lemma yields_add_hubs:
  assumes "complete ch" and "hubs_ready config ch"
  shows "yields (\<lambda>x. same_frame ch x \<and> complete x \<and> hubs_agree config x) (add_hubs srv rd m secrets ch)"
  unfolding yields_def
proof (intro allI impI)
  fix h x
  assume r: "result (add_hubs srv rd m secrets ch) h = Inr x"
  then obtain ks where ks: "result (convertKubeConfigSecrets srv (Getenv rd PodNamespaceEnvVarName) (KubeConfigSecrets secrets)) h = Inr ks"
    by (auto simp: add_hubs_def result_def Let_def split: sum.splits prod.splits)
  from yieldsD [OF convertKubeConfigSecrets_names ks] have "map fst ks = KubeConfigSecrets secrets" .
  moreover from r ks have "x = ch\<lparr>RegistrationFeatureGates :=
      (if list_ex (\<lambda>f. Feature f = ''MultipleHubs'') (RegistrationFeatureGates ch) then RegistrationFeatureGates ch
       else RegistrationFeatureGates ch @ [\<lparr>Feature = ''MultipleHubs'', FeatureMode = ''Enable''\<rparr>]),
      BootstrapKubeConfigs := Some (BootstrapType m, Some (if includes_current_hub m
        then secrets\<lparr>KubeConfigSecrets := KubeConfigSecrets secrets @ [current_hub]\<rparr> else secrets)),
      MultiHubBootstrapHubKubeConfigs := ks @ (if includes_current_hub m then [(current_hub, BootstrapHubKubeConfig ch)] else [])\<rparr>"
    by (auto simp: add_hubs_def result_def Let_def split: prod.splits)
  moreover have "list_ex (\<lambda>f. Feature f = ''MultipleHubs'' \<and> (FeatureMode f = ''Enable'' \<or> f \<in> set (configured_gates config)))
      (if list_ex (\<lambda>f. Feature f = ''MultipleHubs'') (RegistrationFeatureGates ch) then RegistrationFeatureGates ch
       else RegistrationFeatureGates ch @ [\<lparr>Feature = ''MultipleHubs'', FeatureMode = ''Enable''\<rparr>])"
    using assms(2) by (auto simp: hubs_ready_def list_ex_iff list_all_iff)
  ultimately show "same_frame ch x \<and> complete x \<and> hubs_agree config x"
    using assms by (simp add: same_frame_def complete_def placed_def hubs_agree_def)
qed

lemma hubs_agree_updates [simp]:
  "hubs_agree config (ch\<lparr>StatusSyncInterval := i\<rparr>) = hubs_agree config ch"
  "hubs_agree config (ch\<lparr>ChartAddOnRegistrationDriver := d\<rparr>) = hubs_agree config ch"
  "hubs_agree config (ch\<lparr>ClusterClaims := cl\<rparr>) = hubs_agree config ch"
  "hubs_agree config (ch\<lparr>ChartRegistrationDriver := r\<rparr>) = hubs_agree config ch"
  "hubs_agree config (ch\<lparr>GRPCConfig := g\<rparr>) = hubs_agree config ch"
  by (simp_all add: hubs_agree_def split: option.split)

lemma hubs_ready_agree: "hubs_ready config ch \<Longrightarrow> hubs_agree config ch"
  by (simp add: hubs_ready_def hubs_agree_def)

lemma same_frame_refl: "same_frame ch ch"
  by (simp add: same_frame_def)

lemma same_frame_trans: "same_frame a b \<Longrightarrow> same_frame b c \<Longrightarrow> same_frame a c"
  by (simp add: same_frame_def)

text \<open>One more step that keeps the frame; the rest of the function starts from its facts \<open>R\<close>.\<close>

lemma frame_step:
  assumes "yields (\<lambda>x. same_frame ch x \<and> R x) m" and "same_frame c ch"
    and "\<And>x. same_frame c x \<Longrightarrow> R x \<Longrightarrow> yields Q (f x)"
  shows "yields Q (and_then m f)"
  using assms(2,3) by (intro yields_and_then [OF assms(1)]) (blast intro: same_frame_trans)

lemma yields_set_multiple_hubs:
  assumes "complete ch" and "hubs_ready config ch"
  shows "yields (\<lambda>x. same_frame ch x \<and> complete x \<and> hubs_agree config x) (set_multiple_hubs srv rd mc config ch)"
  using assms yields_add_hubs [OF assms] hubs_ready_agree [OF assms(2)]
  by (auto simp: set_multiple_hubs_def same_frame_refl Let_def intro!: yields_return split: option.split)

lemma yields_set_registration_driver:
  assumes "complete ch" and "hubs_agree config ch"
  shows "yields (\<lambda>x. same_frame ch x \<and> complete x \<and> hubs_agree config x) (set_registration_driver srv rd cd config ch)"
proof -
  have upd: "same_frame ch (ch\<lparr>ChartRegistrationDriver := d, GRPCConfig := g\<rparr>)"
    "complete (ch\<lparr>ChartRegistrationDriver := d, GRPCConfig := g\<rparr>)"
    "hubs_agree config (ch\<lparr>ChartRegistrationDriver := d, GRPCConfig := g\<rparr>)" for d g
    using assms by (simp_all add: same_frame_def complete_def placed_def)
  have "same_frame ch (ch\<lparr>ChartRegistrationDriver := d\<rparr>)" "complete (ch\<lparr>ChartRegistrationDriver := d\<rparr>)"
    "hubs_agree config (ch\<lparr>ChartRegistrationDriver := d\<rparr>)" for d
    using upd [where d = d and g = "GRPCConfig ch"] by simp_all
  with upd assms show ?thesis
    unfolding set_registration_driver_def
    by (auto simp: same_frame_refl intro!: yields_return yields_bind split: option.split sum.splits)
qed

lemma yields_fill_chart:
  assumes "visits_once srv" and "hubs_unset (chartConfig c)"
  shows "yields (\<lambda>x. same_frame ((chartConfig c)\<lparr>NoOperator := installNoOperator (Mode (chartConfig c)) (klusterletConfig c)\<rparr>) x \<and>
      complete x \<and> hubs_agree (klusterletConfig c) x) (fill_chart srv rd cd st c)"
    (is "yields (\<lambda>x. same_frame ?c x \<and> _ x \<and> _ x) _")
proof -
  have unset: "hubs_unset ?c" using assms(2) by (simp add: hubs_unset_def)
  have claims: "same_frame ch (setClusterClaimConfiguation config ch)"
    "complete (setClusterClaimConfiguation config ch) = complete ch"
    "hubs_agree config (setClusterClaimConfiguation config ch) = hubs_agree config ch" for config ch
    by (simp_all add: setClusterClaimConfiguation_def same_frame_def complete_def placed_def Let_def)
  have last: "same_frame ch (set_sync_interval config (set_addon_driver config ch))"
    "complete (set_sync_interval config (set_addon_driver config ch)) = complete ch"
    "hubs_agree config (set_sync_interval config (set_addon_driver config ch)) = hubs_agree config ch" for config ch
    by (simp_all add: set_sync_interval_def set_addon_driver_def same_frame_def complete_def placed_def
        split: option.split)
  have names: "same_frame ch (ch\<lparr>KlusterletName := a, KlusterletNamespace := b\<rparr>)"
    "placed (ch\<lparr>KlusterletName := a, KlusterletNamespace := b\<rparr>) = placed ch"
    "hubs_unset (ch\<lparr>KlusterletName := a, KlusterletNamespace := b\<rparr>) = hubs_unset ch" for ch a b
    by (simp_all add: same_frame_def placed_def hubs_unset_def)
  let ?post = "\<lambda>x. same_frame ?c x \<and> complete x \<and> hubs_agree (klusterletConfig c) x"
  let ?kc = "klusterletConfig c" and ?an = "cluster_annotations (managedCluster c)"
  let ?finish = "\<lambda>x. return (Inr (set_sync_interval ?kc (set_addon_driver ?kc x)))"
  have finish: "yields ?post (?finish x)" if "same_frame ?c x" "complete x \<and> hubs_agree (klusterletConfig c) x" for x
    using that last same_frame_trans by (auto intro!: yields_return)
  let ?driver = "\<lambda>x. and_then (set_registration_driver srv rd cd ?kc (setClusterClaimConfiguation ?kc x)) ?finish"
  have driver: "yields ?post (?driver x)" if "same_frame ?c x" "complete x \<and> hubs_agree (klusterletConfig c) x" for x
    using that claims
    by (intro frame_step [OF yields_set_registration_driver same_frame_trans [OF that(1) claims(1)] finish]) auto
  let ?hubs = "\<lambda>x. and_then (set_multiple_hubs srv rd (managedCluster c) ?kc (set_feature_gates rd ?kc x)) ?driver"
  have hubs: "yields ?post (?hubs x)" if "same_frame ?c x" "complete x \<and> hubs_unset x" for x
    using that set_feature_gates_keeps
    by (intro frame_step [OF yields_set_multiple_hubs same_frame_trans [OF that(1) set_feature_gates_keeps(1)] driver]) auto
  let ?pull = "\<lambda>x. and_then (set_pull_secret srv rd st ?an x) ?hubs"
  have pull: "yields ?post (?pull x)" if "same_frame ?c x" "placed x \<and> hubs_unset x" for x
    using that
    by (intro frame_step [where R = "\<lambda>x. complete x \<and> hubs_unset x", OF yields_mono [OF yields_set_pull_secret] that(1) hubs])
      (auto simp: kept_def complete_def)
  let ?evict = "\<lambda>x. and_then (return (set_eviction rd st x)) ?pull"
  have evict: "yields ?post (?evict x)" if "same_frame ?c x" "placed x \<and> hubs_unset x" for x
    using that
    by (intro frame_step [where R = "\<lambda>x. placed x \<and> hubs_unset x", OF yields_mono [OF yields_set_eviction] that(1) pull])
      (auto simp: kept_def)
  have named: "yields ?post (?evict (x\<lparr>KlusterletName := a, KlusterletNamespace := b\<rparr>))"
    if "same_frame ?c x" "placed x \<and> hubs_unset x" for x a b
    using that names by (intro evict) (auto intro: same_frame_trans)
  let ?rest = "\<lambda>x. case getKlusterletNamespaceName ?kc (ClusterName x) ?an (Mode x) of
    (a, b) \<Rightarrow> ?evict (x\<lparr>KlusterletName := a, KlusterletNamespace := b\<rparr>)"
  have rest: "yields ?post (?rest x)" if "same_frame ?c x" "placed x \<and> hubs_unset x" for x
    using named [OF that] by (simp split: prod.split)
  let ?tol = "\<lambda>x. and_then (return (set_tolerations rd st ?an x)) ?rest"
  have tol: "yields ?post (?tol x)"
    if "same_frame ?c x" "hubs_unset x \<and> selector_ok (ChartNodeSelector x) \<and>
      NodeSelector (KlusterletNodePlacement x) = ChartNodeSelector x" for x
    using that
    by (intro frame_step [where R = "\<lambda>x. placed x \<and> hubs_unset x", OF yields_mono [OF yields_set_tolerations] that(1) rest])
      auto
  let ?sel = "\<lambda>x. and_then (set_node_selector srv rd st ?an x) ?tol"
  have sel: "yields ?post (?sel x)" if "same_frame ?c x" "hubs_unset x" for x
    using that
    by (intro frame_step [OF yields_mono [OF yields_set_node_selector [OF assms(1)]] that(1) tol]) auto
  have "yields ?post (and_then (return (set_images rd st ?an ?c)) ?sel)"
    using unset
    by (intro frame_step [where R = hubs_unset, OF yields_mono [OF yields_set_images] same_frame_refl sel]) auto
  then show ?thesis by (simp add: fill_chart_def Let_def)
qed

text \<open>
  What it is to be rendered from a chart: the objects and the CRDs come from one rendering of that chart in the
  namespace of its klusterlet. Without the operator the objects alone are aggregated. With it the CRDs are aggregated
  on their own, and the objects are followed by the additional roles, rendered from the same chart; for an
  OpenShift cluster the side car is put into the objects and its own roles come last.
\<close>

definition rendering :: "renderer \<Rightarrow> bool \<Rightarrow> chart \<Rightarrow> string \<Rightarrow> string \<Rightarrow> bool" where
  "rendering rd openshift ch manifests crds \<longleftrightarrow>
     (\<exists>docs objects. RenderKlusterletChart rd ch (KlusterletNamespace ch) = Inr (docs, objects) \<and>
        (if NoOperator ch then manifests = AggregateObjects (doc_kind rd) objects \<and> crds = []
         else crds = AggregateObjects (doc_kind rd) docs \<and>
           (\<exists>objects' roles more. manifests = AggregateObjects (doc_kind rd) objects' @ roles @ more \<and>
              filesToTemplateBytes rd additionalClusterRoleFiles ch = Some (Inr roles) \<and>
              (if openshift
               then (\<exists>img. injectTLSProfileSyncSidecar rd objects img (ChartSecurityContext ch) = Inr objects') \<and>
                 filesToTemplateBytes rd tlsProfileSyncRBACFiles ch = Some (Inr more)
               else objects' = objects \<and> more = []))))"

lemma map_sum_Inr_elim:
  assumes "map_sum id f x = Inr y"
  obtains z where "x = Inr z" and "y = f z"
  using assms by (cases x) auto

lemma with_sidecar_cases:
  assumes "with_sidecar rd st c ch objects roles = Some (Inr (objects', additional))"
  shows "\<exists>more. additional = roles @ more \<and>
    (if isManagedClusterOpenShift (managedCluster c)
     then (\<exists>img. injectTLSProfileSyncSidecar rd objects img (ChartSecurityContext ch) = Inr objects') \<and>
       filesToTemplateBytes rd tlsProfileSyncRBACFiles ch = Some (Inr more)
     else objects' = objects \<and> more = [])"
proof (cases "isManagedClusterOpenShift (managedCluster c)")
  case True
  with assms obtain img more where "injectTLSProfileSyncSidecar rd objects img (ChartSecurityContext ch) = Inr objects'"
    "filesToTemplateBytes rd tlsProfileSyncRBACFiles ch = Some (Inr more)" "additional = roles @ more"
    by (auto simp: with_sidecar_def split: sum.splits elim!: map_sum_Inr_elim)
  with True show ?thesis by auto
qed (use assms in \<open>simp add: with_sidecar_def\<close>)

lemma render_chart_rendering:
  assumes "render_chart rd st c ch = Some (Inr (manifests, crds, vals))"
  shows "marshal_chart rd ch = Inr vals \<and> rendering rd (isManagedClusterOpenShift (managedCluster c)) ch manifests crds"
proof -
  from assms obtain docs objects where v: "marshal_chart rd ch = Inr vals"
    and o: "RenderKlusterletChart rd ch (KlusterletNamespace ch) = Inr (docs, objects)"
    by (auto simp: render_chart_def split: sum.splits prod.splits if_splits option.splits)
  show ?thesis
  proof (cases "NoOperator ch")
    case True
    with assms v o show ?thesis by (simp add: render_chart_def rendering_def)
  next
    case False
    with assms v o obtain roles objects' additional where
      f: "filesToTemplateBytes rd additionalClusterRoleFiles ch = Some (Inr roles)"
      and s: "with_sidecar rd st c ch objects roles = Some (Inr (objects', additional))"
      and m: "manifests = AggregateObjects (doc_kind rd) objects' @ additional" "crds = AggregateObjects (doc_kind rd) docs"
      by (auto simp: render_chart_def split: sum.splits prod.splits option.splits)
    from with_sidecar_cases [OF s] m f have "crds = AggregateObjects (doc_kind rd) docs \<and>
        (\<exists>objects' roles more. manifests = AggregateObjects (doc_kind rd) objects' @ roles @ more \<and>
          filesToTemplateBytes rd additionalClusterRoleFiles ch = Some (Inr roles) \<and>
          (if isManagedClusterOpenShift (managedCluster c)
           then (\<exists>img. injectTLSProfileSyncSidecar rd objects img (ChartSecurityContext ch) = Inr objects') \<and>
             filesToTemplateBytes rd tlsProfileSyncRBACFiles ch = Some (Inr more)
           else objects' = objects \<and> more = []))" by blast
    with v o False show ?thesis unfolding rendering_def by (simp only: if_False sum.inject prod.inject) blast
  qed
qed

text \<open>
  C20. Whenever \<open>Generate\<close> returns manifests, CRDs and values, all three come from one chart: the values are
  the chart, the CRDs and the manifests are the rendering of it, with the additional roles and, for OpenShift, the
  side car. And that chart is well-formed: it keeps the mode, the cluster name and the
  bootstrap kubeconfig it was built with; its node selector and tolerations are valid and are the
  ones of the klusterlet's own placement; a pull secret that it is to create is not empty; the
  bootstrap kubeconfigs of several hubs are exactly the ones that its list of secrets names, in
  order, and then the feature gate for several hubs is listed, and on unless the klusterlet configuration sets it
  otherwise; and the operator is left out exactly in the modes that have none, in which case there are no CRDs.
  Nothing is written on the way.
\<close>

theorem Generate_sound:
  assumes "visits_once srv"
    and "chartConfig c = (newKlusterletChartConfig mode n kubeconfig)\<lparr>CreateImageCredentials := b,
      PriorityClassName := p, ClusterAnnotations := a\<rparr>"
    and "result (Generate srv rd cd c) h = Some (Inr (manifests, crds, vals))"
  shows "(\<exists>ch. marshal_chart rd ch = Inr vals \<and> rendering rd (isManagedClusterOpenShift (managedCluster c)) ch manifests crds \<and>
      Mode ch = mode \<and> ClusterName ch = n \<and>
      BootstrapHubKubeConfig ch = kubeconfig \<and> CreateImageCredentials ch = b \<and>
      NoOperator ch = installNoOperator mode (klusterletConfig c) \<and>
      complete ch \<and> hubs_agree (klusterletConfig c) ch \<and> (NoOperator ch \<longrightarrow> crds = [])) \<and>
    list_all (\<lambda>x. \<not> is_write x) (new_calls (Generate srv rd cd c) h)"
proof (intro conjI)
  from assms(3) obtain st where st: "settings_of (Mode (chartConfig c)) (klusterletConfig c) = Inr st"
    by (cases "settings_of (Mode (chartConfig c)) (klusterletConfig c)") (auto simp: Generate_def result_def)
  from assms(3) st obtain ch where ch: "result (fill_chart srv rd cd st c) h = Inr ch"
    and r: "render_chart rd st c ch = Some (Inr (manifests, crds, vals))"
    by (auto simp: Generate_def result_def split: prod.splits sum.splits)
  have "hubs_unset (chartConfig c)" by (simp add: assms(2) hubs_unset_def newKlusterletChartConfig_def)
  from yieldsD [OF yields_fill_chart [OF assms(1) this] ch]
  have ok: "complete ch" "hubs_agree (klusterletConfig c) ch" and frame: "same_frame ((chartConfig c)\<lparr>NoOperator :=
      installNoOperator (Mode (chartConfig c)) (klusterletConfig c)\<rparr>) ch" by auto
  note made = render_chart_rendering [OF r]
  then have "NoOperator ch \<longrightarrow> crds = []" by (auto simp: rendering_def)
  with ok frame made show "\<exists>ch. marshal_chart rd ch = Inr vals \<and>
      rendering rd (isManagedClusterOpenShift (managedCluster c)) ch manifests crds \<and> Mode ch = mode \<and> ClusterName ch = n \<and>
      BootstrapHubKubeConfig ch = kubeconfig \<and> CreateImageCredentials ch = b \<and>
      NoOperator ch = installNoOperator mode (klusterletConfig c) \<and>
      complete ch \<and> hubs_agree (klusterletConfig c) ch \<and> (NoOperator ch \<longrightarrow> crds = [])"
    by (intro exI [of _ ch]) (simp add: same_frame_def assms(2) newKlusterletChartConfig_def)
  show "list_all (\<lambda>x. \<not> is_write x) (new_calls (Generate srv rd cd c) h)"
    using calls_only_new_calls [OF reads_Generate] by (simp add: list_all_iff)
qed

definition sample_renderer :: renderer where
  "sample_renderer = \<lparr>Getenv = sample_env, EnableKlusterletNetworkPolicies = True,
     parse_registries = (\<lambda>_. Inl notFoundErr), parse_node_selector = (\<lambda>_. Inl notFoundErr),
     parse_tolerations = (\<lambda>_. Inl notFoundErr), ParseDuration = (\<lambda>_. Inr 0),
     marshal_chart = (\<lambda>ch. Inr (ClusterName ch @ concat (map fst (MultiHubBootstrapHubKubeConfigs ch)))),
     marshal_grpc = (\<lambda>_ _ _. Inr []), RenderKlusterletChart = (\<lambda>ch ns. Inr ([''crd''], [ns])),
     asset = Inr, execute_chart_template = (\<lambda>t _. Some t), execute_hub_template = (\<lambda>t _. Some t),
     kind_and_name = (\<lambda>_. None), unmarshal_deployment = (\<lambda>_. Inl notFoundErr),
     marshal_deployment = (\<lambda>_. Inl notFoundErr)\<rparr>"

definition two_hubs_config :: KlusterletConfig where
  "two_hubs_config = (new_klusterlet_config ''k'')\<lparr>
     KCNodePlacement := Some \<lparr>NodeSelector = fmap_of_list [(''zone'', ''a'')], Tolerations = []\<rparr>,
     MultipleHubsConfig := Some \<lparr>GenBootstrapKubeConfigStrategy = ''IncludeCurrentHub'',
       BootstrapType = ''LocalSecrets'', LocalSecrets = Some \<lparr>KubeConfigSecrets = [],
       HubConnectionTimeoutSeconds = 0\<rparr>\<rparr>\<rparr>"

definition two_hubs_manifests :: KlusterletManifestsConfig where
  "two_hubs_manifests = WithoutImagePullSecretGenerate (WithKlusterletConfig (Some two_hubs_config)
     (NewKlusterletManifestsConfig InstallModeDefault ''c1'' ''kubeconfig''))"

theorem Generate_sound_witness:
  "\<exists>ch m crds. marshal_chart sample_renderer ch = Inr (''c1'' @ current_hub) \<and>
     rendering sample_renderer False ch m crds \<and> m \<noteq> [] \<and> Mode ch = InstallModeDefault \<and>
     ClusterName ch = ''c1'' \<and> BootstrapHubKubeConfig ch = ''kubeconfig'' \<and> \<not> NoOperator ch \<and>
     complete ch \<and> hubs_agree (Some two_hubs_config) ch"
proof -
  have c: "chartConfig two_hubs_manifests = (newKlusterletChartConfig InstallModeDefault ''c1'' ''kubeconfig'')
      \<lparr>CreateImageCredentials := False, PriorityClassName := [], ClusterAnnotations := fmempty\<rparr>"
    by (simp add: two_hubs_manifests_def WithoutImagePullSecretGenerate_def WithKlusterletConfig_def
        NewKlusterletManifestsConfig_def newKlusterletChartConfig_def)
  have "case result (Generate empty_server sample_renderer sample_codec two_hubs_manifests) [] of
      Some (Inr (m, crds, v)) \<Rightarrow> m \<noteq> [] \<and> v = ''c1'' @ current_hub | _ \<Rightarrow> False"
    by code_simp
  then obtain m crds where g: "result (Generate empty_server sample_renderer sample_codec two_hubs_manifests) [] =
      Some (Inr (m, crds, ''c1'' @ current_hub))" and ne: "m \<noteq> []"
    by (auto split: option.splits sum.splits prod.splits)
  have k: "klusterletConfig two_hubs_manifests = Some two_hubs_config" "managedCluster two_hubs_manifests = None"
    "\<not> isManagedClusterOpenShift None" "\<not> installNoOperator InstallModeDefault (Some two_hubs_config)"
    by code_simp+
  from Generate_sound [OF visits_once_empty_server c g] k ne show ?thesis by (simp only: k) blast
qed

section \<open>The side car\<close>

definition is_klusterlet_deployment :: "renderer \<Rightarrow> string \<Rightarrow> bool" where
  "is_klusterlet_deployment rd x \<longleftrightarrow> kind_and_name rd x = Some (''Deployment'', ''klusterlet'')"

text \<open>
  C35. The side car goes into the first document that is the Deployment of the klusterlet and nowhere
  else: the documents before and after it are left as they are, nothing changes when there is no
  such document, and a Deployment that cannot be read or written back is an error.
\<close>

theorem sidecar_goes_into_one_deployment:
  "injectTLSProfileSyncSidecar rd objects img sc =
     (let before = takeWhile (\<lambda>x. \<not> is_klusterlet_deployment rd x) objects in
      case drop (length before) objects of
        [] \<Rightarrow> Inr objects
      | x # rest \<Rightarrow>
          (case unmarshal_deployment rd x of
             Inl e \<Rightarrow> Inl (ErrorString (''failed to unmarshal klusterlet Deployment: '' @ Error e))
           | Inr d \<Rightarrow>
               (case marshal_deployment rd (d\<lparr>Containers := Containers d @ [tls_sidecar img sc]\<rparr>) of
                  Inl e \<Rightarrow> Inl (ErrorString (''failed to marshal modified klusterlet Deployment: '' @ Error e))
                | Inr x' \<Rightarrow> Inr (before @ x' # rest))))"
proof (induction objects)
  case (Cons x objects)
  then show ?case
    by (cases "is_klusterlet_deployment rd x")
      (auto simp: is_klusterlet_deployment_def Let_def split: list.split sum.split)
qed simp

end
