(* ===== verification/Import_Config.thy ===== *)
theory Import_Config
  imports Klusterlet_Chart Managed_Cluster
begin

text \<open>
  The import configuration controller, \<open>pkg/controller/importconfig/cluster_info.go\<close> and
  \<open>importconfig_controller.go\<close>: it keeps the bootstrap kubeconfig of a cluster and its token fresh,
  renders the manifests of the klusterlet with them and stores both in the import secret. Nothing
  (\<open>None\<close>) as a result is a panic of \<open>MustCreateObject\<close> or of a template.
\<close>

section \<open>The kubeconfig in the import secret\<close>

definition getImportSecret :: "server \<Rightarrow> string \<Rightarrow> (call, err + Secret) prog" where
  "getImportSecret srv clusterName = api_GetSecret srv clusterName (clusterName @ ''-'' @ ImportSecretNameSuffix)"

fun extract_loop :: "codec \<Rightarrow> string list \<Rightarrow> string option" where
  "extract_loop cd [] = Some []"
| "extract_loop cd (yaml # yamls) =
     (case MustCreateObject cd yaml of
        None \<Rightarrow> None
      | Some (SecretObj secret) \<Rightarrow>
          if Name secret = DefaultBootstrapHubKubeConfigSecretName then Some (goidx (Data secret) ''kubeconfig'')
          else extract_loop cd yamls
      | Some _ \<Rightarrow> extract_loop cd yamls)"

definition extractBootstrapKubeConfigDataFromImportSecret :: "codec \<Rightarrow> Secret option \<Rightarrow> string option" where
  "extractBootstrapKubeConfigDataFromImportSecret cd importSecret =
     (case importSecret of
        None \<Rightarrow> Some []
      | Some s \<Rightarrow>
          (case fmlookup (Data s) ImportSecretImportYamlKey of
             None \<Rightarrow> Some []
           | Some importYaml \<Rightarrow> extract_loop cd (SplitYamls importYaml)))"

section \<open>Validation of the token\<close>

fun legacy_token_ok :: "int \<Rightarrow> string \<Rightarrow> string \<Rightarrow> Secret list \<Rightarrow> bool" where
  "legacy_token_ok now saName expectedToken [] = False"
| "legacy_token_ok now saName expectedToken (secret # secrets) =
     (if legacy_token saName secret = Some expectedToken then \<not> marked_invalid now secret
      else legacy_token_ok now saName expectedToken secrets)"

definition validateLegacyServiceAccountToken ::
  "server \<Rightarrow> string \<Rightarrow> string \<Rightarrow> string \<Rightarrow> (call, bool) prog" where
  "validateLegacyServiceAccountToken srv saName secretNamespace expectedToken =
     (if length expectedToken = 0 then return False
      else do {
        r \<leftarrow> api_ListSecrets srv secretNamespace;
        case r of
          Inl e \<Rightarrow> return False
        | Inr secrets \<Rightarrow> do {
            now \<leftarrow> peek (on_now srv);
            return (legacy_token_ok now saName expectedToken secrets) } })"

definition validateTokenExpiration :: "int \<Rightarrow> string \<Rightarrow> string \<Rightarrow> string \<Rightarrow> bool" where
  "validateTokenExpiration now token creation expiration =
     (if length token = 0 then False
      else if length expiration = 0 then True
      else case parse_RFC3339 expiration of
          None \<Rightarrow> False
        | Some expirationTime \<Rightarrow>
            if length creation \<noteq> 0 then
              (case parse_RFC3339 creation of
                 None \<Rightarrow> False
               | Some creationTime \<Rightarrow> Sub expirationTime now > quot (Sub expirationTime creationTime) 5)
            else Sub expirationTime now > DefaultSecretTokenRefreshThreshold)"

section \<open>The kubeconfig\<close>

text \<open>What the cluster must be told: server, proxy, file and data of the certificate authorities, name.\<close>

record required_settings =
  requiredKubeAPIServer :: string
  requiredProxyURL :: string
  requiredCA :: string
  requiredCAData :: string
  requiredCtxClusterName :: string

definition get_required ::
  "server \<Rightarrow> tools \<Rightarrow> bool \<Rightarrow> string \<Rightarrow> KlusterletConfig option \<Rightarrow> bool \<Rightarrow> (call, err + required_settings) prog" where
  "get_required srv tk ocp ns kc selfManaged = do {
     r \<leftarrow> GetKubeAPIServerConfig srv tk ocp ns kc selfManaged;
     case r of
       Inl e \<Rightarrow> return (Inl e)
     | Inr (url, proxy, ca, caData) \<Rightarrow> do {
         n \<leftarrow> GetKubeconfigClusterName srv ocp;
         return (case n of
           Inl e \<Rightarrow> Inl e
         | Inr ctx \<Rightarrow> Inr \<lparr>requiredKubeAPIServer = url, requiredProxyURL = proxy, requiredCA = ca,
             requiredCAData = caData, requiredCtxClusterName = ctx\<rparr>) } }"

definition meets :: "parsed_kubeconfig \<Rightarrow> required_settings \<Rightarrow> bool" where
  "meets p req \<longleftrightarrow> ValidateBootstrapKubeconfig (PKServer p) (PKProxy p) (PKCA p) (PKCAData p) (PKCluster p)
     (requiredKubeAPIServer req) (requiredProxyURL req) (requiredCA req) (requiredCAData req)
     (requiredCtxClusterName req)"

text \<open>The kubeconfig, the token, its creation and its expiration that can be kept, empty where they cannot.\<close>

record kept_credentials =
  bootstrapKubeconfigData :: string
  tokenData :: string
  tokenCreation :: string
  tokenExpiration :: string

definition no_credentials :: kept_credentials where
  "no_credentials = \<lparr>bootstrapKubeconfigData = [], tokenData = [], tokenCreation = [], tokenExpiration = []\<rparr>"

definition token_valid :: "server \<Rightarrow> string \<Rightarrow> string \<Rightarrow> string \<Rightarrow> string \<Rightarrow> (call, bool) prog" where
  "token_valid srv clusterName token creation expiration = do {
     now \<leftarrow> peek (on_now srv);
     if validateTokenExpiration now token creation expiration \<and> length expiration = 0
     then validateLegacyServiceAccountToken srv (GetBootstrapSAName clusterName) clusterName token
     else return (validateTokenExpiration now token creation expiration) }"

definition keep_valid ::
  "server \<Rightarrow> codec \<Rightarrow> string \<Rightarrow> smap \<Rightarrow> required_settings \<Rightarrow> string \<Rightarrow> (call, kept_credentials) prog" where
  "keep_valid srv cd clusterName secretData req kubeconfigData =
     (if length kubeconfigData = 0 then return no_credentials
      else case ParseKubeConfigData cd kubeconfigData of
          Inl e \<Rightarrow> return no_credentials
        | Inr p \<Rightarrow>
            (let creation = goidx secretData ImportSecretTokenCreation;
                 expiration = goidx secretData ImportSecretTokenExpiration in do {
             valid \<leftarrow> token_valid srv clusterName (PKToken p) creation expiration;
             return (let k = (if valid then no_credentials\<lparr>tokenData := PKToken p,
                 tokenCreation := creation, tokenExpiration := expiration\<rparr> else no_credentials) in
               if meets p req then k\<lparr>bootstrapKubeconfigData := kubeconfigData\<rparr> else k) }))"

definition renew ::
  "server \<Rightarrow> codec \<Rightarrow> string \<Rightarrow> required_settings \<Rightarrow> kept_credentials \<Rightarrow>
   (call, err + string \<times> string \<times> string) prog" where
  "renew srv cd clusterName req k = do {
     t \<leftarrow> (if length (tokenData k) = 0 then do {
         r \<leftarrow> GetBootstrapToken srv (GetBootstrapSAName clusterName) clusterName DefaultSecretTokenExpirationSecond;
         return (case r of
           Inl e \<Rightarrow> Inl e
         | Inr (token, creation, expiration) \<Rightarrow> Inr \<lparr>bootstrapKubeconfigData = [], tokenData = token,
             tokenCreation = creation, tokenExpiration = expiration\<rparr>) }
       else return (Inr k));
     return (case t of
       Inl e \<Rightarrow> Inl e
     | Inr k \<Rightarrow>
         if length (bootstrapKubeconfigData k) = 0 then
           (case CreateBootstrapKubeConfig cd (requiredCtxClusterName req) (requiredKubeAPIServer req)
               (requiredProxyURL req) (requiredCA req) (requiredCAData req) (tokenData k) of
              Inl e \<Rightarrow> Inl e
            | Inr d \<Rightarrow> Inr (d, tokenCreation k, tokenExpiration k))
         else Inr (bootstrapKubeconfigData k, tokenCreation k, tokenExpiration k)) }"

definition isSelfManaged :: "ManagedCluster option \<Rightarrow> bool" where
  "isSelfManaged mc = (case mc of None \<Rightarrow> False | Some c \<Rightarrow> EqualFold (goidx (Labels c) SelfManagedLabel) ''true'')"

definition buildBootstrapKubeconfigData ::
  "server \<Rightarrow> codec \<Rightarrow> tools \<Rightarrow> bool \<Rightarrow> ManagedCluster \<Rightarrow> KlusterletConfig option \<Rightarrow>
   (call, (err + string \<times> string \<times> string) option) prog" where
  "buildBootstrapKubeconfigData srv cd tk ocp cluster kc = do {
     s \<leftarrow> getImportSecret srv (Name cluster);
     case (case s of Inl e \<Rightarrow> if IsNotFound e then Inr None else Inl e | Inr s \<Rightarrow> Inr (Some s)) of
       Inl e \<Rightarrow> return (Some (Inl e))
     | Inr importSecret \<Rightarrow> do {
         r \<leftarrow> get_required srv tk ocp (Name cluster) kc (isSelfManaged (Some cluster));
         case r of
           Inl e \<Rightarrow> return (Some (Inl e))
         | Inr req \<Rightarrow>
             (case extractBootstrapKubeConfigDataFromImportSecret cd importSecret of
                None \<Rightarrow> return None
              | Some kubeconfigData \<Rightarrow> do {
                  k \<leftarrow> keep_valid srv cd (Name cluster)
                    (case importSecret of None \<Rightarrow> fmempty | Some s \<Rightarrow> Data s) req kubeconfigData;
                  d \<leftarrow> renew srv cd (Name cluster) req k;
                  return (Some d) }) } }"

section \<open>The import secret\<close>

definition klusterlet_manifests ::
  "string \<Rightarrow> ManagedCluster \<Rightarrow> KlusterletConfig option \<Rightarrow> string \<Rightarrow> err + KlusterletManifestsConfig" where
  "klusterlet_manifests mode cluster kc kubeconfig =
     (if mode = InstallModeDefault \<or> mode = InstallModeSingleton then
        (case SupportPriorityClass (Some cluster) of
           Inl e \<Rightarrow> Inl e
         | Inr supportPriorityClass \<Rightarrow> Inr
             (WithPriorityClassName (if supportPriorityClass then DefaultKlusterletPriorityClassName else [])
               (WithKlusterletConfig kc (WithManagedCluster cluster
                 (NewKlusterletManifestsConfig mode (Name cluster) kubeconfig)))))
      else if mode = InstallModeHosted \<or> mode = InstallModeSingletonHosted then
        Inr (WithKlusterletConfig kc (WithPriorityClassName DefaultKlusterletPriorityClassName
          (WithoutImagePullSecretGenerate (WithManagedCluster cluster
            (NewKlusterletManifestsConfig mode (Name cluster) kubeconfig)))))
      else Inl (ErrorString (''klusterlet deploy mode '' @ mode @ '' not supported'')))"

definition import_secret :: "string \<Rightarrow> smap \<Rightarrow> string \<Rightarrow> string \<Rightarrow> string \<Rightarrow> string \<Rightarrow> Secret" where
  "import_secret clusterName annotations yamlcontent crdsYAML creation expiration = (
     let data = fmap_of_list [(ImportSecretImportYamlKey, yamlcontent), (ImportSecretCRDSYamlKey, crdsYAML)];
         data = (if length creation \<noteq> 0 then fmupd ImportSecretTokenCreation creation data else data);
         data = (if length expiration \<noteq> 0 then fmupd ImportSecretTokenExpiration expiration data else data) in
     ObjectMeta.extend ((new_meta clusterName (clusterName @ ''-'' @ ImportSecretNameSuffix))
         \<lparr>Labels := fmap_of_list [(ClusterImportSecretLabel, [])], Annotations := annotations\<rparr>)
       \<lparr>SecretType = [], Data = data\<rparr>)"

definition values_secret :: "string \<Rightarrow> string \<Rightarrow> Secret" where
  "values_secret clusterName valuesYAML =
     ObjectMeta.extend ((new_meta clusterName ClusterImportConfigSecretName)
         \<lparr>Labels := fmap_of_list [(ClusterImportSecretLabel, [])]\<rparr>)
       \<lparr>SecretType = [], Data = fmap_of_list [(ValuesYamlKey, valuesYAML)]\<rparr>"

definition buildImportSecret ::
  "server \<Rightarrow> renderer \<Rightarrow> codec \<Rightarrow> ManagedCluster \<Rightarrow> string \<Rightarrow> KlusterletConfig option \<Rightarrow> string \<Rightarrow> string \<Rightarrow> string \<Rightarrow>
   (call, (err + Secret \<times> Secret) option) prog" where
  "buildImportSecret srv rd cd cluster mode kc kubeconfig creation expiration =
     (case klusterlet_manifests mode cluster kc kubeconfig of
        Inl e \<Rightarrow> return (Some (Inl e))
      | Inr config \<Rightarrow> do {
          r \<leftarrow> Generate srv rd cd config;
          return (case r of
            None \<Rightarrow> None
          | Some (Inl e) \<Rightarrow> Some (Inl e)
          | Some (Inr (yamlcontent, crdsYAML, valuesYAML)) \<Rightarrow> Some (Inr
              (if is_hosted_mode mode
               then import_secret (Name cluster)
                 (fmap_of_list [(KlusterletDeployModeAnnotation, InstallModeHosted)]) yamlcontent [] creation expiration
               else import_secret (Name cluster) fmempty yamlcontent crdsYAML creation expiration,
               values_secret (Name cluster) valuesYAML))) })"

section \<open>Reconcile\<close>

definition importconfig_Reconcile ::
  "server \<Rightarrow> renderer \<Rightarrow> codec \<Rightarrow> tools \<Rightarrow> bool \<Rightarrow> bool \<Rightarrow> string \<Rightarrow> string \<Rightarrow> (call, (Result \<times> err option) option) prog" where
  "importconfig_Reconcile srv rd cd tk ocp hostedEnabled componentNamespace request = do {
     r \<leftarrow> api_GetManagedCluster srv request;
     case r of
       Inl e \<Rightarrow> return (Some (emptyResult, if IsNotFound e then None else Some e))
     | Inr cluster \<Rightarrow>
         (let mode = DetermineKlusterletMode cluster in
          if ValidateKlusterletMode hostedEnabled mode \<noteq> None then return (Some (emptyResult, None))
          else case GenerateHubBootstrapRBACObjects rd cd (Name cluster) of
              None \<Rightarrow> return None
            | Some (Inl e) \<Rightarrow> return (Some (emptyResult, Some e))
            | Some (Inr objects) \<Rightarrow> do {
                (changed, e) \<leftarrow> ApplyResources srv Hub (Some cluster) objects;
                case e of
                  Some e \<Rightarrow> return (Some (emptyResult, Some e))
                | None \<Rightarrow> do {
                    m \<leftarrow> GetMergedKlusterletConfigWithGlobal srv (goidx (Annotations cluster) AnnotationKlusterletConfig);
                    case m of
                      Inl e \<Rightarrow> return (Some (emptyResult, Some e))
                    | Inr mergedKlusterletConfig \<Rightarrow> do {
                        b \<leftarrow> buildBootstrapKubeconfigData srv cd tk ocp cluster mergedKlusterletConfig;
                        case b of
                          None \<Rightarrow> return None
                        | Some (Inl e) \<Rightarrow> return (Some (emptyResult, Some e))
                        | Some (Inr (kubeconfig, creation, expiration)) \<Rightarrow> do {
                            s \<leftarrow> buildImportSecret srv rd cd cluster mode mergedKlusterletConfig
                              kubeconfig creation expiration;
                            case s of
                              None \<Rightarrow> return None
                            | Some (Inl e) \<Rightarrow> return (Some (emptyResult, Some e))
                            | Some (Inr (importSecret, configSecret)) \<Rightarrow> do {
                                (changed, e) \<leftarrow> ApplyResources srv Hub (Some cluster) [SecretObj importSecret];
                                case e of
                                  Some e \<Rightarrow> return (Some (emptyResult, Some e))
                                | None \<Rightarrow> do {
                                    g \<leftarrow> GenerateImportConfig srv componentNamespace;
                                    case g of
                                      Inl e \<Rightarrow> return (Some (emptyResult, Some e))
                                    | Inr generateConfigSecret \<Rightarrow>
                                        if \<not> generateConfigSecret then return (Some (emptyResult, None))
                                        else do {
                                          (changed, e) \<leftarrow> ApplyResources srv Hub (Some cluster)
                                            [SecretObj configSecret];
                                          return (Some (emptyResult, e)) } } } } } } }) }"

section \<open>When a token is kept\<close>

lemma parse_RFC3339_Nil [simp]: "parse_RFC3339 [] = None"
  by (simp add: parse_RFC3339_def parse_year_def)

text \<open>A duration is more than the truncated fifth of another exactly if five times it is more.\<close>

lemma fifth_iff: "0 \<le> d \<Longrightarrow> x > quot d 5 \<longleftrightarrow> 5 * x > d" for x d :: int
  by (auto simp: quot_five)

text \<open>
  C34. A token with an expiration is kept exactly as long as it has more than a fifth of its whole
  lifetime left, for every instant whose distance is representable as a duration; once a token is
  no longer kept it is not kept at any later instant, whatever the dates are.
\<close>

theorem token_kept_for_four_fifths:
  assumes "parse_RFC3339 expiration = Some e" and "parse_RFC3339 creation = Some c" and "c \<le> e"
    and "e - c < 2 ^ 63" and "\<bar>e - now\<bar> < 2 ^ 63"
  shows "(validateTokenExpiration now token creation expiration \<longleftrightarrow> token \<noteq> [] \<and> 5 * (e - now) > e - c) \<and>
    (\<forall>now'. now \<le> now' \<longrightarrow> validateTokenExpiration now' token creation expiration \<longrightarrow>
      validateTokenExpiration now token creation expiration)"
proof (intro conjI allI impI)
  have "length expiration \<noteq> 0" "length creation \<noteq> 0" using assms(1,2) by auto
  then show "validateTokenExpiration now token creation expiration \<longleftrightarrow> token \<noteq> [] \<and> 5 * (e - now) > e - c"
    using assms fifth_iff [of "e - c" "e - now"] by (simp add: validateTokenExpiration_def Sub_exact)
  show "validateTokenExpiration now token creation expiration"
    if "now \<le> now'" "validateTokenExpiration now' token creation expiration" for now'
    using that Sub_antimono [of now now' e] assms(1,2)
    by (auto simp: validateTokenExpiration_def split: if_splits)
qed

theorem token_kept_for_four_fifths_witness:
  "validateTokenExpiration 1709078399999999999 ''t'' ''2024-02-20T00:00:00Z'' ''2024-03-01T00:00:00Z'' \<and>
   \<not> validateTokenExpiration 1709078400000000000 ''t'' ''2024-02-20T00:00:00Z'' ''2024-03-01T00:00:00Z''"
proof -
  have p: "parse_RFC3339 ''2024-02-20T00:00:00Z'' = Some 1708387200000000000"
    "parse_RFC3339 ''2024-03-01T00:00:00Z'' = Some 1709251200000000000"
    by code_simp+
  show ?thesis
    using token_kept_for_four_fifths [OF p(2,1), of 1709078399999999999 "''t''"]
      token_kept_for_four_fifths [OF p(2,1), of 1709078400000000000 "''t''"] by simp
qed

section \<open>The kubeconfig is good\<close>

definition token_request :: "server \<Rightarrow> string \<Rightarrow> (call, err + string \<times> string \<times> string) prog" where
  "token_request srv clusterName =
     GetBootstrapToken srv (GetBootstrapSAName clusterName) clusterName DefaultSecretTokenExpirationSecond"

text \<open>
  A kubeconfig that meets the settings and carries a token that either was just requested (or found)
  or was valid when it was looked at, in both cases in the run that starts from \<open>h\<close>.
\<close>

definition good_credentials ::
  "server \<Rightarrow> codec \<Rightarrow> string \<Rightarrow> required_settings \<Rightarrow> call list \<Rightarrow> string \<Rightarrow> string \<Rightarrow> string \<Rightarrow> bool" where
  "good_credentials srv cd clusterName req h d creation expiration \<longleftrightarrow>
     (\<exists>p. ParseKubeConfigData cd d = Inr p \<and> meets p req \<and>
        (\<exists>cs. result (token_request srv clusterName) (h @ cs) = Inr (PKToken p, creation, expiration) \<or>
           result (token_valid srv clusterName (PKToken p) creation expiration) (h @ cs)))"

lemma good_credentials_append:
  "good_credentials srv cd n req (h @ cs) d creation expiration \<Longrightarrow> good_credentials srv cd n req h d creation expiration"
  unfolding good_credentials_def by (metis append.assoc)

lemma token_valid_nonempty: "result (token_valid srv n token creation expiration) h \<Longrightarrow> token \<noteq> []"
  by (auto simp: token_valid_def result_def peek_def validateTokenExpiration_def)

lemma reads_token_valid: "calls_only (\<lambda>c. \<not> is_write c) (token_valid srv n token creation expiration)"
  unfolding token_valid_def validateLegacyServiceAccountToken_def by (intro calls_intros) simp

lemma reads_keep_valid: "calls_only (\<lambda>c. \<not> is_write c) (keep_valid srv cd n data req d)"
  unfolding keep_valid_def Let_def by (intro calls_intros reads_token_valid)

lemma reads_GetBootstrapCAData: "calls_only (\<lambda>c. \<not> is_write c) (GetBootstrapCAData srv tk ocp url ns config)"
  unfolding GetBootstrapCAData_def getKubeAPIServerCAData_def getKubeAPIServerCADataFromConfig_def
  by (intro calls_intros reads_autoDetectCAData reads_getCustomCAData)

lemma reads_get_required: "calls_only (\<lambda>c. \<not> is_write c) (get_required srv tk ocp ns config selfManaged)"
  unfolding get_required_def GetKubeAPIServerConfig_def GetKubeAPIServerAddress_def GetKubeconfigClusterName_def
  by (intro calls_intros reads_GetBootstrapCAData) simp_all

lemma get_required_shape:
  "result (get_required srv tk ocp ns config selfManaged) h = Inr req \<Longrightarrow> requiredCA req = [] \<or> requiredCAData req = []"
proof -
  have "wp (get_required srv tk ocp ns config selfManaged)
      (\<lambda>r _. \<forall>req. r = Inr req \<longrightarrow> requiredCA req = [] \<or> requiredCAData req = []) h"
    unfolding get_required_def
    by (simp add: wp_bind, rule wp_mono [OF wp_GetKubeAPIServerConfig_shape])
      (auto simp: wp_simps wp_run split: sum.splits prod.splits)
  then show "result (get_required srv tk ocp ns config selfManaged) h = Inr req \<Longrightarrow> ?thesis"
    by (simp add: wp_run result_def)
qed

lemma meets_new:
  assumes "clientcmd_Load cd d = Inr (bootstrap_config (requiredCtxClusterName req) (requiredKubeAPIServer req)
      (requiredProxyURL req) (requiredCA req) (requiredCAData req) token)"
    and "requiredCA req = [] \<or> requiredCAData req = []"
  shows "\<exists>p. ParseKubeConfigData cd d = Inr p \<and> meets p req \<and> PKToken p = token"
  using ParseKubeConfigData_bootstrap [OF assms(1)] assms(2) by (auto simp: meets_def ValidateBootstrapKubeconfig_def)

text \<open>What may be kept: a kubeconfig that meets the settings, with the token that may be kept.\<close>

definition kept_ok :: "server \<Rightarrow> codec \<Rightarrow> string \<Rightarrow> required_settings \<Rightarrow> call list \<Rightarrow> kept_credentials \<Rightarrow> bool" where
  "kept_ok srv cd n req h k \<longleftrightarrow>
     (tokenData k \<noteq> [] \<longrightarrow> result (token_valid srv n (tokenData k) (tokenCreation k) (tokenExpiration k)) h) \<and>
     (tokenData k \<noteq> [] \<and> bootstrapKubeconfigData k \<noteq> [] \<longrightarrow>
        (\<exists>p. ParseKubeConfigData cd (bootstrapKubeconfigData k) = Inr p \<and> meets p req \<and> PKToken p = tokenData k))"

lemma kept_ok_none: "kept_ok srv cd n req h no_credentials"
  by (simp add: kept_ok_def no_credentials_def)

lemma wp_result: "wp m (\<lambda>a _. a = result m h) h"
  by (simp add: wp_run result_def)

lemma wp_keep_valid: "wp (keep_valid srv cd n data req d) (\<lambda>k _. kept_ok srv cd n req h k) h"
proof (cases "d = []")
  case False
  show ?thesis
  proof (cases "ParseKubeConfigData cd d")
    case (Inr p)
    show ?thesis
      using False Inr
      by (simp add: keep_valid_def Let_def wp_bind)
        (rule wp_mono [OF wp_result], auto simp: wp_return kept_ok_def no_credentials_def)
  qed (simp add: keep_valid_def wp_simps kept_ok_none)
qed (simp add: keep_valid_def wp_simps kept_ok_none)

lemma wp_renew:
  assumes k: "kept_ok srv cd n req h k" and ca: "requiredCA req = [] \<or> requiredCAData req = []"
    and roundtrip: "\<And>c d. clientcmd_Encode cd c = Inr d \<Longrightarrow> clientcmd_Load cd d = Inr c"
  shows "wp (renew srv cd n req k) (\<lambda>r _. \<forall>d creation expiration. r = Inr (d, creation, expiration) \<longrightarrow>
    good_credentials srv cd n req h d creation expiration) (h @ cs)"
proof -
  have new: "good_credentials srv cd n req h d creation expiration"
    if d: "CreateBootstrapKubeConfig cd (requiredCtxClusterName req) (requiredKubeAPIServer req) (requiredProxyURL req)
        (requiredCA req) (requiredCAData req) token = Inr d"
      and "result (token_request srv n) (h @ cs) = Inr (token, creation, expiration) \<or>
        result (token_valid srv n token creation expiration) (h @ cs)"
    for token creation expiration d cs
  proof -
    from d roundtrip have "clientcmd_Load cd d = Inr (bootstrap_config (requiredCtxClusterName req)
        (requiredKubeAPIServer req) (requiredProxyURL req) (requiredCA req) (requiredCAData req) token)"
      by (simp add: CreateBootstrapKubeConfig_def)
    from meets_new [OF this ca] that(2) show ?thesis unfolding good_credentials_def by auto
  qed
  show ?thesis
  proof (cases "tokenData k = []")
    case True
    show ?thesis
      unfolding renew_def token_request_def [symmetric]
      by (simp add: True wp_bind, rule wp_mono [OF wp_result])
        (auto simp: wp_simps split: sum.splits intro: new [OF _ disjI1])
  next
    case False
    with k have v: "result (token_valid srv n (tokenData k) (tokenCreation k) (tokenExpiration k)) (h @ [])"
      by (simp add: kept_ok_def)
    have "good_credentials srv cd n req h (bootstrapKubeconfigData k) (tokenCreation k) (tokenExpiration k)"
      if "bootstrapKubeconfigData k \<noteq> []"
      using that False k v unfolding kept_ok_def good_credentials_def by auto (metis append_Nil2)
    with False v show ?thesis
      by (auto simp: renew_def wp_simps split: sum.splits intro: new [where cs = "[]", OF _ disjI2])
  qed
qed

text \<open>What the result of \<open>buildBootstrapKubeconfigData\<close> has to be, for the history at its start.\<close>

definition good_result ::
  "server \<Rightarrow> codec \<Rightarrow> tools \<Rightarrow> bool \<Rightarrow> ManagedCluster \<Rightarrow> KlusterletConfig option \<Rightarrow> call list \<Rightarrow>
   (err + string \<times> string \<times> string) option \<Rightarrow> bool" where
  "good_result srv cd tk ocp mc config h r \<longleftrightarrow> (\<forall>d creation expiration. r = Some (Inr (d, creation, expiration)) \<longrightarrow>
    (\<exists>req cs. result (get_required srv tk ocp (Name mc) config (isSelfManaged (Some mc))) (h @ cs) = Inr req \<and>
       good_credentials srv cd (Name mc) req h d creation expiration))"

lemma wp_keep_and_renew:
  assumes "\<And>c d. clientcmd_Encode cd c = Inr d \<Longrightarrow> clientcmd_Load cd d = Inr c"
    and req: "result (get_required srv tk ocp (Name mc) config (isSelfManaged (Some mc))) (h @ qs) = Inr req"
  shows "wp (do { k \<leftarrow> keep_valid srv cd (Name mc) data req kd; d \<leftarrow> renew srv cd (Name mc) req k; return (Some d) })
      (\<lambda>r _. good_result srv cd tk ocp mc config h r) (h @ pre)"
  unfolding wp_bind
proof (rule wp_calls_only [OF reads_keep_valid])
  fix k cs
  assume "run_state (keep_valid srv cd (Name mc) data req kd) (h @ pre) = (k, (h @ pre) @ cs)"
  with wp_keep_valid [of srv cd "Name mc" data req kd "h @ pre"]
  have k: "kept_ok srv cd (Name mc) req (h @ pre) k" by (simp add: wp_run)
  have ca: "requiredCA req = [] \<or> requiredCAData req = []" by (rule get_required_shape [OF req])
  show "wp (renew srv cd (Name mc) req k) (\<lambda>d. wp (return (Some d)) (\<lambda>r _. good_result srv cd tk ocp mc config h r)) ((h @ pre) @ cs)"
    using req unfolding good_result_def by (intro wp_mono [OF wp_renew [OF k ca assms(1)]])
      (auto simp only: wp_return option.inject intro!: exI [of _ req] exI [of _ qs] dest: good_credentials_append)
qed

lemma wp_required:
  assumes "\<And>c d. clientcmd_Encode cd c = Inr d \<Longrightarrow> clientcmd_Load cd d = Inr c"
  shows "wp (do { r \<leftarrow> get_required srv tk ocp (Name mc) config (isSelfManaged (Some mc));
      case r of Inl e \<Rightarrow> return (Some (Inl e))
        | Inr req \<Rightarrow> (case kd of None \<Rightarrow> return None
          | Some kd \<Rightarrow> do { k \<leftarrow> keep_valid srv cd (Name mc) data req kd;
              d \<leftarrow> renew srv cd (Name mc) req k; return (Some d) }) })
    (\<lambda>r _. good_result srv cd tk ocp mc config h r) (h @ qs)"
  unfolding wp_bind [of "get_required _ _ _ _ _ _"]
proof (rule wp_calls_only [OF reads_get_required])
  fix r cs
  assume r: "run_state (get_required srv tk ocp (Name mc) config (isSelfManaged (Some mc))) (h @ qs) = (r, (h @ qs) @ cs)"
  show "wp (case r of Inl e \<Rightarrow> return (Some (Inl e))
    | Inr req \<Rightarrow> (case kd of None \<Rightarrow> return None
      | Some kd \<Rightarrow> do { k \<leftarrow> keep_valid srv cd (Name mc) data req kd;
          d \<leftarrow> renew srv cd (Name mc) req k; return (Some d) })) (\<lambda>r _. good_result srv cd tk ocp mc config h r) ((h @ qs) @ cs)"
  proof (cases r)
    case (Inr req)
    with r have "result (get_required srv tk ocp (Name mc) config (isSelfManaged (Some mc))) (h @ qs) = Inr req"
      by (simp add: result_def)
    from wp_keep_and_renew [OF assms this, of data _ "qs @ cs"] Inr show ?thesis
      by (cases kd) (simp_all add: wp_return good_result_def)
  qed (simp add: wp_return good_result_def)
qed

text \<open>
  C7. Every bootstrap kubeconfig that the controller returns is good: it parses, its server, proxy,
  certificate authorities and cluster name are the ones that are required in the same run, and its
  token was either issued in this run or passed the validation in this run with the creation and
  expiration that are returned next to it. A kubeconfig with a token that is expired, about to
  expire, revoked or unknown is never put into the import secret. The hypothesis on the codec is
  the round trip of kubeconfigs.
\<close>

theorem bootstrap_kubeconfig_good:
  assumes "result (buildBootstrapKubeconfigData srv cd tk ocp mc config) h = Some (Inr (d, creation, expiration))"
    and "\<And>c d. clientcmd_Encode cd c = Inr d \<Longrightarrow> clientcmd_Load cd d = Inr c"
  shows "\<exists>req cs. result (get_required srv tk ocp (Name mc) config (isSelfManaged (Some mc))) (h @ cs) = Inr req \<and>
    good_credentials srv cd (Name mc) req h d creation expiration"
proof -
  have "wp (buildBootstrapKubeconfigData srv cd tk ocp mc config) (\<lambda>r _. good_result srv cd tk ocp mc config h r) h"
    using wp_required [OF assms(2)]
    unfolding buildBootstrapKubeconfigData_def getImportSecret_def wp_bind [of "ask _ _"] wp_ask
    by (auto simp: wp_return good_result_def split: sum.split)
  with assms(1) show ?thesis by (simp add: wp_run result_def good_result_def)
qed

definition self_managed_cluster :: ManagedCluster where
  "self_managed_cluster = (new_cluster ''c1'')\<lparr>Labels := fmap_of_list [(SelfManagedLabel, ''true'')]\<rparr>"

definition ocp_server :: server where
  "ocp_server = empty_server\<lparr>on_GetInfrastructure := (\<lambda>_ _. Inr (''https://hub'', ''uid''))\<rparr>"

lemma sample_kubeconfig_codec_roundtrip:
  "clientcmd_Encode sample_kubeconfig_codec c = Inr d \<Longrightarrow> clientcmd_Load sample_kubeconfig_codec d = Inr c"
  by (auto simp: sample_kubeconfig_codec_def split: if_splits)

theorem bootstrap_kubeconfig_good_witness:
  "\<exists>req. good_credentials ocp_server sample_kubeconfig_codec ''c1'' req [] ''kubeconfig'' [] []"
proof -
  have "result (buildBootstrapKubeconfigData ocp_server sample_kubeconfig_codec sample_tools True self_managed_cluster None) [] =
      Some (Inr (''kubeconfig'', [], []))"
    by code_simp
  from bootstrap_kubeconfig_good [OF this sample_kubeconfig_codec_roundtrip] show ?thesis
    by (auto simp: self_managed_cluster_def new_cluster_def new_meta_def ObjectMeta.defs)
qed

text \<open>
  C22. A bootstrap kubeconfig that still meets the required settings and whose token is still valid
  is left alone: the controller returns exactly what the import secret holds, with the recorded
  creation and expiration, and writes nothing: no token is requested, so the import secret does
  not change from one run to the next.
\<close>

theorem valid_kubeconfig_untouched:
  assumes "on_GetSecret srv h (Name mc) (Name mc @ ''-'' @ ImportSecretNameSuffix) = Inr s"
    and "extractBootstrapKubeConfigDataFromImportSecret cd (Some s) = Some d" and "d \<noteq> []"
    and "ParseKubeConfigData cd d = Inr p"
    and "run_state (get_required srv tk ocp (Name mc) config (isSelfManaged (Some mc)))
      (h @ [Read (GetSecret (Name mc) (Name mc @ ''-'' @ ImportSecretNameSuffix))]) = (Inr req, h')"
    and "meets p req"
    and "result (token_valid srv (Name mc) (PKToken p) (goidx (Data s) ImportSecretTokenCreation)
      (goidx (Data s) ImportSecretTokenExpiration)) h'"
  shows "result (buildBootstrapKubeconfigData srv cd tk ocp mc config) h =
      Some (Inr (d, goidx (Data s) ImportSecretTokenCreation, goidx (Data s) ImportSecretTokenExpiration)) \<and>
    list_all (\<lambda>c. \<not> is_write c) (new_calls (buildBootstrapKubeconfigData srv cd tk ocp mc config) h)"
proof (intro conjI)
  let ?q = "Read (GetSecret (Name mc) (Name mc @ ''-'' @ ImportSecretNameSuffix))"
  let ?k = "\<lparr>bootstrapKubeconfigData = d, tokenData = PKToken p, tokenCreation = goidx (Data s) ImportSecretTokenCreation,
    tokenExpiration = goidx (Data s) ImportSecretTokenExpiration\<rparr>"
  obtain h'' where "run_state (token_valid srv (Name mc) (PKToken p) (goidx (Data s) ImportSecretTokenCreation)
      (goidx (Data s) ImportSecretTokenExpiration)) h' = (True, h'')"
    using assms(7) unfolding result_def by (metis (full_types) prod.collapse)
  with assms(3,4,6) have k: "run_state (keep_valid srv cd (Name mc) (Data s) req d) h' = (?k, h'')"
    by (simp add: keep_valid_def Let_def no_credentials_def)
  have "run_state (renew srv cd (Name mc) req ?k) h'' =
      (Inr (d, goidx (Data s) ImportSecretTokenCreation, goidx (Data s) ImportSecretTokenExpiration), h'')"
    using assms(3) token_valid_nonempty [OF assms(7)] by (simp add: renew_def)
  with k assms(1,2,5) have r: "run_state (buildBootstrapKubeconfigData srv cd tk ocp mc config) h =
      (Some (Inr (d, goidx (Data s) ImportSecretTokenCreation, goidx (Data s) ImportSecretTokenExpiration)), h'')"
    by (simp add: buildBootstrapKubeconfigData_def getImportSecret_def ask_def)
  then show "result (buildBootstrapKubeconfigData srv cd tk ocp mc config) h =
      Some (Inr (d, goidx (Data s) ImportSecretTokenCreation, goidx (Data s) ImportSecretTokenExpiration))"
    by (simp add: result_def)
  from calls_onlyD [OF reads_get_required, of srv tk ocp "Name mc" config "isSelfManaged (Some mc)" "h @ [?q]"] assms(5)
  obtain cs where "h' = (h @ [?q]) @ cs" "list_all (\<lambda>c. \<not> is_write c) cs" by auto
  moreover from calls_onlyD [OF reads_keep_valid, of srv cd "Name mc" "Data s" req d h'] k
  obtain cs' where "h'' = h' @ cs'" "list_all (\<lambda>c. \<not> is_write c) cs'" by auto
  ultimately show "list_all (\<lambda>c. \<not> is_write c) (new_calls (buildBootstrapKubeconfigData srv cd tk ocp mc config) h)"
    using r by (simp add: new_calls_def)
qed

definition stored_codec :: codec where
  "stored_codec = sample_kubeconfig_codec\<lparr>decode := (\<lambda>raw. Inr (SecretObj
     (ObjectMeta.extend (new_meta ''ns'' DefaultBootstrapHubKubeConfigSecretName)
       \<lparr>SecretType = ''Opaque'', Data = fmap_of_list [(''kubeconfig'', raw)]\<rparr>)))\<rparr>"

definition stored_secret :: Secret where
  "stored_secret = import_secret ''c1'' fmempty ''kubeconfig'' [] ''2024-02-20T00:00:00Z'' ''2024-03-01T00:00:00Z''"

definition stored_server :: server where
  "stored_server = ocp_server\<lparr>on_GetSecret := (\<lambda>_ _ _. Inr stored_secret), on_now := (\<lambda>_. 1709000000000000000)\<rparr>"

theorem valid_kubeconfig_untouched_witness:
  "result (buildBootstrapKubeconfigData stored_server stored_codec sample_tools True self_managed_cluster None) [] =
     Some (Inr (''kubeconfig'', ''2024-02-20T00:00:00Z'', ''2024-03-01T00:00:00Z''))"
proof -
  let ?p = "\<lparr>PKServer = apiServerInternalEndpoint, PKProxy = [], PKCA = apiServerInternalEndpointCA, PKCAData = [],
    PKToken = ''token'', PKCluster = ''uid''\<rparr>"
  let ?req = "\<lparr>requiredKubeAPIServer = apiServerInternalEndpoint, requiredProxyURL = [],
    requiredCA = apiServerInternalEndpointCA, requiredCAData = [], requiredCtxClusterName = ''uid''\<rparr>"
  let ?h = "[Read (GetSecret ''c1'' (''c1-'' @ ImportSecretNameSuffix))]"
  have n: "Name self_managed_cluster = ''c1''" by code_simp
  have g: "on_GetSecret stored_server [] ''c1'' (''c1'' @ ''-'' @ ImportSecretNameSuffix) = Inr stored_secret"
    by (simp add: stored_server_def)
  have x: "extractBootstrapKubeConfigDataFromImportSecret stored_codec (Some stored_secret) = Some ''kubeconfig''" by code_simp
  have p: "ParseKubeConfigData stored_codec ''kubeconfig'' = Inr ?p" by code_simp
  have r: "run_state (get_required stored_server sample_tools True ''c1'' None (isSelfManaged (Some self_managed_cluster)))
      ([] @ ?h) = (Inr ?req, ?h @ [Read (GetInfrastructure ''cluster'')])" by code_simp
  have m: "meets ?p ?req" by code_simp
  have d: "goidx (Data stored_secret) ImportSecretTokenCreation = ''2024-02-20T00:00:00Z''"
    "goidx (Data stored_secret) ImportSecretTokenExpiration = ''2024-03-01T00:00:00Z''" by code_simp+
  have v: "result (token_valid stored_server ''c1'' (PKToken ?p) ''2024-02-20T00:00:00Z'' ''2024-03-01T00:00:00Z'')
      (?h @ [Read (GetInfrastructure ''cluster'')])" by code_simp
  show ?thesis
    using valid_kubeconfig_untouched [of stored_server "[]" self_managed_cluster stored_secret stored_codec "''kubeconfig''" ?p
        sample_tools True None ?req "?h @ [Read (GetInfrastructure ''cluster'')]"] g x p r m v
    by (simp add: n d)
qed

section \<open>What is written\<close>

text \<open>A write of \<open>ApplyResources\<close> for an object owned by the cluster.\<close>

definition applies :: "server \<Rightarrow> ManagedCluster \<Rightarrow> obj \<Rightarrow> request \<Rightarrow> bool" where
  "applies srv mc x w \<longleftrightarrow> (\<exists>x' h. own_obj mc x = Inr x' \<and> Write w \<in> set (new_calls (apply_obj srv Hub x') h))"

definition writes_only :: "(request \<Rightarrow> bool) \<Rightarrow> call \<Rightarrow> bool" where
  "writes_only P c \<longleftrightarrow> (\<forall>w. c = Write w \<longrightarrow> P w)"

lemma writes_only_reads [simp]: "\<not> is_write c \<Longrightarrow> writes_only P c"
  by (auto simp: writes_only_def)

lemma writes_only_Write [simp]: "writes_only P (Write w) = P w"
  by (simp add: writes_only_def)

lemma calls_new_calls:
  assumes "calls_only R m"
  shows "calls_only (\<lambda>c. \<exists>h. c \<in> set (new_calls m h)) m"
  unfolding calls_only_def
proof
  fix h
  from calls_onlyD [OF assms, of h] obtain cs where cs: "snd (run_state m h) = h @ cs" by blast
  then have "list_all (\<lambda>c. \<exists>h. c \<in> set (new_calls m h)) cs"
    by (auto simp: list_all_iff new_calls_def intro!: exI [of _ h])
  with cs show "\<exists>cs. snd (run_state m h) = h @ cs \<and> list_all (\<lambda>c. \<exists>h. c \<in> set (new_calls m h)) cs" by blast
qed

lemma calls_apply_owned:
  "own_obj mc x = Inr x' \<Longrightarrow> calls_only (writes_only (applies srv mc x)) (apply_obj srv Hub x')"
  by (rule calls_only_mono [OF calls_new_calls [OF calls_apply_obj]]) (auto simp: writes_only_def applies_def)

lemma calls_ApplyResources_owned:
  "calls_only (writes_only (\<lambda>w. \<exists>x \<in> set objs. applies srv mc x w)) (ApplyResources srv Hub (Some mc) objs)"
proof -
  have "calls_only (writes_only (\<lambda>w. \<exists>x \<in> set objs. applies srv mc x w)) (apply_objs srv Hub (Some mc) objs changed errs)"
    for changed errs
  proof (induction objs arbitrary: changed errs)
    case (Cons x objs)
    show ?case
      by (auto intro!: calls_intros calls_only_mono [OF Cons] calls_only_mono [OF calls_apply_owned] simp: writes_only_def)
  qed (auto intro!: calls_intros)
  then show ?thesis by (simp add: ApplyResources_def)
qed

definition bootstrap_token_request :: "string \<Rightarrow> request" where
  "bootstrap_token_request n = CreateToken n (GetBootstrapSAName n) DefaultSecretTokenExpirationSecond"

text \<open>
  The writes of a run: for the roles and the service account that the agent starts with, for a token
  of that account, and for the secrets; these are built from credentials and manifests that were
  made in the same run, the second one only when the configuration asks for it.
\<close>

definition secret_write ::
  "server \<Rightarrow> renderer \<Rightarrow> codec \<Rightarrow> tools \<Rightarrow> bool \<Rightarrow> string \<Rightarrow> ManagedCluster \<Rightarrow> request \<Rightarrow> bool" where
  "secret_write srv rd cd tk ocp ns mc w \<longleftrightarrow>
     (\<exists>config h1 d creation expiration h2 importSecret configSecret.
        result (buildBootstrapKubeconfigData srv cd tk ocp mc config) h1 = Some (Inr (d, creation, expiration)) \<and>
        result (buildImportSecret srv rd cd mc (DetermineKlusterletMode mc) config d creation expiration) h2 =
          Some (Inr (importSecret, configSecret)) \<and>
        (applies srv mc (SecretObj importSecret) w \<or>
         applies srv mc (SecretObj configSecret) w \<and> (\<exists>h3. result (GenerateImportConfig srv ns) h3 = Inr True)))"

lemma calls_GetBootstrapToken:
  "calls_only (writes_only (\<lambda>w. w = CreateToken ns sa seconds)) (GetBootstrapToken srv sa ns seconds)"
  unfolding GetBootstrapToken_def RequestSAToken_def by (intro calls_intros) simp_all

lemma calls_renew: "calls_only (writes_only (\<lambda>w. w = bootstrap_token_request n)) (renew srv cd n req k)"
  unfolding renew_def bootstrap_token_request_def by (intro calls_intros calls_GetBootstrapToken)

lemma calls_buildBootstrapKubeconfigData:
  "calls_only (writes_only (\<lambda>w. w = bootstrap_token_request (Name mc))) (buildBootstrapKubeconfigData srv cd tk ocp mc config)"
  unfolding buildBootstrapKubeconfigData_def getImportSecret_def
  by (intro calls_intros calls_renew calls_only_mono [OF reads_get_required] calls_only_mono [OF reads_keep_valid]) simp_all

lemma reads_buildImportSecret:
  "calls_only (\<lambda>c. \<not> is_write c) (buildImportSecret srv rd cd mc mode config d creation expiration)"
  unfolding buildImportSecret_def by (intro calls_intros reads_Generate)

lemma reads_GetMerged: "calls_only (\<lambda>c. \<not> is_write c) (GetMergedKlusterletConfigWithGlobal srv n)"
  unfolding GetMergedKlusterletConfigWithGlobal_def by (intro calls_intros) simp_all

lemma reads_GenerateImportConfig: "calls_only (\<lambda>c. \<not> is_write c) (GenerateImportConfig srv ns)"
  unfolding GenerateImportConfig_def by (intro calls_intros) simp

definition importconfig_write ::
  "server \<Rightarrow> renderer \<Rightarrow> codec \<Rightarrow> tools \<Rightarrow> bool \<Rightarrow> string \<Rightarrow> ManagedCluster \<Rightarrow> obj list \<Rightarrow> request \<Rightarrow> bool" where
  "importconfig_write srv rd cd tk ocp ns mc objs w \<longleftrightarrow>
     (\<exists>x \<in> set objs. applies srv mc x w) \<or> w = bootstrap_token_request (Name mc) \<or>
     secret_write srv rd cd tk ocp ns mc w"

lemma issues_bind_writes:
  assumes "calls_only (writes_only R) m" and "\<And>w. R w \<Longrightarrow> P w"
    and "\<And>a cs. run_state m h = (a, h @ cs) \<Longrightarrow> issues (writes_only P) (f a) (h @ cs)"
  shows "issues (writes_only P) (State_Monad.bind m f) h"
  by (rule issues_bind_calls [OF assms(1)]) (use assms(2,3) in \<open>auto simp: writes_only_def\<close>)

lemma issues_bind_reads:
  assumes "calls_only (\<lambda>c. \<not> is_write c) m"
    and "\<And>a h'. result m h = a \<Longrightarrow> issues (writes_only P) (f a) h'"
  shows "issues (writes_only P) (State_Monad.bind m f) h"
  by (rule issues_bind_calls [OF assms(1)]) (use assms(2) in \<open>auto simp: result_def\<close>)

lemma issues_importconfig:
  assumes "on_GetManagedCluster srv h n = Inr mc" and "GenerateHubBootstrapRBACObjects rd cd (Name mc) = Some (Inr objs)"
  shows "issues (writes_only (importconfig_write srv rd cd tk ocp ns mc objs))
    (importconfig_Reconcile srv rd cd tk ocp hostedEnabled ns n) h"
proof -
  let ?P = "importconfig_write srv rd cd tk ocp ns mc objs"
  let ?mode = "DetermineKlusterletMode mc"
  have secrets: "issues (writes_only ?P) (do {
      (changed, e) \<leftarrow> ApplyResources srv Hub (Some mc) [SecretObj importSecret];
      case e of
        Some e \<Rightarrow> return (Some (emptyResult, Some e))
      | None \<Rightarrow> do {
          g \<leftarrow> GenerateImportConfig srv ns;
          case g of
            Inl e \<Rightarrow> return (Some (emptyResult, Some e))
          | Inr generateConfigSecret \<Rightarrow>
              if \<not> generateConfigSecret then return (Some (emptyResult, None))
              else do {
                (changed, e) \<leftarrow> ApplyResources srv Hub (Some mc) [SecretObj configSecret];
                return (Some (emptyResult, e)) } } }) h'"
    if built: "result (buildBootstrapKubeconfigData srv cd tk ocp mc config) h1 = Some (Inr (d, creation, expiration))"
      "result (buildImportSecret srv rd cd mc ?mode config d creation expiration) h2 =
          Some (Inr (importSecret, configSecret))"
    for importSecret configSecret h' h1 h2 config d creation expiration
  proof (rule issues_bind_writes [OF calls_ApplyResources_owned], goal_cases)
    case (1 w)
    with built show ?case unfolding importconfig_write_def secret_write_def by auto
  next
    case (2 a cs)
    have config: "issues (writes_only ?P) (ApplyResources srv Hub (Some mc) [SecretObj configSecret]) h''"
      if "result (GenerateImportConfig srv ns) h3 = Inr True" for h3 h''
      by (rule issues_mono [OF issues_calls_only [OF calls_ApplyResources_owned [where objs = "[SecretObj configSecret]"]]])
        (use that built in \<open>auto simp: writes_only_def importconfig_write_def secret_write_def\<close>)
    show ?case
      by (cases a, simp add: prod.case, intro issues_intros issues_bind_reads [OF reads_GenerateImportConfig])
        (auto intro!: issues_intros issues_bindI config)
  qed
  have manifests: "issues (writes_only ?P) (do {
      s \<leftarrow> buildImportSecret srv rd cd mc ?mode config d creation expiration;
      case s of
        None \<Rightarrow> return None
      | Some (Inl e) \<Rightarrow> return (Some (emptyResult, Some e))
      | Some (Inr (importSecret, configSecret)) \<Rightarrow> k importSecret configSecret }) h'"
    if "result (buildBootstrapKubeconfigData srv cd tk ocp mc config) h1 = Some (Inr (d, creation, expiration))"
      and "\<And>i c h2 h'. result (buildImportSecret srv rd cd mc ?mode config d creation expiration) h2 = Some (Inr (i, c)) \<Longrightarrow>
        issues (writes_only ?P) (k i c) h'"
    for config d creation expiration k h1 h'
    by (rule issues_bind_reads [OF reads_buildImportSecret]) (intro issues_intros, use that(2) in simp)
  have kubeconfig: "issues (writes_only ?P) (do {
      b \<leftarrow> buildBootstrapKubeconfigData srv cd tk ocp mc config;
      case b of
        None \<Rightarrow> return None
      | Some (Inl e) \<Rightarrow> return (Some (emptyResult, Some e))
      | Some (Inr (d, creation, expiration)) \<Rightarrow> k d creation expiration }) h'"
    if "\<And>d creation expiration h1 h'. result (buildBootstrapKubeconfigData srv cd tk ocp mc config) h1 =
        Some (Inr (d, creation, expiration)) \<Longrightarrow> issues (writes_only ?P) (k d creation expiration) h'"
    for config k h'
    by (rule issues_bind_writes [OF calls_buildBootstrapKubeconfigData])
      (auto simp: importconfig_write_def result_def intro!: issues_intros that [of h'])
  show ?thesis
    unfolding importconfig_Reconcile_def Let_def
    apply (rule issues_bind_ask, simp)
    apply (simp only: assms sum.case option.case)
    apply (rule issues_if, rule issues_return)
    apply (rule issues_bind_writes [OF calls_ApplyResources_owned], simp add: importconfig_write_def)
    apply (intro issues_intros issues_bind_reads [OF reads_GetMerged] kubeconfig manifests secrets; assumption)
    done
qed

text \<open>
  C14. A run writes only for a cluster that exists and whose mode is enabled, and only: the objects of
  the hub's bootstrap roles, owned by the cluster; the request for a token of the cluster's own
  bootstrap account; the import secret, made from the kubeconfig and the manifests that were built
  for this cluster and its mode; and the secret with the chart's values, only when the
  controller's configuration asks for it.
\<close>

theorem importconfig_writes:
  assumes "Write w \<in> set (new_calls (importconfig_Reconcile srv rd cd tk ocp hostedEnabled ns n) h)"
  shows "\<exists>mc objs. on_GetManagedCluster srv h n = Inr mc \<and>
    ValidateKlusterletMode hostedEnabled (DetermineKlusterletMode mc) = None \<and>
    GenerateHubBootstrapRBACObjects rd cd (Name mc) = Some (Inr objs) \<and>
    importconfig_write srv rd cd tk ocp ns mc objs w"
proof (cases "on_GetManagedCluster srv h n")
  case (Inl e)
  with assms show ?thesis by (simp add: importconfig_Reconcile_def new_calls_def ask_def)
next
  case (Inr mc)
  from assms Inr have mode: "ValidateKlusterletMode hostedEnabled (DetermineKlusterletMode mc) = None"
    by (auto simp: importconfig_Reconcile_def new_calls_def ask_def Let_def split: if_splits)
  from assms Inr mode obtain objs where objs: "GenerateHubBootstrapRBACObjects rd cd (Name mc) = Some (Inr objs)"
    by (auto simp: importconfig_Reconcile_def new_calls_def ask_def Let_def split: option.splits sum.splits)
  from issues_new_calls [OF issues_importconfig [OF Inr objs] assms] Inr mode objs show ?thesis by auto
qed

definition klusterlet_codec :: codec where
  "klusterlet_codec = sample_kubeconfig_codec\<lparr>decode := decode sample_codec, decoded_gvk := decoded_gvk sample_codec\<rparr>"

definition reconciled_server :: "ManagedCluster \<Rightarrow> server" where
  "reconciled_server mc = ocp_server\<lparr>on_GetManagedCluster := (\<lambda>_ _. Inr mc)\<rparr>"

abbreviation reconcile_sample :: "ManagedCluster \<Rightarrow> (call, (Result \<times> err option) option) prog" where
  "reconcile_sample mc \<equiv> importconfig_Reconcile (reconciled_server mc) sample_renderer klusterlet_codec sample_tools
     True True ''ns'' ''c1''"

fun is_token_request :: "call \<Rightarrow> bool" where
  "is_token_request (Write (CreateToken ns sa seconds)) = True"
| "is_token_request _ = False"

lemma token_requested:
  "list_ex is_token_request cs \<Longrightarrow> \<exists>ns sa seconds. Write (CreateToken ns sa seconds) \<in> set cs"
  by (auto simp: list_ex_iff elim!: is_token_request.elims(2))

theorem importconfig_writes_witness:
  "\<exists>ns sa seconds objs. importconfig_write (reconciled_server self_managed_cluster) sample_renderer klusterlet_codec
     sample_tools True ''ns'' self_managed_cluster objs (CreateToken ns sa seconds)"
proof -
  have "list_ex is_token_request (new_calls (reconcile_sample self_managed_cluster) [])" by code_simp
  from token_requested [OF this] obtain ns sa seconds where
    "Write (CreateToken ns sa seconds) \<in> set (new_calls (reconcile_sample self_managed_cluster) [])" by blast
  from importconfig_writes [OF this] show ?thesis by (auto simp: reconciled_server_def)
qed

text \<open>
  C19. The import secret lies in the cluster's namespace under the cluster's name and carries the
  label by which the other controllers find it; it is marked as hosted exactly in the hosted modes,
  where it has no CRDs; it records the creation and the expiration of the token exactly when they
  are known; and its manifests, CRDs and values are one rendering for the mode, the name and the
  kubeconfig that were passed in.
\<close>

theorem import_secret_contents:
  assumes "result (buildImportSecret srv rd cd mc mode config d creation expiration) h = Some (Inr (i, v))"
  shows "Namespace i = Name mc \<and> Name i = Name mc @ ''-'' @ ImportSecretNameSuffix \<and>
    fmlookup (Labels i) ClusterImportSecretLabel = Some [] \<and>
    fmlookup (Annotations i) KlusterletDeployModeAnnotation =
      (if is_hosted_mode mode then Some InstallModeHosted else None) \<and>
    fmlookup (Data i) ImportSecretTokenCreation = (if creation = [] then None else Some creation) \<and>
    fmlookup (Data i) ImportSecretTokenExpiration = (if expiration = [] then None else Some expiration) \<and>
    Namespace v = Name mc \<and> Name v = ClusterImportConfigSecretName \<and>
    (\<exists>c manifests crds. BootstrapHubKubeConfig (chartConfig c) = d \<and> Mode (chartConfig c) = mode \<and>
       ClusterName (chartConfig c) = Name mc \<and> managedCluster c = Some mc \<and> klusterletConfig c = config \<and>
       result (Generate srv rd cd c) h = Some (Inr (manifests, crds, goidx (Data v) ValuesYamlKey)) \<and>
       fmlookup (Data i) ImportSecretImportYamlKey = Some manifests \<and>
       fmlookup (Data i) ImportSecretCRDSYamlKey = Some (if is_hosted_mode mode then [] else crds))"
proof -
  from assms obtain c where c: "klusterlet_manifests mode mc config d = Inr c"
    by (cases "klusterlet_manifests mode mc config d") (auto simp: buildImportSecret_def result_def)
  from assms c obtain manifests crds vals where g: "result (Generate srv rd cd c) h = Some (Inr (manifests, crds, vals))"
    and i: "i = import_secret (Name mc) (if is_hosted_mode mode
      then fmap_of_list [(KlusterletDeployModeAnnotation, InstallModeHosted)] else fmempty) manifests
      (if is_hosted_mode mode then [] else crds) creation expiration" and v: "v = values_secret (Name mc) vals"
    by (auto simp: buildImportSecret_def result_def split: prod.splits option.splits sum.splits if_splits)
  have keys: "ImportSecretImportYamlKey \<noteq> ImportSecretCRDSYamlKey" "ImportSecretTokenCreation \<noteq> ImportSecretTokenExpiration"
    "ImportSecretTokenCreation \<notin> {ImportSecretImportYamlKey, ImportSecretCRDSYamlKey}"
    "ImportSecretTokenExpiration \<notin> {ImportSecretImportYamlKey, ImportSecretCRDSYamlKey}"
    by (simp_all add: ImportSecretImportYamlKey_def ImportSecretCRDSYamlKey_def ImportSecretTokenCreation_def
        ImportSecretTokenExpiration_def)
  have "BootstrapHubKubeConfig (chartConfig c) = d" "Mode (chartConfig c) = mode" "ClusterName (chartConfig c) = Name mc"
    "managedCluster c = Some mc" "klusterletConfig c = config"
    using c by (auto simp: klusterlet_manifests_def WithPriorityClassName_def WithKlusterletConfig_def WithManagedCluster_def
        WithoutImagePullSecretGenerate_def NewKlusterletManifestsConfig_def newKlusterletChartConfig_def
        split: if_splits sum.splits)
  with g i v keys show ?thesis
    by (auto simp: import_secret_def values_secret_def Let_def ObjectMeta.defs new_meta_def goidx_def)
qed

theorem import_secret_contents_witness:
  "\<exists>i v. result (buildImportSecret empty_server sample_renderer sample_codec (new_cluster ''c1'') InstallModeHosted None
       ''kubeconfig'' [] ''later'') [] = Some (Inr (i, v)) \<and> Name i = ''c1-import'' \<and>
     fmlookup (Data i) ImportSecretTokenExpiration = Some ''later''"
proof -
  have "case result (buildImportSecret empty_server sample_renderer sample_codec (new_cluster ''c1'') InstallModeHosted None
       ''kubeconfig'' [] ''later'') [] of Some (Inr _) \<Rightarrow> True | _ \<Rightarrow> False" by code_simp
  then obtain i v where r: "result (buildImportSecret empty_server sample_renderer sample_codec (new_cluster ''c1'')
       InstallModeHosted None ''kubeconfig'' [] ''later'') [] = Some (Inr (i, v))"
    by (auto split: option.splits sum.splits)
  from import_secret_contents [OF r] r show ?thesis
    by (auto simp: new_cluster_def new_meta_def ObjectMeta.defs ImportSecretNameSuffix_def)
qed

lemma wp_any: "(\<And>a s'. Q a s') \<Longrightarrow> wp m Q s"
  by (simp add: wp_run)

text \<open>
  C40. A cluster whose annotation names no deploy mode is rejected only at the end of a run: the
  check on modes lets it pass, so a run never ends without an error, and its retries never stop.
  As the witness shows, a run has by then requested a token that it throws away.
\<close>

theorem unknown_mode_never_settles:
  assumes "on_GetManagedCluster srv h n = Inr mc" and "DetermineKlusterletMode mc = ''Unknown''"
  shows "case result (importconfig_Reconcile srv rd cd tk ocp hostedEnabled ns n) h of
    None \<Rightarrow> True | Some (res, e) \<Rightarrow> e \<noteq> None"
proof -
  have mode: "ValidateKlusterletMode hostedEnabled ''Unknown'' = None"
    by (simp add: ValidateKlusterletMode_def InstallModeHosted_def)
  have build: "buildImportSecret srv rd cd mc ''Unknown'' config d creation expiration =
      return (Some (Inl (ErrorString ''klusterlet deploy mode Unknown not supported'')))" for config d creation expiration
    by (simp add: buildImportSecret_def klusterlet_manifests_def InstallModeDefault_def InstallModeSingleton_def
        InstallModeHosted_def InstallModeSingletonHosted_def)
  have "wp (importconfig_Reconcile srv rd cd tk ocp hostedEnabled ns n)
      (\<lambda>r _. case r of None \<Rightarrow> True | Some (res, e) \<Rightarrow> e \<noteq> None) h"
    unfolding importconfig_Reconcile_def
    by (simp add: wp_bind [of "ask _ _"] wp_ask assms mode build Let_def)
      (auto simp: wp_simps assms(2) build split: option.split sum.split
        intro!: wp_any [where m = "ApplyResources _ _ _ _"] wp_any [where m = "GetMergedKlusterletConfigWithGlobal _ _"]
          wp_any [where m = "buildBootstrapKubeconfigData _ _ _ _ _ _"])
  then show ?thesis by (simp add: wp_run result_def)
qed

theorem unknown_mode_never_settles_witness:
  "let run = reconcile_sample (self_managed_cluster\<lparr>Annotations := fmap_of_list [(KlusterletDeployModeAnnotation, ''None'')]\<rparr>)
   in result run [] \<noteq> Some (emptyResult, None) \<and> list_ex is_token_request (new_calls run [])"
proof -
  let ?mc = "self_managed_cluster\<lparr>Annotations := fmap_of_list [(KlusterletDeployModeAnnotation, ''None'')]\<rparr>"
  have "list_ex is_token_request (new_calls (reconcile_sample ?mc) [])" by code_simp
  moreover have "DetermineKlusterletMode ?mc = ''Unknown''" by code_simp
  from unknown_mode_never_settles [OF _ this, of "reconciled_server ?mc" "[]" "''c1''" sample_renderer klusterlet_codec sample_tools
      True True "''ns''"]
  have "result (reconcile_sample ?mc) [] \<noteq> Some (emptyResult, None)" by (auto simp: reconciled_server_def)
  ultimately show ?thesis by (simp add: Let_def)
qed

end
