(* ===== verification/Watches.thy ===== *)
theory Watches
  imports Apply Klusterlet_Config Csr Work_Helpers Managed_Cluster
begin

text \<open>
  Which events wake which controller: the \<open>manager.go\<close> of every controller, the event sources of
  \<open>pkg/source/source.go\<close> and the handlers of \<open>importconfig/klusterletconfighandler.go\<close>. An event is
  delivered to the work queue of a controller as a list of keys, the namespace and the name of a
  request. A watched object is the typed object where the code looks at more than its metadata.
\<close>

section \<open>Objects, events and predicates\<close>

datatype resource = Clusters | Namespaces | CSRs | Secrets | Works | KlusterletConfigs | ConfigMaps |
  ClusterRoles | ClusterRoleBindings | ServiceAccounts | ClusterDeployments | Addons | InfraEnvs | APIServers

datatype watched =
    ClusterW ManagedCluster
  | CSRW CSR
  | SecretW Secret
  | WorkW ManifestWork
  | KlusterletConfigW KlusterletConfig
  | ConfigMapW ConfigMap
  | PlainW resource ObjectMeta
  | PartialW resource ObjectMeta \<comment> \<open>\<open>PartialObjectMetadata\<close>, what a metadata watch delivers\<close>

fun meta_of :: "watched \<Rightarrow> ObjectMeta" where
  "meta_of (ClusterW x) = ObjectMeta.truncate x"
| "meta_of (CSRW x) = ObjectMeta.truncate x"
| "meta_of (SecretW x) = ObjectMeta.truncate x"
| "meta_of (WorkW x) = ObjectMeta.truncate x"
| "meta_of (KlusterletConfigW x) = ObjectMeta.truncate x"
| "meta_of (ConfigMapW x) = ObjectMeta.truncate x"
| "meta_of (PlainW r m) = m"
| "meta_of (PartialW r m) = m"

lemma meta_fields [simp]:
  "Name (ObjectMeta.truncate x) = Name x" "Namespace (ObjectMeta.truncate x) = Namespace x"
  "Labels (ObjectMeta.truncate x) = Labels x" "Annotations (ObjectMeta.truncate x) = Annotations x"
  "Finalizers (ObjectMeta.truncate x) = Finalizers x" "DeletionTimestamp (ObjectMeta.truncate x) = DeletionTimestamp x"
  "OwnerReferences (ObjectMeta.truncate x) = OwnerReferences x"
  by (simp_all add: ObjectMeta.truncate_def)

datatype event =
    CreateEvent watched
  | UpdateEvent watched watched \<comment> \<open>the old object and the new one\<close>
  | DeleteEvent watched
  | GenericEvent watched

fun event_object :: "event \<Rightarrow> watched" where
  "event_object (CreateEvent x) = x"
| "event_object (UpdateEvent old x) = x"
| "event_object (DeleteEvent x) = x"
| "event_object (GenericEvent x) = x"

text \<open>\<open>predicate.Funcs\<close>; a function that is not set is \<open>always\<close>.\<close>

record Funcs =
  CreateFunc :: "watched \<Rightarrow> bool"
  UpdateFunc :: "watched \<Rightarrow> watched \<Rightarrow> bool"
  DeleteFunc :: "watched \<Rightarrow> bool"
  GenericFunc :: "watched \<Rightarrow> bool"

fun admits :: "Funcs \<Rightarrow> event \<Rightarrow> bool" where
  "admits p (CreateEvent x) = CreateFunc p x"
| "admits p (UpdateEvent old x) = UpdateFunc p old x"
| "admits p (DeleteEvent x) = DeleteFunc p x"
| "admits p (GenericEvent x) = GenericFunc p x"

definition never :: "watched \<Rightarrow> bool" where "never x = False"
definition always :: "watched \<Rightarrow> bool" where "always x = True"

definition any_event :: Funcs where
  "any_event = \<lparr>CreateFunc = always, UpdateFunc = (\<lambda>_ _. True), DeleteFunc = always, GenericFunc = always\<rparr>"

section \<open>Handlers\<close>

type_synonym key = "string \<times> string" \<comment> \<open>namespace and name\<close>

definition EnqueueRequestForObject :: "event \<Rightarrow> key list" where
  "EnqueueRequestForObject e = (let m = meta_of (event_object e) in [(Namespace m, Name m)])"

definition enqueue_mapped :: "(ObjectMeta \<Rightarrow> key) \<Rightarrow> event \<Rightarrow> key list" where
  "enqueue_mapped f e =
     (case e of
        UpdateEvent old new \<Rightarrow> remdups [f (meta_of old), f (meta_of new)]
      | _ \<Rightarrow> [f (meta_of (event_object e))])"

text \<open>\<open>EnqueueRequestForOwner\<close> for controlling managed clusters, which have no namespace.\<close>

definition owner_keys :: "ObjectMeta \<Rightarrow> key list" where
  "owner_keys m =
     (case GetControllerOf (OwnerReferences m) of
        None \<Rightarrow> []
      | Some ref \<Rightarrow>
          if RefKind ref = ''ManagedCluster'' \<and>
            ParseGroup (APIVersion ref) = Some ''cluster.open-cluster-management.io''
          then [([], RefName ref)] else [])"

definition EnqueueRequestForOwner :: "event \<Rightarrow> key list" where
  "EnqueueRequestForOwner e =
     (case e of
        UpdateEvent old new \<Rightarrow> remdups (owner_keys (meta_of old) @ owner_keys (meta_of new))
      | _ \<Rightarrow> owner_keys (meta_of (event_object e)))"

text \<open>\<open>ManagedClusterResourceEventHandler\<close>, with its \<open>MapFunc\<close> or the default.\<close>

definition namespace_key :: "ObjectMeta \<Rightarrow> key" where
  "namespace_key m = (Namespace m, Namespace m)"

definition ManagedClusterResourceEventHandler :: "(ObjectMeta \<Rightarrow> key) option \<Rightarrow> event \<Rightarrow> key list" where
  "ManagedClusterResourceEventHandler MapFunc e =
     (case e of
        GenericEvent x \<Rightarrow> []
      | _ \<Rightarrow> [(case MapFunc of None \<Rightarrow> namespace_key | Some f \<Rightarrow> f) (meta_of (event_object e))])"

section \<open>Informer sources\<close>

text \<open>What an informer hands to its event handlers: an object, a tombstone or something else.\<close>

datatype informer_obj = Object watched | DeletedFinalStateUnknown informer_obj | NotAnObject

datatype go_type = TypeSecret | TypeManifestWork | OtherType

fun TypeOf :: "watched \<Rightarrow> go_type" where
  "TypeOf (SecretW s) = TypeSecret"
| "TypeOf (WorkW w) = TypeManifestWork"
| "TypeOf _ = OtherType"

datatype notification = OnAdd informer_obj | OnUpdate informer_obj informer_obj | OnDelete informer_obj

fun tombstone_object :: "informer_obj \<Rightarrow> informer_obj" where
  "tombstone_object (Object x) = Object x"
| "tombstone_object (DeletedFinalStateUnknown x) = x"
| "tombstone_object NotAnObject = NotAnObject"

definition if_admitted :: "Funcs list \<Rightarrow> (event \<Rightarrow> key list) \<Rightarrow> event \<Rightarrow> key list" where
  "if_admitted predicates handler e = (if list_all (\<lambda>p. admits p e) predicates then handler e else [])"

fun Source_Start :: "go_type \<Rightarrow> (event \<Rightarrow> key list) \<Rightarrow> Funcs list \<Rightarrow> notification \<Rightarrow> key list" where
  "Source_Start expectedType handler predicates (OnAdd obj) =
     (case obj of
        Object newObj \<Rightarrow>
          if expectedType \<noteq> TypeOf newObj then [] else if_admitted predicates handler (CreateEvent newObj)
      | _ \<Rightarrow> [])"
| "Source_Start expectedType handler predicates (OnUpdate oldObj newObj) =
     (case oldObj of
        Object old \<Rightarrow>
          if expectedType \<noteq> TypeOf old then []
          else (case newObj of
              Object new \<Rightarrow>
                if expectedType \<noteq> TypeOf new then [] else if_admitted predicates handler (UpdateEvent old new)
            | _ \<Rightarrow> [])
      | _ \<Rightarrow> [])"
| "Source_Start expectedType handler predicates (OnDelete obj) =
     (case tombstone_object obj of
        Object x \<Rightarrow> if_admitted predicates handler (DeleteEvent x)
      | _ \<Rightarrow> [])"

section \<open>Watches\<close>

datatype origin = Kind resource | Metadata resource | ImportSecrets | AutoImportSecrets | KlusterletWorks | HostedWorks

record watch =
  Origin :: origin
  Handler :: "event \<Rightarrow> key list"
  Predicates :: "Funcs list"

text \<open>The keys that an event from one origin adds to the queue of a controller.\<close>

definition deliver :: "watch list \<Rightarrow> origin \<Rightarrow> event \<Rightarrow> key list" where
  "deliver watches o' e =
     concat (map (\<lambda>w. if_admitted (Predicates w) (Handler w) e) (filter (\<lambda>w. Origin w = o') watches))"

definition NewImportSecretSource :: "(event \<Rightarrow> key list) \<Rightarrow> Funcs list \<Rightarrow> watch" where
  "NewImportSecretSource handler predicates = \<lparr>Origin = ImportSecrets, Handler = handler, Predicates = predicates\<rparr>"

definition NewAutoImportSecretSource :: "(event \<Rightarrow> key list) \<Rightarrow> Funcs list \<Rightarrow> watch" where
  "NewAutoImportSecretSource handler predicates =
     \<lparr>Origin = AutoImportSecrets, Handler = handler, Predicates = predicates\<rparr>"

definition NewKlusterletWorkSource :: "(event \<Rightarrow> key list) \<Rightarrow> Funcs list \<Rightarrow> watch" where
  "NewKlusterletWorkSource handler predicates =
     \<lparr>Origin = KlusterletWorks, Handler = handler, Predicates = predicates\<rparr>"

definition NewHostedWorkSource :: "(event \<Rightarrow> key list) \<Rightarrow> Funcs list \<Rightarrow> watch" where
  "NewHostedWorkSource handler predicates = \<lparr>Origin = HostedWorks, Handler = handler, Predicates = predicates\<rparr>"

definition Watches :: "resource \<Rightarrow> (event \<Rightarrow> key list) \<Rightarrow> Funcs list \<Rightarrow> watch" where
  "Watches r handler predicates = \<lparr>Origin = Kind r, Handler = handler, Predicates = predicates\<rparr>"

definition WatchesMetadata :: "resource \<Rightarrow> (event \<Rightarrow> key list) \<Rightarrow> Funcs list \<Rightarrow> watch" where
  "WatchesMetadata r handler predicates = \<lparr>Origin = Metadata r, Handler = handler, Predicates = predicates\<rparr>"

text \<open>The predicates that several controllers share; a failed type assertion is false.\<close>

fun data_changed :: "watched \<Rightarrow> watched \<Rightarrow> bool" where
  "data_changed (SecretW old) (SecretW new) = (Data old \<noteq> Data new)"
| "data_changed _ _ = False"

definition klusterlet_work_name :: "string \<Rightarrow> bool" where
  "klusterlet_work_name workName \<longleftrightarrow> HasSuffix workName KlusterletCRDsSuffix \<or> HasSuffix workName KlusterletSuffix"

fun work_changed :: "(ManifestWork \<Rightarrow> ManifestWork \<Rightarrow> bool) \<Rightarrow> watched \<Rightarrow> watched \<Rightarrow> bool" where
  "work_changed changed (WorkW old) (WorkW new) = changed old new"
| "work_changed changed _ _ = False"

definition manifests_changed :: "ManifestWork \<Rightarrow> ManifestWork \<Rightarrow> bool" where
  "manifests_changed old new \<longleftrightarrow> \<not> ManifestsEqual (Manifests new) (Manifests old)"

definition klusterlet_work_changed :: "(ManifestWork \<Rightarrow> ManifestWork \<Rightarrow> bool) \<Rightarrow> watched \<Rightarrow> watched \<Rightarrow> bool" where
  "klusterlet_work_changed changed old new =
     (if \<not> klusterlet_work_name (Name (meta_of new)) then False else work_changed changed old new)"

definition labels_changed :: "watched \<Rightarrow> watched \<Rightarrow> bool" where
  "labels_changed old new \<longleftrightarrow> Labels (meta_of old) \<noteq> Labels (meta_of new)"

definition annotations_changed :: "watched \<Rightarrow> watched \<Rightarrow> bool" where
  "annotations_changed old new \<longleftrightarrow> Annotations (meta_of old) \<noteq> Annotations (meta_of new)"

definition auto_import_enabled :: "watched \<Rightarrow> watched \<Rightarrow> bool" where
  "auto_import_enabled old new \<longleftrightarrow> haskey (Annotations (meta_of old)) DisableAutoImportAnnotation \<and>
     \<not> haskey (Annotations (meta_of new)) DisableAutoImportAnnotation"

definition isHostedModeObject :: "watched \<Rightarrow> bool" where
  "isHostedModeObject x \<longleftrightarrow> EqualFold (goidx (Annotations (meta_of x)) KlusterletDeployModeAnnotation) InstallModeHosted"

definition isDefaultModeObject :: "watched \<Rightarrow> bool" where
  "isDefaultModeObject x \<longleftrightarrow>
     \<not> EqualFold (goidx (Annotations (meta_of x)) KlusterletDeployModeAnnotation) InstallModeHosted"

fun IsKubeVersionChanged :: "watched \<Rightarrow> watched \<Rightarrow> bool" where
  "IsKubeVersionChanged (ClusterW old) (ClusterW new) = (KubernetesVersion old \<noteq> KubernetesVersion new)"
| "IsKubeVersionChanged _ _ = False"

definition deletions_only :: Funcs where
  "deletions_only = \<lparr>CreateFunc = never, UpdateFunc = (\<lambda>_ _. False), DeleteFunc = always, GenericFunc = never\<rparr>"

definition restored :: Funcs where
  "restored = \<lparr>CreateFunc = never, UpdateFunc = (\<lambda>_ _. True), DeleteFunc = always, GenericFunc = never\<rparr>"

definition new_secret_data :: Funcs where
  "new_secret_data = \<lparr>CreateFunc = always, UpdateFunc = data_changed, DeleteFunc = never, GenericFunc = never\<rparr>"

definition new_klusterlet_work :: Funcs where
  "new_klusterlet_work = \<lparr>CreateFunc = (\<lambda>x. klusterlet_work_name (Name (meta_of x))),
     UpdateFunc = klusterlet_work_changed manifests_changed, DeleteFunc = never, GenericFunc = never\<rparr>"

section \<open>The controllers\<close>

definition csr_watches :: "watch list" where
  "csr_watches = [Watches CSRs EnqueueRequestForObject [\<lparr>
     CreateFunc = (\<lambda>x. case x of CSRW csr \<Rightarrow> isValidUnapprovedBootstrapCSR csr | _ \<Rightarrow> False),
     UpdateFunc = (\<lambda>_ x. case x of CSRW csr \<Rightarrow> isValidUnapprovedBootstrapCSR csr | _ \<Rightarrow> False),
     DeleteFunc = never, GenericFunc = never\<rparr>]]"

definition managedcluster_watches :: "watch list" where
  "managedcluster_watches = [
     Watches Clusters EnqueueRequestForObject [\<lparr>CreateFunc = always,
       UpdateFunc = (\<lambda>old new.
         if DeletionTimestamp (meta_of new) \<noteq> None then True
         else Finalizers (meta_of old) \<noteq> Finalizers (meta_of new) \<or> labels_changed old new \<or> annotations_changed old new),
       DeleteFunc = always, GenericFunc = never\<rparr>],
     Watches Namespaces EnqueueRequestForObject [\<lparr>CreateFunc = always, UpdateFunc = labels_changed,
       DeleteFunc = never, GenericFunc = never\<rparr>]]"

definition manifestwork_watches :: "watch list" where
  "manifestwork_watches = [
     NewKlusterletWorkSource (ManagedClusterResourceEventHandler None) [\<lparr>CreateFunc = always,
       UpdateFunc = klusterlet_work_changed manifests_changed, DeleteFunc = always, GenericFunc = never\<rparr>],
     Watches Clusters EnqueueRequestForObject [\<lparr>CreateFunc = isDefaultModeObject,
       UpdateFunc = (\<lambda>old new.
         if \<not> isDefaultModeObject new then False
         else haskey (Annotations (meta_of old)) DisableAutoImportAnnotation \<noteq>
           haskey (Annotations (meta_of new)) DisableAutoImportAnnotation),
       DeleteFunc = isDefaultModeObject, GenericFunc = isDefaultModeObject\<rparr>],
     NewImportSecretSource (ManagedClusterResourceEventHandler None) [new_secret_data]]"

definition importstatus_watches :: "watch list" where
  "importstatus_watches = [
     NewKlusterletWorkSource (ManagedClusterResourceEventHandler None) [\<lparr>CreateFunc = always,
       UpdateFunc = klusterlet_work_changed (\<lambda>old new. WorkConditions new \<noteq> WorkConditions old),
       DeleteFunc = always, GenericFunc = never\<rparr>],
     Watches Clusters EnqueueRequestForObject [\<lparr>CreateFunc = isDefaultModeObject,
       UpdateFunc = (\<lambda>old new. isDefaultModeObject new), DeleteFunc = isDefaultModeObject,
       GenericFunc = isDefaultModeObject\<rparr>]]"

definition autoimport_watches :: "watch list" where
  "autoimport_watches = [
     NewImportSecretSource (ManagedClusterResourceEventHandler None) [new_secret_data],
     NewAutoImportSecretSource (ManagedClusterResourceEventHandler None) [new_secret_data],
     Watches Clusters EnqueueRequestForObject [\<lparr>CreateFunc = never,
       UpdateFunc = (\<lambda>old new. if IsImmediateImport (Annotations (meta_of new)) then True
         else auto_import_enabled old new),
       DeleteFunc = never, GenericFunc = never\<rparr>],
     NewKlusterletWorkSource (ManagedClusterResourceEventHandler None) [new_klusterlet_work]]"

definition clusterdeployment_watches :: "watch list" where
  "clusterdeployment_watches = [
     Watches ClusterDeployments (enqueue_mapped namespace_key) [],
     Watches Clusters EnqueueRequestForObject [\<lparr>CreateFunc = never,
       UpdateFunc = (\<lambda>old new.
         if IsImmediateImport (Annotations (meta_of new)) then True
         else if auto_import_enabled old new then True
         else goidx (Annotations (meta_of old)) CreatedViaAnnotation \<noteq>
           goidx (Annotations (meta_of new)) CreatedViaAnnotation),
       DeleteFunc = never, GenericFunc = never\<rparr>],
     NewImportSecretSource (ManagedClusterResourceEventHandler None) [new_secret_data],
     NewKlusterletWorkSource (ManagedClusterResourceEventHandler None) [new_klusterlet_work]]"

definition selfmanaged_watches :: "watch list" where
  "selfmanaged_watches = [
     NewImportSecretSource (ManagedClusterResourceEventHandler None) [new_secret_data],
     Watches Clusters EnqueueRequestForObject [\<lparr>CreateFunc = never,
       UpdateFunc = (\<lambda>old new.
         if labels_changed old new \<and> EqualFold (goidx (Labels (meta_of new)) SelfManagedLabel) ''true'' then True
         else if IsImmediateImport (Annotations (meta_of new)) then True
         else auto_import_enabled old new),
       DeleteFunc = never, GenericFunc = never\<rparr>],
     NewKlusterletWorkSource (ManagedClusterResourceEventHandler None) [new_klusterlet_work]]"

text \<open>\<open>MapFunc\<close> of the hosted controller: a hosted work lies in the namespace of the hosting cluster.\<close>

definition hosted_work_key :: "ObjectMeta \<Rightarrow> key" where
  "hosted_work_key m = (
     let workName = Name m;
         managedClusterName = Namespace m;
         managedClusterName = (if HasSuffix workName HostedKlusterletManifestworkSuffix
           then TrimSuffix workName (''-'' @ HostedKlusterletManifestworkSuffix) else managedClusterName);
         managedClusterName = (if HasSuffix workName HostedManagedKubeconfigManifestworkSuffix
           then TrimSuffix workName (''-'' @ HostedManagedKubeconfigManifestworkSuffix) else managedClusterName) in
     (managedClusterName, managedClusterName))"

definition hosted_work_name :: "string \<Rightarrow> bool" where
  "hosted_work_name workName \<longleftrightarrow> HasSuffix workName HostedKlusterletManifestworkSuffix \<or>
     HasSuffix workName HostedManagedKubeconfigManifestworkSuffix"

definition hosted_watches :: "watch list" where
  "hosted_watches = [
     NewHostedWorkSource (ManagedClusterResourceEventHandler (Some hosted_work_key)) [\<lparr>CreateFunc = always,
       UpdateFunc = (\<lambda>old new. if \<not> hosted_work_name (Name (meta_of new)) then False
         else work_changed (\<lambda>old new. manifests_changed old new \<or>
           WorkConditions new \<noteq> WorkConditions old \<or> ManifestStatuses new \<noteq> ManifestStatuses old) old new),
       DeleteFunc = always, GenericFunc = never\<rparr>],
     Watches Clusters EnqueueRequestForObject [\<lparr>CreateFunc = isHostedModeObject,
       UpdateFunc = (\<lambda>old new. isHostedModeObject new), DeleteFunc = isHostedModeObject,
       GenericFunc = isHostedModeObject\<rparr>],
     NewImportSecretSource (ManagedClusterResourceEventHandler None) [\<lparr>CreateFunc = isHostedModeObject,
       UpdateFunc = data_changed, DeleteFunc = never, GenericFunc = never\<rparr>],
     NewAutoImportSecretSource (ManagedClusterResourceEventHandler None) [new_secret_data]]"

definition cluster_namespace_event :: "watched \<Rightarrow> bool" where
  "cluster_namespace_event x = (if Labels (meta_of x) = fmempty then False else haskey (Labels (meta_of x)) ClusterLabel)"

definition namespacedeletion_watches :: "watch list" where
  "namespacedeletion_watches = [
     Watches Clusters (enqueue_mapped (\<lambda>m. ([], Name m))) [\<lparr>CreateFunc = never,
       UpdateFunc = (\<lambda>old new. DeletionTimestamp (meta_of new) \<noteq> None), DeleteFunc = always, GenericFunc = never\<rparr>],
     Watches Namespaces (enqueue_mapped (\<lambda>m. ([], Name m))) [\<lparr>CreateFunc = cluster_namespace_event,
       UpdateFunc = (\<lambda>old new. cluster_namespace_event new), DeleteFunc = never, GenericFunc = never\<rparr>],
     Watches ClusterDeployments (enqueue_mapped (\<lambda>m. ([], Namespace m))) [deletions_only],
     Watches Addons (enqueue_mapped (\<lambda>m. ([], Namespace m))) [deletions_only],
     Watches InfraEnvs (enqueue_mapped (\<lambda>m. ([], Namespace m))) [deletions_only]]"

definition resourcecleanup_watches :: "watch list" where
  "resourcecleanup_watches = [
     Watches Clusters EnqueueRequestForObject [\<lparr>CreateFunc = never,
       UpdateFunc = (\<lambda>old new. DeletionTimestamp (meta_of new) \<noteq> None), DeleteFunc = always,
       GenericFunc = (\<lambda>x. DeletionTimestamp (meta_of x) \<noteq> None)\<rparr>]]"

definition flightctl_watches :: "watch list" where
  "flightctl_watches = [
     Watches Clusters EnqueueRequestForObject [\<lparr>
       CreateFunc = (\<lambda>x. case x of ClusterW c \<Rightarrow> \<not> HubAcceptsClient c | _ \<Rightarrow> False),
       UpdateFunc = (\<lambda>_ x. case x of ClusterW c \<Rightarrow> \<not> HubAcceptsClient c | _ \<Rightarrow> False),
       DeleteFunc = never, GenericFunc = never\<rparr>]]"

section \<open>The import configuration controller\<close>

text \<open>The indexes of the informers, and the objects of a store that have a value.\<close>

fun IndexManagedClusterByKlusterletconfigAnnotation :: "watched \<Rightarrow> err + string list" where
  "IndexManagedClusterByKlusterletconfigAnnotation (ClusterW c) =
     (let klusterletconfigs = [GlobalKlusterletConfigName] in
      case fmlookup (Annotations c) AnnotationKlusterletConfig of
        Some klusterletconfig \<Rightarrow>
          if klusterletconfig \<noteq> [] then Inr (klusterletconfigs @ [klusterletconfig]) else Inr klusterletconfigs
      | None \<Rightarrow> Inr klusterletconfigs)"
| "IndexManagedClusterByKlusterletconfigAnnotation _ = Inl (ErrorString ''not a managedcluster object'')"

fun IndexKlusterletConfigByBootstrapKubeConfigSecrets :: "watched \<Rightarrow> err + string list" where
  "IndexKlusterletConfigByBootstrapKubeConfigSecrets (KlusterletConfigW kc) =
     (case MultipleHubsConfig kc of
        None \<Rightarrow> Inr []
      | Some m \<Rightarrow>
          if BootstrapType m \<noteq> ''LocalSecrets'' then Inr []
          else (case LocalSecrets m of None \<Rightarrow> Inr [] | Some s \<Rightarrow> Inr (KubeConfigSecrets s)))"
| "IndexKlusterletConfigByBootstrapKubeConfigSecrets _ = Inl (ErrorString ''not a klustereltconfig object'')"

definition configmapKey :: "string \<Rightarrow> string \<Rightarrow> string" where
  "configmapKey namespace name = namespace @ ''/'' @ name"

fun IndexKlusterletConfigByCustomizedCAConfigmaps :: "watched \<Rightarrow> err + string list" where
  "IndexKlusterletConfigByCustomizedCAConfigmaps (KlusterletConfigW kc) =
     (case HubKubeAPIServerConfig kc of
        None \<Rightarrow> Inr []
      | Some c \<Rightarrow> Inr (map (\<lambda>b. configmapKey (BundleNamespace b) (BundleConfigMap b)) (TrustedCABundles c)))"
| "IndexKlusterletConfigByCustomizedCAConfigmaps _ = Inl (ErrorString ''not a klustereltconfig object'')"

definition ByIndex :: "(watched \<Rightarrow> err + string list) \<Rightarrow> ('a \<Rightarrow> watched) \<Rightarrow> 'a list \<Rightarrow> string \<Rightarrow> 'a list" where
  "ByIndex index wrap store v = filter (\<lambda>x. case index (wrap x) of Inl e \<Rightarrow> False | Inr vs \<Rightarrow> v \<in> set vs) store"

record stores =
  cluster_store :: "ManagedCluster list"
  config_store :: "KlusterletConfig list"

definition enqueue_config_users :: "stores \<Rightarrow> string \<Rightarrow> key list" where
  "enqueue_config_users st klusterletconfigName =
     map (\<lambda>c. ([], Name c))
       (ByIndex IndexManagedClusterByKlusterletconfigAnnotation ClusterW (cluster_store st) klusterletconfigName)"

definition enqueueManagedClusterInKlusterletConfigAnnotation :: "stores \<Rightarrow> event \<Rightarrow> key list" where
  "enqueueManagedClusterInKlusterletConfigAnnotation st e = enqueue_config_users st (Name (meta_of (event_object e)))"

definition enqueueManagedClusterByBootstrapKubeConfigSecrets :: "stores \<Rightarrow> event \<Rightarrow> key list" where
  "enqueueManagedClusterByBootstrapKubeConfigSecrets st e =
     concat (map (\<lambda>kc. enqueue_config_users st (Name kc))
       (ByIndex IndexKlusterletConfigByBootstrapKubeConfigSecrets KlusterletConfigW (config_store st)
         (Name (meta_of (event_object e)))))"

definition enqueueManagedClusterByCustomizedCAConfigmaps :: "stores \<Rightarrow> event \<Rightarrow> key list" where
  "enqueueManagedClusterByCustomizedCAConfigmaps st e =
     concat (map (\<lambda>kc. enqueue_config_users st (Name kc))
       (ByIndex IndexKlusterletConfigByCustomizedCAConfigmaps KlusterletConfigW (config_store st)
         (configmapKey (Namespace (meta_of (event_object e))) (Name (meta_of (event_object e))))))"

definition HubCABundleLabelKey :: string where
  "HubCABundleLabelKey = ''import.open-cluster-management.io/ca-bundle''"

definition ca_labelled :: "watched \<Rightarrow> bool" where
  "ca_labelled x \<longleftrightarrow> length (goidx (Labels (meta_of x)) HubCABundleLabelKey) > 0"

fun ca_bundle_changed :: "watched \<Rightarrow> watched \<Rightarrow> bool" where
  "ca_bundle_changed (ConfigMapW old) (ConfigMapW new) =
     ((ca_labelled (ConfigMapW new) \<or> ca_labelled (ConfigMapW old)) \<and> ConfigData new \<noteq> ConfigData old)"
| "ca_bundle_changed _ _ = False"

definition importconfig_watches :: "string \<Rightarrow> stores \<Rightarrow> watch list" where
  "importconfig_watches podNS st = [
     Watches Clusters EnqueueRequestForObject [\<lparr>CreateFunc = always,
       UpdateFunc = (\<lambda>old new. labels_changed old new \<or> annotations_changed old new \<or> IsKubeVersionChanged old new),
       DeleteFunc = never, GenericFunc = never\<rparr>],
     Watches ClusterRoles EnqueueRequestForOwner [restored],
     Watches ClusterRoleBindings EnqueueRequestForOwner [restored],
     Watches ServiceAccounts EnqueueRequestForOwner [restored],
     Watches KlusterletConfigs (enqueueManagedClusterInKlusterletConfigAnnotation st) [any_event],
     NewImportSecretSource (ManagedClusterResourceEventHandler None) [restored],
     WatchesMetadata Secrets (enqueueManagedClusterByBootstrapKubeConfigSecrets st) [\<lparr>
       CreateFunc = (\<lambda>x. Namespace (meta_of x) = podNS),
       UpdateFunc = (\<lambda>old new. Namespace (meta_of new) = podNS \<or> Namespace (meta_of old) = podNS),
       DeleteFunc = (\<lambda>x. Namespace (meta_of x) = podNS), GenericFunc = (\<lambda>x. Namespace (meta_of x) = podNS)\<rparr>],
     WatchesMetadata ConfigMaps (enqueueManagedClusterByCustomizedCAConfigmaps st) [\<lparr>
       CreateFunc = ca_labelled, UpdateFunc = ca_bundle_changed, DeleteFunc = ca_labelled, GenericFunc = ca_labelled\<rparr>]]"

section \<open>All controllers\<close>

definition AddToManager :: "bool \<Rightarrow> string \<Rightarrow> stores \<Rightarrow> (string \<times> watch list) list" where
  "AddToManager hostedEnabled podNS st = [
     (''csr-controller'', csr_watches),
     (''managedcluster-controller'', managedcluster_watches),
     (''importconfig-controller'', importconfig_watches podNS st),
     (''manifestwork-controller'', manifestwork_watches),
     (''selfmanagedcluster-controller'', selfmanaged_watches),
     (''autoimport-controller'', autoimport_watches),
     (''clusterdeployment-controller'', clusterdeployment_watches),
     (''clusternamespacedeletion-controller'', namespacedeletion_watches),
     (''import-status-controller'', importstatus_watches)] @
     (if hostedEnabled then [(''hosted-manifestwork-controller'', hosted_watches)] else []) @
     [(''resourcecleanup-controller'', resourcecleanup_watches),
      (''flightctl-managedcluster-controller'', flightctl_watches)]"

text \<open>The controllers that an event wakes, and with which keys.\<close>

definition wakes :: "bool \<Rightarrow> string \<Rightarrow> stores \<Rightarrow> origin \<Rightarrow> event \<Rightarrow> (string \<times> key) set" where
  "wakes hostedEnabled podNS st o' e =
     {x. case x of (c, k) \<Rightarrow> \<exists>ws. (c, ws) \<in> set (AddToManager hostedEnabled podNS st) \<and> k \<in> set (deliver ws o' e)}"

section \<open>Who is woken\<close>

named_theorems watch_defs "the watches of the controllers, unfolded for one event"

lemma deliver_simps [simp]:
  "deliver [] o' e = []"
  "deliver (w # ws) o' e = (if Origin w = o' then if_admitted (Predicates w) (Handler w) e else []) @ deliver ws o' e"
  by (simp_all add: deliver_def)

lemmas [watch_defs] = Watches_def WatchesMetadata_def NewImportSecretSource_def NewAutoImportSecretSource_def
  NewKlusterletWorkSource_def NewHostedWorkSource_def if_admitted_def EnqueueRequestForObject_def enqueue_mapped_def
  ManagedClusterResourceEventHandler_def never_def always_def Let_def

lemmas all_watches = csr_watches_def managedcluster_watches_def importconfig_watches_def manifestwork_watches_def
  selfmanaged_watches_def autoimport_watches_def clusterdeployment_watches_def namespacedeletion_watches_def
  importstatus_watches_def hosted_watches_def resourcecleanup_watches_def flightctl_watches_def

lemma wakes_iff:
  "(c, k) \<in> wakes hostedEnabled podNS st o' e \<longleftrightarrow>
     (\<exists>ws. (c, ws) \<in> set (AddToManager hostedEnabled podNS st) \<and> k \<in> set (deliver ws o' e))"
  by (auto simp: wakes_def)

definition uses_config :: "string \<Rightarrow> ManagedCluster \<Rightarrow> bool" where
  "uses_config n c \<longleftrightarrow> n = GlobalKlusterletConfigName \<or>
     n \<noteq> [] \<and> fmlookup (Annotations c) AnnotationKlusterletConfig = Some n"

lemma enqueue_config_users_iff:
  "k \<in> set (enqueue_config_users st n) \<longleftrightarrow> (\<exists>c \<in> set (cluster_store st). uses_config n c \<and> k = ([], Name c))"
  by (auto simp: enqueue_config_users_def ByIndex_def uses_config_def GlobalKlusterletConfigName_def Let_def
      split: option.splits if_splits sum.splits)

text \<open>The configurations that name a secret or a config map.\<close>

definition names_secret :: "string \<Rightarrow> KlusterletConfig \<Rightarrow> bool" where
  "names_secret n kc \<longleftrightarrow> (\<exists>m s. MultipleHubsConfig kc = Some m \<and> BootstrapType m = ''LocalSecrets'' \<and>
     LocalSecrets m = Some s \<and> n \<in> set (KubeConfigSecrets s))"

definition names_configmap :: "string \<Rightarrow> string \<Rightarrow> KlusterletConfig \<Rightarrow> bool" where
  "names_configmap ns n kc \<longleftrightarrow> (\<exists>c b. HubKubeAPIServerConfig kc = Some c \<and> b \<in> set (TrustedCABundles c) \<and>
     configmapKey (BundleNamespace b) (BundleConfigMap b) = configmapKey ns n)"

lemma enqueue_by_secret_iff:
  "k \<in> set (enqueueManagedClusterByBootstrapKubeConfigSecrets st e) \<longleftrightarrow>
     (\<exists>kc \<in> set (config_store st). names_secret (Name (meta_of (event_object e))) kc \<and>
        (\<exists>c \<in> set (cluster_store st). uses_config (Name kc) c \<and> k = ([], Name c)))"
  by (force simp: enqueueManagedClusterByBootstrapKubeConfigSecrets_def ByIndex_def names_secret_def
      enqueue_config_users_iff split: option.splits if_splits sum.splits)

lemma enqueue_by_configmap_iff:
  "k \<in> set (enqueueManagedClusterByCustomizedCAConfigmaps st e) \<longleftrightarrow>
     (\<exists>kc \<in> set (config_store st).
        names_configmap (Namespace (meta_of (event_object e))) (Name (meta_of (event_object e))) kc \<and>
        (\<exists>c \<in> set (cluster_store st). uses_config (Name kc) c \<and> k = ([], Name c)))"
  by (force simp: enqueueManagedClusterByCustomizedCAConfigmaps_def ByIndex_def names_configmap_def
      enqueue_config_users_iff split: option.splits sum.splits)

lemma configmapKey_inject:
  "CHR ''/'' \<notin> set ns \<Longrightarrow> CHR ''/'' \<notin> set ns' \<Longrightarrow> configmapKey ns n = configmapKey ns' n' \<longleftrightarrow> ns = ns' \<and> n = n'"
proof (induction ns arbitrary: ns')
  case Nil
  then show ?case by (cases ns') (auto simp: configmapKey_def)
next
  case (Cons c ns)
  then show ?case by (cases ns') (auto simp: configmapKey_def)
qed

text \<open>
  C36. A change of any kind to a klusterlet configuration wakes the import configuration controller for
  exactly the clusters whose merged configuration reads it: all clusters for the global
  configuration, and those whose annotation names it for any other; a new or deleted kubeconfig
  secret in the controller's namespace, and a new or deleted CA bundle with the label, wake it
  for exactly the clusters that use a configuration that names the secret or the config map.
\<close>

theorem config_events_reach_their_users:
  "set (deliver (importconfig_watches podNS st) (Kind KlusterletConfigs) e) =
     {([], Name c) |c. c \<in> set (cluster_store st) \<and> uses_config (Name (meta_of (event_object e))) c} \<and>
   set (deliver (importconfig_watches podNS st) (Metadata Secrets) (CreateEvent x)) =
     (if Namespace (meta_of x) = podNS then {([], Name c) |c. c \<in> set (cluster_store st) \<and>
        (\<exists>kc \<in> set (config_store st). names_secret (Name (meta_of x)) kc \<and> uses_config (Name kc) c)} else {}) \<and>
   set (deliver (importconfig_watches podNS st) (Metadata ConfigMaps) (CreateEvent x)) =
     (if ca_labelled x then {([], Name c) |c. c \<in> set (cluster_store st) \<and>
        (\<exists>kc \<in> set (config_store st). names_configmap (Namespace (meta_of x)) (Name (meta_of x)) kc \<and>
           uses_config (Name kc) c)} else {})"
proof (intro conjI)
  have "admits any_event e" by (cases e) (simp_all add: any_event_def always_def)
  then show "set (deliver (importconfig_watches podNS st) (Kind KlusterletConfigs) e) =
     {([], Name c) |c. c \<in> set (cluster_store st) \<and> uses_config (Name (meta_of (event_object e))) c}"
    by (auto simp: importconfig_watches_def watch_defs enqueueManagedClusterInKlusterletConfigAnnotation_def
        enqueue_config_users_iff)
  show "set (deliver (importconfig_watches podNS st) (Metadata Secrets) (CreateEvent x)) =
     (if Namespace (meta_of x) = podNS then {([], Name c) |c. c \<in> set (cluster_store st) \<and>
        (\<exists>kc \<in> set (config_store st). names_secret (Name (meta_of x)) kc \<and> uses_config (Name kc) c)} else {})"
    by (auto simp: importconfig_watches_def watch_defs enqueue_by_secret_iff)
  show "set (deliver (importconfig_watches podNS st) (Metadata ConfigMaps) (CreateEvent x)) =
     (if ca_labelled x then {([], Name c) |c. c \<in> set (cluster_store st) \<and>
        (\<exists>kc \<in> set (config_store st). names_configmap (Namespace (meta_of x)) (Name (meta_of x)) kc \<and>
           uses_config (Name kc) c)} else {})"
    by (auto simp: importconfig_watches_def watch_defs enqueue_by_configmap_iff)
qed

text \<open>
  A change to a CA bundle that is in use wakes nobody: the events of the metadata watch carry
  partial objects, whose type assertion in the predicate fails.
\<close>

theorem ca_bundle_updates_ignored:
  "wakes hostedEnabled podNS st (Metadata ConfigMaps) (UpdateEvent (PartialW ConfigMaps old) (PartialW ConfigMaps new)) = {}"
  by (auto simp: wakes_def AddToManager_def all_watches watch_defs split: if_splits)

text \<open>
  C16. No wake-up is lost when a cluster is resumed: when the annotation that disables auto-import is
  taken from a cluster, all three controllers that import clusters are woken for it, and so is the
  manifest work controller, unless the cluster is hosted.
\<close>

theorem resumed_cluster_wakes_importers:
  assumes "haskey (Annotations old) DisableAutoImportAnnotation" and "\<not> haskey (Annotations new) DisableAutoImportAnnotation"
  shows "{c. (c, (Namespace new, Name new)) \<in> wakes hostedEnabled podNS st (Kind Clusters) (UpdateEvent (ClusterW old) (ClusterW new))}
    \<supseteq> {''autoimport-controller'', ''clusterdeployment-controller'', ''selfmanagedcluster-controller''} \<union>
      (if isHostedModeObject (ClusterW new) then {} else {''manifestwork-controller''})"
  using assms
  by (auto simp: wakes_iff AddToManager_def all_watches watch_defs auto_import_enabled_def isDefaultModeObject_def
      isHostedModeObject_def)

text \<open>
  A cluster that is being deleted is never forgotten: every update of it wakes the managed cluster
  controller, the controller that cleans up its resources and the one that deletes its namespace.
\<close>

theorem deleting_cluster_wakes_cleanup:
  assumes "deleting new"
  shows "{c. \<exists>k. (c, k) \<in> wakes hostedEnabled podNS st (Kind Clusters) (UpdateEvent (ClusterW old) (ClusterW new)) \<and>
      snd k = Name new}
    \<supseteq> {''managedcluster-controller'', ''resourcecleanup-controller'', ''clusternamespacedeletion-controller''}"
  using assms
  by (auto simp: wakes_iff AddToManager_def all_watches watch_defs deleting_def)

text \<open>
  Two events about one cluster can end up in one queue under two keys: a change of a klusterlet work
  is queued with the cluster's name as namespace and name, a change of the cluster itself without a
  namespace. The queue keeps apart only runs with the same key, so two runs of the import status
  controller for one cluster can overlap.
\<close>

theorem one_cluster_two_keys:
  assumes "Namespace w = Name c" and "Namespace c = []" and "Name c \<noteq> []" and "isDefaultModeObject (ClusterW c)"
  shows "deliver importstatus_watches KlusterletWorks (CreateEvent (WorkW w)) = [(Name c, Name c)] \<and>
    deliver importstatus_watches (Kind Clusters) (CreateEvent (ClusterW c)) = [([], Name c)] \<and>
    (Name c, Name c) \<noteq> ([], Name c)"
  using assms by (simp add: importstatus_watches_def watch_defs namespace_key_def)

definition some_cluster :: ManagedCluster where
  "some_cluster = new_cluster ''c1''"

definition some_work :: ManifestWork where
  "some_work = ObjectMeta.extend (new_meta ''c1'' ''c1-klusterlet'')
     \<lparr>Manifests = [], ManifestConfigs = [], DeleteOption = None, WorkConditions = [], ManifestStatuses = []\<rparr>"

lemma some_fields [simp]:
  "Name some_cluster = ''c1''" "Namespace some_cluster = []" "Namespace some_work = ''c1''" "Annotations some_cluster = fmempty"
  by (simp_all add: some_cluster_def some_work_def new_cluster_def new_meta_def ObjectMeta.defs)

theorem one_cluster_two_keys_witness:
  "deliver importstatus_watches KlusterletWorks (CreateEvent (WorkW some_work)) = [(''c1'', ''c1'')] \<and>
   deliver importstatus_watches (Kind Clusters) (CreateEvent (ClusterW some_cluster)) = [([], ''c1'')]"
proof -
  have "isDefaultModeObject (ClusterW some_cluster)" by code_simp
  from one_cluster_two_keys [OF _ _ _ this, of some_work] show ?thesis by simp
qed

theorem deleting_cluster_wakes_cleanup_witness:
  "\<exists>k. (''resourcecleanup-controller'', k) \<in> wakes True ''ns'' \<lparr>cluster_store = [], config_store = []\<rparr> (Kind Clusters)
     (UpdateEvent (ClusterW some_cluster) (ClusterW (some_cluster\<lparr>DeletionTimestamp := Some 1\<rparr>)))"
  using deleting_cluster_wakes_cleanup [of "some_cluster\<lparr>DeletionTimestamp := Some 1\<rparr>" True "''ns''"
      "\<lparr>cluster_store = [], config_store = []\<rparr>" some_cluster] by (auto simp: deleting_def)

theorem resumed_cluster_wakes_importers_witness:
  "(''autoimport-controller'', ([], ''c1'')) \<in> wakes True ''ns'' \<lparr>cluster_store = [], config_store = []\<rparr> (Kind Clusters)
     (UpdateEvent (ClusterW (some_cluster\<lparr>Annotations := fmap_of_list [(DisableAutoImportAnnotation, [])]\<rparr>)) (ClusterW some_cluster))"
  using resumed_cluster_wakes_importers [of "some_cluster\<lparr>Annotations := fmap_of_list [(DisableAutoImportAnnotation, [])]\<rparr>"
      some_cluster True "''ns''" "\<lparr>cluster_store = [], config_store = []\<rparr>"] by (auto simp: haskey_def)

text \<open>
  An event about a hosted work leads back to the cluster that the work was made for, whatever
  hosting cluster's namespace it lies in: the request that the handler derives from the name of
  the work is for the cluster whose name the work was built from.
\<close>

theorem hosted_work_leads_back:
  "hosted_work_key (new_meta hosting (HostedKlusterletManifestWorkName c)) = (c, c)"
  "hosted_work_key (new_meta hosting (HostedManagedKubeConfigManifestWorkName c)) = (c, c)"
proof -
  have k: "HasSuffix (HostedKlusterletManifestWorkName c) HostedKlusterletManifestworkSuffix"
    "\<not> HasSuffix (HostedKlusterletManifestWorkName c) HostedManagedKubeconfigManifestworkSuffix"
    "HasSuffix (HostedManagedKubeConfigManifestWorkName c) HostedManagedKubeconfigManifestworkSuffix"
    by (simp_all add: HostedKlusterletManifestWorkName_def HostedManagedKubeConfigManifestWorkName_def HasSuffix_def
        HasPrefix_def HostedKlusterletManifestworkSuffix_def HostedManagedKubeconfigManifestworkSuffix_def)
  have t: "TrimSuffix (HostedKlusterletManifestWorkName c) (''-'' @ HostedKlusterletManifestworkSuffix) = c"
    "TrimSuffix (HostedManagedKubeConfigManifestWorkName c) (''-'' @ HostedManagedKubeconfigManifestworkSuffix) = c"
    unfolding HostedKlusterletManifestWorkName_def HostedManagedKubeConfigManifestWorkName_def
    by (rule TrimSuffix_append)+
  show "hosted_work_key (new_meta hosting (HostedKlusterletManifestWorkName c)) = (c, c)"
    "hosted_work_key (new_meta hosting (HostedManagedKubeConfigManifestWorkName c)) = (c, c)"
    using k t by (simp_all add: hosted_work_key_def new_meta_def)
qed

lemma GetControllerOf_upsert:
  assumes "case GetControllerOf refs of None \<Rightarrow> True | Some r \<Rightarrow> referSameObject r (controllerRef mc)"
  shows "\<exists>r. GetControllerOf (upsertOwnerRef (controllerRef mc) refs) = Some r \<and> referSameObject r (controllerRef mc)"
  using assms
proof (induction refs)
  case Nil
  have "referSameObject (controllerRef mc) (controllerRef mc)" unfolding referSameObject_def controllerRef_def by code_simp
  then show ?case by (simp add: GetControllerOf_def) (simp add: controllerRef_def)
next
  case (Cons r refs)
  have "referSameObject (controllerRef mc) (controllerRef mc)" unfolding referSameObject_def controllerRef_def by code_simp
  with Cons show ?case by (auto simp: GetControllerOf_def) (auto simp: controllerRef_def)
qed

text \<open>
  Ownership leads back to the owner: an object that was made to be controlled by a cluster, as
  \<open>ApplyResources\<close> does with the bootstrap roles, wakes the import configuration controller for that
  cluster when it is deleted, so that it is restored.
\<close>

theorem owned_objects_lead_back:
  assumes "SetControllerReference mc m = Inr m'"
  shows "deliver (importconfig_watches podNS st) (Kind ClusterRoles) (DeleteEvent (PlainW ClusterRoles m')) = [([], Name mc)]"
proof -
  have "\<exists>r. GetControllerOf (OwnerReferences m') = Some r \<and> referSameObject r (controllerRef mc)"
    using assms GetControllerOf_upsert [where refs = "OwnerReferences m" and mc = mc]
    by (auto simp: SetControllerReference_def Let_def split: option.splits if_splits)
  then obtain r where r: "GetControllerOf (OwnerReferences m') = Some r" "referSameObject r (controllerRef mc)" by blast
  moreover have "ParseGroup (APIVersion (controllerRef mc)) = Some ''cluster.open-cluster-management.io''"
    unfolding controllerRef_def by code_simp
  ultimately have "owner_keys m' = [([], Name mc)]"
    by (auto simp: owner_keys_def referSameObject_def) (auto simp: controllerRef_def)
  then show ?thesis
    by (simp add: importconfig_watches_def watch_defs EnqueueRequestForOwner_def restored_def)
qed

theorem owned_objects_lead_back_witness:
  "\<exists>m'. SetControllerReference some_cluster (new_meta [] ''role'') = Inr m' \<and>
     deliver (importconfig_watches ''ns'' \<lparr>cluster_store = [], config_store = []\<rparr>) (Kind ClusterRoles)
       (DeleteEvent (PlainW ClusterRoles m')) = [([], ''c1'')]"
proof -
  have "case SetControllerReference some_cluster (new_meta [] ''role'') of Inl e \<Rightarrow> False | Inr x \<Rightarrow> True" by code_simp
  then obtain m' where "SetControllerReference some_cluster (new_meta [] ''role'') = Inr m'"
    by (cases "SetControllerReference some_cluster (new_meta [] ''role'')") auto
  with owned_objects_lead_back [OF this] show ?thesis by auto
qed

section \<open>Sources deliver what the predicates admit\<close>

text \<open>For objects of the expected type; a tombstone is delivered as the deletion of its object.\<close>

lemma Source_Start_delivers:
  "TypeOf x = t \<Longrightarrow> Source_Start t f ps (OnAdd (Object x)) = if_admitted ps f (CreateEvent x)"
  "TypeOf x = t \<Longrightarrow> TypeOf y = t \<Longrightarrow> Source_Start t f ps (OnUpdate (Object x) (Object y)) = if_admitted ps f (UpdateEvent x y)"
  "Source_Start t f ps (OnDelete (Object x)) = if_admitted ps f (DeleteEvent x)"
  "Source_Start t f ps (OnDelete (DeletedFinalStateUnknown (Object x))) = if_admitted ps f (DeleteEvent x)"
  by simp_all

end
