(* ===== verification/Tls_Profile.thy ===== *)
theory Tls_Profile
  imports Work_Helpers
begin

text \<open>
  The side car \<open>tls-profile-sync\<close>, \<open>pkg/tlsprofilesync/sync.go\<close>: it copies the TLS profile of the
  OpenShift API server to a config map, with the cipher suites renamed. The tables of profiles and
  of cipher suites are those of the vendored libraries.
\<close>

definition ConfigMapName :: string where
  "ConfigMapName = ''ocm-tls-profile''"

definition configMapKeyMinTLSVersion :: string where
  "configMapKeyMinTLSVersion = ''minTLSVersion''"

definition configMapKeyCipherSuites :: string where
  "configMapKeyCipherSuites = ''cipherSuites''"

definition configMapKeyProfileType :: string where
  "configMapKeyProfileType = ''profileType''"

definition TLSProfileOldType :: string where
  "TLSProfileOldType = ''Old''"

definition TLSProfileIntermediateType :: string where
  "TLSProfileIntermediateType = ''Intermediate''"

definition TLSProfileModernType :: string where
  "TLSProfileModernType = ''Modern''"

definition TLSProfileCustomType :: string where
  "TLSProfileCustomType = ''Custom''"

section \<open>Tables\<close>

definition openSSLToIANACiphersMap :: "(string \<times> string) list" where
  "openSSLToIANACiphersMap = [
     (''TLS_AES_128_GCM_SHA256'', ''TLS_AES_128_GCM_SHA256''),
     (''TLS_AES_256_GCM_SHA384'', ''TLS_AES_256_GCM_SHA384''),
     (''TLS_CHACHA20_POLY1305_SHA256'', ''TLS_CHACHA20_POLY1305_SHA256''),
     (''ECDHE-ECDSA-AES128-GCM-SHA256'', ''TLS_ECDHE_ECDSA_WITH_AES_128_GCM_SHA256''),
     (''ECDHE-RSA-AES128-GCM-SHA256'', ''TLS_ECDHE_RSA_WITH_AES_128_GCM_SHA256''),
     (''ECDHE-ECDSA-AES256-GCM-SHA384'', ''TLS_ECDHE_ECDSA_WITH_AES_256_GCM_SHA384''),
     (''ECDHE-RSA-AES256-GCM-SHA384'', ''TLS_ECDHE_RSA_WITH_AES_256_GCM_SHA384''),
     (''ECDHE-ECDSA-CHACHA20-POLY1305'', ''TLS_ECDHE_ECDSA_WITH_CHACHA20_POLY1305_SHA256''),
     (''ECDHE-RSA-CHACHA20-POLY1305'', ''TLS_ECDHE_RSA_WITH_CHACHA20_POLY1305_SHA256''),
     (''ECDHE-ECDSA-AES128-SHA256'', ''TLS_ECDHE_ECDSA_WITH_AES_128_CBC_SHA256''),
     (''ECDHE-RSA-AES128-SHA256'', ''TLS_ECDHE_RSA_WITH_AES_128_CBC_SHA256''),
     (''AES128-GCM-SHA256'', ''TLS_RSA_WITH_AES_128_GCM_SHA256''),
     (''AES256-GCM-SHA384'', ''TLS_RSA_WITH_AES_256_GCM_SHA384''),
     (''AES128-SHA256'', ''TLS_RSA_WITH_AES_128_CBC_SHA256''),
     (''ECDHE-ECDSA-AES128-SHA'', ''TLS_ECDHE_ECDSA_WITH_AES_128_CBC_SHA''),
     (''ECDHE-RSA-AES128-SHA'', ''TLS_ECDHE_RSA_WITH_AES_128_CBC_SHA''),
     (''ECDHE-ECDSA-AES256-SHA'', ''TLS_ECDHE_ECDSA_WITH_AES_256_CBC_SHA''),
     (''ECDHE-RSA-AES256-SHA'', ''TLS_ECDHE_RSA_WITH_AES_256_CBC_SHA''),
     (''AES128-SHA'', ''TLS_RSA_WITH_AES_128_CBC_SHA''),
     (''AES256-SHA'', ''TLS_RSA_WITH_AES_256_CBC_SHA''),
     (''DES-CBC3-SHA'', ''TLS_RSA_WITH_3DES_EDE_CBC_SHA''),
     (''ECDHE-RSA-DES-CBC3-SHA'', ''TLS_ECDHE_RSA_WITH_3DES_EDE_CBC_SHA'')]"

definition modern_ciphers :: "string list" where
  "modern_ciphers = [''TLS_AES_128_GCM_SHA256'', ''TLS_AES_256_GCM_SHA384'', ''TLS_CHACHA20_POLY1305_SHA256'']"

definition intermediate_ciphers :: "string list" where
  "intermediate_ciphers = modern_ciphers @ [''ECDHE-ECDSA-AES128-GCM-SHA256'', ''ECDHE-RSA-AES128-GCM-SHA256'',
     ''ECDHE-ECDSA-AES256-GCM-SHA384'', ''ECDHE-RSA-AES256-GCM-SHA384'', ''ECDHE-ECDSA-CHACHA20-POLY1305'',
     ''ECDHE-RSA-CHACHA20-POLY1305'']"

definition old_ciphers :: "string list" where
  "old_ciphers = intermediate_ciphers @ [''ECDHE-ECDSA-AES128-SHA256'', ''ECDHE-RSA-AES128-SHA256'',
     ''ECDHE-ECDSA-AES128-SHA'', ''ECDHE-RSA-AES128-SHA'', ''ECDHE-ECDSA-AES256-SHA'', ''ECDHE-RSA-AES256-SHA'',
     ''AES128-GCM-SHA256'', ''AES256-GCM-SHA384'', ''AES128-SHA256'', ''AES128-SHA'', ''AES256-SHA'', ''DES-CBC3-SHA'']"

definition old_profile :: TLSProfileSpec where
  "old_profile = \<lparr>Ciphers = old_ciphers, MinTLSVersion = ''VersionTLS10''\<rparr>"

definition intermediate_profile :: TLSProfileSpec where
  "intermediate_profile = \<lparr>Ciphers = intermediate_ciphers, MinTLSVersion = ''VersionTLS12''\<rparr>"

definition modern_profile :: TLSProfileSpec where
  "modern_profile = \<lparr>Ciphers = modern_ciphers, MinTLSVersion = ''VersionTLS13''\<rparr>"

fun OpenSSLToIANACipherSuites :: "string list \<Rightarrow> string list" where
  "OpenSSLToIANACipherSuites [] = []"
| "OpenSSLToIANACipherSuites (c # ciphers) =
     (case map_of openSSLToIANACiphersMap c of
        Some ianaCipher \<Rightarrow> ianaCipher # OpenSSLToIANACipherSuites ciphers
      | None \<Rightarrow> OpenSSLToIANACipherSuites ciphers)"

section \<open>The config map\<close>

definition profile_spec :: "TLSSecurityProfile \<Rightarrow> TLSProfileSpec \<times> string" where
  "profile_spec profile =
     (if ProfileType profile = TLSProfileOldType then (old_profile, TLSProfileOldType)
      else if ProfileType profile = TLSProfileModernType then (modern_profile, TLSProfileModernType)
      else if ProfileType profile = TLSProfileCustomType then
        (case CustomProfile profile of Some spec \<Rightarrow> spec | None \<Rightarrow> intermediate_profile, TLSProfileCustomType)
      else (intermediate_profile, TLSProfileIntermediateType))"

definition buildConfigMapData :: "TLSSecurityProfile option \<Rightarrow> smap" where
  "buildConfigMapData profile = (
     let p = (case profile of Some p \<Rightarrow> p
           | None \<Rightarrow> \<lparr>ProfileType = TLSProfileIntermediateType, CustomProfile = None\<rparr>) in
     case profile_spec p of (profileSpec, profileType) \<Rightarrow>
       fmap_of_list [
         (configMapKeyMinTLSVersion, MinTLSVersion profileSpec),
         (configMapKeyCipherSuites, join '','' (OpenSSLToIANACipherSuites (Ciphers profileSpec))),
         (configMapKeyProfileType, profileType)])"

definition syncConfigMap :: "server \<Rightarrow> string \<Rightarrow> smap \<Rightarrow> (call, err option) prog" where
  "syncConfigMap srv namespace data = do {
     r \<leftarrow> api_GetConfigMap srv namespace ConfigMapName;
     case r of
       Inl e \<Rightarrow>
         if IsNotFound e
         then api_write srv (CreateConfigMap (ObjectMeta.extend (new_meta namespace ConfigMapName) \<lparr>ConfigData = data\<rparr>))
         else return (Some e)
     | Inr cm \<Rightarrow> api_write srv (UpdateConfigMap (cm\<lparr>ConfigData := data\<rparr>)) }"

text \<open>An error that is wrapped with \<open>%w\<close> keeps its reason.\<close>

fun wrapped :: "string \<Rightarrow> err \<Rightarrow> err" where
  "wrapped prefix (StatusError r c m) = StatusError r c (prefix @ m)"
| "wrapped prefix e = ErrorString (prefix @ Error e)"

definition tlsprofile_Reconcile :: "server \<Rightarrow> string \<Rightarrow> string \<Rightarrow> (call, Result \<times> err option) prog" where
  "tlsprofile_Reconcile srv namespace request =
     (if request \<noteq> ''cluster'' then return (emptyResult, None)
      else do {
        r \<leftarrow> api_GetTLSProfile srv request;
        case r of
          Inl e \<Rightarrow> return (emptyResult, if IsNotFound e then None else Some e)
        | Inr profile \<Rightarrow> do {
            e \<leftarrow> syncConfigMap srv namespace (buildConfigMapData profile);
            return (emptyResult, map_option (wrapped ''failed to sync ConfigMap: '') e) } })"

text \<open>\<open>getNamespace\<close>: \<open>env\<close> is \<open>POD_NAMESPACE\<close>, \<open>trim\<close> is \<open>strings.TrimSpace\<close>.\<close>

definition getNamespace :: "server \<Rightarrow> (string \<Rightarrow> string) \<Rightarrow> string \<Rightarrow> (call, string) prog" where
  "getNamespace srv trim env =
     (if env \<noteq> [] then return env
      else do {
        r \<leftarrow> api_ReadFile srv ''/var/run/secrets/kubernetes.io/serviceaccount/namespace'';
        return (case r of Inl e \<Rightarrow> [] | Inr data \<Rightarrow> if trim data \<noteq> [] then trim data else []) })"

section \<open>What is synchronized\<close>

lemma OpenSSLToIANACipherSuites_append [simp]:
  "OpenSSLToIANACipherSuites (xs @ ys) = OpenSSLToIANACipherSuites xs @ OpenSSLToIANACipherSuites ys"
  by (induction xs) (auto split: option.split)

lemma OpenSSLToIANACipherSuites_filter:
  "OpenSSLToIANACipherSuites cs =
     map (the \<circ> map_of openSSLToIANACiphersMap) (filter (\<lambda>c. map_of openSSLToIANACiphersMap c \<noteq> None) cs)"
  by (induction cs) (auto split: option.split)

lemma predefined_ciphers_known: "list_all (\<lambda>c. map_of openSSLToIANACiphersMap c \<noteq> None) old_ciphers"
  by code_simp

text \<open>
  Renaming keeps the suites that have another name, in order, and drops the others without an
  error; a predefined profile loses none. The stricter predefined profiles offer prefixes of the
  suites of the weaker ones, and no profile at all counts as the intermediate one.
\<close>

theorem tls_profiles_translate:
  "OpenSSLToIANACipherSuites cs =
     map (the \<circ> map_of openSSLToIANACiphersMap) (filter (\<lambda>c. map_of openSSLToIANACiphersMap c \<noteq> None) cs)"
  "list_all (\<lambda>p. length (OpenSSLToIANACipherSuites (Ciphers p)) = length (Ciphers p))
     [old_profile, intermediate_profile, modern_profile]"
  "\<exists>a b. OpenSSLToIANACipherSuites (Ciphers intermediate_profile) = OpenSSLToIANACipherSuites (Ciphers modern_profile) @ a \<and>
     OpenSSLToIANACipherSuites (Ciphers old_profile) = OpenSSLToIANACipherSuites (Ciphers intermediate_profile) @ b"
  "buildConfigMapData None = buildConfigMapData (Some \<lparr>ProfileType = TLSProfileIntermediateType, CustomProfile = None\<rparr>)"
proof -
  have known: "list_all (\<lambda>c. map_of openSSLToIANACiphersMap c \<noteq> None) cs \<Longrightarrow> length (OpenSSLToIANACipherSuites cs) = length cs" for cs
    by (simp add: OpenSSLToIANACipherSuites_filter list_all_iff filter_id_conv [THEN iffD2])
  show "list_all (\<lambda>p. length (OpenSSLToIANACipherSuites (Ciphers p)) = length (Ciphers p))
     [old_profile, intermediate_profile, modern_profile]"
    using predefined_ciphers_known known
    by (simp add: old_profile_def intermediate_profile_def modern_profile_def old_ciphers_def intermediate_ciphers_def
        del: OpenSSLToIANACipherSuites.simps OpenSSLToIANACipherSuites_append)
  show "\<exists>a b. OpenSSLToIANACipherSuites (Ciphers intermediate_profile) = OpenSSLToIANACipherSuites (Ciphers modern_profile) @ a \<and>
     OpenSSLToIANACipherSuites (Ciphers old_profile) = OpenSSLToIANACipherSuites (Ciphers intermediate_profile) @ b"
  proof -
    have "\<exists>a. Ciphers intermediate_profile = Ciphers modern_profile @ a"
      by (simp add: intermediate_profile_def modern_profile_def intermediate_ciphers_def)
    moreover have "\<exists>b. Ciphers old_profile = Ciphers intermediate_profile @ b"
      by (simp add: old_profile_def intermediate_profile_def old_ciphers_def)
    ultimately show ?thesis by (metis OpenSSLToIANACipherSuites_append)
  qed
qed (simp_all add: OpenSSLToIANACipherSuites_filter buildConfigMapData_def)

text \<open>
  The side car writes at most once in a run, only the config map of the TLS profile, and what it
  writes is the translation of the profile that it just read; when it ends without an error for the
  singleton and the profile could be read, it has written it.
\<close>

theorem tlsprofile_synced:
  "case on_GetTLSProfile srv h ''cluster'' of
     Inl e \<Rightarrow> new_calls (tlsprofile_Reconcile srv ns ''cluster'') h = [Read (GetTLSProfile ''cluster'')]
   | Inr profile \<Rightarrow> (\<exists>w. new_calls (tlsprofile_Reconcile srv ns ''cluster'') h =
       [Read (GetTLSProfile ''cluster''), Read (GetConfigMap ns ConfigMapName)] @ w \<and>
       (if w = [] then snd (result (tlsprofile_Reconcile srv ns ''cluster'') h) \<noteq> None
        else \<exists>cm. ConfigData cm = buildConfigMapData profile \<and>
          (w = [Write (CreateConfigMap cm)] \<and> Name cm = ConfigMapName \<and> Namespace cm = ns \<or> w = [Write (UpdateConfigMap cm)])))"
proof (cases "on_GetTLSProfile srv h ''cluster''")
  case (Inl e)
  then show ?thesis by (simp add: tlsprofile_Reconcile_def new_calls_def ask_def)
next
  case (Inr profile)
  show ?thesis
  proof (cases "on_GetConfigMap srv (h @ [Read (GetTLSProfile ''cluster'')]) ns ConfigMapName")
    case (Inl e)
    with Inr show ?thesis
      by (simp add: tlsprofile_Reconcile_def syncConfigMap_def new_calls_def result_def ask_def)
        (auto simp: ObjectMeta.defs new_meta_def)
  next
    case cm: (Inr cm)
    with Inr show ?thesis
      by (auto simp: tlsprofile_Reconcile_def syncConfigMap_def new_calls_def ask_def)
  qed
qed

end
