(* ===== verification/Server_Tls.thy ===== *)
theory Server_Tls
  imports Tls_Profile "HOL-Library.Word"
begin

text \<open>
  The TLS settings of the servers of the controller, \<open>pkg/helpers/tls.go\<close> and
  \<open>pkg/helpers/tls_watcher.go\<close>, with the functions of the libraries they call
  (\<open>cluster-lifecycle-api/helpers/tlsprofile\<close>, \<open>controller-runtime-common/pkg/tls\<close>). A version of TLS is
  its 16 bit code; a cipher suite is named as Go's \<open>crypto/tls\<close> names its code.
\<close>

section \<open>The configuration of a server\<close>

record tls_config =
  MinVersion :: "16 word"
  CipherSuites :: "string list"

definition VersionTLS10 :: "16 word" where "VersionTLS10 = 0x0301"
definition VersionTLS11 :: "16 word" where "VersionTLS11 = 0x0302"
definition VersionTLS12 :: "16 word" where "VersionTLS12 = 0x0303"
definition VersionTLS13 :: "16 word" where "VersionTLS13 = 0x0304"

definition getTLSVersion :: "string \<Rightarrow> 16 word" where
  "getTLSVersion version =
     (if version = ''VersionTLS10'' then VersionTLS10
      else if version = ''VersionTLS11'' then VersionTLS11
      else if version = ''VersionTLS12'' then VersionTLS12
      else if version = ''VersionTLS13'' then VersionTLS13
      else VersionTLS12)"

definition getCipherSuiteMap :: "(string \<times> string) list" where
  "getCipherSuiteMap = map (\<lambda>n. (n, n)) [
     ''TLS_RSA_WITH_AES_128_CBC_SHA'', ''TLS_RSA_WITH_AES_256_CBC_SHA'',
     ''TLS_RSA_WITH_AES_128_GCM_SHA256'', ''TLS_RSA_WITH_AES_256_GCM_SHA384'',
     ''TLS_ECDHE_ECDSA_WITH_AES_128_CBC_SHA'', ''TLS_ECDHE_ECDSA_WITH_AES_256_CBC_SHA'',
     ''TLS_ECDHE_RSA_WITH_AES_128_CBC_SHA'', ''TLS_ECDHE_RSA_WITH_AES_256_CBC_SHA'',
     ''TLS_ECDHE_ECDSA_WITH_AES_128_GCM_SHA256'', ''TLS_ECDHE_ECDSA_WITH_AES_256_GCM_SHA384'',
     ''TLS_ECDHE_RSA_WITH_AES_128_GCM_SHA256'', ''TLS_ECDHE_RSA_WITH_AES_256_GCM_SHA384'',
     ''TLS_ECDHE_RSA_WITH_CHACHA20_POLY1305_SHA256'', ''TLS_ECDHE_ECDSA_WITH_CHACHA20_POLY1305_SHA256'',
     ''TLS_AES_128_GCM_SHA256'', ''TLS_AES_256_GCM_SHA384'', ''TLS_CHACHA20_POLY1305_SHA256''] @ [
     (''ECDHE-ECDSA-AES128-GCM-SHA256'', ''TLS_ECDHE_ECDSA_WITH_AES_128_GCM_SHA256''),
     (''ECDHE-RSA-AES128-GCM-SHA256'', ''TLS_ECDHE_RSA_WITH_AES_128_GCM_SHA256''),
     (''ECDHE-ECDSA-AES256-GCM-SHA384'', ''TLS_ECDHE_ECDSA_WITH_AES_256_GCM_SHA384''),
     (''ECDHE-RSA-AES256-GCM-SHA384'', ''TLS_ECDHE_RSA_WITH_AES_256_GCM_SHA384''),
     (''ECDHE-ECDSA-CHACHA20-POLY1305'', ''TLS_ECDHE_ECDSA_WITH_CHACHA20_POLY1305_SHA256''),
     (''ECDHE-RSA-CHACHA20-POLY1305'', ''TLS_ECDHE_RSA_WITH_CHACHA20_POLY1305_SHA256''),
     (''ECDHE-ECDSA-AES128-SHA256'', ''TLS_ECDHE_ECDSA_WITH_AES_128_CBC_SHA''),
     (''ECDHE-RSA-AES128-SHA256'', ''TLS_ECDHE_RSA_WITH_AES_128_CBC_SHA''),
     (''ECDHE-ECDSA-AES128-SHA'', ''TLS_ECDHE_ECDSA_WITH_AES_128_CBC_SHA''),
     (''ECDHE-RSA-AES128-SHA'', ''TLS_ECDHE_RSA_WITH_AES_128_CBC_SHA''),
     (''ECDHE-ECDSA-AES256-SHA384'', ''TLS_ECDHE_ECDSA_WITH_AES_256_CBC_SHA''),
     (''ECDHE-RSA-AES256-SHA384'', ''TLS_ECDHE_RSA_WITH_AES_256_CBC_SHA''),
     (''ECDHE-ECDSA-AES256-SHA'', ''TLS_ECDHE_ECDSA_WITH_AES_256_CBC_SHA''),
     (''ECDHE-RSA-AES256-SHA'', ''TLS_ECDHE_RSA_WITH_AES_256_CBC_SHA''),
     (''AES128-GCM-SHA256'', ''TLS_RSA_WITH_AES_128_GCM_SHA256''),
     (''AES256-GCM-SHA384'', ''TLS_RSA_WITH_AES_256_GCM_SHA384''),
     (''AES128-SHA256'', ''TLS_RSA_WITH_AES_128_CBC_SHA''),
     (''AES256-SHA256'', ''TLS_RSA_WITH_AES_256_CBC_SHA''),
     (''AES128-SHA'', ''TLS_RSA_WITH_AES_128_CBC_SHA''),
     (''AES256-SHA'', ''TLS_RSA_WITH_AES_256_CBC_SHA''),
     (''DES-CBC3-SHA'', ''TLS_RSA_WITH_3DES_EDE_CBC_SHA'')]"

fun getCipherSuites :: "string list \<Rightarrow> string list" where
  "getCipherSuites [] = []"
| "getCipherSuites (name # cipherNames) =
     (case map_of getCipherSuiteMap name of
        Some cipher \<Rightarrow> cipher # getCipherSuites cipherNames
      | None \<Rightarrow> getCipherSuites cipherNames)"

definition tls12 :: tls_config where
  "tls12 = \<lparr>MinVersion = VersionTLS12, CipherSuites = []\<rparr>"

definition ConvertTLSProfileToConfig :: "TLSSecurityProfile option \<Rightarrow> tls_config" where
  "ConvertTLSProfileToConfig profile =
     (case profile of
        None \<Rightarrow> tls12
      | Some p \<Rightarrow>
          if ProfileType p = TLSProfileOldType then
            \<lparr>MinVersion = VersionTLS10, CipherSuites = getCipherSuites (Ciphers old_profile)\<rparr>
          else if ProfileType p = TLSProfileIntermediateType then
            \<lparr>MinVersion = VersionTLS12, CipherSuites = getCipherSuites (Ciphers intermediate_profile)\<rparr>
          else if ProfileType p = TLSProfileModernType then \<lparr>MinVersion = VersionTLS13, CipherSuites = []\<rparr>
          else if ProfileType p = TLSProfileCustomType then
            (case CustomProfile p of
               Some custom \<Rightarrow> \<lparr>MinVersion = getTLSVersion (MinTLSVersion custom),
                 CipherSuites = getCipherSuites (Ciphers custom)\<rparr>
             | None \<Rightarrow> tls12)
          else tls12)"

definition GetTLSConfigForServer :: "server \<Rightarrow> bool \<Rightarrow> (call, tls_config) prog" where
  "GetTLSConfigForServer srv deployOnOCP =
     (if \<not> deployOnOCP then return tls12
      else do {
        r \<leftarrow> api_GetTLSProfile srv ''cluster'';
        return (case r of Inl e \<Rightarrow> tls12 | Inr profile \<Rightarrow> ConvertTLSProfileToConfig profile) })"

section \<open>The watcher\<close>

text \<open>
  \<open>is_no_match\<close> tells the errors of a resource
  that the API server does not know. A watcher that is not set up because the process is shut down
  or the resource is missing is \<open>Inr None\<close>, else it has the profile to compare with. A missing list of
  ciphers is an empty one.
\<close>

definition GetTLSProfileSpec :: "TLSSecurityProfile option \<Rightarrow> err + TLSProfileSpec" where
  "GetTLSProfileSpec profile =
     (case profile of
        None \<Rightarrow> Inr intermediate_profile
      | Some p \<Rightarrow>
          if ProfileType p = [] then Inr intermediate_profile
          else if ProfileType p \<noteq> TLSProfileCustomType then
            Inr (if ProfileType p = TLSProfileOldType then old_profile
              else if ProfileType p = TLSProfileModernType then modern_profile
              else intermediate_profile)
          else (case CustomProfile p of
              None \<Rightarrow> Inl (ErrorString ''custom TLS profile specified but Custom field is nil'')
            | Some spec \<Rightarrow> Inr spec))"

definition FetchAPIServerTLSProfile :: "server \<Rightarrow> (call, err + TLSProfileSpec) prog" where
  "FetchAPIServerTLSProfile srv = do {
     r \<leftarrow> api_GetTLSProfile srv ''cluster'';
     return (case r of
       Inl e \<Rightarrow> Inl (wrapped (''failed to get APIServer '' @ quoted ''/cluster'' @ '': '') e)
     | Inr profile \<Rightarrow>
         (case GetTLSProfileSpec profile of
            Inl e \<Rightarrow> Inl (wrapped (''failed to get TLS profile from APIServer '' @ quoted ''/cluster'' @ '': '') e)
          | Inr spec \<Rightarrow> Inr spec)) }"

text \<open>What adding the watcher to the manager returns is a parameter.\<close>

definition SetupTLSProfileWatcher :: "bool \<Rightarrow> err option \<Rightarrow> err option" where
  "SetupTLSProfileWatcher deployOnOCP added = (if \<not> deployOnOCP then None else added)"

definition tlsProfileWatcherRunnable_Start ::
  "server \<Rightarrow> (err \<Rightarrow> bool) \<Rightarrow> bool \<Rightarrow> err option \<Rightarrow> (call, err + TLSProfileSpec option) prog" where
  "tlsProfileWatcherRunnable_Start srv is_no_match synced setup =
     (if \<not> synced then return (Inr None)
      else do {
        r \<leftarrow> FetchAPIServerTLSProfile srv;
        return (case r of
          Inl e \<Rightarrow> if is_no_match e \<or> IsNotFound e then Inr None else Inl e
        | Inr profile \<Rightarrow> (case setup of Some e \<Rightarrow> Inl e | None \<Rightarrow> Inr (Some profile))) })"

text \<open>
  A run of the watcher, which the library provides; its callback ends the process, so the result
  says whether the process goes on.
\<close>

datatype fate = Runs Result "err option" | Exits

definition watcher_Reconcile :: "server \<Rightarrow> TLSProfileSpec \<Rightarrow> string \<Rightarrow> (call, fate) prog" where
  "watcher_Reconcile srv initial request = do {
     r \<leftarrow> api_GetTLSProfile srv request;
     return (case r of
       Inl e \<Rightarrow> if IsNotFound e then Runs emptyResult None
         else Runs emptyResult (Some (wrapped (''failed to get APIServer /'' @ request @ '': '') e))
     | Inr profile \<Rightarrow>
         (case GetTLSProfileSpec profile of
            Inl e \<Rightarrow> Runs emptyResult (Some (wrapped (''failed to get TLS profile from APIServer /'' @ request @ '': '') e))
          | Inr current \<Rightarrow> if initial \<noteq> current then Exits else Runs emptyResult None)) }"

section \<open>Old versions only on request\<close>

lemma getCipherSuites_known: "set (getCipherSuites cs) \<subseteq> snd ` set getCipherSuiteMap"
  by (induction cs) (auto split: option.split dest!: map_of_SomeD intro: rev_image_eqI)

text \<open>
  A server of the controller offers a version of TLS below 1.2 only on OpenShift and only when the
  profile that this call read asks for it, and never a cipher suite that the table does not have.
\<close>

lemma ConvertTLSProfileToConfig_floor:
  "VersionTLS12 \<le> MinVersion (ConvertTLSProfileToConfig profile) \<or> (\<exists>p. profile = Some p \<and>
     (ProfileType p = TLSProfileOldType \<or>
       (\<exists>custom. CustomProfile p = Some custom \<and> MinTLSVersion custom \<in> {''VersionTLS10'', ''VersionTLS11''})))"
proof (cases profile)
  case (Some p)
  have old: "getTLSVersion v < VersionTLS12 \<Longrightarrow> v = ''VersionTLS10'' \<or> v = ''VersionTLS11''" for v
    unfolding getTLSVersion_def VersionTLS12_def VersionTLS13_def by (simp split: if_splits)
  have new: "VersionTLS12 \<le> VersionTLS13" by (simp add: VersionTLS12_def VersionTLS13_def)
  from Some old new show ?thesis
    by (cases "CustomProfile p") (auto simp: ConvertTLSProfileToConfig_def tls12_def not_le dest: old)
qed (simp add: ConvertTLSProfileToConfig_def tls12_def)

lemma ConvertTLSProfileToConfig_suites:
  "set (CipherSuites (ConvertTLSProfileToConfig profile)) \<subseteq> snd ` set getCipherSuiteMap"
  using getCipherSuites_known unfolding ConvertTLSProfileToConfig_def tls12_def by (simp split: option.split)

lemma server_tls_floor:
  "(VersionTLS12 \<le> MinVersion (result (GetTLSConfigForServer srv ocp) h) \<or>
     ocp \<and> (\<exists>p. on_GetTLSProfile srv h ''cluster'' = Inr (Some p) \<and> (ProfileType p = TLSProfileOldType \<or>
       (\<exists>custom. CustomProfile p = Some custom \<and> MinTLSVersion custom \<in> {''VersionTLS10'', ''VersionTLS11''})))) \<and>
   set (CipherSuites (result (GetTLSConfigForServer srv ocp) h)) \<subseteq> snd ` set getCipherSuiteMap"
proof -
  have c: "result (GetTLSConfigForServer srv ocp) h = (if ocp then case on_GetTLSProfile srv h ''cluster'' of
      Inl e \<Rightarrow> tls12 | Inr profile \<Rightarrow> ConvertTLSProfileToConfig profile else tls12)"
    by (simp add: GetTLSConfigForServer_def result_def ask_def)
  show ?thesis
    unfolding c using ConvertTLSProfileToConfig_floor ConvertTLSProfileToConfig_suites
    by (auto simp: tls12_def split: sum.split)
qed

section \<open>What a change of the profile does\<close>

lemma predefined_versions:
  "getTLSVersion (MinTLSVersion old_profile) = VersionTLS10"
  "getTLSVersion (MinTLSVersion intermediate_profile) = VersionTLS12"
  "getTLSVersion (MinTLSVersion modern_profile) = VersionTLS13"
  by code_simp+

lemma profile_types_differ:
  "distinct [[], TLSProfileOldType, TLSProfileIntermediateType, TLSProfileModernType, TLSProfileCustomType]"
  by code_simp

lemma profile_version:
  assumes "GetTLSProfileSpec profile = Inr spec"
  shows "MinVersion (ConvertTLSProfileToConfig profile) = getTLSVersion (MinTLSVersion spec)"
proof (cases profile)
  case None
  with assms show ?thesis
    by (auto simp: GetTLSProfileSpec_def ConvertTLSProfileToConfig_def tls12_def predefined_versions)
next
  case (Some p)
  with assms profile_types_differ show ?thesis
    by (cases "CustomProfile p") (auto simp: GetTLSProfileSpec_def ConvertTLSProfileToConfig_def tls12_def
        predefined_versions split: if_splits)
qed

text \<open>
  As long as the watcher lets the process run, the least version of TLS that its server offers is
  still the one of the cluster's profile. This does not hold for the cipher suites, as the
  witness shows: that an administrator sets the intermediate profile where there was none goes
  unnoticed, although a server that is started then restricts its suites.
\<close>

theorem watched_version_is_current:
  assumes "on_GetTLSProfile srv h ''cluster'' = Inr before" and "GetTLSProfileSpec before = Inr initial"
    and "on_GetTLSProfile srv h' ''cluster'' = Inr now" and "GetTLSProfileSpec now = Inr current"
    and "result (watcher_Reconcile srv initial ''cluster'') h' \<noteq> Exits"
  shows "MinVersion (result (GetTLSConfigForServer srv True) h') = MinVersion (result (GetTLSConfigForServer srv True) h)"
proof -
  from assms(3-5) have "current = initial"
    by (auto simp: watcher_Reconcile_def result_def ask_def split: if_splits)
  with profile_version [OF assms(2)] profile_version [OF assms(4)] show ?thesis
    by (simp add: GetTLSConfigForServer_def result_def ask_def assms(1,3))
qed

definition profile_set_later :: server where
  "profile_set_later = empty_server\<lparr>on_GetTLSProfile := (\<lambda>h _. Inr (if h = [] then None
     else Some \<lparr>ProfileType = TLSProfileIntermediateType, CustomProfile = None\<rparr>))\<rparr>"

theorem watched_version_is_current_witness:
  "let c = \<lambda>h. result (GetTLSConfigForServer profile_set_later True) h; later = [Read (GetTLSProfile ''cluster'')] in
   result (watcher_Reconcile profile_set_later intermediate_profile ''cluster'') later = Runs emptyResult None \<and>
   MinVersion (c later) = MinVersion (c []) \<and> CipherSuites (c later) \<noteq> CipherSuites (c [])"
proof -
  let ?later = "[Read (GetTLSProfile ''cluster'')]"
  have run: "result (watcher_Reconcile profile_set_later intermediate_profile ''cluster'') ?later = Runs emptyResult None"
    and diff: "CipherSuites (result (GetTLSConfigForServer profile_set_later True) ?later) \<noteq>
      CipherSuites (result (GetTLSConfigForServer profile_set_later True) [])"
    by code_simp+
  have "MinVersion (result (GetTLSConfigForServer profile_set_later True) ?later) =
      MinVersion (result (GetTLSConfigForServer profile_set_later True) [])"
    by (rule watched_version_is_current [where before = None and initial = intermediate_profile and
          now = "Some \<lparr>ProfileType = TLSProfileIntermediateType, CustomProfile = None\<rparr>" and current = intermediate_profile])
      (use run in \<open>simp_all add: profile_set_later_def GetTLSProfileSpec_def TLSProfileIntermediateType_def
        TLSProfileCustomType_def TLSProfileOldType_def TLSProfileModernType_def\<close>)
  with run diff show ?thesis by (simp add: Let_def)
qed

text \<open>The profile that a freshly started watcher compares with is the one of the cluster.\<close>

lemma watcher_starts_with_current:
  "result (tlsProfileWatcherRunnable_Start srv is_no_match True None) h = Inr (Some initial) \<Longrightarrow>
   \<exists>profile. on_GetTLSProfile srv h ''cluster'' = Inr profile \<and> GetTLSProfileSpec profile = Inr initial"
  by (auto simp: tlsProfileWatcherRunnable_Start_def FetchAPIServerTLSProfile_def result_def ask_def
      split: sum.splits if_splits)

end
