(* ===== verification/Agent_Registration.thy ===== *)
theory Agent_Registration
  imports Import_Config Label_Syntax
begin

text \<open>
  The agent registration server, \<open>pkg/controller/agentregistration/server.go\<close>. A handler yields the
  list of its actions on the response, so that what it does after an error is visible; nothing is
  a panic of a template. \<open>http_env\<close> has what comes from the Go library: the JSON of the list of paths
  at an instant, quoting, and the conversion of a duration to whole seconds. Writing to the
  connection is taken to succeed.
\<close>

datatype action =
    HttpError string nat
  | SetHeader string string
  | WriteHeader nat
  | WriteBody string

record http_request =
  Authorization :: string
  URLPath :: string
  URLQuery :: "string \<Rightarrow> string"

record http_env =
  encode_paths :: "int \<Rightarrow> err + string"
  quoted :: "string \<Rightarrow> string"
  whole_seconds :: "int \<Rightarrow> int"

type_synonym handler = "http_request \<Rightarrow> (call, action list option) prog"

definition StatusOK :: nat where "StatusOK = 200"
definition StatusBadRequest :: nat where "StatusBadRequest = 400"
definition StatusUnauthorized :: nat where "StatusUnauthorized = 401"
definition StatusInternalServerError :: nat where "StatusInternalServerError = 500"

definition AgentRegistrationDefaultBootstrapSAName :: string where
  "AgentRegistrationDefaultBootstrapSAName = ''agent-registration-bootstrap''"

definition failed :: "err \<Rightarrow> (call, action list option) prog" where
  "failed e = return (Some [HttpError (Error e) StatusInternalServerError])"

section \<open>Authentication\<close>

definition authMiddleware :: "server \<Rightarrow> handler \<Rightarrow> handler" where
  "authMiddleware srv next_handler r =
     (if \<not> HasPrefix (Authorization r) ''Bearer ''
      then return (Some [HttpError ''Invalid Authorization header'' StatusUnauthorized])
      else do {
        t \<leftarrow> api_ReviewToken srv (TrimPrefix (Authorization r) ''Bearer '');
        case t of
          Inl e \<Rightarrow> return (Some [HttpError (''create TR failed '' @ Error e) StatusInternalServerError])
        | Inr trresult \<Rightarrow>
            if \<not> Authenticated trresult
            then return (Some [HttpError (''authentication failed, response:'' @ StatusText trresult @
              '', error:'' @ ReviewError trresult) StatusUnauthorized])
            else do {
              s \<leftarrow> api_ReviewAccess srv (ReviewUser trresult) ''/agent-registration/*'' ''get'';
              case s of
                Inl e \<Rightarrow> return (Some [HttpError (''create SAR failed '' @ Error e @ '', user: '' @
                  UserText (ReviewUser trresult)) StatusInternalServerError])
              | Inr (allowed, statusText) \<Rightarrow>
                  if \<not> allowed
                  then return (Some [HttpError (''authorization failed, response:'' @ statusText @
                    '', user:'' @ UserText (ReviewUser trresult)) StatusUnauthorized])
                  else next_handler r } })"

section \<open>The handlers\<close>

definition list_handler :: "server \<Rightarrow> http_env \<Rightarrow> handler" where
  "list_handler srv env r = do {
     now \<leftarrow> peek (on_now srv);
     return (Some ([SetHeader ''Content-Type'' ''application/json'', WriteHeader StatusOK] @
       (case encode_paths env now of
          Inr b \<Rightarrow> [WriteBody b]
        | Inl e \<Rightarrow> [HttpError ''Failed to encode API list'' StatusInternalServerError]))) }"

definition crds_handler :: "server \<Rightarrow> renderer \<Rightarrow> codec \<Rightarrow> handler" where
  "crds_handler srv rd cd r = do {
     g \<leftarrow> Generate srv rd cd (NewKlusterletManifestsConfig InstallModeDefault ''dummy'' []);
     return (case g of
       None \<Rightarrow> None
     | Some (Inl e) \<Rightarrow> Some [HttpError (Error e) StatusInternalServerError, WriteBody []]
     | Some (Inr (manifests, crdContent, vals)) \<Rightarrow> Some [WriteBody crdContent]) }"

text \<open>The token: of a legacy secret or a new one, or a new one for the duration that is asked for.\<close>

definition registration_token ::
  "server \<Rightarrow> renderer \<Rightarrow> http_env \<Rightarrow> string \<Rightarrow> (call, action + string) prog" where
  "registration_token srv rd env durationStr = (
     let ns = Getenv rd PodNamespaceEnvVarName in
     if durationStr = [] then do {
       t \<leftarrow> GetBootstrapToken srv AgentRegistrationDefaultBootstrapSAName ns DefaultSecretTokenExpirationSecond;
       return (case t of
         Inl e \<Rightarrow> Inl (HttpError (Error e) StatusInternalServerError) | Inr (token, _, _) \<Rightarrow> Inr token) }
     else (case ParseDuration rd durationStr of
         Inl e \<Rightarrow> return (Inl (HttpError (Error e) StatusBadRequest))
       | Inr duration \<Rightarrow> do {
           t \<leftarrow> RequestSAToken srv AgentRegistrationDefaultBootstrapSAName ns (whole_seconds env duration);
           return (case t of
             Inl e \<Rightarrow> Inl (HttpError (Error e) StatusInternalServerError) | Inr (token, _, _) \<Rightarrow> Inr token) }))"

definition registration_annotations :: "string \<Rightarrow> smap" where
  "registration_annotations klusterletconfigName = (
     let a = fmap_of_list [(''agent.open-cluster-management.io/create-with-default-klusterletaddonconfig'', ''true'')] in
     if klusterletconfigName \<noteq> [] then fmupd AnnotationKlusterletConfig klusterletconfigName a else a)"

definition cluster_id :: "http_request \<Rightarrow> string" where
  "cluster_id r = last (Split (URLPath r) ''/'')"

definition manifests_handler ::
  "server \<Rightarrow> renderer \<Rightarrow> codec \<Rightarrow> tools \<Rightarrow> bool \<Rightarrow> http_env \<Rightarrow> handler" where
  "manifests_handler srv rd cd tk ocp env r = (
     let clusterID = cluster_id r; errs = IsDNS1123Subdomain clusterID in
     if length errs > 0
     then return (Some [HttpError (''invalid cluster name '' @ quoted env clusterID @ '': '' @ join ''; '' errs) StatusBadRequest])
     else do {
       m \<leftarrow> GetMergedKlusterletConfigWithGlobal srv (URLQuery r ''klusterletconfig'');
       case m of
         Inl e \<Rightarrow> failed e
       | Inr merged \<Rightarrow> do {
           t \<leftarrow> registration_token srv rd env (URLQuery r ''duration'');
           case t of
             Inl a \<Rightarrow> return (Some [a])
           | Inr token \<Rightarrow> do {
               q \<leftarrow> get_required srv tk ocp (Getenv rd PodNamespaceEnvVarName) merged False;
               case q of
                 Inl e \<Rightarrow> failed e
               | Inr req \<Rightarrow>
                   (case CreateBootstrapKubeConfig cd (requiredCtxClusterName req) (requiredKubeAPIServer req)
                       (requiredProxyURL req) (requiredCA req) (requiredCAData req) token of
                      Inl e \<Rightarrow> failed e
                    | Inr bootstrapkubeconfig \<Rightarrow> do {
                        g \<leftarrow> Generate srv rd cd (WithKlusterletConfig merged
                          (WithKlusterletClusterAnnotations (registration_annotations (URLQuery r ''klusterletconfig''))
                            (NewKlusterletManifestsConfig InstallModeDefault clusterID bootstrapkubeconfig)));
                        return (case g of
                          None \<Rightarrow> None
                        | Some (Inl e) \<Rightarrow> Some [HttpError (Error e) StatusInternalServerError,
                            SetHeader ''Content-Type'' ''application/yaml'', WriteBody []]
                        | Some (Inr (content, crds, vals)) \<Rightarrow> Some [SetHeader ''Content-Type'' ''application/yaml'',
                            WriteBody content]) }) } } })"

text \<open>The routes, for paths without anything to clean up; other paths are not found.\<close>

definition RunAgentRegistrationServer ::
  "server \<Rightarrow> renderer \<Rightarrow> codec \<Rightarrow> tools \<Rightarrow> bool \<Rightarrow> http_env \<Rightarrow> handler" where
  "RunAgentRegistrationServer srv rd cd tk ocp env r =
     (if URLPath r = ''/agent-registration'' then authMiddleware srv (list_handler srv env) r
      else if URLPath r = ''/agent-registration/crds/v1'' then authMiddleware srv (crds_handler srv rd cd) r
      else if HasPrefix (URLPath r) ''/agent-registration/manifests/''
      then authMiddleware srv (manifests_handler srv rd cd tk ocp env) r
      else return (Some [HttpError ''404 page not found'' 404]))"

section \<open>Nothing without authorization\<close>

fun is_review :: "call \<Rightarrow> bool" where
  "is_review (Read (ReviewToken t)) = True"
| "is_review (Read (ReviewAccess u p v)) = True"
| "is_review _ = False"

fun is_error :: "action \<Rightarrow> bool" where
  "is_error (HttpError m c) = True"
| "is_error _ = False"

definition authorized :: "server \<Rightarrow> call list \<Rightarrow> http_request \<Rightarrow> bool" where
  "authorized srv h r \<longleftrightarrow> HasPrefix (Authorization r) ''Bearer '' \<and>
     (\<exists>tr t. on_ReviewToken srv h (TrimPrefix (Authorization r) ''Bearer '') = Inr tr \<and> Authenticated tr \<and>
        on_ReviewAccess srv (h @ [Read (ReviewToken (TrimPrefix (Authorization r) ''Bearer ''))]) (ReviewUser tr)
          ''/agent-registration/*'' ''get'' = Inr (True, t))"

lemma unauthorized:
  assumes "\<not> authorized srv h r"
  shows "list_all is_review (new_calls (authMiddleware srv f r) h) \<and>
    (\<exists>m c. result (authMiddleware srv f r) h = Some [HttpError m c])"
proof -
  have "wp (authMiddleware srv f r) (\<lambda>a h'. list_all is_review (drop (length h) h') \<and> (\<exists>m c. a = Some [HttpError m c])) h"
    using assms unfolding authMiddleware_def authorized_def
    by (auto simp: wp_simps split: sum.splits prod.splits)
  then show ?thesis by (simp add: wp_run new_calls_def result_def)
qed

lemma registration_calls:
  assumes "\<not> authorized srv h r"
  shows "list_all is_review (new_calls (RunAgentRegistrationServer srv rd cd tk ocp env r) h) \<and>
    (\<exists>m c. result (RunAgentRegistrationServer srv rd cd tk ocp env r) h = Some [HttpError m c])"
proof -
  have "list_all is_review (new_calls (return (Some [HttpError ''404 page not found'' 404])) h)"
    by (simp add: new_calls_def)
  then show ?thesis
    using unauthorized [OF assms] by (simp add: RunAgentRegistrationServer_def result_def)
qed

text \<open>
  C8. The server does nothing for a request that is not authorized: unless the request shows a bearer
  token that the hub authenticates and whose user may get \<open>/agent-registration/*\<close>, the only
  calls are the two reviews and the response is one error.
\<close>

theorem registration_requires_authorization:
  assumes "\<not> authorized srv h r"
  shows "list_all is_review (new_calls (RunAgentRegistrationServer srv rd cd tk ocp env r) h) \<and>
    (\<exists>m c. result (RunAgentRegistrationServer srv rd cd tk ocp env r) h = Some [HttpError m c])"
  by (rule registration_calls [OF assms])

definition plain_request :: "string \<Rightarrow> string \<Rightarrow> http_request" where
  "plain_request auth path = \<lparr>Authorization = auth, URLPath = path, URLQuery = (\<lambda>_. [])\<rparr>"

definition plain_env :: http_env where
  "plain_env = \<lparr>encode_paths = (\<lambda>_. Inr []), quoted = (\<lambda>s. s), whole_seconds = (\<lambda>d. d div 1000000000)\<rparr>"

theorem registration_requires_authorization_witness:
  "\<exists>m c. result (RunAgentRegistrationServer ocp_server sample_renderer klusterlet_codec sample_tools True plain_env
     (plain_request ''Bearer t'' ''/agent-registration/manifests/c1'')) [] = Some [HttpError m c]"
proof -
  have "\<not> authorized ocp_server [] (plain_request ''Bearer t'' ''/agent-registration/manifests/c1'')"
    by (simp add: authorized_def ocp_server_def empty_server_def)
  from registration_requires_authorization [OF this] show ?thesis by blast
qed

section \<open>Only names of clusters\<close>

fun may_contain :: "regexp \<Rightarrow> char \<Rightarrow> bool" where
  "may_contain NoText c = False"
| "may_contain EmptyText c = False"
| "may_contain (OneOf P) c = P c"
| "may_contain (Then r s) c = (may_contain r c \<or> may_contain s c)"
| "may_contain (Or r s) c = (may_contain r c \<or> may_contain s c)"
| "may_contain (Many r) c = may_contain r c"

lemma texts_may_contain: "w \<in> texts r \<Longrightarrow> c \<in> set w \<Longrightarrow> may_contain r c"
proof (induction r arbitrary: w)
  case (Many r)
  then obtain us u where "set us \<subseteq> texts r" "u \<in> set us" "c \<in> set u" by auto
  with Many.IH show ?case by auto
next
  case (Then r s)
  from Then.prems obtain u v where "w = u @ v" "u \<in> texts r" "v \<in> texts s" by auto
  with Then show ?case by auto
qed auto

definition cluster_name_char :: "char \<Rightarrow> bool" where
  "cluster_name_char c \<longleftrightarrow> dnsExtChar c \<or> c = CHR ''.''"

lemma subdomain_chars:
  assumes "IsDNS1123Subdomain s = []"
  shows "length s \<le> 253 \<and> s \<noteq> [] \<and> list_all cluster_name_char s"
proof -
  have s: "s \<in> texts dns1123SubdomainRegexp" "length s \<le> 253"
    using assms by (auto simp: IsDNS1123Subdomain_def MatchString_iff split: if_splits)
  have "may_contain dns1123SubdomainRegexp c \<Longrightarrow> cluster_name_char c" for c
    by (auto simp: dns1123SubdomainRegexp_def dns1123Label_def cluster_name_char_def dnsExtChar_def dnsChar_def)
  with s texts_may_contain have "list_all cluster_name_char s" by (auto simp: list_all_iff)
  moreover have "[] \<notin> texts dns1123SubdomainRegexp" by (simp add: dns1123SubdomainRegexp_def dns1123Label_def)
  ultimately show ?thesis using s by auto
qed

definition registration_write :: "renderer \<Rightarrow> request \<Rightarrow> bool" where
  "registration_write rd w \<longleftrightarrow> (\<exists>seconds. w = CreateToken (Getenv rd PodNamespaceEnvVarName)
     AgentRegistrationDefaultBootstrapSAName seconds)"

lemma calls_registration_token: "calls_only (writes_only (registration_write rd)) (registration_token srv rd env duration)"
proof -
  have request: "calls_only (writes_only (registration_write rd)) (RequestSAToken srv AgentRegistrationDefaultBootstrapSAName
      (Getenv rd PodNamespaceEnvVarName) seconds)" for seconds
    unfolding RequestSAToken_def by (intro calls_intros) (auto simp: registration_write_def)
  show ?thesis
    unfolding registration_token_def Let_def GetBootstrapToken_def by (intro calls_intros request) simp_all
qed

lemma calls_manifests_handler: "calls_only (writes_only (registration_write rd)) (manifests_handler srv rd cd tk ocp env r)"
  unfolding manifests_handler_def Let_def failed_def
  by (intro calls_intros calls_registration_token calls_only_mono [OF reads_GetMerged] calls_only_mono [OF reads_get_required]
      calls_only_mono [OF reads_Generate]) simp_all

lemma calls_invalid_name:
  "IsDNS1123Subdomain (cluster_id r) \<noteq> [] \<Longrightarrow> calls_only (\<lambda>c. False) (manifests_handler srv rd cd tk ocp env r)"
  by (simp add: manifests_handler_def Let_def calls_only_return)

lemma calls_other_handlers:
  "calls_only (\<lambda>c. \<not> is_write c) (list_handler srv env r)" "calls_only (\<lambda>c. \<not> is_write c) (crds_handler srv rd cd r)"
  unfolding list_handler_def crds_handler_def by (intro calls_intros reads_Generate)+

lemma calls_authMiddleware:
  "calls_only P (f r) \<Longrightarrow> (\<And>c. is_review c \<Longrightarrow> P c) \<Longrightarrow> calls_only P (authMiddleware srv f r)"
  unfolding authMiddleware_def by (intro calls_intros) simp_all

text \<open>
  C21. The only thing that the server ever writes is a request for a token of its own bootstrap account in
  its own namespace; it does so only for an authorized request for the manifests of a cluster, whose
  name has at most 253 characters and nothing but lower case letters, digits, dashes and dots, so
  that it cannot break out of the manifests it is put into.
\<close>

theorem registration_writes_tokens_only:
  assumes "Write w \<in> set (new_calls (RunAgentRegistrationServer srv rd cd tk ocp env r) h)"
  shows "authorized srv h r \<and> registration_write rd w \<and> HasPrefix (URLPath r) ''/agent-registration/manifests/'' \<and>
    cluster_id r \<noteq> [] \<and> length (cluster_id r) \<le> 253 \<and> list_all cluster_name_char (cluster_id r)"
proof -
  have auth: "authorized srv h r"
  proof (rule ccontr)
    assume "\<not> authorized srv h r"
    from registration_calls [OF this, of rd cd tk ocp env] assms have "is_review (Write w)" by (metis list_all_iff)
    then show False by simp
  qed
  have "calls_only (\<lambda>c. \<not> is_write c) (authMiddleware srv (list_handler srv env) r)"
    "calls_only (\<lambda>c. \<not> is_write c) (authMiddleware srv (crds_handler srv rd cd) r)"
    "calls_only (\<lambda>c. \<not> is_write c) (return (Some [HttpError ''404 page not found'' 404]))"
    by (auto intro!: calls_authMiddleware calls_other_handlers calls_only_return elim: is_review.elims)
  with assms have path: "HasPrefix (URLPath r) ''/agent-registration/manifests/''"
    and w: "Write w \<in> set (new_calls (authMiddleware srv (manifests_handler srv rd cd tk ocp env) r) h)"
    by (auto simp: RunAgentRegistrationServer_def dest!: calls_only_new_calls split: if_splits)
  have name: "IsDNS1123Subdomain (cluster_id r) = []"
  proof (rule ccontr)
    assume "IsDNS1123Subdomain (cluster_id r) \<noteq> []"
    from calls_only_mono [OF calls_invalid_name [OF this], of is_review]
    have "calls_only is_review (authMiddleware srv (manifests_handler srv rd cd tk ocp env) r)"
      by (intro calls_authMiddleware) auto
    from calls_only_new_calls [OF this w] show False by simp
  qed
  have "calls_only (writes_only (registration_write rd)) (authMiddleware srv (manifests_handler srv rd cd tk ocp env) r)"
    by (intro calls_authMiddleware calls_manifests_handler) (auto simp: writes_only_def)
  from calls_only_new_calls [OF this w] have "registration_write rd w" by simp
  with auth path subdomain_chars [OF name] show ?thesis by blast
qed

definition review_server :: server where
  "review_server = ocp_server\<lparr>on_ReviewToken := (\<lambda>_ _. Inr \<lparr>Authenticated = True, ReviewUser = \<lparr>UserName = ''u'',
     UserGroups = [], UserUID = [], UserExtra = fmempty, UserText = []\<rparr>, ReviewError = [], StatusText = []\<rparr>),
     on_ReviewAccess := (\<lambda>_ _ _ _. Inr (True, []))\<rparr>"

theorem registration_writes_tokens_only_witness:
  "authorized review_server [] (plain_request ''Bearer t'' ''/agent-registration/manifests/c1'') \<and>
   list_all cluster_name_char ''c1''"
proof -
  let ?r = "plain_request ''Bearer t'' ''/agent-registration/manifests/c1''"
  have "list_ex is_token_request (new_calls (RunAgentRegistrationServer review_server sample_renderer klusterlet_codec
      sample_tools True plain_env ?r) [])" by code_simp
  from token_requested [OF this] obtain ns sa seconds where
    "Write (CreateToken ns sa seconds) \<in> set (new_calls (RunAgentRegistrationServer review_server sample_renderer
      klusterlet_codec sample_tools True plain_env ?r) [])" by blast
  from registration_writes_tokens_only [OF this] have "authorized review_server [] ?r"
    "list_all cluster_name_char (cluster_id ?r)" by blast+
  moreover have "cluster_id ?r = ''c1''" by code_simp
  ultimately show ?thesis by simp
qed

end
