(* ===== verification/Startup.thy ===== *)
theory Startup
  imports Watches Import_Config Manifest_Work Hosted
begin

text \<open>
  The start of the process, \<open>cmd/manager/main.go\<close>: what the informers select, the order of the
  steps and which failure ends the process; and, with the watches of the controllers, that what one
  controller creates is seen by the controllers that go on with it. A step is a call to a library or
  the start of a goroutine; the error that a call returns is a parameter, and \<open>main\<close> is written with the test
  on the error, or without one, that follows each call in the source.
\<close>

section \<open>Flags and environment\<close>

record process =
  LookupEnv :: "string \<Rightarrow> string option"
  network_policies_flag :: "bool option" \<comment> \<open>when it was given on the command line\<close>
  feature_gates :: "(string \<times> bool) list" \<comment> \<open>the settings of the command line, the last one first\<close>

text \<open>\<open>features/feature.go\<close>: a feature has its default unless the command line sets it.\<close>

definition KlusterletHostedMode :: string where "KlusterletHostedMode = ''KlusterletHostedMode''"
definition AgentRegistration :: string where "AgentRegistration = ''AgentRegistration''"

definition defaultRegistrationFeatureGates :: "(string \<times> bool) list" where
  "defaultRegistrationFeatureGates = [(KlusterletHostedMode, True), (AgentRegistration, True)]"

definition feature_Enabled :: "process \<Rightarrow> string \<Rightarrow> bool" where
  "feature_Enabled p f =
     (case map_of (feature_gates p @ defaultRegistrationFeatureGates) f of Some b \<Rightarrow> b | None \<Rightarrow> False)"

text \<open>\<open>strconv.ParseBool\<close>.\<close>

definition ParseBool :: "string \<Rightarrow> bool option" where
  "ParseBool s =
     (if s \<in> set [''1'', ''t'', ''T'', ''TRUE'', ''true'', ''True''] then Some True
      else if s \<in> set [''0'', ''f'', ''F'', ''FALSE'', ''false'', ''False''] then Some False
      else None)"

definition enable_network_policies :: "process \<Rightarrow> bool" where
  "enable_network_policies p =
     (case network_policies_flag p of
        Some b \<Rightarrow> b
      | None \<Rightarrow>
          (case LookupEnv p ''ENABLE_KLUSTERLET_NETWORK_POLICIES'' of
             None \<Rightarrow> False
           | Some envVal \<Rightarrow> (case ParseBool envVal of Some val \<Rightarrow> val | None \<Rightarrow> False)))"

definition enable_pprof :: "process \<Rightarrow> bool option" where
  "enable_pprof p = (case LookupEnv p ''ENABLE_PPROF'' of None \<Rightarrow> Some False | Some v \<Rightarrow> ParseBool v)"

section \<open>The informers\<close>

datatype informer = ControllerConfigInformer | ImportSecretInformer | AutoImportSecretInformer |
  KlusterletWorkInformer | HostedWorkInformer | KlusterletConfigInformer | ManagedClusterInformer

fun informer_selects :: "string \<Rightarrow> informer \<Rightarrow> watched \<Rightarrow> bool" where
  "informer_selects componentNamespace ControllerConfigInformer (ConfigMapW c) =
     (Namespace c = componentNamespace \<and> Name c = ControllerConfigConfigMapName)"
| "informer_selects componentNamespace ImportSecretInformer (SecretW s) = haskey (Labels s) ClusterImportSecretLabel"
| "informer_selects componentNamespace AutoImportSecretInformer (SecretW s) = (Name s = AutoImportSecretName)"
| "informer_selects componentNamespace KlusterletWorkInformer (WorkW w) = haskey (Labels w) KlusterletWorksLabel"
| "informer_selects componentNamespace HostedWorkInformer (WorkW w) = haskey (Labels w) HostedClusterLabel"
| "informer_selects componentNamespace KlusterletConfigInformer (KlusterletConfigW c) = True"
| "informer_selects componentNamespace ManagedClusterInformer (ClusterW c) = True"
| "informer_selects componentNamespace _ _ = False"

section \<open>The steps\<close>

datatype step = GetConfig | NewClient string | GetComponentNamespace | AddIndexers informer | NewManager |
  AddControllersToManager | SetupTLSProfileWatcher | StartInformer informer | WaitForCacheSync informer |
  StartReconcileFlightCtlResources | StartRegistrationServer | StartPprof | StartManager

text \<open>
  A call that returns the error \<open>errors s\<close>, \<open>None\<close> for \<open>nil\<close>. The starts of the informers, the waiting and the
  goroutines return no error: what \<open>WaitForCacheSync\<close> returns is not looked at.
\<close>

definition attempt_step :: "(step \<Rightarrow> err option) \<Rightarrow> step \<Rightarrow> (step, err option) prog" where
  "attempt_step errors s = ask (\<lambda>_. errors s) s"

text \<open>From line 393 on: everything is set up.\<close>

definition start_informers :: "(step, unit) prog" where
  "start_informers = do {
     emit (StartInformer ControllerConfigInformer);
     emit (StartInformer ImportSecretInformer);
     emit (StartInformer AutoImportSecretInformer);
     emit (StartInformer KlusterletWorkInformer);
     emit (StartInformer HostedWorkInformer);
     emit (StartInformer KlusterletConfigInformer);
     emit (StartInformer ManagedClusterInformer);
     emit (WaitForCacheSync ImportSecretInformer);
     emit (WaitForCacheSync AutoImportSecretInformer);
     emit (WaitForCacheSync KlusterletWorkInformer);
     emit (WaitForCacheSync HostedWorkInformer);
     emit (WaitForCacheSync KlusterletConfigInformer);
     emit (WaitForCacheSync ManagedClusterInformer) }"

definition start_process :: "process \<Rightarrow> bool \<Rightarrow> (step \<Rightarrow> err option) \<Rightarrow> (step, nat) prog" where
  "start_process p enablePprof errors = do {
     start_informers;
     emit StartReconcileFlightCtlResources;
     (if feature_Enabled p AgentRegistration then emit StartRegistrationServer else State_Monad.return ());
     (if enablePprof then emit StartPprof else State_Monad.return ());
     err \<leftarrow> attempt_step errors StartManager;
     if err \<noteq> None then State_Monad.return 1 else State_Monad.return 0 }"

text \<open>From line 294 on: indexers, manager and controllers.\<close>

definition setup_manager :: "process \<Rightarrow> bool \<Rightarrow> (step \<Rightarrow> err option) \<Rightarrow> (step, nat) prog" where
  "setup_manager p enablePprof errors = do {
     err \<leftarrow> attempt_step errors (AddIndexers KlusterletConfigInformer);
     if err \<noteq> None then State_Monad.return 1 else do {
     err \<leftarrow> attempt_step errors (AddIndexers ManagedClusterInformer);
     if err \<noteq> None then State_Monad.return 1 else do {
     err \<leftarrow> attempt_step errors NewManager;
     if err \<noteq> None then State_Monad.return 1 else do {
     err \<leftarrow> attempt_step errors AddControllersToManager;
     if err \<noteq> None then State_Monad.return 1 else do {
     err \<leftarrow> attempt_step errors SetupTLSProfileWatcher;
     if err \<noteq> None then State_Monad.return 1 else start_process p enablePprof errors } } } } }"

text \<open>The exit code of the process, and as calls the steps it made.\<close>

definition main_process :: "process \<Rightarrow> (step \<Rightarrow> err option) \<Rightarrow> (step, nat) prog" where
  "main_process p errors =
     (case enable_pprof p of
        None \<Rightarrow> State_Monad.return 1
      | Some enablePprof \<Rightarrow> do {
          err \<leftarrow> attempt_step errors GetConfig;
          if err \<noteq> None then State_Monad.return 1 else do {
          err \<leftarrow> attempt_step errors (NewClient ''kube'');
          if err \<noteq> None then State_Monad.return 1 else do {
          err \<leftarrow> attempt_step errors (NewClient ''api extensions'');
          if err \<noteq> None then State_Monad.return 1 else do {
          err \<leftarrow> attempt_step errors (NewClient ''registration operator'');
          if err \<noteq> None then State_Monad.return 1 else do {
          err \<leftarrow> attempt_step errors (NewClient ''work'');
          if err \<noteq> None then State_Monad.return 1 else do {
          err \<leftarrow> attempt_step errors (NewClient ''klusterletconfig'');
          if err \<noteq> None then State_Monad.return 1 else do {
          err \<leftarrow> attempt_step errors (NewClient ''managedcluster'');
          if err \<noteq> None then State_Monad.return 1 else do {
          err \<leftarrow> attempt_step errors (NewClient ''route'');
          if err \<noteq> None then State_Monad.return 1 else do {
          err \<leftarrow> attempt_step errors GetComponentNamespace;
          if err \<noteq> None then State_Monad.return 1 else setup_manager p enablePprof errors } } } } } } } } })"

section \<open>The order of the start\<close>

definition before :: "'a \<Rightarrow> 'a \<Rightarrow> 'a list \<Rightarrow> bool" where
  "before x y xs \<longleftrightarrow> x \<in> set (takeWhile (\<lambda>z. z \<noteq> y) xs) \<and> y \<in> set xs"

text \<open>The steps before the informers start and the ones after, when all goes well.\<close>

definition needed_steps :: "step list" where
  "needed_steps = [GetConfig, NewClient ''kube'', NewClient ''api extensions'', NewClient ''registration operator'',
     NewClient ''work'', NewClient ''klusterletconfig'', NewClient ''managedcluster'', NewClient ''route'',
     GetComponentNamespace, AddIndexers KlusterletConfigInformer, AddIndexers ManagedClusterInformer, NewManager,
     AddControllersToManager, SetupTLSProfileWatcher]"

definition started_steps :: "process \<Rightarrow> bool \<Rightarrow> step list" where
  "started_steps p enablePprof =
     map StartInformer [ControllerConfigInformer, ImportSecretInformer, AutoImportSecretInformer,
       KlusterletWorkInformer, HostedWorkInformer, KlusterletConfigInformer, ManagedClusterInformer] @
     map WaitForCacheSync [ImportSecretInformer, AutoImportSecretInformer, KlusterletWorkInformer,
       HostedWorkInformer, KlusterletConfigInformer, ManagedClusterInformer] @
     StartReconcileFlightCtlResources # (if feature_Enabled p AgentRegistration then [StartRegistrationServer] else []) @
     (if enablePprof then [StartPprof] else [])"

lemma start_process_run:
  "wp (start_process p b errors) Q h =
     Q (if errors StartManager = None then 0 else 1) (h @ started_steps p b @ [StartManager])"
  by (simp add: start_process_def start_informers_def started_steps_def attempt_step_def wp_simps)

text \<open>A program that goes on with \<open>rest\<close> after the steps \<open>ss\<close>, or ends with code 1 at the first one that fails.\<close>

definition guarded :: "(step \<Rightarrow> err option) \<Rightarrow> step list \<Rightarrow> (step, nat) prog \<Rightarrow> (step, nat) prog \<Rightarrow> bool" where
  "guarded errors ss m rest \<longleftrightarrow> (\<forall>h Q. wp m Q h \<longleftrightarrow>
     (if list_all (\<lambda>s. errors s = None) ss then wp rest Q (h @ ss)
      else Q 1 (h @ takeWhile (\<lambda>s. errors s = None) ss @ [hd (dropWhile (\<lambda>s. errors s = None) ss)])))"

lemma guarded_nil: "guarded errors [] m m"
  by (simp add: guarded_def)

lemma guarded_step:
  assumes "guarded errors ss m rest"
  shows "guarded errors (s # ss)
     (do { err \<leftarrow> attempt_step errors s; if err \<noteq> None then State_Monad.return 1 else m }) rest"
  using assms by (auto simp: guarded_def attempt_step_def wp_simps)

lemma guarded_setup:
  "enable_pprof p = Some b \<Longrightarrow> guarded errors needed_steps (main_process p errors) (start_process p b errors)"
  unfolding main_process_def setup_manager_def needed_steps_def option.case by (simp only: option.case) (intro guarded_step guarded_nil)

text \<open>Every step of the set-up succeeds and the process starts, or the process ends at the first one that fails.\<close>

lemma first_failure_in:
  "\<not> list_all P ss \<Longrightarrow> set (takeWhile P ss @ [hd (dropWhile P ss)]) \<subseteq> set ss"
  by (induction ss) (auto dest: set_takeWhileD split: if_splits)

lemma main_process_run:
  "wp (main_process p errors) (\<lambda>code made.
     if enable_pprof p \<noteq> None \<and> list_all (\<lambda>s. errors s = None) needed_steps
     then code = (if errors StartManager = None then 0 else 1) \<and>
       (\<exists>b. made = needed_steps @ started_steps p b @ [StartManager])
     else code = 1 \<and> set made \<subseteq> set needed_steps) []"
proof (cases "enable_pprof p")
  case (Some b)
  from guarded_setup [OF this, of errors] show ?thesis
    unfolding guarded_def start_process_run using Some first_failure_in [of "\<lambda>s. errors s = None" needed_steps] by auto
qed (simp add: main_process_def wp_simps)

lemma before_last: "y \<notin> set xs \<Longrightarrow> before x y (xs @ [y]) \<longleftrightarrow> x \<in> set xs"
  by (auto simp: before_def takeWhile_append)

lemma before_append: "x \<in> set xs \<Longrightarrow> y \<notin> set xs \<Longrightarrow> y \<in> set ys \<Longrightarrow> before x y (xs @ ys)"
  by (auto simp: before_def takeWhile_append)

lemma started_steps_simps:
  "StartManager \<notin> set (needed_steps @ started_steps p b)"
  "StartInformer i \<notin> set needed_steps" "StartInformer i \<in> set (started_steps p b)" "WaitForCacheSync i \<notin> set needed_steps"
  "WaitForCacheSync i \<in> set (started_steps p b) \<longleftrightarrow> i \<noteq> ControllerConfigInformer"
  by (cases i; simp add: needed_steps_def started_steps_def)+

text \<open>
  C18. The manager, and with it the controllers, is started exactly when the environment parses and each of the
  fourteen steps of the set-up returns no error: the configuration, seven clients, the namespace, two indexers, the
  manager, its controllers and the watcher of the TLS profile. All informers are then started after the controllers
  were added and before the manager is, and the caches of all informers but one were waited for: nothing waits for
  the controller's own config map, so that the first runs may not see it. The exit code is 0 exactly when the manager
  ends without an error. In every other case the process ends with code 1 and has started nothing.
\<close>

theorem manager_starts_last:
  "let made = snd (run_state (main_process p errors) []); code = result (main_process p errors) [];
       needed = [GetConfig, NewClient ''kube'', NewClient ''api extensions'', NewClient ''registration operator'',
         NewClient ''work'', NewClient ''klusterletconfig'', NewClient ''managedcluster'', NewClient ''route'',
         GetComponentNamespace, AddIndexers KlusterletConfigInformer, AddIndexers ManagedClusterInformer, NewManager,
         AddControllersToManager, SetupTLSProfileWatcher] in
   (StartManager \<in> set made \<longleftrightarrow> enable_pprof p \<noteq> None \<and> list_all (\<lambda>s. errors s = None) needed) \<and>
   (if StartManager \<in> set made
    then list_all (\<lambda>s. before s StartManager made) needed \<and> (code = 0 \<longleftrightarrow> errors StartManager = None) \<and>
      (\<forall>i. before AddControllersToManager (StartInformer i) made \<and> before (StartInformer i) StartManager made \<and>
        (before (WaitForCacheSync i) StartManager made \<longleftrightarrow> i \<noteq> ControllerConfigInformer))
    else code = 1 \<and> set made \<subseteq> set needed)"
proof -
  let ?made = "snd (run_state (main_process p errors) [])" and ?code = "result (main_process p errors) []"
  note run = main_process_run [of p errors, unfolded wp_run, folded result_def]
  have "(StartManager \<in> set ?made \<longleftrightarrow> enable_pprof p \<noteq> None \<and> list_all (\<lambda>s. errors s = None) needed_steps) \<and>
    (if StartManager \<in> set ?made
     then list_all (\<lambda>s. before s StartManager ?made) needed_steps \<and> (?code = 0 \<longleftrightarrow> errors StartManager = None) \<and>
       (\<forall>i. before AddControllersToManager (StartInformer i) ?made \<and> before (StartInformer i) StartManager ?made \<and>
         (before (WaitForCacheSync i) StartManager ?made \<longleftrightarrow> i \<noteq> ControllerConfigInformer))
     else ?code = 1 \<and> set ?made \<subseteq> set needed_steps)"
  proof (cases "enable_pprof p \<noteq> None \<and> list_all (\<lambda>s. errors s = None) needed_steps")
    case True
    with run obtain b where made: "?made = (needed_steps @ started_steps p b) @ [StartManager]"
      and code: "?code = (if errors StartManager = None then 0 else 1)" by auto
    have "before AddControllersToManager (StartInformer i) ?made" for i
      unfolding made append_assoc by (rule before_append) (simp_all add: started_steps_simps, simp add: needed_steps_def)
    moreover have "before s StartManager ?made \<longleftrightarrow> s \<in> set needed_steps \<or> s \<in> set (started_steps p b)" for s
      unfolding made before_last [OF started_steps_simps(1)] by simp
    ultimately show ?thesis
      using True code made by (simp add: started_steps_simps list_all_iff)
  next
    case False
    with run have "?code = 1" "set ?made \<subseteq> set needed_steps" by auto
    with False started_steps_simps(1) show ?thesis by auto
  qed
  then show ?thesis unfolding needed_steps_def Let_def .
qed

theorem manager_starts_last_witness:
  "let p = \<lparr>LookupEnv = (\<lambda>_. None), network_policies_flag = None, feature_gates = []\<rparr>;
       made = snd (run_state (main_process p (\<lambda>_. None)) []) in
   before (WaitForCacheSync ImportSecretInformer) StartManager made \<and>
   \<not> before (WaitForCacheSync ControllerConfigInformer) StartManager made \<and>
   result (main_process p (\<lambda>_. None)) [] = 0"
proof -
  let ?p = "\<lparr>LookupEnv = (\<lambda>_. None), network_policies_flag = None, feature_gates = []\<rparr>"
  have "StartManager \<in> set (snd (run_state (main_process ?p (\<lambda>_. None)) []))" by code_simp
  with manager_starts_last [of ?p "\<lambda>_. None"] show ?thesis by (simp only: Let_def if_True) blast
qed

text \<open>A run that does not see the config map takes the defaults, whatever the config map says.\<close>

lemma unseen_config_means_defaults:
  assumes "on_ListerConfigMap srv h ns ControllerConfigConfigMapName = Inl notFoundErr"
  shows "result (GetAutoImportStrategy srv ns) h = Inr AutoImportStrategyImportOnly"
    and "result (GenerateImportConfig srv ns) h = Inr False"
  using assms by (simp_all add: GetAutoImportStrategy_def GenerateImportConfig_def result_def ask_def
      DefaultAutoImportStrategy_eq)

section \<open>What one controller creates is seen by the next\<close>

fun informer_of :: "origin \<Rightarrow> informer option" where
  "informer_of ImportSecrets = Some ImportSecretInformer"
| "informer_of AutoImportSecrets = Some AutoImportSecretInformer"
| "informer_of KlusterletWorks = Some KlusterletWorkInformer"
| "informer_of HostedWorks = Some HostedWorkInformer"
| "informer_of _ = None"

text \<open>The controllers that are woken for a cluster when an object is created that the informer selects.\<close>

definition woken_by_new :: "bool \<Rightarrow> string \<Rightarrow> stores \<Rightarrow> origin \<Rightarrow> watched \<Rightarrow> string \<Rightarrow> string set" where
  "woken_by_new hostedEnabled ns st o' x n =
     (if (case informer_of o' of None \<Rightarrow> True | Some i \<Rightarrow> informer_selects ns i x)
      then {c. \<exists>k. (c, k) \<in> wakes hostedEnabled ns st o' (CreateEvent x) \<and> snd k = n} else {})"

lemma woken_by_import_secret:
  assumes "result (buildImportSecret srv rd cd mc mode config d creation expiration) h = Some (Inr (i, v))"
  shows "{''manifestwork-controller'', ''autoimport-controller'', ''clusterdeployment-controller'',
      ''selfmanagedcluster-controller''} \<union>
      (if hostedEnabled \<and> is_hosted_mode mode then {''hosted-manifestwork-controller''} else {})
    \<subseteq> woken_by_new hostedEnabled ns st ImportSecrets (SecretW i) (Name mc)"
proof -
  from assms obtain manifests crds where i: "i = import_secret (Name mc)
      (if is_hosted_mode mode then fmap_of_list [(KlusterletDeployModeAnnotation, InstallModeHosted)] else fmempty)
      manifests crds creation expiration"
    by (cases "is_hosted_mode mode")
      (auto simp: buildImportSecret_def result_def split: sum.splits option.splits prod.splits)
  have "haskey (Labels i) ClusterImportSecretLabel" "Namespace i = Name mc"
    "is_hosted_mode mode \<Longrightarrow> isHostedModeObject (SecretW i)"
    by (auto simp: i import_secret_def Let_def ObjectMeta.defs new_meta_def haskey_def isHostedModeObject_def goidx_def)
  then show ?thesis
    by (auto simp: woken_by_new_def wakes_iff AddToManager_def all_watches watch_defs new_secret_data_def namespace_key_def)
qed

lemma work_name_suffixes: "Watches.klusterlet_work_name (n @ ''-'' @ KlusterletSuffix)" "Watches.klusterlet_work_name (n @ ''-'' @ KlusterletCRDsSuffix)"
  by (simp_all add: Watches.klusterlet_work_name_def HasSuffix_iff)

lemma woken_by_work:
  assumes "createManifestWorks cd mc s = Some objs" and "ManifestWorkObj w \<in> set objs"
  shows "{''import-status-controller'', ''manifestwork-controller'', ''autoimport-controller'',
      ''clusterdeployment-controller'', ''selfmanagedcluster-controller''}
    \<subseteq> woken_by_new hostedEnabled ns st KlusterletWorks (WorkW w) (Name mc)"
proof -
  from assms have "haskey (Labels w) KlusterletWorksLabel \<and> Namespace w = Name mc \<and> Watches.klusterlet_work_name (Name w)"
    by (auto simp: createManifestWorks_def crd_work_def klusterlet_work_def Let_def haskey_def work_name_suffixes [simplified]
        split: option.splits if_splits)
  then show ?thesis
    by (auto simp: woken_by_new_def wakes_iff AddToManager_def all_watches watch_defs new_klusterlet_work_def namespace_key_def)
qed

lemma woken_by_hosted_label:
  assumes "haskey (Labels w) HostedClusterLabel" and "hosted_work_key (ObjectMeta.truncate w) = (n, n)"
  shows "(if hostedEnabled then {''hosted-manifestwork-controller''} else {})
    \<subseteq> woken_by_new hostedEnabled ns st HostedWorks (WorkW w) n"
  using assms by (auto simp: woken_by_new_def wakes_iff AddToManager_def all_watches watch_defs)

lemma woken_by_hosted_work:
  assumes "createHostingManifestWork cd n s hosting = Some w"
  shows "(if hostedEnabled then {''hosted-manifestwork-controller''} else {})
    \<subseteq> woken_by_new hostedEnabled ns st HostedWorks (WorkW w) n"
proof (rule woken_by_hosted_label)
  from assms have m: "Name w = HostedKlusterletManifestWorkName n" "haskey (Labels w) HostedClusterLabel" "Namespace w = hosting"
    by (auto simp: createHostingManifestWork_def hosted_work_meta_def new_meta_def ObjectMeta.defs haskey_def)
  then show "hosted_work_key (ObjectMeta.truncate w) = (n, n)" "haskey (Labels w) HostedClusterLabel"
    using hosted_work_leads_back(1) [of hosting n] by (simp_all add: hosted_work_key_def new_meta_def)
qed

lemma woken_by_kubeconfig_work:
  assumes "createManagedKubeconfigManifestWork cd n s hosting hc = Inr w"
  shows "(if hostedEnabled then {''hosted-manifestwork-controller''} else {})
    \<subseteq> woken_by_new hostedEnabled ns st HostedWorks (WorkW w) n"
proof (rule woken_by_hosted_label)
  from assms have m: "Name w = HostedManagedKubeConfigManifestWorkName n" "haskey (Labels w) HostedClusterLabel" "Namespace w = hosting"
    by (auto simp: createManagedKubeconfigManifestWork_def Let_def hosted_work_meta_def new_meta_def ObjectMeta.defs haskey_def
        split: if_splits sum.splits)
  then show "hosted_work_key (ObjectMeta.truncate w) = (n, n)" "haskey (Labels w) HostedClusterLabel"
    using hosted_work_leads_back(2) [of hosting n] by (simp_all add: hosted_work_key_def new_meta_def)
qed

text \<open>
  C17. The chain of an import does not break between the controllers: a new import secret is selected by
  the informer of import secrets and wakes the manifest work controller and the three that import
  clusters, and the hosted controller for a hosted cluster; each work made from it is selected by
  the informer of klusterlet works and wakes the import status controller and the ones that wait for
  works; and each of the two works of a hosted cluster, the one with the klusterlet and the one with the kubeconfig
  of the managed cluster, is selected by the informer of hosted works and wakes the hosted controller. All of them
  are woken for the cluster whose objects these are.
\<close>

theorem import_chain:
  assumes "result (buildImportSecret srv rd cd mc mode config d creation expiration) h = Some (Inr (i, v))"
    and "createManifestWorks cd mc i = Some objs" and "ManifestWorkObj w \<in> set objs"
    and "createHostingManifestWork cd (Name mc) i hosting = Some hw"
    and "createManagedKubeconfigManifestWork cd (Name mc) s hosting hc = Inr kw"
  shows "{''manifestwork-controller'', ''autoimport-controller'', ''clusterdeployment-controller'',
      ''selfmanagedcluster-controller''} \<union>
      (if hostedEnabled \<and> is_hosted_mode mode then {''hosted-manifestwork-controller''} else {})
      \<subseteq> woken_by_new hostedEnabled ns st ImportSecrets (SecretW i) (Name mc) \<and>
    {''import-status-controller'', ''manifestwork-controller'', ''autoimport-controller'',
      ''clusterdeployment-controller'', ''selfmanagedcluster-controller''}
      \<subseteq> woken_by_new hostedEnabled ns st KlusterletWorks (WorkW w) (Name mc) \<and>
    (if hostedEnabled then {''hosted-manifestwork-controller''} else {})
      \<subseteq> woken_by_new hostedEnabled ns st HostedWorks (WorkW hw) (Name mc) \<inter>
        woken_by_new hostedEnabled ns st HostedWorks (WorkW kw) (Name mc)"
  by (intro conjI Int_greatest woken_by_import_secret [OF assms(1)] woken_by_work [OF assms(2,3)]
      woken_by_hosted_work [OF assms(4)] woken_by_kubeconfig_work [OF assms(5)])

fun is_work :: "obj \<Rightarrow> bool" where
  "is_work (ManifestWorkObj w) = True"
| "is_work _ = False"

lemma is_work_iff: "is_work x \<longleftrightarrow> (\<exists>w. x = ManifestWorkObj w)"
  by (cases x) auto

definition plain_renderer :: renderer where
  "plain_renderer = sample_renderer\<lparr>asset := (\<lambda>_. Inr []), execute_chart_template := (\<lambda>_ _. Some []),
     RenderKlusterletChart := (\<lambda>_ _. Inr ([''crd''], [''klusterlet'']))\<rparr>"

definition sample_secrets :: "(err + Secret \<times> Secret) option" where
  "sample_secrets = result (buildImportSecret empty_server plain_renderer sample_codec (new_cluster ''c1'')
     InstallModeHosted None ''kubeconfig'' [] []) []"

theorem import_chain_witness:
  "\<exists>i w hw kw. ''manifestwork-controller'' \<in> woken_by_new True ''ns'' \<lparr>cluster_store = [], config_store = []\<rparr> ImportSecrets (SecretW i) ''c1'' \<and>
     ''import-status-controller'' \<in> woken_by_new True ''ns'' \<lparr>cluster_store = [], config_store = []\<rparr> KlusterletWorks (WorkW w) ''c1'' \<and>
     ''hosted-manifestwork-controller'' \<in> woken_by_new True ''ns'' \<lparr>cluster_store = [], config_store = []\<rparr> HostedWorks (WorkW hw) ''c1'' \<and>
     ''hosted-manifestwork-controller'' \<in> woken_by_new True ''ns'' \<lparr>cluster_store = [], config_store = []\<rparr> HostedWorks (WorkW kw) ''c1''"
proof -
  let ?cd = sample_codec and ?mc = "new_cluster ''c1''" and ?st = "\<lparr>cluster_store = [], config_store = []\<rparr>"
  have n: "Name ?mc = ''c1''" by code_simp
  have "case sample_secrets of Some (Inr (i, v)) \<Rightarrow> (case createManifestWorks ?cd ?mc i of
      None \<Rightarrow> False | Some objs \<Rightarrow> list_ex is_work objs) | _ \<Rightarrow> False"
    by code_simp
  then obtain i v objs where b: "sample_secrets = Some (Inr (i, v))" and o: "createManifestWorks ?cd ?mc i = Some objs"
    and "list_ex is_work objs" by (auto split: option.splits sum.splits prod.splits)
  then obtain w where w: "ManifestWorkObj w \<in> set objs" by (auto simp: list_ex_iff is_work_iff)
  have "case sample_secrets of Some (Inr (i, v)) \<Rightarrow> (case createHostingManifestWork ?cd ''c1'' i ''h'' of
      None \<Rightarrow> False | Some hw \<Rightarrow> True) | _ \<Rightarrow> False"
    by code_simp
  then obtain hw where hw: "createHostingManifestWork ?cd ''c1'' i ''h'' = Some hw" by (auto simp: b split: option.splits)
  let ?s = "sample_import_secret\<lparr>Data := fmap_of_list [(''kubeconfig'', ''k'')]\<rparr>"
  have "case createManagedKubeconfigManifestWork ?cd ''c1'' ?s ''h'' (new_cluster ''h'') of Inl e \<Rightarrow> False | Inr kw \<Rightarrow> True"
    by code_simp
  then obtain kw where kw: "createManagedKubeconfigManifestWork ?cd ''c1'' ?s ''h'' (new_cluster ''h'') = Inr kw"
    by (auto split: sum.splits)
  from import_chain [OF b [unfolded sample_secrets_def] o w, unfolded n, OF hw kw, of True "''ns''" ?st]
  show ?thesis by (intro exI [of _ i] exI [of _ w] exI [of _ hw] exI [of _ kw]) auto
qed

end
