(* ===== verification/Detachment.thy ===== *)
theory Detachment
  imports Resource_Cleanup
begin

text \<open>
  What a run of the clean-up achieves on a hub where nothing else happens meanwhile. The hub is the
  locale \<open>hub_api\<close>: its laws are the documented behaviour of the Kubernetes API for the requests of the
  clean-up. An object that is deleted with finalizers left stays, with a deletion timestamp, until
  its last finalizer is removed; reads see the objects as they are.
\<close>

section \<open>Objects with finalizers\<close>

definition named :: "string \<Rightarrow> string \<Rightarrow> 'a ObjectMeta_scheme \<Rightarrow> bool" where
  "named ns n x \<longleftrightarrow> Namespace x = ns \<and> Name x = n"

text \<open>An object that is being deleted is gone with its last finalizer.\<close>

definition settle :: "'a ObjectMeta_scheme list \<Rightarrow> 'a ObjectMeta_scheme list" where
  "settle = filter (\<lambda>x. \<not> (deleting x \<and> Finalizers x = []))"

definition delete_object :: "int \<Rightarrow> ('a ObjectMeta_scheme \<Rightarrow> bool) \<Rightarrow> 'a ObjectMeta_scheme list \<Rightarrow> 'a ObjectMeta_scheme list" where
  "delete_object t P xs = settle (map (\<lambda>x. if P x \<and> \<not> deleting x then x\<lparr>DeletionTimestamp := Some t\<rparr> else x) xs)"

definition set_finalizers :: "('a ObjectMeta_scheme \<Rightarrow> bool) \<Rightarrow> string list \<Rightarrow> 'a ObjectMeta_scheme list \<Rightarrow> 'a ObjectMeta_scheme list" where
  "set_finalizers P fs xs = settle (map (\<lambda>x. if P x then x\<lparr>Finalizers := fs\<rparr> else x) xs)"

lemma named_update [simp]:
  "named ns n (x\<lparr>DeletionTimestamp := d\<rparr>) = named ns n x" "named ns n (x\<lparr>Finalizers := fs\<rparr>) = named ns n x"
  by (simp_all add: named_def)

text \<open>A hub keeps no object that is settled already.\<close>

definition settled :: "'a ObjectMeta_scheme list \<Rightarrow> bool" where
  "settled xs \<longleftrightarrow> settle xs = xs"

lemma settled_iff: "settled xs \<longleftrightarrow> (\<forall>x\<in>set xs. deleting x \<longrightarrow> Finalizers x \<noteq> [])"
  by (auto simp: settled_def settle_def filter_id_conv)

lemma settled_delete [simp]: "settled (delete_object t P xs)" "settled (set_finalizers P fs xs)"
  by (auto simp: settled_iff delete_object_def set_finalizers_def settle_def)

lemma settled_filter [simp]: "settled xs \<Longrightarrow> settled (filter P xs)"
  by (auto simp: settled_iff)

text \<open>After a deletion the objects of the name are deleting and have finalizers, or they are gone.\<close>

lemma delete_object_found:
  "x \<in> set (delete_object t (named ns n) xs) \<Longrightarrow> named ns n x \<Longrightarrow> deleting x \<and> Finalizers x \<noteq> []"
  by (auto simp: delete_object_def settle_def deleting_def split: if_splits)

lemma filter_delete_object:
  "settled xs \<Longrightarrow> filter (\<lambda>x. \<not> named ns n x) (delete_object t (named ns n) xs) = filter (\<lambda>x. \<not> named ns n x) xs"
  by (induction xs) (auto simp: delete_object_def settle_def settled_iff)

lemma set_finalizers_deleting:
  assumes "settled xs" and "\<And>x. x \<in> set xs \<Longrightarrow> named ns n x \<Longrightarrow> deleting x"
  shows "set_finalizers (named ns n) [] xs = filter (\<lambda>x. \<not> named ns n x) xs"
proof -
  have "\<forall>x\<in>set xs. named ns n x \<longrightarrow> deleting x" using assms(2) by blast
  with assms(1) show ?thesis
    by (induction xs) (auto simp: set_finalizers_def settle_def settled_iff deleting_def)
qed

section \<open>The hub\<close>

record hub =
  hub_clusters :: "ManagedCluster list"
  hub_namespaces :: "NamespaceObj list"
  hub_works :: "ManifestWork list"
  hub_addons :: "ManagedClusterAddOn list"
  hub_bindings :: "RoleBinding list"

definition answers :: "err + 'a \<Rightarrow> 'a option \<Rightarrow> bool" where
  "answers r x \<longleftrightarrow> (case x of None \<Rightarrow> (\<exists>e. r = Inl e \<and> IsNotFound e) | Some a \<Rightarrow> r = Inr a)"

fun selected :: "selector \<Rightarrow> 'a ObjectMeta_scheme \<Rightarrow> bool" where
  "selected None x = True"
| "selected (Some (k, v)) x = (fmlookup (Labels x) k = Some v)"

abbreviation hub_object :: "string \<Rightarrow> string \<Rightarrow> 'a ObjectMeta_scheme list \<Rightarrow> bool" where
  "hub_object ns n xs \<equiv> \<exists>x\<in>set xs. named ns n x"

lemma answers_simps [simp]:
  "answers r None \<longleftrightarrow> (\<exists>e. r = Inl e \<and> IsNotFound e)" "answers r (Some a) \<longleftrightarrow> r = Inr a"
  by (simp_all add: answers_def)

lemma find_None_filter: "find P xs = None \<Longrightarrow> filter (\<lambda>x. \<not> P x) xs = xs"
  by (simp add: find_None_iff filter_id_conv)

lemma find_SomeD: "find P xs = Some x \<Longrightarrow> x \<in> set xs \<and> P x"
  by (auto simp: find_Some_iff)

text \<open>What remains to be done for an object after it was deleted.\<close>

text \<open>Objects of a name that are all deleting.\<close>

lemma deleting_cases:
  assumes "settled xs" and "\<And>x. x \<in> set xs \<Longrightarrow> named ns n x \<Longrightarrow> deleting x"
  obtains "find (named ns n) xs = None" "xs = filter (\<lambda>x. \<not> named ns n x) xs"
  | y where "find (named ns n) xs = Some y" "named ns n y" "deleting y" "Finalizers y \<noteq> []" "hub_object ns n xs"
      "set_finalizers (named ns n) [] xs = filter (\<lambda>x. \<not> named ns n x) xs"
proof (cases "find (named ns n) xs")
  case None
  then show ?thesis using that(1) find_None_filter [OF None] by simp
next
  case (Some y)
  note y = find_SomeD [OF this]
  with assms have "deleting y" "Finalizers y \<noteq> []" by (auto simp: settled_iff)
  then show ?thesis using that(2) [OF Some] y set_finalizers_deleting [OF assms] by blast
qed

lemma delete_object_cases:
  assumes "settled xs"
  obtains "find (named ns n) (delete_object t (named ns n) xs) = None"
      "delete_object t (named ns n) xs = filter (\<lambda>x. \<not> named ns n x) xs"
  | y where "find (named ns n) (delete_object t (named ns n) xs) = Some y" "Finalizers y \<noteq> []"
      "hub_object ns n (delete_object t (named ns n) xs)"
      "set_finalizers (named ns n) [] (delete_object t (named ns n) xs) = filter (\<lambda>x. \<not> named ns n x) xs"
proof (rule deleting_cases [OF settled_delete(1) [of t "named ns n" xs], of ns n])
  show "deleting x" if "x \<in> set (delete_object t (named ns n) xs)" "named ns n x" for x
    using delete_object_found [OF that] by simp
qed (use that filter_delete_object [OF assms, of ns n t] in auto)

text \<open>Names are unique in a namespace.\<close>

definition distinct_names :: "'a ObjectMeta_scheme list \<Rightarrow> bool" where
  "distinct_names xs \<longleftrightarrow> distinct (map (\<lambda>x. (Namespace x, Name x)) xs)"

lemma distinct_names_filter [simp]: "distinct_names xs \<Longrightarrow> distinct_names (filter P xs)"
  by (simp add: distinct_names_def distinct_map_filter)

lemma distinct_names_eq:
  "distinct_names xs \<Longrightarrow> x \<in> set xs \<Longrightarrow> y \<in> set xs \<Longrightarrow> named ns n x \<Longrightarrow> named ns n y \<Longrightarrow> x = y"
  by (auto simp: distinct_names_def distinct_map named_def dest: inj_onD)

lemma distinct_map_eq: "distinct (map f xs) \<Longrightarrow> x \<in> set xs \<Longrightarrow> y \<in> set xs \<Longrightarrow> f x = f y \<Longrightarrow> x = y"
  by (metis distinct_map inj_onD)

lemma map_eq_member: "map f xs = map f ys \<Longrightarrow> \<exists>x\<in>set xs. f x = a \<Longrightarrow> \<exists>y\<in>set ys. f y = a"
  by (drule arg_cong [of _ _ set]) (auto simp: image_iff, metis image_eqI imageE)

lemma delete_object_no_finalizers:
  assumes "\<And>x. x \<in> set xs \<Longrightarrow> named ns n x \<Longrightarrow> Finalizers x = []" and "settled xs"
  shows "delete_object t (named ns n) xs = filter (\<lambda>x. \<not> named ns n x) xs"
proof -
  have "\<not> named ns n x" if "x \<in> set (delete_object t (named ns n) xs)" for x
    using that assms(1) by (auto simp: delete_object_def settle_def deleting_def split: if_splits)
  then show ?thesis using filter_delete_object [OF assms(2), of ns n t] by (simp add: filter_id_conv)
qed

section \<open>What a run leaves\<close>

text \<open>No addon in the namespace is held by its hosting cluster.\<close>

definition unhosted_addons :: "string \<Rightarrow> ManagedClusterAddOn list \<Rightarrow> bool" where
  "unhosted_addons ns xs \<longleftrightarrow> (\<forall>x\<in>set xs. Namespace x = ns \<longrightarrow> filter is_hosting_finalizer (Finalizers x) = [])"

text \<open>The hub without what the namespace of a cluster held for its agent.\<close>

definition emptied :: "string \<Rightarrow> hub \<Rightarrow> hub" where
  "emptied n hb = hb\<lparr>hub_addons := filter (\<lambda>x. Namespace x \<noteq> n) (hub_addons hb),
     hub_works := filter (\<lambda>x. Namespace x \<noteq> n) (hub_works hb),
     hub_bindings := filter (\<lambda>x. \<not> named n (work_role_binding_name n) x) (hub_bindings hb)\<rparr>"

text \<open>The hub up to the conditions of one cluster.\<close>

definition reconditioned :: "string \<Rightarrow> Condition list \<Rightarrow> hub \<Rightarrow> hub" where
  "reconditioned n conds hb =
     hb\<lparr>hub_clusters := map (\<lambda>c. if Name c = n then c\<lparr>Conditions := conds\<rparr> else c) (hub_clusters hb)\<rparr>"

text \<open>Nothing of the cluster is left for which the finalizers are kept.\<close>

definition clean :: "ManagedCluster \<Rightarrow> hub \<Rightarrow> bool" where
  "clean mc hb \<longleftrightarrow> (\<forall>x\<in>set (hub_works hb). Namespace x \<noteq> Name mc) \<and>
     (\<forall>x\<in>set (hub_addons hb). Namespace x \<noteq> Name mc) \<and>
     (\<forall>x\<in>set (hub_bindings hb). \<not> named (Name mc) (work_role_binding_name (Name mc)) x) \<and>
     (IsHostedCluster mc \<and> hosting_name mc \<noteq> [] \<longrightarrow> (\<forall>x\<in>set (hub_works hb).
        \<not> (Namespace x = hosting_name mc \<and> selected (Some (HostedClusterLabel, Name mc)) x)))"

abbreviation other_finalizers :: "ManagedCluster \<Rightarrow> string list" where
  "other_finalizers mc \<equiv> filter (\<lambda>f. \<not> is_own_finalizer f) (Finalizers mc)"

text \<open>The hub after a cluster was detached; \<open>conds\<close> are the last conditions of the cluster.\<close>

definition detached :: "ManagedCluster \<Rightarrow> Condition list \<Rightarrow> hub \<Rightarrow> hub" where
  "detached mc conds hb = (let hb' = reconditioned (Name mc) conds (emptied (Name mc) hb) in
     hb'\<lparr>hub_clusters := set_finalizers (\<lambda>c. Name c = Name mc) (other_finalizers mc) (hub_clusters hb')\<rparr>)"

lemma filter_others:
  "filter (\<lambda>x. \<forall>i\<in>set (filter (\<lambda>x. Namespace x = ns) xs). \<not> named (Namespace i) (Name i) x) xs =
   filter (\<lambda>x. Namespace x \<noteq> ns) xs"
  by (rule filter_cong) (auto simp: named_def)

lemma set_finalizers_same:
  assumes "settled xs" and "\<And>x. x \<in> set xs \<Longrightarrow> P x \<Longrightarrow> Finalizers x = fs"
  shows "set_finalizers P fs xs = xs"
proof -
  have "map (\<lambda>x. if P x then x\<lparr>Finalizers := fs\<rparr> else x) xs = xs" using assms(2) by (auto intro!: map_idI)
  with assms(1) show ?thesis by (simp add: set_finalizers_def settled_def)
qed

lemma reconditioned_names: "map Name (hub_clusters (reconditioned n conds hb)) = map Name (hub_clusters hb)"
  by (simp add: reconditioned_def)

lemma clean_emptied:
  "\<not> (IsHostedCluster mc \<and> hosting_name mc \<noteq> []) \<Longrightarrow> clean mc (emptied (Name mc) hb)"
  by (auto simp: clean_def emptied_def)

lemma hub_fields [simp]:
  "hub_namespaces (reconditioned n conds hb) = hub_namespaces hb" "hub_addons (reconditioned n conds hb) = hub_addons hb"
  "hub_works (reconditioned n conds hb) = hub_works hb" "hub_clusters (emptied n hb) = hub_clusters hb"
  "reconditioned n conds (emptied n hb) = emptied n (reconditioned n conds hb)"
  by (simp_all add: reconditioned_def emptied_def)

lemma detached_fields:
  "hub_works (detached mc conds hb) = filter (\<lambda>x. Namespace x \<noteq> Name mc) (hub_works hb)"
  "hub_addons (detached mc conds hb) = filter (\<lambda>x. Namespace x \<noteq> Name mc) (hub_addons hb)"
  "hub_bindings (detached mc conds hb) =
     filter (\<lambda>x. \<not> named (Name mc) (work_role_binding_name (Name mc)) x) (hub_bindings hb)"
  by (simp_all add: detached_def Let_def emptied_def reconditioned_def)

lemma filter_only_unnamed: "n \<notin> f ` set xs \<Longrightarrow> filter (\<lambda>x. f x = n) xs = [] \<and> filter (\<lambda>x. f x \<noteq> n) xs = xs"
  by (auto simp: filter_empty_conv filter_id_conv)

lemma detached_others:
  assumes "n \<notin> Name ` set cs" and "settled cs"
  shows "set_finalizers (\<lambda>c. Name c = n) fs (map (\<lambda>c. if Name c = n then c\<lparr>Conditions := conds\<rparr> else c) cs) = cs"
proof -
  from assms(1) have "map (\<lambda>c. if Name c = n then c\<lparr>Conditions := conds\<rparr> else c) cs = cs" by (auto intro!: map_idI)
  then show ?thesis using assms by (simp, intro set_finalizers_same) auto
qed

lemma set_finalizers_append: "set_finalizers P fs (xs @ ys) = set_finalizers P fs xs @ set_finalizers P fs ys"
  by (simp add: set_finalizers_def settle_def)

lemma detached_clusters:
  assumes "find (\<lambda>c. Name c = n) (hub_clusters hb) = Some mc" and "deleting mc"
    and "distinct (map Name (hub_clusters hb))" and "settled (hub_clusters hb)"
  shows "filter (\<lambda>c. Name c \<noteq> n) (hub_clusters (detached mc conds hb)) = filter (\<lambda>c. Name c \<noteq> n) (hub_clusters hb) \<and>
    map Finalizers (filter (\<lambda>c. Name c = n) (hub_clusters (detached mc conds hb))) =
      (if other_finalizers mc = [] then [] else [other_finalizers mc])"
proof -
  from find_SomeD [OF assms(1)] obtain ys zs where sp: "hub_clusters hb = ys @ mc # zs" and n: "Name mc = n"
    by (auto dest: split_list)
  with assms(3,4) have ys: "n \<notin> Name ` set ys" "settled ys" and zs: "n \<notin> Name ` set zs" "settled zs"
    by (auto simp: settled_iff)
  have "hub_clusters (detached mc conds hb) =
      ys @ set_finalizers (\<lambda>c. Name c = n) (other_finalizers mc) [mc\<lparr>Conditions := conds\<rparr>] @ zs"
    using detached_others [OF ys, of "other_finalizers mc" conds] detached_others [OF zs, of "other_finalizers mc" conds]
      set_finalizers_append [of "\<lambda>c. Name c = n" "other_finalizers mc" "[mc\<lparr>Conditions := conds\<rparr>]"
        "map (\<lambda>c. if Name c = n then c\<lparr>Conditions := conds\<rparr> else c) zs"]
    by (simp add: detached_def Let_def reconditioned_def emptied_def sp n set_finalizers_append)
  moreover have "set_finalizers (\<lambda>c. Name c = n) (other_finalizers mc) [mc\<lparr>Conditions := conds\<rparr>] =
      (if other_finalizers mc = [] then [] else [mc\<lparr>Conditions := conds, Finalizers := other_finalizers mc\<rparr>])"
    using assms(2) n by (auto simp: set_finalizers_def settle_def deleting_def)
  ultimately show ?thesis
    using filter_only_unnamed [OF ys(1)] filter_only_unnamed [OF zs(1)] n by (simp add: sp)
qed

section \<open>Hosted works\<close>

text \<open>The works that a hosting cluster holds for a hosted one, and those of them that are not being deleted.\<close>

definition hosted_works :: "string \<Rightarrow> string \<Rightarrow> hub \<Rightarrow> ManifestWork list" where
  "hosted_works hosting n hb = filter (\<lambda>x. Namespace x = hosting \<and> selected (Some (HostedClusterLabel, n)) x) (hub_works hb)"

definition live_names :: "ManifestWork list \<Rightarrow> string list" where
  "live_names ws = map Name (filter (\<lambda>w. \<not> deleting w) ws)"

text \<open>The stage of the deletion: addon works first, then the klusterlet work, then the kubeconfig work.\<close>

definition stage :: "string \<Rightarrow> string list \<Rightarrow> nat" where
  "stage n names =
     (if \<exists>x\<in>set names. x \<noteq> HostedKlusterletManifestWorkName n \<and> x \<noteq> HostedManagedKubeConfigManifestWorkName n then 3
      else if HostedKlusterletManifestWorkName n \<in> set names then 2
      else if HostedManagedKubeConfigManifestWorkName n \<in> set names then 1 else 0)"

lemma stage_0: "stage n names = 0 \<longleftrightarrow> names = []"
  by (cases names) (auto simp: stage_def)

lemma stage_decreases:
  assumes "set names' \<subseteq> set names - set (hosting_deletions n names)" and "names \<noteq> []"
  shows "stage n names' < stage n names"
proof -
  let ?kl = "HostedKlusterletManifestWorkName n" and ?kc = "HostedManagedKubeConfigManifestWorkName n"
  let ?addon = "\<lambda>x. x \<noteq> ?kl \<and> x \<noteq> ?kc"
  consider "\<exists>x\<in>set names. ?addon x" | "\<forall>x\<in>set names. \<not> ?addon x" "?kl \<in> set names"
    | "\<forall>x\<in>set names. \<not> ?addon x" "?kl \<notin> set names" "?kc \<in> set names"
    using assms(2) by (cases names) auto
  then show ?thesis
  proof cases
    case 1
    then have "hosting_deletions n names = filter ?addon names"
      by (auto simp: hosting_deletions_def Let_def filter_empty_conv)
    with assms(1) have "\<not> (\<exists>x\<in>set names'. ?addon x)" by auto
    with 1 show ?thesis by (simp add: stage_def del: bex_simps)
  next
    case 2
    then have "hosting_deletions n names = [?kl]" by (auto simp: hosting_deletions_def Let_def filter_empty_conv)
    with assms(1) 2 have "\<not> (\<exists>x\<in>set names'. ?addon x)" "?kl \<notin> set names'" by auto
    with 2 show ?thesis unfolding stage_def by auto
  next
    case 3
    then have d: "hosting_deletions n names = [?kc]" by (auto simp: hosting_deletions_def Let_def filter_empty_conv)
    have "x \<notin> set names'" for x
    proof
      assume "x \<in> set names'"
      with assms(1) d have "x \<in> set names" "x \<noteq> ?kc" by auto
      with 3 show False by auto
    qed
    then have "names' = []" by (metis list.set_intros(1) neq_Nil_conv)
    with 3 show ?thesis unfolding stage_def by auto
  qed
qed

lemma hosting_deletions_sub: "set (hosting_deletions n names) \<subseteq> set names"
  by (auto simp: hosting_deletions_def Let_def)

lemma distinct_hosting_deletions: "distinct names \<Longrightarrow> distinct (hosting_deletions n names)"
  by (auto simp: hosting_deletions_def Let_def)

text \<open>Works of the given names are being deleted or gone, all others are as before.\<close>

definition terminated :: "string \<Rightarrow> string list \<Rightarrow> ManifestWork list \<Rightarrow> ManifestWork list \<Rightarrow> bool" where
  "terminated ns names ws ws' \<longleftrightarrow>
     filter (\<lambda>w. \<not> (Namespace w = ns \<and> Name w \<in> set names)) ws' = filter (\<lambda>w. \<not> (Namespace w = ns \<and> Name w \<in> set names)) ws \<and>
     (\<forall>w\<in>set ws'. Namespace w = ns \<and> Name w \<in> set names \<longrightarrow> deleting w)"

lemma terminated_Nil [simp]: "terminated ns [] ws ws' \<longleftrightarrow> ws' = ws"
  by (auto simp: terminated_def)

lemma terminated_delete: "settled ws \<Longrightarrow> terminated ns [n] ws (delete_object t (named ns n) ws)"
  using filter_delete_object [of ws ns n t] delete_object_found [of _ t ns n ws]
  by (auto simp: terminated_def named_def)

lemma terminated_others:
  "terminated ns names ws ws' \<Longrightarrow> w \<in> set ws' \<Longrightarrow> \<not> (Namespace w = ns \<and> Name w \<in> set names) \<Longrightarrow> w \<in> set ws"
  unfolding terminated_def by (drule conjunct1, drule arg_cong [of _ _ set]) auto

lemma terminated_Cons:
  assumes "terminated ns [n] ws ws1" and "terminated ns names ws1 ws2"
  shows "terminated ns (n # names) ws ws2"
proof -
  let ?n = "\<lambda>w. \<not> (Namespace w = ns \<and> Name w \<in> set [n])" and ?ns = "\<lambda>w. \<not> (Namespace w = ns \<and> Name w \<in> set names)"
  have split: "filter (\<lambda>w. \<not> (Namespace w = ns \<and> Name w \<in> set (n # names))) xs = filter ?n (filter ?ns xs)" for xs
    unfolding filter_filter by (rule filter_cong) auto
  have "filter ?n (filter ?ns ws2) = filter ?n (filter ?ns ws1)"
    using assms(2) unfolding terminated_def by argo
  also have "\<dots> = filter ?ns (filter ?n ws1)" unfolding filter_filter by (rule filter_cong) auto
  also have "\<dots> = filter ?ns (filter ?n ws)" using assms(1) unfolding terminated_def by argo
  also have "\<dots> = filter ?n (filter ?ns ws)" unfolding filter_filter by (rule filter_cong) auto
  finally have same: "filter ?n (filter ?ns ws2) = filter ?n (filter ?ns ws)" .
  have "deleting w" if "w \<in> set ws2" "Namespace w = ns" "Name w \<in> set (n # names)" for w
    using that assms terminated_others [OF assms(2) that(1)] unfolding terminated_def
    by (cases "Name w \<in> set names") auto
  with same show ?thesis unfolding terminated_def split by blast
qed

text \<open>The hub after the deletions of a forced run for a hosted cluster.\<close>

definition hosted_round_done :: "ManagedCluster \<Rightarrow> hub \<Rightarrow> hub \<Rightarrow> bool" where
  "hosted_round_done mc hb hb' \<longleftrightarrow> (\<exists>ws. hb' = hb\<lparr>hub_addons := filter (\<lambda>x. Namespace x \<noteq> Name mc) (hub_addons hb), hub_works := ws,
       hub_bindings := filter (\<lambda>x. \<not> named (Name mc) (work_role_binding_name (Name mc)) x) (hub_bindings hb)\<rparr> \<and>
     terminated (hosting_name mc) (hosting_deletions (Name mc) (map Name (hosted_works (hosting_name mc) (Name mc) hb)))
       (filter (\<lambda>x. Namespace x \<noteq> Name mc) (hub_works hb)) ws)"

definition hosted_outcome :: "ManagedCluster \<Rightarrow> hub \<Rightarrow> outcome \<Rightarrow> hub \<Rightarrow> bool" where
  "hosted_outcome mc hb r hb' \<longleftrightarrow> (\<exists>conds hb1. hosted_round_done mc (reconditioned (Name mc) conds hb) hb1 \<and>
     (if hosted_works (hosting_name mc) (Name mc) hb1 = [] then r = done_ok \<and> hb' = hb1\<lparr>hub_clusters :=
        set_finalizers (\<lambda>c. Name c = Name mc) (other_finalizers mc) (hub_clusters hb1)\<rparr>
      else r = Return (emptyResult\<lparr>RequeueAfter := 2 * second\<rparr>) None \<and> hb' = hb1))"

lemma clean_hosted:
  assumes "hosted_round_done mc hb hb'" and "IsHostedCluster mc" "hosting_name mc \<noteq> []" "hosting_name mc \<noteq> Name mc"
  shows "clean mc hb' \<longleftrightarrow> hosted_works (hosting_name mc) (Name mc) hb' = []"
proof -
  from assms(1) obtain ws where hb': "hb' = hb\<lparr>hub_addons := filter (\<lambda>x. Namespace x \<noteq> Name mc) (hub_addons hb), hub_works := ws,
       hub_bindings := filter (\<lambda>x. \<not> named (Name mc) (work_role_binding_name (Name mc)) x) (hub_bindings hb)\<rparr>"
    and ws: "terminated (hosting_name mc) (hosting_deletions (Name mc) (map Name (hosted_works (hosting_name mc) (Name mc) hb)))
       (filter (\<lambda>x. Namespace x \<noteq> Name mc) (hub_works hb)) ws"
    unfolding hosted_round_done_def by blast
  have "Namespace w \<noteq> Name mc" if "w \<in> set ws" for w
    using terminated_others [OF ws that] assms(4) by auto
  then show ?thesis
    unfolding clean_def hosted_works_def hb' using assms(2,3) by (auto simp: filter_empty_conv simp del: selected.simps)
qed

lemma live_names_decrease:
  assumes "hosted_round_done mc hb hb'" and "hosting_name mc \<noteq> Name mc"
  shows "set (live_names (hosted_works (hosting_name mc) (Name mc) hb')) \<subseteq>
    set (map Name (hosted_works (hosting_name mc) (Name mc) hb)) -
    set (hosting_deletions (Name mc) (map Name (hosted_works (hosting_name mc) (Name mc) hb)))"
proof
  let ?ds = "hosting_deletions (Name mc) (map Name (hosted_works (hosting_name mc) (Name mc) hb))"
  fix x
  assume "x \<in> set (live_names (hosted_works (hosting_name mc) (Name mc) hb'))"
  then obtain w where w: "x = Name w" "w \<in> set (hub_works hb')" "\<not> deleting w" "Namespace w = hosting_name mc"
    "selected (Some (HostedClusterLabel, Name mc)) w"
    by (auto simp: live_names_def hosted_works_def simp del: selected.simps)
  from assms(1) have ws: "terminated (hosting_name mc) ?ds (filter (\<lambda>x. Namespace x \<noteq> Name mc) (hub_works hb)) (hub_works hb')"
    unfolding hosted_round_done_def by auto
  with w have n: "x \<notin> set ?ds" unfolding terminated_def by blast
  with terminated_others [OF ws w(2)] w(1) have "w \<in> set (hub_works hb)" by auto
  with w n show "x \<in> set (map Name (hosted_works (hosting_name mc) (Name mc) hb)) - set ?ds"
    by (auto simp: hosted_works_def simp del: selected.simps)
qed

lemma no_hosted_works:
  assumes "hosted_round_done mc hb hb'" and "hosted_works (hosting_name mc) (Name mc) hb = []"
  shows "hosted_works (hosting_name mc) (Name mc) hb' = []"
proof -
  have "hosting_deletions (Name mc) [] = []" by (simp add: hosting_deletions_def)
  with assms have "hub_works hb' = filter (\<lambda>x. Namespace x \<noteq> Name mc) (hub_works hb)"
    unfolding hosted_round_done_def by auto
  with assms(2) show ?thesis by (auto simp: hosted_works_def filter_empty_conv simp del: selected.simps)
qed

lemma reconditioned_finalizers:
  assumes "find (\<lambda>c. Name c = n) (hub_clusters hb) = Some mc" and "distinct (map Name (hub_clusters hb))"
  shows "map Finalizers (filter (\<lambda>c. Name c = n) (hub_clusters (reconditioned n conds hb))) = [Finalizers mc]"
proof -
  from find_SomeD [OF assms(1)] obtain ys zs where sp: "hub_clusters hb = ys @ mc # zs" and n: "Name mc = n"
    by (auto dest: split_list)
  with assms(2) have only: "n \<notin> Name ` set ys" "n \<notin> Name ` set zs" by auto
  have none: "filter (\<lambda>c. Name c = n) (map (\<lambda>c. if Name c = n then c\<lparr>Conditions := conds\<rparr> else c) xs) = []"
    if "n \<notin> Name ` set xs" for xs
    using that by (induction xs) auto
  show ?thesis using none [OF only(1)] none [OF only(2)] by (simp add: reconditioned_def sp n)
qed

lemma round_clusters: "hosted_round_done mc (reconditioned n conds hb) hb1 \<Longrightarrow>
  hub_clusters hb1 = hub_clusters (reconditioned n conds hb)"
  by (auto simp: hosted_round_done_def)

lemma detached_hub_clusters:
  "hub_clusters (detached mc conds hb) =
     set_finalizers (\<lambda>c. Name c = Name mc) (other_finalizers mc) (hub_clusters (reconditioned (Name mc) conds hb))"
  by (simp add: detached_def Let_def)

section \<open>The interface\<close>

text \<open>\<open>store h\<close> is the hub after the calls \<open>h\<close>.\<close>

locale hub_api =
  fixes srv :: server and store :: "call list \<Rightarrow> hub"
  assumes get_cluster: "answers (on_GetManagedCluster srv h n) (find (\<lambda>c. Name c = n) (hub_clusters (store h)))"
    and get_namespace: "answers (on_GetNamespace srv h n) (find (\<lambda>c. Name c = n) (hub_namespaces (store h)))"
    and list_addons: "on_ListAddons srv h ns = Inr (filter (\<lambda>x. Namespace x = ns) (hub_addons (store h)))"
    and get_addon: "answers (on_GetAddon srv h ns n) (find (named ns n) (hub_addons (store h)))"
    and list_works: "on_ListManifestWorks srv h ns sel =
      Inr (filter (\<lambda>x. Namespace x = ns \<and> selected sel x) (hub_works (store h)))"
    and get_work: "answers (on_GetManifestWork srv h ns n) (find (named ns n) (hub_works (store h)))"
    and get_binding: "answers (on_GetRoleBinding srv h ns n) (find (named ns n) (hub_bindings (store h)))"
    and no_write: "\<not> is_write c \<Longrightarrow> store (h @ [c]) = store h"
    and delete_addon: "hub_object ns n (hub_addons (store h)) \<Longrightarrow> on_write srv h (DeleteAddon ns n) = None \<and>
      (\<exists>t. store (h @ [Write (DeleteAddon ns n)]) =
        (store h)\<lparr>hub_addons := delete_object t (named ns n) (hub_addons (store h))\<rparr>)"
    and patch_addon: "hub_object (Namespace a) (Name a) (hub_addons (store h)) \<Longrightarrow>
      on_write srv h (PatchAddon a (a\<lparr>Finalizers := fs\<rparr>)) = None \<and>
      store (h @ [Write (PatchAddon a (a\<lparr>Finalizers := fs\<rparr>))]) =
        (store h)\<lparr>hub_addons := set_finalizers (named (Namespace a) (Name a)) fs (hub_addons (store h))\<rparr>"
    and delete_work: "hub_object ns n (hub_works (store h)) \<Longrightarrow> on_write srv h (DeleteManifestWork ns n) = None \<and>
      (\<exists>t. store (h @ [Write (DeleteManifestWork ns n)]) =
        (store h)\<lparr>hub_works := delete_object t (named ns n) (hub_works (store h))\<rparr>)"
    and patch_work: "hub_object ns n (hub_works (store h)) \<Longrightarrow> on_write srv h (PatchWorkFinalizers ns n) = None \<and>
      store (h @ [Write (PatchWorkFinalizers ns n)]) =
        (store h)\<lparr>hub_works := set_finalizers (named ns n) [] (hub_works (store h))\<rparr>"
    and delete_binding: "hub_object ns n (hub_bindings (store h)) \<Longrightarrow> on_write srv h (DeleteRoleBinding ns n) = None \<and>
      (\<exists>t. store (h @ [Write (DeleteRoleBinding ns n)]) =
        (store h)\<lparr>hub_bindings := delete_object t (named ns n) (hub_bindings (store h))\<rparr>)"
    and patch_binding: "hub_object ns n (hub_bindings (store h)) \<Longrightarrow>
      on_write srv h (PatchRoleBindingFinalizers ns n) = None \<and>
      store (h @ [Write (PatchRoleBindingFinalizers ns n)]) =
        (store h)\<lparr>hub_bindings := set_finalizers (named ns n) [] (hub_bindings (store h))\<rparr>"
    and update_status: "\<exists>c\<in>set (hub_clusters (store h)). Name c = Name mc \<Longrightarrow>
      on_write srv h (UpdateManagedClusterStatus mc) = None \<and>
      store (h @ [Write (UpdateManagedClusterStatus mc)]) = (store h)\<lparr>hub_clusters :=
        map (\<lambda>c. if Name c = Name mc then c\<lparr>Conditions := Conditions mc\<rparr> else c) (hub_clusters (store h))\<rparr>"
    and patch_cluster: "\<exists>c\<in>set (hub_clusters (store h)). Name c = Name mc \<Longrightarrow>
      (\<exists>mc'. on_PatchManagedCluster srv h mc (mc\<lparr>Finalizers := fs\<rparr>) = Inr mc') \<and>
      store (h @ [Write (PatchManagedCluster mc (mc\<lparr>Finalizers := fs\<rparr>))]) = (store h)\<lparr>hub_clusters :=
        set_finalizers (\<lambda>c. Name c = Name mc) fs (hub_clusters (store h))\<rparr>"
    and settled: "settled (hub_addons (store h))" "settled (hub_works (store h))" "settled (hub_bindings (store h))"
      "settled (hub_clusters (store h))"
    and names: "distinct_names (hub_addons (store h))" "distinct_names (hub_bindings (store h))"
      "distinct_names (hub_works (store h))"
      "distinct (map Name (hub_clusters (store h)))"
begin

lemma read [simp]: "store (h @ [Read q]) = store h"
  by (simp add: no_write)

lemma event [simp]: "store (h @ [Event r m]) = store h" "store (h @ [ClusterEvent a b c d]) = store h"
  by (simp_all add: no_write)

text \<open>The forced deletion of one object leaves every other object as it is.\<close>

lemma force_work:
  "wp (ForceDeleteManifestWork srv ns n) (\<lambda>e h'. e = None \<and>
     store h' = (store h)\<lparr>hub_works := filter (\<lambda>x. \<not> named ns n x) (hub_works (store h))\<rparr>) h"
proof (cases "find (named ns n) (hub_works (store h))")
  case None
  with get_work [of h ns n] find_None_filter [OF None] show ?thesis
    by (auto simp: ForceDeleteManifestWork_def wp_simps IgnoreNotFound_def simp del: append_assoc)
next
  case (Some w)
  let ?h1 = "h @ [Read (GetManifestWork ns n)]" let ?h2 = "?h1 @ [Write (DeleteManifestWork ns n)]"
  from Some have get: "on_GetManifestWork srv h ns n = Inr w" using get_work [of h ns n] by simp
  from find_SomeD [OF Some] obtain t where del: "on_write srv ?h1 (DeleteManifestWork ns n) = None"
    and st: "store ?h2 = (store h)\<lparr>hub_works := delete_object t (named ns n) (hub_works (store h))\<rparr>"
    using delete_work [where h = ?h1] by (auto simp del: append_assoc)
  show ?thesis
  proof (cases rule: delete_object_cases [OF settled(2) [of h], of ns n t])
    case 1
    with get_work [of ?h2 ns n] get del st show ?thesis
      by (auto simp: ForceDeleteManifestWork_def wp_simps IgnoreNotFound_def simp del: append_assoc)
  next
    case (2 y)
    with get_work [of ?h2 ns n] patch_work [where h = "?h2 @ [Read (GetManifestWork ns n)]"] get del st show ?thesis
      by (auto simp: ForceDeleteManifestWork_def wp_simps simp del: append_assoc)
  qed
qed

lemma force_works:
  "wp (ForceDeleteAllManifestWorks srv items) (\<lambda>e h'. e = None \<and> store h' = (store h)\<lparr>hub_works :=
     filter (\<lambda>x. \<forall>i\<in>set items. \<not> named (Namespace i) (Name i) x) (hub_works (store h))\<rparr>) h"
proof (induction items arbitrary: h)
  case (Cons i items)
  show ?case
    by (simp add: wp_simps, rule wp_mono [OF force_work])
      (auto simp: wp_simps conj_commute intro!: wp_mono [OF Cons.IH])
qed (simp add: wp_simps)

lemma force_binding:
  "wp (ForceDeleteWorkRoleBinding srv n) (\<lambda>e h'. e = None \<and> store h' = (store h)\<lparr>hub_bindings :=
     filter (\<lambda>x. \<not> named n (work_role_binding_name n) x) (hub_bindings (store h))\<rparr>) h"
proof (cases "find (named n (work_role_binding_name n)) (hub_bindings (store h))")
  case None
  with get_binding [of h n "work_role_binding_name n"] find_None_filter [OF None] show ?thesis
    by (auto simp: ForceDeleteWorkRoleBinding_def wp_simps IgnoreNotFound_def Let_def)
next
  case (Some b)
  let ?b = "work_role_binding_name n" and ?xs = "hub_bindings (store h)"
  let ?h1 = "h @ [Read (GetRoleBinding n ?b)]" let ?h2 = "?h1 @ [Write (DeleteRoleBinding n ?b)]"
  from Some have get: "on_GetRoleBinding srv h n ?b = Inr b" using get_binding [of h n ?b] by simp
  show ?thesis
  proof (cases "deleting b")
    case True
    have all: "deleting x" if "x \<in> set ?xs" "named n ?b x" for x
      using distinct_names_eq [OF names(2) that(1) _ that(2)] find_SomeD [OF Some] True by blast
    have "set_finalizers (named n ?b) [] ?xs = filter (\<lambda>x. \<not> named n ?b x) ?xs"
      by (rule set_finalizers_deleting [OF settled(3)]) (rule all)
    moreover have "Finalizers b \<noteq> []" "named n ?b b" "b \<in> set ?xs"
      using settled(3) [of h] find_SomeD [OF Some] True by (auto simp: settled_iff)
    ultimately show ?thesis
      using Some get_binding [of ?h1 n ?b] patch_binding [where h = "?h1 @ [Read (GetRoleBinding n ?b)]" and ns = n and n = ?b] get True
      by (auto simp: ForceDeleteWorkRoleBinding_def wp_simps Let_def simp del: append_assoc)
  next
    case False
    from find_SomeD [OF Some] obtain t where del: "on_write srv ?h1 (DeleteRoleBinding n ?b) = None"
      and st: "store ?h2 = (store h)\<lparr>hub_bindings := delete_object t (named n ?b) ?xs\<rparr>"
      using delete_binding [where h = ?h1 and ns = n and n = ?b] by (auto simp del: append_assoc)
    show ?thesis
    proof (cases rule: delete_object_cases [OF settled(3) [of h], of n ?b t])
      case 1
      with get_binding [of ?h2 n ?b] get del st False show ?thesis
        by (auto simp: ForceDeleteWorkRoleBinding_def wp_simps IgnoreNotFound_def Let_def simp del: append_assoc)
    next
      case (2 y)
      with get_binding [of ?h2 n ?b] patch_binding [where h = "?h2 @ [Read (GetRoleBinding n ?b)]" and ns = n and n = ?b]
        get del st False show ?thesis
        by (auto simp: ForceDeleteWorkRoleBinding_def wp_simps Let_def simp del: append_assoc)
    qed
  qed
qed

text \<open>A forced deletion of an addon keeps the finalizers of its hosting cluster.\<close>

lemma force_addon:
  assumes "\<And>x. x \<in> set (hub_addons (store h)) \<Longrightarrow> named ns n x \<Longrightarrow> filter is_hosting_finalizer (Finalizers x) = []"
  shows "wp (ForceDeleteManagedClusterAddon srv ns n) (\<lambda>e h'. e = None \<and> store h' = (store h)\<lparr>hub_addons :=
     filter (\<lambda>x. \<not> named ns n x) (hub_addons (store h))\<rparr>) h"
proof (cases "find (named ns n) (hub_addons (store h))")
  case None
  with get_addon [of h ns n] find_None_filter [OF None] show ?thesis
    by (auto simp: ForceDeleteManagedClusterAddon_def wp_simps IgnoreNotFound_def)
next
  case (Some a)
  let ?xs = "hub_addons (store h)"
  let ?h1 = "h @ [Read (GetAddon ns n)]" let ?h2 = "?h1 @ [Write (DeleteAddon ns n)]"
  from Some have get: "on_GetAddon srv h ns n = Inr a" using get_addon [of h ns n] by simp
  from find_SomeD [OF Some] have a: "a \<in> set ?xs" "Namespace a = ns" "Name a = n" "named ns n a"
    by (auto simp: named_def)
  with assms have fs: "filter is_hosting_finalizer (Finalizers a) = []" by blast
  have eq: "x = a" if "x \<in> set ?xs" "named ns n x" for x
    using distinct_names_eq [OF names(1) that(1) a(1) that(2) a(4)] .
  show ?thesis
  proof (cases "deleting a")
    case True
    with a settled(1) [of h] have fin: "Finalizers a \<noteq> []" by (auto simp: settled_iff)
    have "set_finalizers (named ns n) [] ?xs = filter (\<lambda>x. \<not> named ns n x) ?xs"
      by (rule set_finalizers_deleting [OF settled(1)]) (use eq True in blast)
    with a patch_addon [where h = ?h1 and a = a and fs = "[]"]
    have "on_write srv ?h1 (PatchAddon a (a\<lparr>Finalizers := []\<rparr>)) = None \<and>
      store (?h1 @ [Write (PatchAddon a (a\<lparr>Finalizers := []\<rparr>))]) =
        (store h)\<lparr>hub_addons := filter (\<lambda>x. \<not> named ns n x) ?xs\<rparr>" by (auto simp del: append_assoc)
    with a fin fs get True show ?thesis
      by (auto simp: ForceDeleteManagedClusterAddon_def wp_simps Let_def simp del: append_assoc)
  next
    case False
    from a obtain t where del: "on_write srv ?h1 (DeleteAddon ns n) = None"
      and st: "store ?h2 = (store h)\<lparr>hub_addons := delete_object t (named ns n) ?xs\<rparr>"
      using delete_addon [where h = ?h1 and ns = ns and n = n] by (auto simp del: append_assoc)
    show ?thesis
    proof (cases "Finalizers a = []")
      case True
      with eq have "delete_object t (named ns n) ?xs = filter (\<lambda>x. \<not> named ns n x) ?xs"
        by (intro delete_object_no_finalizers [OF _ settled(1)]) auto
      with a True fs get del st False show ?thesis
        by (auto simp: ForceDeleteManagedClusterAddon_def wp_simps Let_def simp del: append_assoc)
    next
      case held: False
      have "a\<lparr>DeletionTimestamp := Some t\<rparr> \<in> set (delete_object t (named ns n) ?xs)"
        using a held False by (force simp: delete_object_def settle_def)
      with a(4) have "hub_object ns n (delete_object t (named ns n) ?xs)" by (metis named_update(1))
      moreover have "set_finalizers (named ns n) [] (delete_object t (named ns n) ?xs) = filter (\<lambda>x. \<not> named ns n x) ?xs"
        using set_finalizers_deleting [OF settled_delete(1)] delete_object_found filter_delete_object [OF settled(1)] by metis
      ultimately show ?thesis
        using a held fs get del st False patch_addon [where h = ?h2 and a = a and fs = "[]"]
        by (auto simp: ForceDeleteManagedClusterAddon_def wp_simps Let_def simp del: append_assoc)
    qed
  qed
qed

lemma force_addons:
  assumes "unhosted_addons ns (hub_addons (store h))" and "\<forall>i\<in>set items. Namespace i = ns"
  shows "wp (force_delete_addons srv items) (\<lambda>e h'. e = None \<and> store h' = (store h)\<lparr>hub_addons :=
     filter (\<lambda>x. \<forall>i\<in>set items. \<not> named (Namespace i) (Name i) x) (hub_addons (store h))\<rparr>) h"
  using assms
proof (induction items arbitrary: h)
  case (Cons i items)
  have "wp (ForceDeleteManagedClusterAddon srv (Namespace i) (Name i)) (\<lambda>e h'. e = None \<and> store h' = (store h)\<lparr>hub_addons :=
     filter (\<lambda>x. \<not> named (Namespace i) (Name i) x) (hub_addons (store h))\<rparr>) h"
    by (rule force_addon) (use Cons.prems in \<open>auto simp: unhosted_addons_def named_def\<close>)
  then show ?case
    by (simp add: wp_simps, elim wp_mono)
      (use Cons.prems in \<open>auto simp: wp_simps unhosted_addons_def conj_commute intro!: wp_mono [OF Cons.IH]\<close>)
qed (simp add: wp_simps)

lemma force_all_addons:
  assumes "unhosted_addons ns (hub_addons (store h))"
  shows "wp (ForceDeleteAllManagedClusterAddons srv ns) (\<lambda>e h'. e = None \<and>
     store h' = (store h)\<lparr>hub_addons := filter (\<lambda>x. Namespace x \<noteq> ns) (hub_addons (store h))\<rparr>) h"
proof -
  have "wp (force_delete_addons srv (filter (\<lambda>x. Namespace x = ns) (hub_addons (store h)))) (\<lambda>e h'. e = None \<and>
      store h' = (store h)\<lparr>hub_addons := filter (\<lambda>x. Namespace x \<noteq> ns) (hub_addons (store h))\<rparr>) (h @ [Read (ListAddons ns)])"
    by (rule wp_mono [OF force_addons [of ns]]) (use assms filter_others [of ns "hub_addons (store h)"] in simp_all)
  then show ?thesis
    by (simp add: ForceDeleteAllManagedClusterAddons_def ListManagedClusterAddons_def wp_simps list_addons)
qed

lemma force_all_works:
  "wp (forceDeleteManifestWorks srv ns) (\<lambda>e h'. e = None \<and>
     store h' = (store h)\<lparr>hub_works := filter (\<lambda>x. Namespace x \<noteq> ns) (hub_works (store h))\<rparr>) h"
proof -
  have "wp (ForceDeleteAllManifestWorks srv (filter (\<lambda>x. Namespace x = ns) (hub_works (store h)))) (\<lambda>e h'. e = None \<and>
      store h' = (store h)\<lparr>hub_works := filter (\<lambda>x. Namespace x \<noteq> ns) (hub_works (store h))\<rparr>) (h @ [Read (ListManifestWorks ns None)])"
    by (rule wp_mono [OF force_works]) (use filter_others [of ns "hub_works (store h)"] in simp)
  then show ?thesis
    by (simp add: forceDeleteManifestWorks_def wp_simps list_works)
qed

lemma force_cleanup:
  assumes "\<not> (IsHostedCluster mc \<and> hosting_name mc \<noteq> [])"
    and "\<exists>x\<in>set (hub_namespaces (store h)). Name x = Name mc"
    and "unhosted_addons (Name mc) (hub_addons (store h))"
  shows "wp (forceCleanup srv mc) (\<lambda>e h'. e = None \<and> store h' = emptied (Name mc) (store h)) h"
proof -
  from assms(2) get_namespace [of h "Name mc"] obtain x where "on_GetNamespace srv h (Name mc) = Inr x"
    by (cases "find (\<lambda>c. Name c = Name mc) (hub_namespaces (store h))") (auto simp: find_None_iff)
  then show ?thesis
    using assms(1,3) unfolding forceCleanup_def namespaceExists_def
    by (auto simp: wp_simps Let_def appendIfErr_def NewAggregate_def emptied_def
        intro!: wp_mono [OF force_all_addons] wp_mono [OF force_all_works] wp_mono [OF force_binding])
qed

subsection \<open>The condition of the cluster\<close>

lemma found_cluster:
  "find (\<lambda>c. Name c = n) (hub_clusters (store h)) = Some mc \<Longrightarrow> on_GetManagedCluster srv h n = Inr mc"
  using get_cluster [of h n] by simp

lemma reconditioned_same:
  assumes "find (\<lambda>c. Name c = n) (hub_clusters (store h)) = Some mc"
  shows "reconditioned n (Conditions mc) (store h) = store h"
proof -
  have "c = mc" if "c \<in> set (hub_clusters (store h))" "Name c = n" for c
    using that find_SomeD [OF assms] distinct_map_eq [OF names(4) [of h]] by metis
  then show ?thesis by (auto simp: reconditioned_def map_idI)
qed

lemma update_condition:
  assumes "find (\<lambda>c. Name c = Name mc) (hub_clusters (store h)) = Some mc'"
    and "Type cond = ConditionManagedClusterImportSucceeded" and "import_condition_event (Name mc) cond \<noteq> None"
  shows "wp (UpdateManagedClusterImportCondition srv mc cond) (\<lambda>e h'. e = None \<and>
     (\<exists>now. store h' = reconditioned (Name mc) (SetStatusCondition now (Conditions mc') cond) (store h))) h"
proof -
  let ?h1 = "h @ [Read (GetManagedCluster (Name mc))]"
  let ?mc = "mc'\<lparr>Conditions := SetStatusCondition (on_now srv ?h1) (Conditions mc') cond\<rparr>"
  from find_SomeD [OF assms(1)] have n: "Name mc' = Name mc" "mc' \<in> set (hub_clusters (store h))" by auto
  then have "on_write srv ?h1 (UpdateManagedClusterStatus ?mc) = None \<and>
    store (?h1 @ [Write (UpdateManagedClusterStatus ?mc)]) = reconditioned (Name mc) (Conditions ?mc) (store h)"
    using update_status [where h = ?h1 and mc = ?mc] by (auto simp: reconditioned_def simp del: append_assoc cong: if_cong)
  moreover obtain a b c where "import_condition_event (Name mc) cond = Some (ClusterEvent (Name mc) a b c)"
    using assms(3) import_condition_event_cases by blast
  ultimately show ?thesis
    using found_cluster [OF assms(1)] assms(2) reconditioned_same [OF assms(1)]
    unfolding UpdateManagedClusterImportCondition_def updateManagedClusterStatus_def Let_def
    by (auto simp: wp_simps n simp del: append_assoc intro: exI [of _ "on_now srv ?h1"])
qed

lemma detaching_condition:
  assumes "find (\<lambda>c. Name c = Name mc) (hub_clusters (store h)) = Some mc"
  shows "wp (updateDetachingCondition srv mc) (\<lambda>e h'. e = None \<and>
     (\<exists>conds. store h' = reconditioned (Name mc) conds (store h))) h"
proof -
  have ev: "import_condition_event n (NewManagedClusterImportSucceededCondition s r m) \<noteq> None"
    if "r \<in> {ConditionReasonManagedClusterDetaching, ConditionReasonManagedClusterForceDetaching}" for n s r m
    using that by (auto simp: import_condition_event_def)
  have up: "wp (UpdateManagedClusterImportCondition srv mc (NewManagedClusterImportSucceededCondition s r m))
      (\<lambda>e h'. e = None \<and> (\<exists>conds. store h' = reconditioned (Name mc) conds (store h))) h"
    if "r \<in> {ConditionReasonManagedClusterDetaching, ConditionReasonManagedClusterForceDetaching}" for s r m
    by (rule wp_mono [OF update_condition [OF assms _ ev [OF that]]]) auto
  from reconditioned_same [OF assms] show ?thesis
    unfolding updateDetachingCondition_def Let_def
    by (auto simp: wp_simps intro!: up intro: exI [of _ "Conditions mc"] split: option.split)
qed

subsection \<open>The end of the run\<close>

lemma completed:
  "wp (cleanupCompleted srv mc) (\<lambda>(ok, e) h'. (ok \<longleftrightarrow> clean mc (store h)) \<and> e = None \<and> store h' = store h) h"
proof -
  let ?b = "work_role_binding_name (Name mc)"
  have b: "(\<exists>x. on_GetRoleBinding srv h' (Name mc) ?b = Inr x \<and> hub_object (Name mc) ?b (hub_bindings (store h'))) \<or>
      (\<exists>e. on_GetRoleBinding srv h' (Name mc) ?b = Inl e \<and> IsNotFound e) \<and> \<not> hub_object (Name mc) ?b (hub_bindings (store h'))" for h'
    using get_binding [of h' "Name mc" ?b]
    by (cases "find (named (Name mc) ?b) (hub_bindings (store h'))") (auto simp: find_None_iff dest: find_SomeD)
  show ?thesis
    using b [of "(h @ [Read (ListManifestWorks (Name mc) None)]) @ [Read (ListAddons (Name mc))]"]
    unfolding cleanupCompleted_def ListManagedClusterAddons_def GetWorkRoleBinding_def
    by (auto simp: wp_simps list_works list_addons clean_def filter_empty_conv simp del: append_assoc)
qed

text \<open>The cluster as it was read may meanwhile have another condition.\<close>

lemma removed_finalizers:
  assumes "\<exists>c\<in>set (hub_clusters (store h)). Name c = Name mc"
    and "\<And>c. c \<in> set (hub_clusters (store h)) \<Longrightarrow> Name c = Name mc \<Longrightarrow> Finalizers c = Finalizers mc"
  shows "wp (removeClusterFinalizers srv mc) (\<lambda>e h'. e = None \<and> store h' = (store h)\<lparr>hub_clusters :=
     set_finalizers (\<lambda>c. Name c = Name mc) (other_finalizers mc) (hub_clusters (store h))\<rparr>) h"
proof (cases "length (Finalizers mc) = length (other_finalizers mc)")
  case True
  then have "other_finalizers mc = Finalizers mc" using filter_length_eq by metis
  with assms(2) have "set_finalizers (\<lambda>c. Name c = Name mc) (other_finalizers mc) (hub_clusters (store h)) = hub_clusters (store h)"
    by (intro set_finalizers_same settled) auto
  with True show ?thesis by (simp add: removeClusterFinalizers_def wp_simps)
next
  case False
  with patch_cluster [OF assms(1)] show ?thesis
    by (auto simp: removeClusterFinalizers_def wp_simps Let_def split: sum.split) (metis sum.distinct(1))+
qed

lemma finish_clean:
  assumes "clean mc (store h)" and "\<exists>c\<in>set (hub_clusters (store h)). Name c = Name mc"
    and "\<And>c. c \<in> set (hub_clusters (store h)) \<Longrightarrow> Name c = Name mc \<Longrightarrow> Finalizers c = Finalizers mc"
  shows "wp (finish_cleanup srv mc) (\<lambda>r h'. r = done_ok \<and> store h' = (store h)\<lparr>hub_clusters :=
     set_finalizers (\<lambda>c. Name c = Name mc) (other_finalizers mc) (hub_clusters (store h))\<rparr>) h"
  unfolding finish_cleanup_def wp_bind
  by (rule wp_mono [OF completed]) (use assms in \<open>auto simp: wp_simps intro!: wp_mono [OF removed_finalizers]\<close>)

lemma finish_waits:
  "\<not> clean mc (store h) \<Longrightarrow> wp (finish_cleanup srv mc) (\<lambda>r h'.
     r = Return (emptyResult\<lparr>RequeueAfter := 2 * second\<rparr>) None \<and> store h' = store h) h"
  unfolding finish_cleanup_def wp_bind
  by (rule wp_mono [OF completed]) (auto simp: wp_simps)

lemma same_finalizers:
  assumes "find (\<lambda>c. Name c = n) (hub_clusters (store h)) = Some mc" and "c \<in> set (hub_clusters (reconditioned n conds (store h)))"
    and "Name c = n"
  shows "Finalizers c = Finalizers mc"
proof -
  from assms(2) obtain d where d: "d \<in> set (hub_clusters (store h))" "Name c = Name d" "Finalizers c = Finalizers d"
    unfolding reconditioned_def by auto
  from find_SomeD [OF assms(1)] have "mc \<in> set (hub_clusters (store h))" "Name mc = n" by simp_all
  with d assms(3) have "d = mc" by (intro distinct_map_eq [OF names(4) [of h]]) simp_all
  with d(3) show ?thesis by simp
qed

lemma still_there:
  "find (\<lambda>c. Name c = n) (hub_clusters (store h)) = Some mc \<Longrightarrow>
   \<exists>c\<in>set (hub_clusters (reconditioned n conds (store h))). Name c = n"
  by (rule map_eq_member [OF reconditioned_names [symmetric]]) (drule find_SomeD, blast)

lemma forced_run:
  assumes found: "find (\<lambda>c. Name c = n) (hub_clusters (store h)) = Some mc"
    and "deleting mc" "clusterNeedForceDelete mc" "\<not> (IsHostedCluster mc \<and> hosting_name mc \<noteq> [])"
    and "\<exists>x\<in>set (hub_namespaces (store h)). Name x = n" and "unhosted_addons n (hub_addons (store h))"
  shows "wp (resourcecleanup_Reconcile srv n) (\<lambda>r h'. r = done_ok \<and> (\<exists>conds. store h' = detached mc conds (store h))) h"
proof -
  from find_SomeD [OF found] have n: "Name mc = n" by simp
  have finish: "wp (finish_cleanup srv mc) (\<lambda>r h'. r = done_ok \<and> (\<exists>conds. store h' = detached mc conds (store h))) h'"
    if "store h' = emptied n (reconditioned n conds (store h))" for h' conds
    using same_finalizers [OF found] still_there [OF found] that n clean_emptied [OF assms(4)]
    by (intro wp_mono [OF finish_clean]) (auto simp: detached_def Let_def intro!: exI [of _ conds])
  have force: "wp (forceCleanup srv mc) (\<lambda>e. wp (case e of Some e \<Rightarrow> return (Return emptyResult (Some e)) | None \<Rightarrow> finish_cleanup srv mc)
      (\<lambda>r h'. r = done_ok \<and> (\<exists>conds. store h' = detached mc conds (store h)))) h'"
    if "store h' = reconditioned n conds (store h)" for h' conds
    by (rule wp_mono [OF force_cleanup]) (use assms that n in \<open>auto intro!: finish\<close>)
  show ?thesis
    unfolding resourcecleanup_Reconcile_def
    using found_cluster [OF found] assms(2,3) found n
    by (auto simp: wp_simps intro!: wp_mono [OF detaching_condition] force)
qed

lemma cleanup_clean:
  assumes "clean mc (store h)"
  shows "wp (Cleanup srv mc) (\<lambda>e h'. e = None \<and> store h' = store h) h"
proof -
  from assms have e: "filter (\<lambda>x. Namespace x = Name mc) (hub_addons (store h)) = []"
      "filter (\<lambda>x. Namespace x = Name mc \<and> selected None x) (hub_works (store h)) = []"
      "IsHostedCluster mc \<Longrightarrow> hosting_name mc \<noteq> [] \<Longrightarrow> filter (\<lambda>x. Namespace x = hosting_name mc \<and>
         selected (Some (HostedClusterLabel, Name mc)) x) (hub_works (store h)) = []"
    unfolding clean_def by (simp_all add: filter_empty_conv)
  show ?thesis
    unfolding Cleanup_def ListManagedClusterAddons_def deleteHostingManifestWorks_def Let_def
    by (simp add: wp_simps list_addons list_works e del: append_assoc selected.simps)
qed

lemma graceful_run:
  assumes found: "find (\<lambda>c. Name c = n) (hub_clusters (store h)) = Some mc"
    and "deleting mc" "\<not> clusterNeedForceDelete mc" "clean mc (store h)"
  shows "wp (resourcecleanup_Reconcile srv n) (\<lambda>r h'. r = done_ok \<and> (\<exists>conds. store h' = detached mc conds (store h))) h"
proof -
  from find_SomeD [OF found] have n: "Name mc = n" by simp
  have "emptied n (store h) = store h"
    using assms(4) n by (auto simp: clean_def emptied_def filter_id_conv)
  then have d: "detached mc conds (store h) = (reconditioned n conds (store h))\<lparr>hub_clusters :=
      set_finalizers (\<lambda>c. Name c = n) (other_finalizers mc) (hub_clusters (reconditioned n conds (store h)))\<rparr>" for conds
    by (simp only: detached_def n Let_def)
  have cl: "clean mc (reconditioned n conds (store h))" for conds
    using assms(4) by (simp add: clean_def reconditioned_def)
  have finish: "wp (finish_cleanup srv mc) (\<lambda>r h'. r = done_ok \<and> (\<exists>conds. store h' = detached mc conds (store h))) h'"
    if "store h' = reconditioned n conds (store h)" for h' conds
    using same_finalizers [OF found] still_there [OF found] that n cl
    by (intro wp_mono [OF finish_clean]) (auto simp: d intro!: exI [of _ conds])
  have "wp (Cleanup srv mc) (\<lambda>e. wp (case e of Some e \<Rightarrow> return (Return emptyResult (Some e)) | None \<Rightarrow> finish_cleanup srv mc)
      (\<lambda>r h'. r = done_ok \<and> (\<exists>conds. store h' = detached mc conds (store h)))) h'"
    if "store h' = reconditioned n conds (store h)" for h' conds
    by (rule wp_mono [OF cleanup_clean]) (use that cl in \<open>auto intro!: finish\<close>)
  with found_cluster [OF found] assms(2,3) found n show ?thesis
    unfolding resourcecleanup_Reconcile_def
    by (auto simp: wp_simps intro!: wp_mono [OF detaching_condition])
qed

subsection \<open>Hosted clusters\<close>

lemma delete_named_works:
  assumes "distinct names" and "\<forall>n\<in>set names. hub_object ns n (hub_works (store h))"
  shows "wp (delete_hosting_works srv ns names errs) (\<lambda>e h'. e = aggregate_errs errs \<and>
     (\<exists>ws. store h' = (store h)\<lparr>hub_works := ws\<rparr> \<and> terminated ns names (hub_works (store h)) ws)) h"
  using assms
proof (induction names arbitrary: h)
  case (Cons n names)
  let ?h1 = "h @ [Write (DeleteManifestWork ns n)]"
  from Cons.prems delete_work [where h = h and ns = ns and n = n] obtain t where ok: "on_write srv h (DeleteManifestWork ns n) = None"
    and st: "store ?h1 = (store h)\<lparr>hub_works := delete_object t (named ns n) (hub_works (store h))\<rparr>" by auto
  have "hub_object ns m (hub_works (store ?h1))" if m: "m \<in> set names" for m
  proof -
    from m Cons.prems obtain x where "x \<in> set (hub_works (store h))" "named ns m x" "\<not> named ns n x"
      by (fastforce simp: named_def)
    then have "x \<in> set (filter (\<lambda>x. \<not> named ns n x) (hub_works (store ?h1)))"
      by (simp add: st filter_delete_object [OF settled(2)] del: filter_set)
    with \<open>named ns m x\<close> show ?thesis by auto
  qed
  then have "wp (delete_hosting_works srv ns names errs) (\<lambda>e h'. e = aggregate_errs errs \<and>
     (\<exists>ws. store h' = (store ?h1)\<lparr>hub_works := ws\<rparr> \<and> terminated ns names (hub_works (store ?h1)) ws)) ?h1"
    using Cons by auto
  then show ?case
    by (simp add: wp_simps ok, elim wp_mono)
      (auto simp: st intro: terminated_Cons [OF terminated_delete [OF settled(2)]])
qed (simp add: wp_simps)

lemma hosting_round:
  "wp (deleteHostingManifestWorks srv hosting n) (\<lambda>e h'. e = None \<and> (\<exists>ws. store h' = (store h)\<lparr>hub_works := ws\<rparr> \<and>
     terminated hosting (hosting_deletions n (map Name (hosted_works hosting n (store h)))) (hub_works (store h)) ws)) h"
proof -
  let ?items = "hosted_works hosting n (store h)" let ?names = "map Name ?items"
  let ?kl = "HostedKlusterletManifestWorkName n" and ?kc = "HostedManagedKubeConfigManifestWorkName n"
  let ?addons = "filter (\<lambda>x. x \<noteq> ?kl \<and> x \<noteq> ?kc) ?names"
  let ?h1 = "h @ [Read (ListManifestWorks hosting (Some (HostedClusterLabel, n)))]"
  let ?Q = "\<lambda>ds e h'. e = None \<and> (\<exists>ws. store h' = (store h)\<lparr>hub_works := ws\<rparr> \<and> terminated hosting ds (hub_works (store h)) ws)"
  have list: "on_ListManifestWorks srv h hosting (Some (HostedClusterLabel, n)) = Inr ?items"
    by (simp add: list_works hosted_works_def)
  have there: "hub_object hosting m (hub_works (store h))" if "m \<in> set ?names" for m
    using that by (auto simp: hosted_works_def named_def)
  have "distinct ?names"
    using names(3) [of h] by (auto simp: distinct_names_def hosted_works_def distinct_map inj_on_def dest: distinct_filter)
  then have many: "wp (delete_hosting_works srv hosting ?addons []) (?Q ?addons) ?h1"
    using there by (intro wp_mono [OF delete_named_works]) (auto simp: NewAggregate_def)
  have one: "wp (api_write srv (DeleteManifestWork hosting m)) (?Q [m]) ?h1" if "m \<in> set ?names" for m
    using there [OF that] delete_work [where h = ?h1 and ns = hosting and n = m] terminated_delete [OF settled(2)]
    by (fastforce simp: wp_simps simp del: append_assoc)
  show ?thesis
  proof (cases "?items = []")
    case True
    with list show ?thesis by (simp add: deleteHostingManifestWorks_def wp_simps hosting_deletions_def)
  next
    case False
    have run: "wp (deleteHostingManifestWorks srv hosting n) Q h = wp
       (if ?addons = [] then (if ?kl \<in> set ?names then api_write srv (DeleteManifestWork hosting ?kl)
          else if ?kc \<in> set ?names then api_write srv (DeleteManifestWork hosting ?kc) else return None)
        else delete_hosting_works srv hosting ?addons []) Q ?h1" for Q
      using list False unfolding deleteHostingManifestWorks_def
      by (simp add: wp_simps classify_hosting_works_eq del: wp_if)
    show ?thesis
      unfolding run using many one [of ?kl] one [of ?kc]
      by (auto simp: hosting_deletions_def Let_def wp_simps)
  qed
qed

lemma force_hosted:
  assumes "IsHostedCluster mc" "hosting_name mc \<noteq> []" "hosting_name mc \<noteq> Name mc"
    and "\<exists>x\<in>set (hub_namespaces (store h)). Name x = Name mc"
    and "unhosted_addons (Name mc) (hub_addons (store h))"
  shows "wp (forceCleanup srv mc) (\<lambda>e h'. e = None \<and> hosted_round_done mc (store h) (store h')) h"
proof -
  from assms(4) get_namespace [of h "Name mc"] obtain x where ns: "on_GetNamespace srv h (Name mc) = Inr x"
    by (cases "find (\<lambda>c. Name c = Name mc) (hub_namespaces (store h))") (auto simp: find_None_iff)
  have same: "hosted_works (hosting_name mc) (Name mc) hb' = hosted_works (hosting_name mc) (Name mc) hb"
    if "hub_works hb' = filter (\<lambda>x. Namespace x \<noteq> Name mc) (hub_works hb)" for hb hb'
    using assms(3) by (auto simp: hosted_works_def that intro!: filter_cong)
  have none: "filter (\<lambda>x. Namespace x = Name mc) (filter (\<lambda>x. Namespace x \<noteq> Name mc) xs) = []" for xs
    by simp
  show ?thesis
    using ns assms(1,2,5) unfolding forceCleanup_def namespaceExists_def ListManagedClusterAddons_def
    by (auto simp: wp_simps Let_def appendIfErr_def NewAggregate_def list_addons same hosted_round_done_def
        simp del: selected.simps
        intro!: wp_mono [OF force_all_addons] wp_mono [OF force_all_works] wp_mono [OF force_binding] wp_mono [OF hosting_round])
      blast
qed

lemma hosted_run:
  assumes found: "find (\<lambda>c. Name c = n) (hub_clusters (store h)) = Some mc"
    and "deleting mc" "clusterNeedForceDelete mc"
    and hosted: "IsHostedCluster mc" "hosting_name mc \<noteq> []" "hosting_name mc \<noteq> n"
    and "\<exists>x\<in>set (hub_namespaces (store h)). Name x = n" and "unhosted_addons n (hub_addons (store h))"
  shows "wp (resourcecleanup_Reconcile srv n) (\<lambda>r h'. hosted_outcome mc (store h) r (store h')) h"
proof -
  from find_SomeD [OF found] have n: "Name mc = n" by simp
  have finish: "wp (finish_cleanup srv mc) (\<lambda>r h'. hosted_outcome mc (store h) r (store h')) h'"
    if d: "hosted_round_done mc (reconditioned n conds (store h)) (store h')" for h' conds
  proof (cases "hosted_works (hosting_name mc) n (store h') = []")
    case True
    have cs: "hub_clusters (store h') = hub_clusters (reconditioned n conds (store h))"
      using d unfolding hosted_round_done_def by auto
    from True clean_hosted [OF d] hosted n have "clean mc (store h')" by simp
    from finish_clean [OF this] same_finalizers [OF found] still_there [OF found] cs n
    have "wp (finish_cleanup srv mc) (\<lambda>r h''. r = done_ok \<and> store h'' = (store h')\<lparr>hub_clusters :=
        set_finalizers (\<lambda>c. Name c = n) (other_finalizers mc) (hub_clusters (store h'))\<rparr>) h'" by auto
    then show ?thesis by (rule wp_mono) (use d True n in \<open>unfold hosted_outcome_def, auto\<close>)
  next
    case False
    with clean_hosted [OF d] hosted n have "\<not> clean mc (store h')" by simp
    from finish_waits [OF this] show ?thesis by (rule wp_mono) (use d False n in \<open>unfold hosted_outcome_def, auto\<close>)
  qed
  have force: "wp (forceCleanup srv mc) (\<lambda>e. wp (case e of Some e \<Rightarrow> return (Return emptyResult (Some e)) | None \<Rightarrow> finish_cleanup srv mc)
      (\<lambda>r h'. hosted_outcome mc (store h) r (store h'))) h'" if "store h' = reconditioned n conds (store h)" for h' conds
    by (rule wp_mono [OF force_hosted]) (use assms that n finish in \<open>auto\<close>)
  show ?thesis
    unfolding resourcecleanup_Reconcile_def
    using found_cluster [OF found] assms(2,3) found n
    by (auto simp: wp_simps intro!: wp_mono [OF detaching_condition] force)
qed

end

section \<open>A hub\<close>

text \<open>The hub that the laws describe, as a server that keeps its objects in the history.\<close>

definition hub_ok :: "hub \<Rightarrow> bool" where
  "hub_ok hb \<longleftrightarrow> settled (hub_addons hb) \<and> settled (hub_works hb) \<and> settled (hub_bindings hb) \<and>
     settled (hub_clusters hb) \<and> distinct_names (hub_addons hb) \<and> distinct_names (hub_bindings hb) \<and>
     distinct_names (hub_works hb) \<and> distinct (map Name (hub_clusters hb))"

text \<open>A work that is updated keeps its deletion timestamp.\<close>

definition replaced :: "ManifestWork \<Rightarrow> ManifestWork \<Rightarrow> ManifestWork" where
  "replaced w x = (if named (Namespace w) (Name w) x then w\<lparr>DeletionTimestamp := DeletionTimestamp x\<rparr> else x)"

fun effect :: "call \<Rightarrow> hub \<Rightarrow> hub" where
  "effect (Write (DeleteAddon ns n)) hb = hb\<lparr>hub_addons := delete_object 0 (named ns n) (hub_addons hb)\<rparr>"
| "effect (Write (PatchAddon a b)) hb =
     hb\<lparr>hub_addons := set_finalizers (named (Namespace a) (Name a)) (Finalizers b) (hub_addons hb)\<rparr>"
| "effect (Write (DeleteManifestWork ns n)) hb = hb\<lparr>hub_works := delete_object 0 (named ns n) (hub_works hb)\<rparr>"
| "effect (Write (PatchWorkFinalizers ns n)) hb = hb\<lparr>hub_works := set_finalizers (named ns n) [] (hub_works hb)\<rparr>"
| "effect (Write (DeleteRoleBinding ns n)) hb = hb\<lparr>hub_bindings := delete_object 0 (named ns n) (hub_bindings hb)\<rparr>"
| "effect (Write (PatchRoleBindingFinalizers ns n)) hb =
     hb\<lparr>hub_bindings := set_finalizers (named ns n) [] (hub_bindings hb)\<rparr>"
| "effect (Write (UpdateManagedClusterStatus mc)) hb = reconditioned (Name mc) (Conditions mc) hb"
| "effect (Write (PatchManagedCluster a b)) hb =
     hb\<lparr>hub_clusters := set_finalizers (\<lambda>c. Name c = Name a) (Finalizers b) (hub_clusters hb)\<rparr>"
| "effect (Write (CreateManifestWork w)) hb =
     (if hub_object (Namespace w) (Name w) (hub_works hb) then hb
      else hb\<lparr>hub_works := hub_works hb @ [w\<lparr>DeletionTimestamp := None\<rparr>]\<rparr>)"
| "effect (Write (UpdateManifestWork w)) hb =
     hb\<lparr>hub_works := settle (map (replaced w) (hub_works hb))\<rparr>"
| "effect _ hb = hb"

definition no_hub :: hub where
  "no_hub = \<lparr>hub_clusters = [], hub_namespaces = [], hub_works = [], hub_addons = [], hub_bindings = []\<rparr>"

definition hub_store :: "hub \<Rightarrow> call list \<Rightarrow> hub" where
  "hub_store hb h = fold effect h (if hub_ok hb then hb else no_hub)"

definition reply :: "'a option \<Rightarrow> err + 'a" where
  "reply x = (case x of None \<Rightarrow> Inl notFoundErr | Some a \<Rightarrow> Inr a)"

definition hub_server :: "hub \<Rightarrow> server" where
  "hub_server hb = empty_server\<lparr>
     on_GetManagedCluster := (\<lambda>h n. reply (find (\<lambda>c. Name c = n) (hub_clusters (hub_store hb h)))),
     on_GetNamespace := (\<lambda>h n. reply (find (\<lambda>c. Name c = n) (hub_namespaces (hub_store hb h)))),
     on_ListAddons := (\<lambda>h ns. Inr (filter (\<lambda>x. Namespace x = ns) (hub_addons (hub_store hb h)))),
     on_GetAddon := (\<lambda>h ns n. reply (find (named ns n) (hub_addons (hub_store hb h)))),
     on_ListManifestWorks := (\<lambda>h ns sel. Inr (filter (\<lambda>x. Namespace x = ns \<and> selected sel x) (hub_works (hub_store hb h)))),
     on_GetManifestWork := (\<lambda>h ns n. reply (find (named ns n) (hub_works (hub_store hb h)))),
     on_GetRoleBinding := (\<lambda>h ns n. reply (find (named ns n) (hub_bindings (hub_store hb h)))),
     on_PatchManagedCluster := (\<lambda>h a b. Inr b),
     on_write := (\<lambda>h w. None)\<rparr>"

lemma names_kept:
  "map (\<lambda>x. (Namespace x, Name x)) (map (\<lambda>x. if P x then x\<lparr>Finalizers := fs\<rparr> else x) xs) = map (\<lambda>x. (Namespace x, Name x)) xs"
  "map (\<lambda>x. (Namespace x, Name x)) (map (\<lambda>x. if P x then x\<lparr>DeletionTimestamp := d\<rparr> else x) xs) = map (\<lambda>x. (Namespace x, Name x)) xs"
  "map Name (map (\<lambda>x. if P x then x\<lparr>Finalizers := fs\<rparr> else x) xs) = map Name xs"
  by simp_all

lemma names_settle:
  "distinct_names xs \<Longrightarrow> distinct_names (settle xs)" "distinct (map Name xs) \<Longrightarrow> distinct (map Name (settle xs))"
  by (simp_all add: settle_def distinct_map_filter)

lemma names_changed [simp]:
  "distinct_names xs \<Longrightarrow> distinct_names (delete_object t P xs)"
  "distinct_names xs \<Longrightarrow> distinct_names (set_finalizers P fs xs)"
  "distinct (map Name xs) \<Longrightarrow> distinct (map Name (set_finalizers P fs xs))"
  unfolding delete_object_def set_finalizers_def
  by (intro names_settle; simp only: distinct_names_def names_kept)+

lemma replaced_ok:
  "settled (settle (map (replaced w) xs))" "distinct_names xs \<Longrightarrow> distinct_names (settle (map (replaced w) xs))"
proof -
  have "map (\<lambda>x. (Namespace x, Name x)) (map (replaced w) xs) = map (\<lambda>x. (Namespace x, Name x)) xs"
    by (auto simp: replaced_def named_def)
  then show "distinct_names xs \<Longrightarrow> distinct_names (settle (map (replaced w) xs))"
    by (intro names_settle) (simp only: distinct_names_def)
qed (auto simp: settled_iff settle_def)

lemma created_ok:
  assumes "settled xs" "distinct_names xs" "\<not> hub_object (Namespace w) (Name w) xs"
  shows "settled (xs @ [w\<lparr>DeletionTimestamp := None\<rparr>])" "distinct_names (xs @ [w\<lparr>DeletionTimestamp := None\<rparr>])"
  using assms by (auto simp: settled_iff distinct_names_def deleting_def named_def)

lemma effect_ok: "hub_ok hb \<Longrightarrow> hub_ok (effect c hb)"
proof (cases "(c, hb)" rule: effect.cases)
  case (7 mc hb')
  assume "hub_ok hb"
  moreover from this have "settled (hub_clusters (reconditioned (Name mc) (Conditions mc) hb))"
    by (auto simp: hub_ok_def settled_iff reconditioned_def deleting_def)
  ultimately show ?thesis using 7
    by (simp add: hub_ok_def reconditioned_names) (simp add: reconditioned_def)
qed (auto simp: hub_ok_def replaced_ok created_ok)

lemma hub_ok_store: "hub_ok (hub_store hb h)"
proof -
  have "hub_ok (fold effect h hb')" if "hub_ok hb'" for hb'
    using that effect_ok by (induction h arbitrary: hb') auto
  moreover have "hub_ok no_hub" by (simp add: hub_ok_def no_hub_def settled_iff distinct_names_def)
  ultimately show ?thesis by (simp add: hub_store_def)
qed

lemma answers_reply: "answers (reply x) x"
  by (cases x) (auto simp: reply_def notFoundErr_def)

lemma store_step: "hub_store hb (h @ [c]) = effect c (hub_store hb h)"
  by (simp add: hub_store_def)

lemma effect_read: "\<not> is_write c \<Longrightarrow> effect c hb = hb"
  by (cases c) auto

interpretation hub: hub_api "hub_server hb" "hub_store hb" for hb
  using hub_ok_store [of hb] unfolding hub_ok_def
  by unfold_locales (auto simp: hub_server_def answers_reply store_step effect_read reconditioned_def)

section \<open>Detachment comes to its end\<close>

lemma detachment_run:
  assumes "hub_api srv store" and "find (\<lambda>c. Name c = n) (hub_clusters (store h)) = Some mc" and "deleting mc"
    and "if clusterNeedForceDelete mc then \<not> (IsHostedCluster mc \<and> hosting_name mc \<noteq> []) \<and>
        (\<exists>x\<in>set (hub_namespaces (store h)). Name x = n) \<and> unhosted_addons n (hub_addons (store h))
      else clean mc (store h)"
  obtains conds where "result (resourcecleanup_Reconcile srv n) h = done_ok"
    "store (snd (run_state (resourcecleanup_Reconcile srv n) h)) = detached mc conds (store h)"
proof -
  have "wp (resourcecleanup_Reconcile srv n) (\<lambda>r h'. r = done_ok \<and> (\<exists>conds. store h' = detached mc conds (store h))) h"
    using hub_api.forced_run [OF assms(1,2,3)] hub_api.graceful_run [OF assms(1,2,3)] assms(4)
    by (auto split: if_splits)
  then show ?thesis using that by (auto simp: wp_run result_def)
qed

text \<open>
  C5. On a hub where nothing else happens meanwhile, one run of the clean-up is enough to detach a deleted cluster in
  two cases. By force, when the cluster is unavailable or not accepted: provided that its namespace exists, that
  it is not a hosted cluster with a hosting cluster, whose works need a run more, and that none of its addons is
  held by a finalizer for a hosting cluster; then whatever works, addons and role binding are in its namespace and
  whatever other finalizers hold them. Gracefully, as soon as nothing of it is left.
  The run ends without an error or a requeue, its works, addons and work role binding are gone and
  with them exactly the two finalizers of this component; no object of another namespace is
  touched.
\<close>

theorem detachment_completes:
  assumes "hub_api srv store" and "find (\<lambda>c. Name c = n) (hub_clusters (store h)) = Some mc" and "deleting mc"
    and "if clusterNeedForceDelete mc then \<not> (IsHostedCluster mc \<and> hosting_name mc \<noteq> []) \<and>
        (\<exists>x\<in>set (hub_namespaces (store h)). Name x = n) \<and> unhosted_addons n (hub_addons (store h))
      else clean mc (store h)"
  shows "result (resourcecleanup_Reconcile srv n) h = done_ok \<and>
    (let left = store (snd (run_state (resourcecleanup_Reconcile srv n) h)) in
      hub_works left = filter (\<lambda>x. Namespace x \<noteq> n) (hub_works (store h)) \<and>
      hub_addons left = filter (\<lambda>x. Namespace x \<noteq> n) (hub_addons (store h)) \<and>
      hub_bindings left = filter (\<lambda>x. \<not> named n (work_role_binding_name n) x) (hub_bindings (store h)) \<and>
      filter (\<lambda>c. Name c \<noteq> n) (hub_clusters left) = filter (\<lambda>c. Name c \<noteq> n) (hub_clusters (store h)) \<and>
      map Finalizers (filter (\<lambda>c. Name c = n) (hub_clusters left)) =
        (if other_finalizers mc = [] then [] else [other_finalizers mc]))"
proof -
  from detachment_run [OF assms] obtain conds where r: "result (resourcecleanup_Reconcile srv n) h = done_ok"
    and d: "store (snd (run_state (resourcecleanup_Reconcile srv n) h)) = detached mc conds (store h)" .
  from find_SomeD [OF assms(2)] have "Name mc = n" by simp
  with r show ?thesis
    using detached_clusters [OF assms(2,3) hub_api.names(4) [OF assms(1)] hub_api.settled(4) [OF assms(1)]]
    by (simp add: d detached_fields)
qed

text \<open>
  C26. The deletion of a hosted cluster by force comes to its end: every run advances the works on the
  hosting cluster by a stage, of which there are three (the works of addons, the klusterlet work, the
  kubeconfig work). The stage of the works that are not being deleted after the run is lower than the stage of all the
  works that were there before it, those already being deleted included: once the agent has removed what is being
  deleted, the stage is a lower one. The namespace of the cluster exists, its hosting cluster is another cluster, and
  none of its addons is held by a finalizer for a hosting cluster. The run keeps
  the finalizers of the cluster and asks for another run as long as hosted works are left, and
  removes its two finalizers in the run that finds none.
\<close>

theorem hosted_detachment_progresses:
  assumes "hub_api srv store" and "find (\<lambda>c. Name c = n) (hub_clusters (store h)) = Some mc"
    and "deleting mc" "clusterNeedForceDelete mc" "IsHostedCluster mc" "hosting_name mc \<noteq> []" "hosting_name mc \<noteq> n"
    and "\<exists>x\<in>set (hub_namespaces (store h)). Name x = n" and "unhosted_addons n (hub_addons (store h))"
  shows "let left = store (snd (run_state (resourcecleanup_Reconcile srv n) h));
      names = map Name (hosted_works (hosting_name mc) n (store h)); remaining = hosted_works (hosting_name mc) n left in
    stage n names \<le> 3 \<and> (if names = [] then remaining = [] else stage n (live_names remaining) < stage n names) \<and>
    result (resourcecleanup_Reconcile srv n) h =
      (if remaining = [] then done_ok else Return (emptyResult\<lparr>RequeueAfter := 2 * second\<rparr>) None) \<and>
    map Finalizers (filter (\<lambda>c. Name c = n) (hub_clusters left)) =
      (if remaining \<noteq> [] then [Finalizers mc] else if other_finalizers mc = [] then [] else [other_finalizers mc])"
proof -
  from find_SomeD [OF assms(2)] have n: "Name mc = n" by simp
  let ?r = "result (resourcecleanup_Reconcile srv n) h" and ?left = "store (snd (run_state (resourcecleanup_Reconcile srv n) h))"
  have "hosted_outcome mc (store h) ?r ?left"
    using hub_api.hosted_run [OF assms] by (simp add: wp_run result_def)
  then obtain conds hb1 where d: "hosted_round_done mc (reconditioned n conds (store h)) hb1"
    and r: "if hosted_works (hosting_name mc) n hb1 = [] then ?r = done_ok \<and> ?left = hb1\<lparr>hub_clusters :=
        set_finalizers (\<lambda>c. Name c = n) (other_finalizers mc) (hub_clusters hb1)\<rparr>
      else ?r = Return (emptyResult\<lparr>RequeueAfter := 2 * second\<rparr>) None \<and> ?left = hb1"
    unfolding hosted_outcome_def n by blast
  have works: "hosted_works (hosting_name mc) n ?left = hosted_works (hosting_name mc) n hb1"
    using r by (auto simp: hosted_works_def split: if_splits)
  have before: "hosted_works (hosting_name mc) n (reconditioned n conds (store h)) = hosted_works (hosting_name mc) n (store h)"
    by (simp add: hosted_works_def)
  note live = live_names_decrease [OF d, unfolded n before, OF assms(7)]
  have progress: "if hosted_works (hosting_name mc) n (store h) = [] then hosted_works (hosting_name mc) n hb1 = []
      else stage n (live_names (hosted_works (hosting_name mc) n hb1)) < stage n (map Name (hosted_works (hosting_name mc) n (store h)))"
  proof (cases "hosted_works (hosting_name mc) n (store h) = []")
    case True
    then show ?thesis using no_hosted_works [OF d, unfolded n before] by simp
  next
    case False
    then show ?thesis using stage_decreases [OF live] by simp
  qed
  have fin: "map Finalizers (filter (\<lambda>c. Name c = n) (hub_clusters ?left)) =
      (if hosted_works (hosting_name mc) n hb1 \<noteq> [] then [Finalizers mc] else if other_finalizers mc = [] then [] else [other_finalizers mc])"
    using r round_clusters [OF d] detached_hub_clusters [of mc conds "store h", unfolded n]
      reconditioned_finalizers [OF assms(2) hub_api.names(4) [OF assms(1)], of conds]
      detached_clusters [OF assms(2,3) hub_api.names(4) [OF assms(1)] hub_api.settled(4) [OF assms(1)], of conds]
    by (auto split: if_splits)
  have result: "?r = (if hosted_works (hosting_name mc) n hb1 = [] then done_ok else Return (emptyResult\<lparr>RequeueAfter := 2 * second\<rparr>) None)"
    using r by (auto split: if_splits)
  have "stage n names \<le> 3" for names by (simp add: stage_def)
  with progress fin result show ?thesis unfolding Let_def works by (simp only: map_is_Nil_conv)
qed

text \<open>A cluster that was never accepted, with a work and an addon that their agents will never let go.\<close>

definition stuck_hub :: hub where
  "stuck_hub = \<lparr>hub_clusters = [demo_deleting\<lparr>Finalizers := [ImportFinalizer, ManifestWorkFinalizer], HubAcceptsClient := False\<rparr>],
     hub_namespaces = [new_meta [] ''c1''],
     hub_works = [hosting_work ''other'', (hosting_work ''c1-klusterlet'')\<lparr>Namespace := ''c1'', Finalizers := [''work-agent'']\<rparr>],
     hub_addons = [(new_meta ''c1'' ''search'')\<lparr>Finalizers := [''search-agent'']\<rparr>],
     hub_bindings = [new_meta ''c1'' (work_role_binding_name ''c1'')]\<rparr>"

theorem detachment_completes_witness:
  "let left = hub_store stuck_hub (snd (run_state (resourcecleanup_Reconcile (hub_server stuck_hub) ''c1'') [])) in
   map Name (hub_works left) = [''other''] \<and> hub_addons left = [] \<and> hub_bindings left = [] \<and>
   filter (\<lambda>c. Name c = ''c1'') (hub_clusters left) = []"
proof -
  let ?mc = "demo_deleting\<lparr>Finalizers := [ImportFinalizer, ManifestWorkFinalizer], HubAcceptsClient := False\<rparr>"
  have st: "hub_store stuck_hub [] = stuck_hub" by code_simp
  have "find (\<lambda>c. Name c = ''c1'') (hub_clusters (hub_store stuck_hub [])) = Some ?mc" "deleting ?mc"
    "if clusterNeedForceDelete ?mc then \<not> (IsHostedCluster ?mc \<and> hosting_name ?mc \<noteq> []) \<and>
        (\<exists>x\<in>set (hub_namespaces (hub_store stuck_hub [])). Name x = ''c1'') \<and>
        unhosted_addons ''c1'' (hub_addons (hub_store stuck_hub []))
      else clean ?mc (hub_store stuck_hub [])"
    unfolding st by code_simp+
  from detachment_completes [OF hub.hub_api_axioms this] show ?thesis
    unfolding st by (simp add: Let_def stuck_hub_def hosting_work_def ObjectMeta.defs new_meta_def is_own_finalizer_def named_def)
qed

text \<open>A hosted cluster with an addon work and the klusterlet work on the hosting cluster, held by its agent.\<close>

definition hosting_hub :: hub where
  "hosting_hub = (let held = \<lambda>w. w\<lparr>Labels := fmap_of_list [(HostedClusterLabel, ''c1'')], Finalizers := [''work-agent'']\<rparr> in
     \<lparr>hub_clusters = [hosted_demo\<lparr>HubAcceptsClient := False\<rparr>], hub_namespaces = [new_meta [] ''c1''],
      hub_works = [held (hosting_work ''addon-search''), held (hosting_work ''c1-hosted-klusterlet'')],
      hub_addons = [], hub_bindings = []\<rparr>)"

theorem hosted_detachment_progresses_witness:
  "let left = hub_store hosting_hub (snd (run_state (resourcecleanup_Reconcile (hub_server hosting_hub) ''c1'') [])) in
   stage ''c1'' (live_names (hosted_works ''hub'' ''c1'' left)) < 3"
proof -
  let ?mc = "hosted_demo\<lparr>HubAcceptsClient := False\<rparr>"
  have st: "hub_store hosting_hub [] = hosting_hub" by code_simp
  have h: "hosting_name ?mc = ''hub''" by code_simp
  have pre: "find (\<lambda>c. Name c = ''c1'') (hub_clusters (hub_store hosting_hub [])) = Some ?mc" "deleting ?mc" "clusterNeedForceDelete ?mc"
    "IsHostedCluster ?mc" "hosting_name ?mc \<noteq> []" "hosting_name ?mc \<noteq> ''c1''"
    "\<exists>x\<in>set (hub_namespaces (hub_store hosting_hub [])). Name x = ''c1''"
    "unhosted_addons ''c1'' (hub_addons (hub_store hosting_hub []))"
    unfolding st by code_simp+
  have "map Name (hosted_works ''hub'' ''c1'' hosting_hub) \<noteq> []" "stage ''c1'' (map Name (hosted_works ''hub'' ''c1'' hosting_hub)) = 3"
    by code_simp+
  with hosted_detachment_progresses [OF hub.hub_api_axioms pre] show ?thesis
    unfolding st h Let_def by (elim conjE) (simp only: if_False)
qed

end
