(* ===== verification/Lifecycle.thy ===== *)
theory Lifecycle
  imports Auto_Import Cluster_Deployment Self_Managed Hosted Resource_Cleanup Managed_Cluster Manifest_Work
    Namespace_Deletion Flightctl Import_Config
begin

text \<open>
  The import condition of a cluster as a state machine. Six of the eleven controllers that run for a
  cluster write it, each in runs of its own that may overlap with the runs of the others, and every
  write is preceded by a fresh read of the cluster. The machine runs over the versions of the
  cluster that were stored; a run may see any of them at each of its reads, and its write is
  accepted when it was made from the latest version, as the API server checks by the resource
  version.
\<close>

section \<open>What the controllers write\<close>

definition live_condition :: "Condition \<Rightarrow> bool" where
  "live_condition cond \<longleftrightarrow> Type cond = ConditionManagedClusterImportSucceeded \<and>
     (Status cond = ConditionFalse \<and> Reason cond \<in> {ConditionReasonManagedClusterWaitForImporting,
        ConditionReasonManagedClusterImporting, ConditionReasonManagedClusterImportFailed} \<or>
      Status cond = ConditionTrue \<and> Reason cond = ConditionReasonManagedClusterImported)"

definition detaching_condition :: "Condition \<Rightarrow> bool" where
  "detaching_condition cond \<longleftrightarrow> Type cond = ConditionManagedClusterImportSucceeded \<and> Status cond = ConditionFalse \<and>
     Reason cond \<in> {ConditionReasonManagedClusterDetaching, ConditionReasonManagedClusterForceDetaching}"

lemma live_conditions [simp]:
  "live_condition wait_for_importing" "live_condition import_succeeded" "live_condition (importing m)"
  "live_condition (import_failed m)" "live_condition imported_condition"
  "live_condition (NewManagedClusterImportSucceededCondition ConditionFalse ConditionReasonManagedClusterWaitForImporting m)"
  by (simp_all add: live_condition_def wait_for_importing_def import_succeeded_def)

lemma status_fields [simp]: "Status wait_for_importing = ConditionFalse" "Status import_succeeded = ConditionTrue"
  by (simp_all add: wait_for_importing_def import_succeeded_def)

lemma reasons_differ:
  "distinct [ConditionReasonManagedClusterWaitForImporting, ConditionReasonManagedClusterImporting,
     ConditionReasonManagedClusterImportFailed, ConditionReasonManagedClusterImported,
     ConditionReasonManagedClusterDetaching, ConditionReasonManagedClusterForceDetaching]"
  by code_simp

lemma in_progress_live: "in_progress cond \<Longrightarrow> live_condition cond \<and> Status cond \<noteq> ConditionTrue"
  by (auto simp: in_progress_def live_condition_def)

text \<open>The write of a run that has read \<open>c\<close>.\<close>

definition written_for :: "ManagedCluster \<Rightarrow> ManagedCluster \<Rightarrow> bool" where
  "written_for c mc' \<longleftrightarrow> (\<exists>cond. sets_condition mc' cond \<and>
     (if deleting c then detaching_condition cond
      else live_condition cond \<and> (Status cond = ConditionTrue \<longrightarrow>
        FindStatusCondition (Conditions c) ConditionManagedClusterImportSucceeded \<noteq> None)))"

lemma written_for_importer:
  "\<not> deleting c \<Longrightarrow> sets_condition mc' cond \<Longrightarrow> in_progress cond \<Longrightarrow> written_for c mc'"
  using in_progress_live by (auto simp: written_for_def)

lemma importstatus_written:
  assumes "Write (UpdateManagedClusterStatus mc') \<in> set (new_calls (importstatus_Reconcile srv n) h)"
  shows "\<exists>c. on_GetManagedCluster srv h n = Inr c \<and> written_for c mc'"
  using importstatus_writes [OF assms] by (auto simp: written_for_def split: if_splits intro!: exI)

text \<open>The clean-up writes the status before it starts to delete.\<close>

lemma import_work_delete_calls [simp]:
  "work_delete_call ns n c \<Longrightarrow> import_work c" "addon_delete_call c \<Longrightarrow> import_work c" "role_binding_call ns c \<Longrightarrow> import_work c"
  by (auto simp: delete_call_defs)

lemma import_work_deletions [calls_intros]:
  "calls_only import_work (ForceDeleteManifestWork srv ns n)" "calls_only import_work (ForceDeleteAllManagedClusterAddons srv n)"
  "calls_only import_work (ForceDeleteWorkRoleBinding srv n)" "calls_only import_work (GetWorkRoleBinding srv n)"
  "calls_only import_work (ForceDeleteAllManifestWorks srv items)" "calls_only import_work (delete_hosting_works srv hosting names errs)"
      apply (rule calls_only_mono [OF calls_ForceDeleteManifestWork], simp)
     apply (rule calls_only_mono [OF calls_ForceDeleteAllManagedClusterAddons], auto)[1]
    apply (rule calls_only_mono [OF calls_ForceDeleteWorkRoleBinding], simp)
   apply (rule calls_only_mono [OF calls_GetWorkRoleBinding], simp)
  apply (rule calls_ForceDeleteAllManifestWorks, simp)
  apply (induction names arbitrary: errs; auto intro!: calls_intros)
  done

lemma import_work_cleanup [calls_intros]:
  "calls_only import_work (orphanCleanup srv n)" "calls_only import_work (forceCleanup srv cluster)"
  "calls_only import_work (Cleanup srv cluster)" "calls_only import_work (finish_cleanup srv cluster)"
  unfolding orphanCleanup_def forceCleanup_def Cleanup_def finish_cleanup_def cleanupCompleted_def removeClusterFinalizers_def
    forceDeleteManifestWorks_def deleteHostingManifestWorks_def namespaceExists_def ListManagedClusterAddons_def Let_def
  by (intro calls_intros; simp)+

lemma issues_detaching:
  assumes "\<And>mc'. (\<exists>cond. sets_condition mc' cond \<and> detaching_condition cond) \<Longrightarrow> P mc'" and "\<And>a h'. issues (status_update P) (f a) h'"
  shows "issues (status_update P) (State_Monad.bind (updateDetachingCondition srv cluster) f) h"
  unfolding updateDetachingCondition_def Let_def
  by (auto simp: detaching_condition_def intro!: issues_intros issues_UpdateImportCondition assms split: prod.split option.split)

lemma cleanup_written:
  assumes "Write (UpdateManagedClusterStatus mc') \<in> set (new_calls (resourcecleanup_Reconcile srv n) h)"
  shows "\<exists>c. on_GetManagedCluster srv h n = Inr c \<and> written_for c mc'"
proof -
  let ?P = "\<lambda>mc'. \<exists>c. on_GetManagedCluster srv h n = Inr c \<and> written_for c mc'"
  have "issues (status_update ?P) (resourcecleanup_Reconcile srv n) h"
    unfolding resourcecleanup_Reconcile_def
    by (intro issues_intros issues_detaching issues_bind_calls [OF import_work_cleanup(1) import_work_status_update]
        issues_bind_calls [OF import_work_cleanup(2) import_work_status_update]
        issues_bind_calls [OF import_work_cleanup(3) import_work_status_update]
        issues_calls_only [OF calls_only_mono [OF import_work_cleanup(4) import_work_status_update]])
      (auto simp: written_for_def)
  from issues_new_calls [OF this assms] show ?thesis by simp
qed

text \<open>The hosted controller: every outcome of \<open>importCluster\<close> is a condition of a live cluster.\<close>

lemmas wp_any_apply = wp_any [where m = "ApplyResources srv cl mc objs" for srv cl mc objs]
  wp_any [where m = "IsManifestWorksAvailable srv ns names" for srv ns names]
  wp_any [where m = "AssertManifestWorkFinalizer srv mc k" for srv mc k]

lemma wp_provide_live: "wp (provide_kubeconfig srv cd mc secret hc hosting) (\<lambda>(cond, e) h'. live_condition cond) h"
  unfolding provide_kubeconfig_def externalManagedKubeconfigCreated_def feedback_condition_def
  by (auto simp: wp_simps split: option.split sum.split prod.split intro!: wp_any_apply)

lemma wp_apply_live:
  "wp (apply_klusterlet_work srv cd mc secret hc hosting) (\<lambda>out h'. case out of None \<Rightarrow> True | Some (cond, e) \<Rightarrow> live_condition cond) h"
proof -
  have "wp (provide_kubeconfig srv cd mc secret hc hosting) (\<lambda>r. wp (return (Some r))
      (\<lambda>out h'. case out of None \<Rightarrow> True | Some (cond, e) \<Rightarrow> live_condition cond)) h" for h
    by (rule wp_mono [OF wp_provide_live]) (auto simp: wp_simps split: prod.splits option.splits)
  then show ?thesis
    unfolding apply_klusterlet_work_def
    by (auto simp: wp_simps split: option.split sum.split prod.split intro!: wp_any_apply)
qed

lemma wp_importCluster_live:
  "wp (importCluster srv cd mc secret) (\<lambda>(mc', out) h'. case out of None \<Rightarrow> True | Some (cond, e) \<Rightarrow> live_condition cond) h"
proof -
  have "wp (apply_klusterlet_work srv cd mc' secret hc hosting) (\<lambda>x. wp (return (mc', x))
      (\<lambda>(mc', out) h'. case out of None \<Rightarrow> True | Some (cond, e) \<Rightarrow> live_condition cond)) h" for h mc' hc hosting
    by (rule wp_mono [OF wp_apply_live]) (auto simp: wp_simps split: prod.splits option.splits)
  then show ?thesis
    unfolding importCluster_def
    by (auto simp: wp_simps split: option.split sum.split prod.split intro!: wp_any_apply)
qed

lemma issues_finish_hosted:
  assumes "\<And>mc'. sets_condition mc' cond \<Longrightarrow> P mc'"
  shows "issues (status_update P) (finish_hosted srv mc secret cond e) h"
  unfolding finish_hosted_def
  by (intro issues_intros issues_UpdateImportCondition issues_bind_calls [OF calls_DeleteAutoImportSecret])
    (use assms import_work_status_update in auto)

lemma issues_import_hosted:
  "issues (status_update (\<lambda>mc'. \<exists>cond. sets_condition mc' cond \<and> live_condition cond)) (do {
      (mc', out) \<leftarrow> importCluster srv cd mc secret;
      case out of None \<Rightarrow> return Panicked | Some (cond, e) \<Rightarrow> finish_hosted srv mc' secret cond e }) h"
proof (rule issues_bind_calls [OF import_work_importCluster import_work_status_update])
  fix a cs
  assume "run_state (importCluster srv cd mc secret) h = (a, h @ cs)"
  with wp_importCluster_live [of srv cd mc secret h]
  show "issues (status_update (\<lambda>mc'. \<exists>cond. sets_condition mc' cond \<and> live_condition cond)) (case a of (mc', out) \<Rightarrow>
      case out of None \<Rightarrow> return Panicked | Some (cond, e) \<Rightarrow> finish_hosted srv mc' secret cond e) (h @ cs)"
    by (auto simp: wp_run intro!: issues_intros issues_finish_hosted split: prod.split option.split)
qed

lemma hosted_written:
  assumes "Write (UpdateManagedClusterStatus mc') \<in> set (new_calls (hosted_Reconcile srv cd n) h)"
  shows "\<exists>c. on_GetManagedCluster srv h n = Inr c \<and> written_for c mc'"
proof -
  have "issues (status_update (\<lambda>mc'. \<exists>c. on_GetManagedCluster srv h n = Inr c \<and> written_for c mc')) (hosted_Reconcile srv cd n) h"
    unfolding hosted_Reconcile_def
    by (intro issues_intros issues_UpdateImportCondition) (auto simp: written_for_def intro!: issues_import_hosted)
  from issues_new_calls [OF this assms] show ?thesis by simp
qed

text \<open>The other controllers do not write the status.\<close>

lemma import_work_reads: "\<not> is_write c \<Longrightarrow> import_work c"
  by (cases c) auto

lemma import_work_AssertManifestWorkFinalizer [calls_intros]: "calls_only import_work (AssertManifestWorkFinalizer srv mc k)"
  unfolding AssertManifestWorkFinalizer_def RemoveManagedClusterFinalizer_def Let_def
  by (intro calls_intros; simp)

lemma import_work_ensure_readonly [calls_intros]: "calls_only import_work (ensure_readonly srv cd mc ws)"
  by (induction ws) (auto intro!: calls_intros)

lemma import_work_ApplyResources [calls_intros]: "calls_only import_work (ApplyResources srv cl mc objs)"
  by (rule calls_only_mono [OF calls_ApplyResources import_work_apply_call])

lemma quiet_managedcluster: "calls_only import_work (managedcluster_Reconcile srv n)"
  unfolding managedcluster_Reconcile_def ensureManagedClusterMetaObj_def Let_def
  by (intro calls_intros; simp)

lemma quiet_namespacedeletion: "calls_only import_work (namespacedeletion_Reconcile srv n)"
  unfolding namespacedeletion_Reconcile_def delete_if_empty_def Let_def
  by (auto intro!: calls_intros split: cluster_gate.split)

lemma quiet_manifestwork: "calls_only import_work (manifestwork_Reconcile srv cd n)"
  unfolding manifestwork_Reconcile_def apply_from_import_secret_def Let_def
  by (intro calls_intros; simp)

lemma quiet_flightctl: "calls_only import_work (flightctl_managedcluster_Reconcile srv cr ns f n)"
  unfolding flightctl_managedcluster_Reconcile_def
  by (intro calls_intros calls_only_mono [OF reads_device import_work_reads]; simp)

lemma import_work_token: "writes_only (\<lambda>w. w = bootstrap_token_request n) c \<Longrightarrow> import_work c"
  by (cases c rule: import_work.cases) (auto simp: bootstrap_token_request_def)

lemma quiet_importconfig: "calls_only import_work (importconfig_Reconcile srv rd cd tk ocp hostedEnabled ns n)"
  unfolding importconfig_Reconcile_def Let_def
  by (intro calls_intros calls_only_mono [OF reads_GetMerged import_work_reads] calls_only_mono [OF reads_buildImportSecret import_work_reads]
     calls_only_mono [OF calls_buildBootstrapKubeconfigData import_work_token] calls_only_mono [OF reads_GenerateImportConfig import_work_reads]; simp)

section \<open>The runs\<close>

inductive controller_run :: "server \<Rightarrow> string \<Rightarrow> call list \<Rightarrow> bool" for srv n where
  autoimport_run: "controller_run srv n (new_calls (autoimport_Reconcile srv cd ns g n) h)"
| clusterdeployment_run: "controller_run srv n (new_calls (clusterdeployment_Reconcile srv cd ns n) h)"
| selfmanaged_run: "controller_run srv n (new_calls (selfmanaged_Reconcile srv cd ns n) h)"
| importstatus_run: "controller_run srv n (new_calls (importstatus_Reconcile srv n) h)"
| hosted_run: "controller_run srv n (new_calls (hosted_Reconcile srv cd n) h)"
| cleanup_run: "controller_run srv n (new_calls (resourcecleanup_Reconcile srv n) h)"
| managedcluster_run: "controller_run srv n (new_calls (managedcluster_Reconcile srv n) h)"
| importconfig_run: "controller_run srv n (new_calls (importconfig_Reconcile srv rd cd tk ocp hostedEnabled ns n) h)"
| manifestwork_run: "controller_run srv n (new_calls (manifestwork_Reconcile srv cd n) h)"
| namespacedeletion_run: "controller_run srv n (new_calls (namespacedeletion_Reconcile srv n) h)"
| flightctl_run: "controller_run srv n (new_calls (flightctl_managedcluster_Reconcile srv cr ns f n) h)"

lemma quiet_writes_nothing:
  "calls_only import_work m \<Longrightarrow> Write (UpdateManagedClusterStatus mc') \<notin> set (new_calls m h)"
  using calls_only_new_calls [of import_work m "Write (UpdateManagedClusterStatus mc')" h] by auto

lemmas quiet_controllers = quiet_managedcluster quiet_importconfig quiet_manifestwork quiet_namespacedeletion quiet_flightctl

lemma run_written:
  assumes "controller_run srv n cs" and "Write (UpdateManagedClusterStatus mc') \<in> set cs"
  shows "\<exists>h c. on_GetManagedCluster srv h n = Inr c \<and> written_for c mc'"
  using assms
proof (cases rule: controller_run.cases)
  case (autoimport_run cd ns g h)
  with assms(2) autoimport.status_writes show ?thesis by (blast intro: written_for_importer)
next
  case (clusterdeployment_run cd ns h)
  with assms(2) clusterdeployment.status_writes show ?thesis by (blast intro: written_for_importer)
next
  case (selfmanaged_run cd ns h)
  with assms(2) selfmanaged.status_writes show ?thesis by (blast intro: written_for_importer)
next
  case (importstatus_run h)
  with assms(2) importstatus_written show ?thesis by blast
next
  case (hosted_run cd h)
  with assms(2) hosted_written show ?thesis by blast
next
  case (cleanup_run h)
  with assms(2) cleanup_written show ?thesis by blast
qed (use assms(2) quiet_writes_nothing quiet_controllers in metis)+

section \<open>The versions of a cluster\<close>

abbreviation import_condition :: "ManagedCluster \<Rightarrow> Condition option" where
  "import_condition mc \<equiv> FindStatusCondition (Conditions mc) ConditionManagedClusterImportSucceeded"

text \<open>
  The stored versions, the latest first. Everything that is not a status update of a
  controller is an edit: it leaves the import condition alone, and no edit takes back a deletion.
\<close>

inductive lifecycle :: "string \<Rightarrow> ManagedCluster list \<Rightarrow> bool" for n where
  created: "import_condition mc = None \<Longrightarrow> lifecycle n [mc]"
| edited: "lifecycle n (mc # vs) \<Longrightarrow> import_condition mc' = import_condition mc \<Longrightarrow> (deleting mc \<longrightarrow> deleting mc') \<Longrightarrow>
    lifecycle n (mc' # mc # vs)"
| reported: "lifecycle n (mc # vs) \<Longrightarrow> controller_run srv n cs \<Longrightarrow>
    (\<forall>h c. on_GetManagedCluster srv h n = Inr c \<longrightarrow> c \<in> set (mc # vs)) \<Longrightarrow>
    Write (UpdateManagedClusterStatus mc') \<in> set cs \<Longrightarrow> mc' = mc\<lparr>Conditions := Conditions mc'\<rparr> \<Longrightarrow>
    lifecycle n (mc' # mc # vs)"

inductive_cases lifecycle_ConsE: "lifecycle n (mc' # mc # vs)"

lemma deleting_conditions [simp]: "deleting (mc\<lparr>Conditions := cs\<rparr>) = deleting mc"
  by (simp add: deleting_def)

lemma sets_condition_found:
  assumes "sets_condition mc' cond" and "Type cond = ConditionManagedClusterImportSucceeded"
  shows "\<exists>c. import_condition mc' = Some c \<and> Status c = Status cond \<and> Reason c = Reason cond"
proof -
  from assms(1) obtain mc now where "mc' = mc\<lparr>Conditions := SetStatusCondition now (Conditions mc) cond\<rparr>"
    by (auto simp: sets_condition_def)
  then show ?thesis using FindStatusCondition_Set_same [of now "Conditions mc" cond] assms(2) by auto
qed

lemma written_forD:
  assumes "written_for c mc'"
  shows "\<exists>d. import_condition mc' = Some d \<and> (if deleting c then detaching_condition d
    else live_condition d \<and> (Status d = ConditionTrue \<longrightarrow> import_condition c \<noteq> None))"
proof -
  from assms obtain cond where cond: "sets_condition mc' cond" "if deleting c then detaching_condition cond
      else live_condition cond \<and> (Status cond = ConditionTrue \<longrightarrow> import_condition c \<noteq> None)"
    by (auto simp: written_for_def)
  then have "Type cond = ConditionManagedClusterImportSucceeded"
    by (auto simp: detaching_condition_def live_condition_def split: if_splits)
  from sets_condition_found [OF cond(1) this] obtain d where "import_condition mc' = Some d" "Status d = Status cond"
    "Reason d = Reason cond" by blast
  with cond(2) FindStatusCondition_Type [OF this(1)] show ?thesis
    by (auto simp: detaching_condition_def live_condition_def split: if_splits)
qed

lemma deleting_stays: "lifecycle n vs \<Longrightarrow> \<forall>v\<in>set vs. deleting v \<longrightarrow> deleting (hd vs)"
proof (induction rule: lifecycle.induct)
  case (reported mc vs srv cs mc')
  then have "deleting mc' = deleting mc" by (metis deleting_conditions)
  with reported show ?case by auto
qed auto

definition versions_ok :: "ManagedCluster list \<Rightarrow> bool" where
  "versions_ok vs \<longleftrightarrow> (\<forall>v\<in>set vs. \<forall>d. import_condition v = Some d \<longrightarrow>
     (live_condition d \<or> detaching_condition d \<and> deleting (hd vs)) \<and>
     (Status d = ConditionTrue \<longrightarrow> (\<exists>w\<in>set vs. \<exists>d'. import_condition w = Some d' \<and> Status d' = ConditionFalse)))"

lemma versions_ok_Cons:
  assumes "versions_ok (mc # vs)" and "deleting mc \<Longrightarrow> deleting mc'"
    and "\<And>d. import_condition mc' = Some d \<Longrightarrow> (live_condition d \<or> detaching_condition d \<and> deleting mc') \<and>
      (Status d = ConditionTrue \<longrightarrow> (\<exists>w\<in>set (mc # vs). import_condition w \<noteq> None))"
  shows "versions_ok (mc' # mc # vs)"
proof -
  have false: "\<exists>w\<in>set (mc # vs). \<exists>d'. import_condition w = Some d' \<and> Status d' = ConditionFalse"
    if v: "v \<in> set (mc # vs)" "import_condition v = Some d" for v d
  proof (cases "Status d = ConditionTrue")
    case True
    with v assms(1) show ?thesis unfolding versions_ok_def by blast
  next
    case False
    with v assms(1) have "Status d = ConditionFalse"
      unfolding versions_ok_def live_condition_def detaching_condition_def by blast
    with v show ?thesis by blast
  qed
  have old: "live_condition d \<or> detaching_condition d \<and> deleting mc'"
    if "v \<in> set (mc # vs)" "import_condition v = Some d" for v d
    using that assms(1,2) unfolding versions_ok_def by auto
  show ?thesis
    unfolding versions_ok_def
  proof (intro ballI allI impI)
    fix v d
    assume v: "v \<in> set (mc' # mc # vs)" "import_condition v = Some d"
    show "(live_condition d \<or> detaching_condition d \<and> deleting (hd (mc' # mc # vs))) \<and>
      (Status d = ConditionTrue \<longrightarrow>
        (\<exists>w\<in>set (mc' # mc # vs). \<exists>d'. import_condition w = Some d' \<and> Status d' = ConditionFalse))"
      using v assms(3) [of d] old [of v d] false by (cases "v = mc'") fastforce+
  qed
qed

lemma lifecycle_ok: "lifecycle n vs \<Longrightarrow> versions_ok vs"
proof (induction rule: lifecycle.induct)
  case (created mc)
  then show ?case by (simp add: versions_ok_def)
next
  case (edited mc vs mc')
  show ?case
  proof (rule versions_ok_Cons [OF edited.IH])
    fix d
    assume "import_condition mc' = Some d"
    with edited.hyps(2) have d: "import_condition mc = Some d" by simp
    with edited.IH have "live_condition d \<or> detaching_condition d \<and> deleting mc" by (simp add: versions_ok_def)
    with d edited.hyps(3) show "(live_condition d \<or> detaching_condition d \<and> deleting mc') \<and>
      (Status d = ConditionTrue \<longrightarrow> (\<exists>w\<in>set (mc # vs). import_condition w \<noteq> None))" by auto
  qed (use edited.hyps(3) in simp)
next
  case (reported mc vs srv cs mc')
  from run_written [OF reported.hyps(2,4)] obtain h c where c: "on_GetManagedCluster srv h n = Inr c" "written_for c mc'"
    by blast
  from c(1) reported.hyps(3) have "c \<in> set (mc # vs)" by blast
  moreover from this deleting_stays [OF reported.hyps(1)] have "deleting c \<Longrightarrow> deleting mc" by auto
  moreover have "deleting mc' = deleting mc" using reported.hyps(5) by (metis deleting_conditions)
  ultimately show ?case using written_forD [OF c(2)] reported.IH
    by (intro versions_ok_Cons) (auto simp: detaching_condition_def split: if_splits)
qed

section \<open>A run that straddles the deletion\<close>

definition serving :: "(call list \<Rightarrow> ManagedCluster) \<Rightarrow> server" where
  "serving f = empty_server\<lparr>on_GetManagedCluster := (\<lambda>h n. Inr (f h)),
     on_GetManifestWork := (\<lambda>h ns n. Inr ready_work)\<rparr>"

definition with_condition :: "ManagedCluster \<Rightarrow> Condition \<Rightarrow> ManagedCluster" where
  "with_condition mc cond = mc\<lparr>Conditions := SetStatusCondition 0 (Conditions mc) cond\<rparr>"

definition fresh_version :: ManagedCluster where
  "fresh_version = (new_cluster ''c1'')\<lparr>HubAcceptsClient := False\<rparr>"

definition waiting_version :: ManagedCluster where
  "waiting_version = with_condition fresh_version wait_for_importing"

definition deleted_version :: ManagedCluster where
  "deleted_version = waiting_version\<lparr>DeletionTimestamp := Some 1\<rparr>"

definition detaching_version :: ManagedCluster where
  "detaching_version = with_condition deleted_version (NewManagedClusterImportSucceededCondition ConditionFalse
     ConditionReasonManagedClusterForceDetaching ''The managed cluster is being detached by force'')"

definition late_version :: ManagedCluster where
  "late_version = with_condition detaching_version import_succeeded"

text \<open>The import status controller reads the cluster before its deletion and reports after it.\<close>

lemma detaching_lifecycle:
  "lifecycle ''c1'' [detaching_version, deleted_version, waiting_version, fresh_version]"
proof -
  have 0: "lifecycle ''c1'' [fresh_version]"
    by (rule created) code_simp
  have "Write (UpdateManagedClusterStatus waiting_version) \<in>
      set (new_calls (importstatus_Reconcile (serving (\<lambda>_. fresh_version)) ''c1'') [])" by code_simp
  then have 1: "lifecycle ''c1'' [waiting_version, fresh_version]"
    by (rule reported [OF 0 importstatus_run, rotated]) (simp_all add: serving_def waiting_version_def with_condition_def)
  have 2: "lifecycle ''c1'' [deleted_version, waiting_version, fresh_version]"
    by (rule edited [OF 1]) (simp_all add: deleted_version_def deleting_def)
  have "Write (UpdateManagedClusterStatus detaching_version) \<in>
      set (new_calls (resourcecleanup_Reconcile (serving (\<lambda>_. deleted_version)) ''c1'') [])" by code_simp
  then show ?thesis
    by (rule reported [OF 2 cleanup_run, rotated]) (simp_all add: serving_def detaching_version_def with_condition_def)
qed

lemma late_lifecycle:
  "lifecycle ''c1'' [late_version, detaching_version, deleted_version, waiting_version, fresh_version]"
proof -
  have "Write (UpdateManagedClusterStatus late_version) \<in> set (new_calls (importstatus_Reconcile
      (serving (\<lambda>h. if h = [] then waiting_version else detaching_version)) ''c1'') [])" by code_simp
  then show ?thesis
    by (rule reported [OF detaching_lifecycle importstatus_run, rotated]) (auto simp: serving_def late_version_def with_condition_def)
qed

section \<open>The properties\<close>

text \<open>
  C6. Whatever the controllers do, and however their runs overlap,
  every stored version of a cluster has an import condition that makes sense: true exactly with
  the reason Imported, false with one of the five others; a reason of detaching only on a cluster
  that is being deleted; and a cluster is reported as imported only after an earlier version has
  reported the condition as false.
\<close>

theorem import_condition_invariant:
  assumes "lifecycle n (mc # vs)" and "import_condition mc = Some c"
  shows "(if Status c = ConditionTrue then Reason c = ConditionReasonManagedClusterImported
     else Status c = ConditionFalse \<and> Reason c \<in> {ConditionReasonManagedClusterWaitForImporting,
        ConditionReasonManagedClusterImporting, ConditionReasonManagedClusterImportFailed,
        ConditionReasonManagedClusterDetaching, ConditionReasonManagedClusterForceDetaching}) \<and>
    (Reason c \<in> {ConditionReasonManagedClusterDetaching, ConditionReasonManagedClusterForceDetaching} \<longrightarrow> deleting mc) \<and>
    (Status c = ConditionTrue \<longrightarrow> (\<exists>v\<in>set vs. \<exists>d. import_condition v = Some d \<and> Status d = ConditionFalse))"
proof -
  from lifecycle_ok [OF assms(1)] assms(2) have ok: "live_condition c \<or> detaching_condition c \<and> deleting mc"
    and before: "Status c = ConditionTrue \<Longrightarrow>
      \<exists>w\<in>set (mc # vs). \<exists>d. import_condition w = Some d \<and> Status d = ConditionFalse"
    unfolding versions_ok_def by auto
  have "\<exists>v\<in>set vs. \<exists>d. import_condition v = Some d \<and> Status d = ConditionFalse" if "Status c = ConditionTrue"
    using before [OF that] that assms(2) by auto
  with ok reasons_differ show ?thesis
    by (auto simp: live_condition_def detaching_condition_def)
qed

theorem import_condition_invariant_witness:
  "\<exists>c. import_condition late_version = Some c \<and> Reason c = ConditionReasonManagedClusterImported \<and>
     (\<exists>v\<in>set [detaching_version, deleted_version, waiting_version, fresh_version].
        \<exists>d. import_condition v = Some d \<and> Status d = ConditionFalse)"
proof -
  obtain c where "import_condition late_version = Some c" "Status c = ConditionTrue"
    using FindStatusCondition_Set_same [of 0 "Conditions detaching_version" import_succeeded]
    by (auto simp: late_version_def with_condition_def import_succeeded_def)
  with import_condition_invariant [OF late_lifecycle] show ?thesis by auto
qed

text \<open>
  A run that starts after the deletion, and so only sees versions that are being deleted, writes no
  import condition but those of detaching.
\<close>

theorem detaching_after_deletion:
  assumes "controller_run srv n cs" and "\<And>h c. on_GetManagedCluster srv h n = Inr c \<Longrightarrow> deleting c"
    and "Write (UpdateManagedClusterStatus mc') \<in> set cs"
  shows "\<exists>c. import_condition mc' = Some c \<and> Status c = ConditionFalse \<and>
    Reason c \<in> {ConditionReasonManagedClusterDetaching, ConditionReasonManagedClusterForceDetaching}"
proof -
  from run_written [OF assms(1,3)] assms(2) obtain c where "deleting c" "written_for c mc'" by blast
  with written_forD [of c mc'] show ?thesis by (auto simp: detaching_condition_def)
qed

theorem detaching_after_deletion_witness:
  "\<exists>c. import_condition detaching_version = Some c \<and> Status c = ConditionFalse \<and>
    Reason c \<in> {ConditionReasonManagedClusterDetaching, ConditionReasonManagedClusterForceDetaching}"
proof (rule detaching_after_deletion [OF cleanup_run [of "serving (\<lambda>_. deleted_version)" "''c1''" "[]"]])
  show "Write (UpdateManagedClusterStatus detaching_version) \<in>
      set (new_calls (resourcecleanup_Reconcile (serving (\<lambda>_. deleted_version)) ''c1'') [])" by code_simp
qed (simp add: serving_def deleted_version_def deleting_def)

text \<open>What the condition helper writes: the cluster as it is read then, whatever it was when the run began.\<close>

lemma condition_on_fresh_read:
  assumes "on_GetManagedCluster srv h (Name mc) = Inr c" and "import_condition c = Some d"
    and "Type cond = ConditionManagedClusterImportSucceeded" and "Reason cond \<noteq> Reason d"
  shows "wp (UpdateManagedClusterImportCondition srv mc cond) (\<lambda>_ h'. \<exists>mc'. Write (UpdateManagedClusterStatus mc') \<in> set h' \<and>
    mc' = c\<lparr>Conditions := Conditions mc'\<rparr> \<and>
    (\<exists>d'. import_condition mc' = Some d' \<and> Status d' = Status cond \<and> Reason d' = Reason cond)) h"
proof -
  let ?h1 = "h @ [Read (GetManagedCluster (Name mc))]"
  let ?mc' = "c\<lparr>Conditions := SetStatusCondition (on_now srv ?h1) (Conditions c) cond\<rparr>"
  obtain d' where d': "import_condition ?mc' = Some d'" "Status d' = Status cond" "Reason d' = Reason cond"
    using FindStatusCondition_Set_same [of "on_now srv ?h1" "Conditions c" cond] assms(3) by auto
  with assms(2,4) have changed: "Conditions c \<noteq> SetStatusCondition (on_now srv ?h1) (Conditions c) cond" by auto
  with assms have "wp (UpdateManagedClusterImportCondition srv mc cond)
      (\<lambda>_ h'. Write (UpdateManagedClusterStatus ?mc') \<in> set h') h"
    by (simp add: UpdateManagedClusterImportCondition_def updateManagedClusterStatus_def wp_simps Let_def split: option.split)
  then show ?thesis by (rule wp_mono) (use d' in \<open>auto intro!: exI [of _ ?mc']\<close>)
qed

text \<open>
  C27. A run that straddles the deletion takes the condition of detaching back. When the import status controller has read
  any version of a cluster from before its deletion, neither hosted nor marked for an immediate import and with an
  import condition, and finds its klusterlet work available, and when the cluster has been deleted since and the
  clean-up has reported that it is being detached, then this run stores the latest version, which is being deleted, with
  the report that it is imported: the status is updated on a fresh read without another look at the deletion. A
  run whose first read shows the deletion makes no other call at all.
\<close>

theorem detaching_overwritten:
  assumes "lifecycle n (c2 # vs)" and "deleting c2" and "import_condition c2 = Some d2" and "detaching_condition d2"
    and "on_GetManagedCluster srv [] n = Inr c1" and "c1 \<in> set vs" and "Name c1 = n" and "\<not> deleting c1"
    and "DetermineKlusterletMode c1 \<noteq> InstallModeHosted" and "\<not> IsImmediateImport (Annotations c1)"
    and "import_condition c1 \<noteq> None" and "\<And>h. h \<noteq> [] \<Longrightarrow> on_GetManagedCluster srv h n = Inr c2"
    and "\<And>h. on_GetManifestWork srv h n (klusterlet_work_name n) = Inr w"
    and "IsStatusConditionTrue (WorkConditions w) WorkAvailable"
  shows "(\<exists>mc' d'. Write (UpdateManagedClusterStatus mc') \<in> set (new_calls (importstatus_Reconcile srv n) []) \<and>
      lifecycle n (mc' # c2 # vs) \<and> deleting mc' \<and> import_condition mc' = Some d' \<and>
      Status d' = ConditionTrue \<and> Reason d' = ConditionReasonManagedClusterImported) \<and>
    (\<forall>srv' h c. on_GetManagedCluster srv' h n = Inr c \<and> deleting c \<longrightarrow>
      new_calls (importstatus_Reconcile srv' n) h = [Read (GetManagedCluster n)])"
proof (intro conjI allI impI)
  let ?h = "[Read (GetManagedCluster n), Read (GetManifestWork n (klusterlet_work_name n))]"
  have ty: "Type import_succeeded = ConditionManagedClusterImportSucceeded" "Status import_succeeded = ConditionTrue"
    "Reason import_succeeded = ConditionReasonManagedClusterImported" by (simp_all add: import_succeeded_def)
  have "Reason import_succeeded \<noteq> Reason d2" using assms(4) reasons_differ ty(3) by (auto simp: detaching_condition_def)
  define written where "written = (\<lambda>h'. \<exists>mc'. Write (UpdateManagedClusterStatus mc') \<in> set h' \<and>
    mc' = c2\<lparr>Conditions := Conditions mc'\<rparr> \<and> (\<exists>d'. import_condition mc' = Some d' \<and>
      Status d' = Status import_succeeded \<and> Reason d' = Reason import_succeeded))"
  from condition_on_fresh_read [of srv ?h c1 c2 d2 import_succeeded] assms \<open>Reason import_succeeded \<noteq> Reason d2\<close> ty(1)
  have "wp (UpdateManagedClusterImportCondition srv c1 import_succeeded) (\<lambda>_. written) ?h"
    by (simp add: written_def)
  then have "wp (importstatus_Reconcile srv n) (\<lambda>_. written) []"
    unfolding importstatus_Reconcile_def using assms by (auto simp: wp_simps elim!: wp_mono)
  then obtain mc' d' where w: "Write (UpdateManagedClusterStatus mc') \<in> set (new_calls (importstatus_Reconcile srv n) [])"
    and mc': "mc' = c2\<lparr>Conditions := Conditions mc'\<rparr>" and d': "import_condition mc' = Some d'" "Status d' = ConditionTrue"
      "Reason d' = ConditionReasonManagedClusterImported"
    by (auto simp: wp_run new_calls_def ty written_def)
  have served: "\<forall>h c. on_GetManagedCluster srv h n = Inr c \<longrightarrow> c \<in> set (c2 # vs)"
    using assms(5,6,12) by (metis list.set_intros sum.inject(2))
  have "deleting mc'" using mc' assms(2) by (metis deleting_conditions)
  with reported [OF assms(1) importstatus_run served w mc'] w d'
  show "\<exists>mc' d'. Write (UpdateManagedClusterStatus mc') \<in> set (new_calls (importstatus_Reconcile srv n) []) \<and>
      lifecycle n (mc' # c2 # vs) \<and> deleting mc' \<and> import_condition mc' = Some d' \<and>
      Status d' = ConditionTrue \<and> Reason d' = ConditionReasonManagedClusterImported" by blast
  show "new_calls (importstatus_Reconcile srv' n) h = [Read (GetManagedCluster n)]"
    if "on_GetManagedCluster srv' h n = Inr c \<and> deleting c" for srv' h c
    using that by (simp add: importstatus_Reconcile_def new_calls_def ask_def)
qed

theorem detaching_overwritten_witness:
  "\<exists>mc' d. lifecycle ''c1'' [mc', detaching_version, deleted_version, waiting_version, fresh_version] \<and> deleting mc' \<and>
     import_condition mc' = Some d \<and> Status d = ConditionTrue"
proof -
  let ?srv = "serving (\<lambda>h. if h = [] then waiting_version else detaching_version)"
  have "case import_condition detaching_version of None \<Rightarrow> False | Some d \<Rightarrow> Status d = ConditionFalse \<and>
      Type d = ConditionManagedClusterImportSucceeded \<and> Reason d = ConditionReasonManagedClusterForceDetaching" by code_simp
  then obtain d2 where d2: "import_condition detaching_version = Some d2" "detaching_condition d2"
    by (auto simp: detaching_condition_def split: option.splits)
  have pre: "deleting detaching_version" "Name waiting_version = ''c1''" "\<not> deleting waiting_version"
    "DetermineKlusterletMode waiting_version \<noteq> InstallModeHosted" "\<not> IsImmediateImport (Annotations waiting_version)"
    "import_condition waiting_version \<noteq> None" "IsStatusConditionTrue (WorkConditions ready_work) WorkAvailable"
    by code_simp+
  have "on_GetManagedCluster ?srv [] ''c1'' = Inr waiting_version"
    "\<And>h. h \<noteq> [] \<Longrightarrow> on_GetManagedCluster ?srv h ''c1'' = Inr detaching_version"
    "\<And>h. on_GetManifestWork ?srv h ''c1'' (klusterlet_work_name ''c1'') = Inr ready_work" by (simp_all add: serving_def)
  from detaching_overwritten [OF detaching_lifecycle pre(1) d2 this(1) _ pre(2-6) this(2,3) pre(7)]
  show ?thesis by auto
qed

end
