(* ===== verification/Teardown.thy ===== *)
theory Teardown
  imports Detachment Namespace_Deletion
begin

text \<open>
  The clean-up and the namespace controller one after the other: the end of a cluster on the hub.
\<close>






end
