(* ===== verification/Reporting.thy ===== *)
theory Reporting
  imports Detachment Import_Status
begin

text \<open>
  The import status controller on the hub of Detachment: a cluster whose klusterlet is at work comes to be
  reported as imported.
\<close>

abbreviation hub_import_condition :: "string \<Rightarrow> hub \<Rightarrow> Condition option" where
  "hub_import_condition n hb \<equiv> Option.bind (find (\<lambda>c. Name c = n) (hub_clusters hb))
     (\<lambda>mc. FindStatusCondition (Conditions mc) ConditionManagedClusterImportSucceeded)"

lemma find_map_same: "(\<And>x. f (g x) = f x) \<Longrightarrow> find (\<lambda>x. f x = n) (map g xs) = map_option g (find (\<lambda>x. f x = n) xs)"
  by (induction xs) auto

lemma reconditioned_condition:
  assumes "find (\<lambda>c. Name c = n) (hub_clusters hb) = Some mc" and "Type cond = ConditionManagedClusterImportSucceeded"
  shows "\<exists>c. hub_import_condition n (reconditioned n (SetStatusCondition now cs cond) hb) = Some c \<and>
    Status c = Status cond \<and> Reason c = Reason cond"
proof -
  from find_SomeD [OF assms(1)] have "Name mc = n" by simp
  then show ?thesis
    using FindStatusCondition_Set_same [of now cs cond] assms
    by (auto simp: reconditioned_def find_map_same)
qed

context hub_api
begin

lemma condition_reported:
  assumes "find (\<lambda>c. Name c = n) (hub_clusters (store h)) = Some mc" and "Name mc = n"
    and "Type cond = ConditionManagedClusterImportSucceeded" and "import_condition_event n cond \<noteq> None"
  shows "wp (UpdateManagedClusterImportCondition srv mc cond) (\<lambda>e h'. e = None \<and>
     (\<exists>conds. store h' = reconditioned n conds (store h)) \<and>
     (\<exists>c. hub_import_condition n (store h') = Some c \<and> Status c = Status cond \<and> Reason c = Reason cond)) h"
  by (rule wp_mono [OF update_condition [of mc h mc cond]])
    (use assms reconditioned_condition [OF assms(1,3)] in auto)

lemma status_run:
  assumes found: "find (\<lambda>c. Name c = n) (hub_clusters (store h)) = Some mc"
    and "\<not> deleting mc" "DetermineKlusterletMode mc \<noteq> InstallModeHosted" "\<not> IsImmediateImport (Annotations mc)"
    and work: "find (named n (klusterlet_work_name n)) (hub_works (store h)) = Some w"
      "IsStatusConditionTrue (WorkConditions w) WorkAvailable"
  shows "wp (importstatus_Reconcile srv n) (\<lambda>r h'. (\<exists>conds. store h' = reconditioned n conds (store h)) \<and>
     (\<exists>c. hub_import_condition n (store h') = Some c \<and>
     (if hub_import_condition n (store h) = None
      then r = Return (emptyResult\<lparr>Requeue := True\<rparr>) None \<and> Reason c = ConditionReasonManagedClusterWaitForImporting
      else r = done_ok \<and> Status c = ConditionTrue \<and> Reason c = ConditionReasonManagedClusterImported))) h"
proof -
  from find_SomeD [OF found] have n: "Name mc = n" by simp
  have ev: "import_condition_event n wait_for_importing \<noteq> None" "import_condition_event n import_succeeded \<noteq> None"
    by (simp_all add: import_condition_event_def wait_for_importing_def import_succeeded_def)
  have ty: "Type wait_for_importing = ConditionManagedClusterImportSucceeded" "Type import_succeeded = ConditionManagedClusterImportSucceeded"
    "Reason wait_for_importing = ConditionReasonManagedClusterWaitForImporting" "Status import_succeeded = ConditionTrue"
    "Reason import_succeeded = ConditionReasonManagedClusterImported"
    by (simp_all add: wait_for_importing_def import_succeeded_def)
  let ?h1 = "h @ [Read (GetManagedCluster n)]"
  from get_work [of ?h1 n "klusterlet_work_name n"] work have w: "on_GetManifestWork srv ?h1 n (klusterlet_work_name n) = Inr w" by simp
  show ?thesis
    unfolding importstatus_Reconcile_def
    using found_cluster [OF found] assms(2-4) found n w work ty
    by (auto simp: wp_simps simp del: append_assoc intro!: wp_mono [OF condition_reported [OF _ n ty(1) ev(1)]] wp_mono [OF condition_reported [OF _ n ty(2) ev(2)]])
qed

text \<open>A run changes no more than the conditions of the cluster, so the next one is subject to the same law.\<close>

lemma status_runs:
  assumes found: "find (\<lambda>c. Name c = n) (hub_clusters (store h)) = Some mc"
    and mc: "\<not> deleting mc" "DetermineKlusterletMode mc \<noteq> InstallModeHosted" "\<not> IsImmediateImport (Annotations mc)"
    and work: "find (named n (klusterlet_work_name n)) (hub_works (store h)) = Some w"
      "IsStatusConditionTrue (WorkConditions w) WorkAvailable"
  defines "h1 \<equiv> snd (run_state (importstatus_Reconcile srv n) h)"
  shows "wp (importstatus_Reconcile srv n) (\<lambda>r h'. r = done_ok \<and> (\<exists>c. hub_import_condition n (store h') = Some c \<and>
     Status c = ConditionTrue \<and> Reason c = ConditionReasonManagedClusterImported)) h1"
proof -
  from status_run [OF found mc work] obtain conds where conds: "store h1 = reconditioned n conds (store h)"
    and c: "hub_import_condition n (store h1) \<noteq> None" by (auto simp: wp_run h1_def)
  let ?mc = "mc\<lparr>Conditions := conds\<rparr>"
  from find_SomeD [OF found] have n: "Name mc = n" by simp
  with found have "find (\<lambda>c. Name c = n) (hub_clusters (store h1)) = Some ?mc"
    by (simp add: conds reconditioned_def find_map_same)
  moreover have "\<not> deleting ?mc" "DetermineKlusterletMode ?mc \<noteq> InstallModeHosted" "\<not> IsImmediateImport (Annotations ?mc)"
    using mc by (simp_all add: deleting_def DetermineKlusterletMode_def)
  moreover have "find (named n (klusterlet_work_name n)) (hub_works (store h1)) = Some w"
    using work(1) by (simp add: conds reconditioned_def)
  ultimately show ?thesis using status_run [of n h1 ?mc w] work(2) c by (auto intro: wp_mono)
qed

end

text \<open>
  C13. A cluster that is not hosted, not being deleted and not marked for an immediate import is reported as imported
  once its klusterlet work is available, on a hub where nothing else happens meanwhile. One run of the import status
  controller does it when the cluster has an import condition. When it has none, the first run says that it
  waits and asks for another run, and that second run reports it. Where the first run has reported it, the cluster
  is still reported as imported after the second one.
\<close>

theorem available_work_is_reported:
  assumes "hub_api srv store" and "find (\<lambda>c. Name c = n) (hub_clusters (store h)) = Some mc"
    and "\<not> deleting mc" "DetermineKlusterletMode mc \<noteq> InstallModeHosted" "\<not> IsImmediateImport (Annotations mc)"
    and "find (named n (klusterlet_work_name n)) (hub_works (store h)) = Some w"
    and "IsStatusConditionTrue (WorkConditions w) WorkAvailable"
  shows "let run = importstatus_Reconcile srv n; h1 = snd (run_state run h); h2 = snd (run_state run h1);
      reported = \<lambda>hb. map_option (\<lambda>c. (Status c, Reason c)) (hub_import_condition n hb) =
        Some (ConditionTrue, ConditionReasonManagedClusterImported) in
    (if hub_import_condition n (store h) = None
     then result run h = Return (emptyResult\<lparr>Requeue := True\<rparr>) None \<and>
       map_option Reason (hub_import_condition n (store h1)) = Some ConditionReasonManagedClusterWaitForImporting
     else result run h = done_ok \<and> reported (store h1)) \<and>
    result run h1 = done_ok \<and> reported (store h2)"
  using hub_api.status_run [OF assms] hub_api.status_runs [OF assms]
  by (auto simp: wp_run result_def Let_def split: if_splits)

definition working_hub :: hub where
  "working_hub = no_hub\<lparr>hub_clusters := [new_cluster ''c1''],
     hub_works := [(hosting_work ''c1-klusterlet'')\<lparr>Namespace := ''c1'', WorkConditions := [\<lparr>Type = WorkAvailable, Status = ConditionTrue,
        Reason = [], Message = [], LastTransitionTime = None, ObservedGeneration = 0\<rparr>]\<rparr>]\<rparr>"

theorem available_work_is_reported_witness:
  "let run = importstatus_Reconcile (hub_server working_hub) ''c1''; h1 = snd (run_state run []) in
   map_option Reason (hub_import_condition ''c1'' (hub_store working_hub h1)) =
     Some ConditionReasonManagedClusterWaitForImporting \<and>
   map_option (\<lambda>c. (Status c, Reason c)) (hub_import_condition ''c1'' (hub_store working_hub (snd (run_state run h1)))) =
     Some (ConditionTrue, ConditionReasonManagedClusterImported)"
proof -
  let ?mc = "new_cluster ''c1''"
  let ?w = "(hosting_work ''c1-klusterlet'')\<lparr>Namespace := ''c1'', WorkConditions := [\<lparr>Type = WorkAvailable, Status = ConditionTrue,
        Reason = [], Message = [], LastTransitionTime = None, ObservedGeneration = 0\<rparr>]\<rparr>"
  have st: "hub_store working_hub [] = working_hub" by code_simp
  have pre: "find (\<lambda>c. Name c = ''c1'') (hub_clusters (hub_store working_hub [])) = Some ?mc" "\<not> deleting ?mc"
    "DetermineKlusterletMode ?mc \<noteq> InstallModeHosted" "\<not> IsImmediateImport (Annotations ?mc)"
    "find (named ''c1'' (klusterlet_work_name ''c1'')) (hub_works (hub_store working_hub [])) = Some ?w"
    "IsStatusConditionTrue (WorkConditions ?w) WorkAvailable"
    unfolding st by code_simp+
  have "hub_import_condition ''c1'' (hub_store working_hub []) = None" unfolding st by code_simp
  with available_work_is_reported [OF hub.hub_api_axioms pre] show ?thesis by (simp only: Let_def if_True simp_thms)
qed

end
