(* ===== verification/Delivery.thy ===== *)
theory Delivery
  imports Detachment Manifest_Work
begin

text \<open>
  The manifest work controller on the hub of Detachment: the works of the klusterlet come to be what
  the import secret asks for, and then stay as they are. The locale \<open>work_hub\<close> adds the laws for the
  requests of this controller to those of \<open>hub_api\<close>; its cache of works is up to date.
\<close>

section \<open>Works on the hub\<close>

definition key_of :: "'a ObjectMeta_scheme \<Rightarrow> string \<times> string" where
  "key_of x = (Namespace x, Name x)"

lemma named_key: "named ns n x \<longleftrightarrow> key_of x = (ns, n)"
  by (simp add: named_def key_of_def)

text \<open>The hub has a work as required: its metadata includes what is required, its manifests are the required ones.\<close>

definition up_to_date :: "hub \<Rightarrow> ManifestWork \<Rightarrow> bool" where
  "up_to_date hb w \<longleftrightarrow> (\<exists>x. find (\<lambda>x. key_of x = key_of w) (hub_works hb) = Some x \<and> meta_current x w \<and>
     Manifests x = Manifests w \<and> ManifestConfigs x = ManifestConfigs w)"

text \<open>
  How a hub comes to have a required work: a work it did not have is created as required, under an identifier and
  a version of the server; one that is as required is left as it is, with the rest of its metadata and its delete
  option; any other one gets the required metadata added and everything else that is required put in place.
\<close>

abbreviation stored :: "hub \<Rightarrow> ManifestWork \<Rightarrow> ManifestWork option" where
  "stored hb w \<equiv> find (\<lambda>x. key_of x = key_of w) (hub_works hb)"

definition delivered :: "hub \<Rightarrow> hub \<Rightarrow> ManifestWork \<Rightarrow> bool" where
  "delivered hb hb' w \<longleftrightarrow> up_to_date hb' w \<and>
     (case stored hb w of
        None \<Rightarrow> \<exists>uid rv. stored hb' w = Some (w\<lparr>ObjUID := uid, ResourceVersion := rv\<rparr>)
      | Some x \<Rightarrow> if up_to_date hb w then stored hb' w = Some x
          else \<exists>rv. stored hb' w = Some ((meta_merge x w)\<lparr>Manifests := Manifests w, ManifestConfigs := ManifestConfigs w,
            DeleteOption := DeleteOption w, ResourceVersion := rv\<rparr>))"

lemma delivered_up_to_date: "delivered hb hb' w \<Longrightarrow> up_to_date hb' w"
  by (simp add: delivered_def)

lemma delivered_same: "delivered hb hb' w \<Longrightarrow> up_to_date hb w \<Longrightarrow> stored hb' w = stored hb w"
  by (auto simp: delivered_def up_to_date_def)

lemma delivered_frame:
  assumes "stored hb1 w = stored hb w" and "stored hb2 w = stored hb' w"
  shows "delivered hb1 hb2 w = delivered hb hb' w"
  unfolding delivered_def up_to_date_def assms ..

text \<open>Two hubs differ in works of the given names at most.\<close>

definition same_but :: "(string \<times> string) set \<Rightarrow> hub \<Rightarrow> hub \<Rightarrow> bool" where
  "same_but K hb hb' \<longleftrightarrow> hb' = hb\<lparr>hub_works := hub_works hb'\<rparr> \<and>
     filter (\<lambda>x. key_of x \<notin> K) (hub_works hb') = filter (\<lambda>x. key_of x \<notin> K) (hub_works hb)"

lemma same_but_refl [simp]: "same_but K hb hb"
  by (simp add: same_but_def)

lemma same_but_clusters: "same_but K hb hb' \<Longrightarrow> hub_clusters hb' = hub_clusters hb"
  unfolding same_but_def by (metis hub.select_convs(1) hub.update_convs(3) hub.surjective)

lemma find_filter_same: "(\<And>x. P x \<Longrightarrow> Q x) \<Longrightarrow> find P (filter Q xs) = find P xs"
  by (induction xs) auto

lemma same_but_stored:
  assumes "same_but K hb hb'" and "key_of w \<notin> K"
  shows "stored hb' w = stored hb w"
  using assms find_filter_same [of "\<lambda>x. key_of x = key_of w" "\<lambda>x. key_of x \<notin> K"] unfolding same_but_def by metis

lemma same_but_trans:
  assumes "same_but K hb hb1" and "same_but L hb1 hb2" and "K \<subseteq> M" "L \<subseteq> M"
  shows "same_but M hb hb2"
proof -
  have mono: "filter (\<lambda>x. key_of x \<notin> M) xs = filter (\<lambda>x. key_of x \<notin> M) (filter (\<lambda>x. key_of x \<notin> N) xs)" if "N \<subseteq> M" for N and xs :: "ManifestWork list"
    using that by (auto intro!: filter_cong)
  have "filter (\<lambda>x. key_of x \<notin> M) (hub_works hb2) = filter (\<lambda>x. key_of x \<notin> M) (hub_works hb)"
    using assms mono [OF assms(3)] mono [OF assms(4)] unfolding same_but_def by metis
  moreover have "hb2 = hb\<lparr>hub_works := hub_works hb2\<rparr>"
    using assms(1,2) unfolding same_but_def by (metis hub.fold_congs(3) hub.surjective hub.update_convs(3))
  ultimately show ?thesis by (simp add: same_but_def)
qed

text \<open>The calls that were added are no writes.\<close>

definition silent :: "call list \<Rightarrow> call list \<Rightarrow> bool" where
  "silent h h' \<longleftrightarrow> (\<exists>cs. h' = h @ cs \<and> filter is_write cs = [])"

lemma silent_refl [simp]: "silent h h"
  by (simp add: silent_def)

lemma silent_step: "silent h h' \<Longrightarrow> \<not> is_write c \<Longrightarrow> silent h (h' @ [c])"
  by (auto simp: silent_def)

lemma silent_trans: "silent h h1 \<Longrightarrow> silent h1 h2 \<Longrightarrow> silent h h2"
  by (auto simp: silent_def)

section \<open>The laws\<close>

locale work_hub = hub_api +
  assumes list_klusterlet: "on_ListerKlusterletWorks srv h ns sel =
      Inr (filter (\<lambda>x. Namespace x = ns \<and> selected sel x) (hub_works (store h)))"
    and patched: "\<exists>c\<in>set (hub_clusters (store h)). Name c = Name mc \<Longrightarrow>
      on_PatchManagedCluster srv h mc (mc\<lparr>Finalizers := fs\<rparr>) = Inr (mc\<lparr>Finalizers := fs\<rparr>)"
    and create_work: "\<lbrakk>\<forall>x\<in>set (hub_works (store h)). key_of x \<noteq> key_of w; \<not> deleting w\<rbrakk> \<Longrightarrow>
      on_write srv h (CreateManifestWork w) = None \<and> (\<exists>uid rv. store (h @ [Write (CreateManifestWork w)]) =
        (store h)\<lparr>hub_works := hub_works (store h) @ [w\<lparr>ObjUID := uid, ResourceVersion := rv\<rparr>]\<rparr>)"
    and update_work: "\<lbrakk>x \<in> set (hub_works (store h)); key_of x = key_of w; DeletionTimestamp w = DeletionTimestamp x;
      Finalizers w = Finalizers x\<rbrakk> \<Longrightarrow>
      on_write srv h (UpdateManifestWork w) = None \<and> (\<exists>rv. store (h @ [Write (UpdateManifestWork w)]) =
        (store h)\<lparr>hub_works := map (\<lambda>y. if key_of y = key_of w then w\<lparr>ResourceVersion := rv\<rparr> else y) (hub_works (store h))\<rparr>)"

text \<open>The finalizers of a cluster once the controller has found \<open>k\<close> klusterlet works.\<close>

definition required_finalizers :: "nat \<Rightarrow> ManagedCluster \<Rightarrow> string list" where
  "required_finalizers k mc =
     (if k = 0 then filter (\<lambda>f. f \<noteq> ManifestWorkFinalizer) (Finalizers mc)
      else if ManifestWorkFinalizer \<in> set (Finalizers mc) then Finalizers mc
      else Finalizers mc @ [ManifestWorkFinalizer])"

definition klusterlet_works :: "string \<Rightarrow> hub \<Rightarrow> ManifestWork list" where
  "klusterlet_works n hb =
     filter (\<lambda>x. Namespace x = n \<and> selected (Some (KlusterletWorksLabel, LabelValueTrue)) x) (hub_works hb)"

lemma find_set_finalizers:
  "find (\<lambda>c. Name c = n) cs = Some mc \<Longrightarrow> \<not> deleting mc \<Longrightarrow>
   find (\<lambda>c. Name c = n) (set_finalizers (\<lambda>c. Name c = n) fs cs) = Some (mc\<lparr>Finalizers := fs\<rparr>)"
  by (induction cs) (auto simp: set_finalizers_def settle_def deleting_def split: if_splits)

text \<open>
  The cluster \<open>mc\<close> is served by the controller, and its import secret asks for the works \<open>ws\<close>. Kubernetes
  gives a cluster, which has no namespace, a unique identifier that does not end in a hyphen.
\<close>

definition owned :: "ManagedCluster \<Rightarrow> ManifestWork \<Rightarrow> ManifestWork" where
  "owned mc w = w\<lparr>OwnerReferences := [controllerRef mc]\<rparr>"

definition wants_works :: "server \<Rightarrow> codec \<Rightarrow> string \<Rightarrow> ManagedCluster \<Rightarrow> Secret \<Rightarrow> ManifestWork list \<Rightarrow> bool" where
  "wants_works srv cd n mc s ws \<longleftrightarrow> visits_once srv \<and>
     Namespace mc = [] \<and> \<not> HasSuffix (ObjUID mc) ''-'' \<and>
     \<not> deleting mc \<and> \<not> IsHostedCluster mc \<and> \<not> autoImportDisabled mc \<and>
     (\<forall>h. on_ListerImportSecret srv h n (n @ ''-'' @ ImportSecretNameSuffix) = Inr s) \<and>
     ValidateImportSecret s = None \<and> createManifestWorks cd mc s = Some (map ManifestWorkObj ws)"

lemma plain_label [simp]: "plain_keys (fmupd KlusterletWorksLabel LabelValueTrue fmempty)"
proof -
  have "\<not> HasSuffix KlusterletWorksLabel ''-''" by code_simp
  then show ?thesis by (simp add: plain_keys_def haskey_def)
qed

lemma made_work:
  assumes "w = ObjectMeta.extend (klusterlet_work_meta mc suffix a) x" and "a = fmempty \<or> a = last_to_be_deleted"
  shows "Namespace w = Name mc \<and> Name w = Name mc @ ''-'' @ suffix \<and> OwnerReferences w = [] \<and> \<not> deleting w \<and>
    Labels w = fmap_of_list [(KlusterletWorksLabel, LabelValueTrue)] \<and> plain_keys (Labels w) \<and> plain_keys (Annotations w)"
proof -
  have "\<not> HasSuffix KlusterletWorksLabel ''-''" "\<not> HasSuffix CleanupPriorityAnnotationKey ''-''" by code_simp+
  with assms show ?thesis
    by (auto simp: klusterlet_work_meta_def new_meta_def ObjectMeta.defs deleting_def plain_keys_def haskey_def
        last_to_be_deleted_def fmlookup_of_list split: if_splits)
qed

lemma made_works:
  assumes "createManifestWorks cd mc s = Some (map ManifestWorkObj ws)"
  shows "ws \<noteq> [] \<and> distinct (map key_of ws) \<and> (\<forall>w\<in>set ws. Namespace w = Name mc \<and> OwnerReferences w = [] \<and>
    \<not> deleting w \<and> Labels w = fmap_of_list [(KlusterletWorksLabel, LabelValueTrue)] \<and>
    plain_keys (Labels w) \<and> plain_keys (Annotations w))"
proof -
  let ?crd = "goidx (Data s) ImportSecretCRDSYamlKey" and ?yaml = "goidx (Data s) ImportSecretImportYamlKey"
  from assms obtain k cs where k: "klusterlet_work cd mc ?crd ?yaml = Some k" and ws: "ws = cs @ [k]"
    and cs: "cs = [] \<or> (\<exists>w. crd_work cd mc ?crd = Some w \<and> cs = [w])"
    by (auto simp: createManifestWorks_def Let_def map_eq_append_conv split: option.splits if_splits)
  from k obtain a x where "k = ObjectMeta.extend (klusterlet_work_meta mc KlusterletSuffix a) x" "a = fmempty \<or> a = last_to_be_deleted"
    by (auto simp: klusterlet_work_def split: option.splits if_splits)
  note k = made_work [OF this]
  have crd: "Namespace w = Name mc \<and> Name w = Name mc @ ''-'' @ KlusterletCRDsSuffix \<and> OwnerReferences w = [] \<and> \<not> deleting w \<and>
      Labels w = fmap_of_list [(KlusterletWorksLabel, LabelValueTrue)] \<and> plain_keys (Labels w) \<and> plain_keys (Annotations w)"
    if "crd_work cd mc ?crd = Some w" for w
  proof -
    from that obtain x where "w = ObjectMeta.extend (klusterlet_work_meta mc KlusterletCRDsSuffix last_to_be_deleted) x"
      by (auto simp: crd_work_def split: option.splits)
    from made_work [OF this] show ?thesis by blast
  qed
  have "KlusterletSuffix \<noteq> KlusterletCRDsSuffix" by code_simp
  with cs show ?thesis unfolding ws
  proof (elim disjE exE conjE)
    fix w
    assume "crd_work cd mc ?crd = Some w" "cs = [w]"
    with crd k \<open>KlusterletSuffix \<noteq> _\<close> show "cs @ [k] \<noteq> [] \<and> distinct (map key_of (cs @ [k])) \<and>
      (\<forall>w\<in>set (cs @ [k]). Namespace w = Name mc \<and> OwnerReferences w = [] \<and> \<not> deleting w \<and>
      Labels w = fmap_of_list [(KlusterletWorksLabel, LabelValueTrue)] \<and> plain_keys (Labels w) \<and> plain_keys (Annotations w))"
      by (simp add: key_of_def)
  qed (use k in simp)
qed

lemma works_only:
  assumes "createManifestWorks cd mc s = Some objs"
  shows "\<exists>ws. objs = map ManifestWorkObj ws"
proof -
  from assms obtain k where "objs = [ManifestWorkObj k] \<or> (\<exists>w. objs = [ManifestWorkObj w, ManifestWorkObj k])"
    by (auto simp: createManifestWorks_def Let_def split: option.splits if_splits)
  then have "objs = map ManifestWorkObj [k] \<or> (\<exists>w. objs = map ManifestWorkObj [w, k])" by simp
  then show ?thesis by blast
qed

lemma createManifestWorks_finalizers:
  "createManifestWorks cd (mc\<lparr>Finalizers := fs\<rparr>) s = createManifestWorks cd mc s"
proof -
  have m: "klusterlet_work_meta (mc\<lparr>Finalizers := fs\<rparr>) = klusterlet_work_meta mc"
    "buildManifestConfigs cd (mc\<lparr>Finalizers := fs\<rparr>) = buildManifestConfigs cd mc"
    by (simp_all add: fun_eq_iff klusterlet_work_meta_def buildManifestConfigs_def autoImportDisabled_def)
  show ?thesis unfolding createManifestWorks_def crd_work_def klusterlet_work_def m by (rule refl)
qed

lemma wants_works_finalizers [simp]: "wants_works srv cd n (mc\<lparr>Finalizers := fs\<rparr>) s ws = wants_works srv cd n mc s ws"
  by (simp add: wants_works_def createManifestWorks_finalizers IsHostedCluster_def DetermineKlusterletMode_def
      autoImportDisabled_def deleting_def)

lemma controllerRef_finalizers [simp]: "owned (mc\<lparr>Finalizers := fs\<rparr>) w = owned mc w"
  by (simp add: owned_def controllerRef_def)

lemma wants_worksD:
  assumes "wants_works srv cd n mc s ws"
  shows "createManifestWorks cd (mc\<lparr>Finalizers := fs\<rparr>) s = Some (map ManifestWorkObj ws)" "ValidateImportSecret s = None"
    "on_ListerImportSecret srv h n (n @ ''-'' @ ImportSecretNameSuffix) = Inr s" "distinct (map key_of ws)"
    "w \<in> set ws \<Longrightarrow> own_obj (mc\<lparr>Finalizers := fs\<rparr>) (ManifestWorkObj w) = Inr (ManifestWorkObj (owned mc w)) \<and>
      plain_work srv (owned mc w) \<and> \<not> deleting w"
proof -
  have "ParseGroup ''cluster.open-cluster-management.io/v1'' \<noteq> None" by code_simp
  moreover have "createManifestWorks cd mc s = Some (map ManifestWorkObj ws)" using assms by (simp add: wants_works_def)
  ultimately show "w \<in> set ws \<Longrightarrow> own_obj (mc\<lparr>Finalizers := fs\<rparr>) (ManifestWorkObj w) = Inr (ManifestWorkObj (owned mc w)) \<and>
      plain_work srv (owned mc w) \<and> \<not> deleting w"
    using made_works assms
    by (auto simp: wants_works_def SetControllerReference_def validateOwner_def GetControllerOf_def owned_def controllerRef_def
        plain_work_def plain_refs_def deleting_def)
qed (use assms made_works in \<open>auto simp: wants_works_def createManifestWorks_finalizers\<close>)

section \<open>Applying works\<close>

lemma meta_current_ids [simp]:
  "meta_current (x\<lparr>ObjUID := u\<rparr>) w = meta_current x w"
  "meta_current (x\<lparr>ResourceVersion := v\<rparr>) w = meta_current x w"
  by (simp_all add: meta_current_def)

lemma key_of_ids [simp]:
  "key_of (x\<lparr>ObjUID := u\<rparr>) = key_of x" "key_of (x\<lparr>ResourceVersion := v\<rparr>) = key_of x"
  by (simp_all add: key_of_def)

lemma find_replaced:
  "key_of y = k \<Longrightarrow> find (\<lambda>x. key_of x = k) xs = Some x \<Longrightarrow>
   find (\<lambda>x. key_of x = k) (map (\<lambda>x. if key_of x = k then y else x) xs) = Some y"
  by (induction xs) (auto split: if_splits)

lemma find_snoc: "find P xs = None \<Longrightarrow> P x \<Longrightarrow> find P (xs @ [x]) = Some x"
  by (induction xs) (auto split: if_splits)

lemma filter_replaced:
  "key_of y = k \<Longrightarrow> filter (\<lambda>x. key_of x \<noteq> k) (map (\<lambda>x. if key_of x = k then y else x) xs) = filter (\<lambda>x. key_of x \<noteq> k) xs"
  by (induction xs) auto

context work_hub
begin

lemma found_work:
  "answers (on_GetManifestWork srv h (Namespace w) (Name w)) (find (\<lambda>x. key_of x = key_of w) (hub_works (store h)))"
proof -
  have "named (Namespace w) (Name w) = (\<lambda>x :: ManifestWork. key_of x = key_of w)"
    by (simp add: fun_eq_iff named_key) (simp add: key_of_def)
  with get_work [of h "Namespace w" "Name w"] show ?thesis by simp
qed

lemma last_event: "\<not> is_write e \<Longrightarrow> store (h @ [a, b, e]) = store ((h @ [a]) @ [b])"
  using no_write [of e "h @ [a, b]"] by simp

lemma created:
  assumes "find (\<lambda>x. key_of x = key_of w) (hub_works (store h)) = None" and "\<not> deleting w" and "plain_work srv w"
  shows "on_write srv h (CreateManifestWork w) = None \<and>
    same_but {key_of w} (store h) (store (h @ [Write (CreateManifestWork w)])) \<and>
    delivered (store h) (store (h @ [Write (CreateManifestWork w)])) w"
proof -
  have "work_merged srv h w w = None" by (rule work.created_stable [OF assms(3)])
  then have cur: "meta_current w w" by (simp add: work_merged_plain [OF assms(3)] split: if_splits)
  from assms(1) have "\<forall>x\<in>set (hub_works (store h)). key_of x \<noteq> key_of w" by (simp add: find_None_iff)
  from create_work [OF this assms(2)] obtain uid rv where ok: "on_write srv h (CreateManifestWork w) = None"
    and st: "store (h @ [Write (CreateManifestWork w)]) =
      (store h)\<lparr>hub_works := hub_works (store h) @ [w\<lparr>ObjUID := uid, ResourceVersion := rv\<rparr>]\<rparr>" by auto
  have "find (\<lambda>x. key_of x = key_of w) (hub_works (store h) @ [w\<lparr>ObjUID := uid, ResourceVersion := rv\<rparr>]) =
      Some (w\<lparr>ObjUID := uid, ResourceVersion := rv\<rparr>)"
    by (rule find_snoc [OF assms(1)]) simp
  with ok cur assms(1) show ?thesis by (auto simp add: st same_but_def up_to_date_def delivered_def)
qed

lemma updated:
  assumes "find (\<lambda>x. key_of x = key_of w) (hub_works (store h)) = Some x" and "plain_work srv w"
    and "work_merged srv g x w = Some new" and "\<not> up_to_date (store h) w"
  shows "on_write srv h (UpdateManifestWork new) = None \<and>
    same_but {key_of w} (store h) (store (h @ [Write (UpdateManifestWork new)])) \<and>
    delivered (store h) (store (h @ [Write (UpdateManifestWork new)])) w"
proof -
  from find_SomeD [OF assms(1)] have x: "x \<in> set (hub_works (store h))" "key_of x = key_of w" by auto
  from assms(3) have new: "new = (meta_merge x w)\<lparr>Manifests := Manifests w, ManifestConfigs := ManifestConfigs w, DeleteOption := DeleteOption w\<rparr>"
    by (simp add: work_merged_plain [OF assms(2)] split: if_splits)
  with x(2) have n: "key_of new = key_of w" "DeletionTimestamp new = DeletionTimestamp x" "Finalizers new = Finalizers x"
    by (auto simp: meta_merge_def key_of_def)
  have cur: "meta_current new w" unfolding new by (rule meta_current_merge) (use assms(2) in \<open>simp add: plain_work_def\<close>)
  from update_work [OF x(1) _ n(2,3)] x(2) n(1) obtain rv where ok: "on_write srv h (UpdateManifestWork new) = None"
    and st: "store (h @ [Write (UpdateManifestWork new)]) =
      (store h)\<lparr>hub_works := map (\<lambda>y. if key_of y = key_of w then new\<lparr>ResourceVersion := rv\<rparr> else y) (hub_works (store h))\<rparr>"
    by auto
  from n(1) have k: "key_of (new\<lparr>ResourceVersion := rv\<rparr>) = key_of w" by simp
  have up: "up_to_date (store (h @ [Write (UpdateManifestWork new)])) w"
    using find_replaced [OF k assms(1)] cur by (simp add: st up_to_date_def) (simp add: new)
  have "stored (store (h @ [Write (UpdateManifestWork new)])) w = Some (new\<lparr>ResourceVersion := rv\<rparr>)"
    using find_replaced [OF k assms(1)] by (simp add: st)
  with up have "delivered (store h) (store (h @ [Write (UpdateManifestWork new)])) w"
    unfolding delivered_def assms(1) option.case using assms(4) new by auto
  with filter_replaced [OF k] ok show ?thesis by (simp add: st same_but_def)
qed

lemma apply_work:
  assumes plain: "plain_work srv w" and d: "\<not> deleting w"
  shows "wp (applyManifestWork srv w) (\<lambda>r h'. snd r = None \<and> same_but {key_of w} (store h) (store h') \<and>
    delivered (store h) (store h') w \<and> (up_to_date (store h) w \<longrightarrow> silent h h')) h"
proof (cases "find (\<lambda>x. key_of x = key_of w) (hub_works (store h))")
  case None
  let ?h1 = "h @ [Read (GetManifestWork (Namespace w) (Name w))]"
  from found_work [of h w] None obtain e where "on_GetManifestWork srv h (Namespace w) (Name w) = Inl e" "IsNotFound e" by auto
  moreover from None have "\<not> up_to_date (store h) w" by (simp add: up_to_date_def)
  ultimately show ?thesis
    unfolding work.wp_apply using created [OF _ d plain, of ?h1] None
    by (simp add: last_event work.event_no_write del: append_assoc)
next
  case (Some x)
  let ?h1 = "h @ [Read (GetManifestWork (Namespace w) (Name w))]"
  from found_work [of h w] Some have get: "on_GetManifestWork srv h (Namespace w) (Name w) = Inr x" by simp
  show ?thesis
  proof (cases "work_merged srv ?h1 x w")
    case None
    with plain have "up_to_date (store h) w" using Some by (auto simp: up_to_date_def work_merged_plain split: if_splits)
    with get None Some show ?thesis unfolding work.wp_apply by (simp add: silent_step delivered_def)
  next
    case new: (Some new)
    with plain Some have "\<not> up_to_date (store h) w" by (auto simp: up_to_date_def work_merged_plain split: if_splits)
    with get new show ?thesis
      unfolding work.wp_apply using updated [OF _ plain new, of ?h1] Some
      by (simp add: last_event work.event_no_write del: append_assoc)
  qed
qed

text \<open>The works of a list, each with the cluster as its owner.\<close>

lemma apply_works:
  assumes "\<And>w. w \<in> set ws \<Longrightarrow> own_obj mc (ManifestWorkObj w) = Inr (ManifestWorkObj (owned mc w)) \<and>
      plain_work srv (owned mc w) \<and> \<not> deleting w" and "distinct (map key_of ws)"
  shows "wp (apply_objs srv Hub (Some mc) (map ManifestWorkObj ws) changed errs) (\<lambda>r h'.
      snd r = NewAggregate errs \<and> same_but (key_of ` set ws) (store h) (store h') \<and>
      (\<forall>w\<in>set ws. delivered (store h) (store h') (owned mc w)) \<and>
      ((\<forall>w\<in>set ws. up_to_date (store h) (owned mc w)) \<longrightarrow> silent h h')) h"
  using assms
proof (induction ws arbitrary: changed errs h)
  case (Cons w ws)
  note w = Cons.prems(1) [OF list.set_intros(1)]
  have k: "key_of (owned mc x) = key_of x" "deleting (owned mc x) = deleting x" for x
    by (simp_all add: owned_def key_of_def deleting_def)
  have step: "wp (apply_objs srv Hub (Some mc) (map ManifestWorkObj ws) changed' (errs @ [None])) (\<lambda>r h'.
      snd r = NewAggregate errs \<and> same_but (key_of ` set (w # ws)) (store h) (store h') \<and>
      (\<forall>w\<in>set (w # ws). delivered (store h) (store h') (owned mc w)) \<and>
      ((\<forall>w\<in>set (w # ws). up_to_date (store h) (owned mc w)) \<longrightarrow> silent h h')) h1"
    if s1: "same_but {key_of w} (store h) (store h1)" and u1: "delivered (store h) (store h1) (owned mc w)"
      and q1: "up_to_date (store h) (owned mc w) \<longrightarrow> silent h h1" for changed' h1
  proof (rule wp_mono [OF Cons.IH [where errs = "errs @ [None]" and h = h1 and changed = changed']])
    fix r h'
    assume post: "snd r = NewAggregate (errs @ [None]) \<and> same_but (key_of ` set ws) (store h1) (store h') \<and>
        (\<forall>w\<in>set ws. delivered (store h1) (store h') (owned mc w)) \<and>
        ((\<forall>w\<in>set ws. up_to_date (store h1) (owned mc w)) \<longrightarrow> silent h1 h')"
    have others: "stored (store h1) (owned mc x) = stored (store h) (owned mc x)" if "x \<in> set ws" for x
    proof -
      from Cons.prems(2) that have "key_of x \<noteq> key_of w" by (simp add: image_iff) metis
      then show ?thesis using same_but_stored [OF s1, of "owned mc x"] by (simp add: k)
    qed
    then have up: "up_to_date (store h1) (owned mc x) = up_to_date (store h) (owned mc x)" if "x \<in> set ws" for x
      using that by (simp add: up_to_date_def)
    have rest: "delivered (store h) (store h') (owned mc x)" if "x \<in> set ws" for x
      using delivered_frame [OF others [OF that] refl] post that by blast
    have "stored (store h') (owned mc w) = stored (store h1) (owned mc w)"
      using same_but_stored [of "key_of ` set ws" "store h1" "store h'" "owned mc w"] post Cons.prems(2) by (simp add: k)
    from delivered_frame [OF refl this] u1 have first: "delivered (store h) (store h') (owned mc w)" by blast
    moreover have "same_but (key_of ` set (w # ws)) (store h) (store h')"
      using same_but_trans [OF s1, of "key_of ` set ws" "store h'"] post by auto
    ultimately show "snd r = NewAggregate errs \<and> same_but (key_of ` set (w # ws)) (store h) (store h') \<and>
        (\<forall>w\<in>set (w # ws). delivered (store h) (store h') (owned mc w)) \<and>
        ((\<forall>w\<in>set (w # ws). up_to_date (store h) (owned mc w)) \<longrightarrow> silent h h')"
      using post q1 up rest first silent_trans [of h h1 h'] by (auto simp: NewAggregate_def)
  qed (use Cons.prems in auto)
  from w have "wp (applyManifestWork srv (owned mc w)) (\<lambda>r h'. snd r = None \<and>
      same_but {key_of w} (store h) (store h') \<and> delivered (store h) (store h') (owned mc w) \<and>
      (up_to_date (store h) (owned mc w) \<longrightarrow> silent h h')) h"
    using apply_work [of "owned mc w" h] by (simp add: k)
  then have "wp (applyManifestWork srv (owned mc w)) (\<lambda>r h1.
      wp (apply_objs srv Hub (Some mc) (map ManifestWorkObj ws) (changed \<or> fst r) (errs @ [snd r])) (\<lambda>r h'.
      snd r = NewAggregate errs \<and> same_but (key_of ` set (w # ws)) (store h) (store h') \<and>
      (\<forall>w\<in>set (w # ws). delivered (store h) (store h') (owned mc w)) \<and>
      ((\<forall>w\<in>set (w # ws). up_to_date (store h) (owned mc w)) \<longrightarrow> silent h h')) h1) h"
    by (rule wp_mono) (use step in auto)
  with w show ?case by (simp add: wp_simps split_beta del: own_obj.simps)
qed (simp add: wp_simps)

subsection \<open>The finalizer\<close>

abbreviation refinalized :: "string \<Rightarrow> string list \<Rightarrow> hub \<Rightarrow> hub" where
  "refinalized n fs hb \<equiv> hb\<lparr>hub_clusters := set_finalizers (\<lambda>c. Name c = n) fs (hub_clusters hb)\<rparr>"

lemma refinalized_same:
  assumes "find (\<lambda>c. Name c = n) (hub_clusters (store h)) = Some mc"
  shows "refinalized n (Finalizers mc) (store h) = store h"
proof -
  have "c = mc" if "c \<in> set (hub_clusters (store h))" "Name c = n" for c
    using that find_SomeD [OF assms] distinct_map_eq [OF names(4) [of h]] by metis
  then show ?thesis using set_finalizers_same [OF settled(4)] by simp
qed

lemma assert_finalizer:
  assumes found: "find (\<lambda>c. Name c = n) (hub_clusters (store h)) = Some mc" and "\<not> deleting mc"
  shows "wp (AssertManifestWorkFinalizer srv mc k) (\<lambda>r h'. r = Inr (mc\<lparr>Finalizers := required_finalizers k mc\<rparr>) \<and>
    store h' = refinalized n (required_finalizers k mc) (store h) \<and>
    (required_finalizers k mc = Finalizers mc \<longrightarrow> silent h h')) h"
proof -
  from find_SomeD [OF found] have n: "Name mc = n" and mem: "\<exists>c\<in>set (hub_clusters (store h)). Name c = Name mc" by auto
  from n have p: "store (h @ [Write (PatchManagedCluster mc (mc\<lparr>Finalizers := fs\<rparr>))]) = refinalized n fs (store h)"
    "on_PatchManagedCluster srv h mc (mc\<lparr>Finalizers := fs\<rparr>) = Inr (mc\<lparr>Finalizers := fs\<rparr>)" for fs
    using patch_cluster [OF mem] patched [OF mem] by auto
  have e: "store (h @ [c, Event a b]) = store (h @ [c])" for c a b
    using no_write [of "Event a b" "h @ [c]"] by simp
  have len: "length (Finalizers mc) = length (filter (\<lambda>x. x \<noteq> f) (Finalizers mc)) \<longleftrightarrow>
      filter (\<lambda>x. x \<noteq> f) (Finalizers mc) = Finalizers mc" for f
    using filter_length_eq [of "\<lambda>x. x \<noteq> f" "Finalizers mc"] by auto
  have same: "mc\<lparr>Finalizers := Finalizers mc\<rparr> = mc" by simp
  show ?thesis
    unfolding AssertManifestWorkFinalizer_def RemoveManagedClusterFinalizer_def AddManagedClusterFinalizer_def
      Let_def required_finalizers_def len
    using assms(2) refinalized_same [OF found]
    by (auto simp: wp_simps p e same simp del: append_assoc)
qed

subsection \<open>A run\<close>

lemma delivery_run:
  assumes found: "find (\<lambda>c. Name c = n) (hub_clusters (store h)) = Some mc" and want: "wants_works srv cd n mc s ws"
  defines "fs \<equiv> required_finalizers (length (klusterlet_works n (store h))) mc"
  shows "wp (manifestwork_Reconcile srv cd n) (\<lambda>r h'. r = done_ok \<and>
    same_but (key_of ` set ws) (refinalized n fs (store h)) (store h') \<and> (\<forall>w\<in>set ws. delivered (store h) (store h') (owned mc w)) \<and>
    (fs = Finalizers mc \<and> (\<forall>w\<in>set ws. up_to_date (store h) (owned mc w)) \<longrightarrow> silent h h')) h"
proof -
  let ?h2 = "(h @ [Read (GetManagedCluster n)]) @ [Read (ListerKlusterletWorks n (Some (KlusterletWorksLabel, LabelValueTrue)))]"
  let ?mc = "mc\<lparr>Finalizers := fs\<rparr>"
  have st: "store ?h2 = store h" "store (h @ [Read (GetManagedCluster n)]) = store h"
    by (simp_all del: append_assoc)
  have get: "on_GetManagedCluster srv h n = Inr mc" by (rule found_cluster [OF found])
  have works: "on_ListerKlusterletWorks srv (h @ [Read (GetManagedCluster n)]) n (Some (KlusterletWorksLabel, LabelValueTrue)) =
      Inr (klusterlet_works n (store h))"
    by (simp add: list_klusterlet st klusterlet_works_def)
  note w = wants_worksD(1) [OF want, of fs] wants_worksD(2-4) [OF want] wants_worksD(5) [OF want, where fs = fs]
  have applied: "wp (apply_from_import_secret srv cd n ?mc) (\<lambda>r h'. r = done_ok \<and>
      same_but (key_of ` set ws) (refinalized n fs (store h)) (store h') \<and> (\<forall>w\<in>set ws. delivered (store h) (store h') (owned mc w)) \<and>
      (fs = Finalizers mc \<and> (\<forall>w\<in>set ws. up_to_date (store h) (owned mc w)) \<longrightarrow> silent h h')) h3"
    if h3: "store h3 = refinalized n fs (store h)" "fs = Finalizers mc \<longrightarrow> silent h h3" for h3
  proof -
    let ?h4 = "h3 @ [Read (ListerImportSecret n (n @ ''-'' @ ImportSecretNameSuffix))]"
    have up: "up_to_date (refinalized n fs (store h)) w = up_to_date (store h) w" for w by (simp add: up_to_date_def)
    have dl: "delivered (refinalized n fs (store h)) hb w = delivered (store h) hb w" for hb w
      by (rule delivered_frame) simp_all
    from h3 have "wp (ApplyResources srv Hub (Some ?mc) (map ManifestWorkObj ws)) (\<lambda>r h'. snd r = None \<and>
      same_but (key_of ` set ws) (refinalized n fs (store h)) (store h') \<and> (\<forall>w\<in>set ws. delivered (store h) (store h') (owned mc w)) \<and>
      (fs = Finalizers mc \<and> (\<forall>w\<in>set ws. up_to_date (store h) (owned mc w)) \<longrightarrow> silent h h')) ?h4"
      unfolding ApplyResources_def
    proof (intro wp_mono [OF apply_works [where ws = ws and mc = ?mc and h = ?h4]])
      have "silent h ?h4" if "fs = Finalizers mc" using h3(2) that by (simp add: silent_step)
      then have "silent h h'" if "fs = Finalizers mc" "silent ?h4 h'" for h' using that silent_trans by blast
      then show "snd r = None \<and> same_but (key_of ` set ws) (refinalized n fs (store h)) (store h') \<and>
          (\<forall>w\<in>set ws. delivered (store h) (store h') (owned mc w)) \<and>
          (fs = Finalizers mc \<and> (\<forall>w\<in>set ws. up_to_date (store h) (owned mc w)) \<longrightarrow> silent h h')"
        if "snd r = NewAggregate [] \<and> same_but (key_of ` set ws) (store ?h4) (store h') \<and>
          (\<forall>w\<in>set ws. delivered (store ?h4) (store h') (owned ?mc w)) \<and>
          ((\<forall>w\<in>set ws. up_to_date (store ?h4) (owned ?mc w)) \<longrightarrow> silent ?h4 h')" for r h'
        using that h3(1) up dl by (simp add: NewAggregate_def)
    qed (use w in \<open>simp_all del: own_obj.simps\<close>)
    then show ?thesis
      unfolding apply_from_import_secret_def using w by (auto simp: wp_simps split_beta intro: wp_mono)
  qed
  have "find (\<lambda>c. Name c = n) (hub_clusters (store ?h2)) = Some mc" "\<not> deleting mc"
    using found want st(1) by (simp_all add: wants_works_def)
  from assert_finalizer [OF this, of "length (klusterlet_works n (store h))"]
  have fin: "wp (AssertManifestWorkFinalizer srv mc (length (klusterlet_works n (store h)))) (\<lambda>r h3. r = Inr ?mc \<and>
      store h3 = refinalized n fs (store h) \<and> (fs = Finalizers mc \<longrightarrow> silent h h3)) ?h2"
    unfolding st(1) fs_def [symmetric]
    by (rule wp_mono) (use silent_trans [of h ?h2] silent_step [of h] in \<open>auto simp del: append_assoc\<close>)
  from want show ?thesis
    unfolding manifestwork_Reconcile_def wants_works_def
    by (simp add: wp_simps get works del: append_assoc)
      (rule wp_mono [OF fin], use applied want in \<open>auto simp: wants_works_def autoImportDisabled_def\<close>)
qed

text \<open>What a run leaves: the cluster with its finalizer and the works, of which there is at least one.\<close>

lemma delivery_step:
  assumes found: "find (\<lambda>c. Name c = n) (hub_clusters (store h)) = Some mc" and want: "wants_works srv cd n mc s ws"
  defines "h' \<equiv> snd (run_state (manifestwork_Reconcile srv cd n) h)"
    and "fs \<equiv> required_finalizers (length (klusterlet_works n (store h))) mc"
  shows "result (manifestwork_Reconcile srv cd n) h = done_ok"
    and "find (\<lambda>c. Name c = n) (hub_clusters (store h')) = Some (mc\<lparr>Finalizers := fs\<rparr>)"
    and "\<forall>w\<in>set ws. delivered (store h) (store h') (owned mc w)" and "klusterlet_works n (store h') \<noteq> []"
    and "filter (\<lambda>x. key_of x \<notin> key_of ` set ws) (hub_works (store h')) = filter (\<lambda>x. key_of x \<notin> key_of ` set ws) (hub_works (store h))"
    and "fs = Finalizers mc \<Longrightarrow> \<forall>w\<in>set ws. up_to_date (store h) (owned mc w) \<Longrightarrow> silent h h'"
proof -
  from delivery_run [OF found want] have run: "result (manifestwork_Reconcile srv cd n) h = done_ok"
    "same_but (key_of ` set ws) (refinalized n fs (store h)) (store h')" "\<forall>w\<in>set ws. delivered (store h) (store h') (owned mc w)"
    "fs = Finalizers mc \<Longrightarrow> \<forall>w\<in>set ws. up_to_date (store h) (owned mc w) \<Longrightarrow> silent h h'"
    by (simp_all add: wp_run result_def h'_def fs_def)
  from run show "result (manifestwork_Reconcile srv cd n) h = done_ok" "\<forall>w\<in>set ws. delivered (store h) (store h') (owned mc w)"
    "fs = Finalizers mc \<Longrightarrow> \<forall>w\<in>set ws. up_to_date (store h) (owned mc w) \<Longrightarrow> silent h h'" by simp_all
  from run(2) show "filter (\<lambda>x. key_of x \<notin> key_of ` set ws) (hub_works (store h')) = filter (\<lambda>x. key_of x \<notin> key_of ` set ws) (hub_works (store h))"
    by (simp add: same_but_def)
  from find_SomeD [OF found] have n: "Name mc = n" by simp
  have "\<not> deleting mc" and made: "createManifestWorks cd mc s = Some (map ManifestWorkObj ws)" using want by (simp_all add: wants_works_def)
  then show "find (\<lambda>c. Name c = n) (hub_clusters (store h')) = Some (mc\<lparr>Finalizers := fs\<rparr>)"
    using same_but_clusters [OF run(2)] find_set_finalizers [OF found] by simp
  from made_works [OF made] obtain w where w: "w \<in> set ws" "Namespace w = Name mc"
    "Labels w = fmap_of_list [(KlusterletWorksLabel, LabelValueTrue)]" by (cases ws) auto
  from bspec [OF run(3) w(1)] obtain x where f: "find (\<lambda>x. key_of x = key_of (owned mc w)) (hub_works (store h')) = Some x"
    and cur: "meta_current x (owned mc w)" by (auto simp: delivered_def up_to_date_def)
  from find_SomeD [OF f] have "x \<in> set (hub_works (store h'))" "key_of x = key_of (owned mc w)" by auto
  moreover from cur w(3) have "fmlookup (Labels x) KlusterletWorksLabel = Some LabelValueTrue"
    by (simp add: meta_current_def owned_def)
  ultimately show "klusterlet_works n (store h') \<noteq> []"
    using w(2) n by (auto simp: klusterlet_works_def filter_empty_conv key_of_def owned_def)
qed

end

section \<open>The hub keeps to the laws\<close>

text \<open>The server of Detachment, with a cache of works and an import secret.\<close>

definition work_server :: "hub \<Rightarrow> err + Secret \<Rightarrow> server" where
  "work_server hb s = (hub_server hb)\<lparr>
     on_ListerKlusterletWorks := (\<lambda>h ns sel. Inr (filter (\<lambda>x. Namespace x = ns \<and> selected sel x) (hub_works (hub_store hb h)))),
     on_ListerImportSecret := (\<lambda>h ns n. s)\<rparr>"

lemma replaced_works:
  assumes "settled xs" "distinct_names xs" "x \<in> set xs" "key_of x = key_of w"
    and "DeletionTimestamp w = DeletionTimestamp x" "Finalizers w = Finalizers x"
  shows "settle (map (replaced w) xs) = map (\<lambda>y. if key_of y = key_of w then w else y) xs"
proof -
  have "replaced w y = (if key_of y = key_of w then w else y)" if "y \<in> set xs" for y
    using that assms distinct_names_eq [OF assms(2) that assms(3), of "Namespace w" "Name w"]
    by (auto simp: replaced_def named_key key_of_def)
  then have "map (replaced w) xs = map (\<lambda>y. if key_of y = key_of w then w else y) xs" by simp
  moreover have "\<not> (deleting w \<and> Finalizers w = [])"
    using assms(1,3,5,6) by (auto simp: settled_iff deleting_def)
  ultimately have "settle (map (replaced w) xs) = map (replaced w) xs"
    using assms(1) \<open>map (replaced w) xs = _\<close> by (auto simp: settle_def settled_iff filter_id_conv)
  with \<open>map (replaced w) xs = _\<close> show ?thesis by simp
qed

interpretation works: work_hub "work_server hb s" "hub_store hb" for hb s
proof -
  note ok = hub_ok_store [of hb, unfolded hub_ok_def]
  have u: "effect (Write (UpdateManifestWork w)) (hub_store hb h) = (hub_store hb h)\<lparr>hub_works :=
      map (\<lambda>y. if key_of y = key_of w then w\<lparr>ResourceVersion := ResourceVersion w\<rparr> else y) (hub_works (hub_store hb h))\<rparr>"
    if "x \<in> set (hub_works (hub_store hb h))" "key_of x = key_of w" "DeletionTimestamp w = DeletionTimestamp x" "Finalizers w = Finalizers x"
    for h w x
    using replaced_works [OF _ _ that] ok by (simp cong: if_cong)
  have c: "effect (Write (CreateManifestWork w)) (hub_store hb h) =
      (hub_store hb h)\<lparr>hub_works := hub_works (hub_store hb h) @ [w\<lparr>ObjUID := ObjUID w, ResourceVersion := ResourceVersion w\<rparr>]\<rparr>"
    if "\<forall>x\<in>set (hub_works (hub_store hb h)). key_of x \<noteq> key_of w" "\<not> deleting w" for h w
    using that by (auto simp: named_key key_of_def deleting_def)
  have "hub_api (work_server hb s) (hub_store hb)"
    using ok by unfold_locales (auto simp: work_server_def hub_server_def answers_reply store_step effect_read reconditioned_def)
  then show "work_hub (work_server hb s) (hub_store hb)"
  proof (intro work_hub.intro work_hub_axioms.intro)
    show "on_write (work_server hb s) h (CreateManifestWork w) = None \<and>
        (\<exists>uid rv. hub_store hb (h @ [Write (CreateManifestWork w)]) =
          (hub_store hb h)\<lparr>hub_works := hub_works (hub_store hb h) @ [w\<lparr>ObjUID := uid, ResourceVersion := rv\<rparr>]\<rparr>)"
      if "\<forall>x\<in>set (hub_works (hub_store hb h)). key_of x \<noteq> key_of w" "\<not> deleting w" for h w
      unfolding store_step c [OF that]
      by (intro conjI exI [of _ "ObjUID w"] exI [of _ "ResourceVersion w"]) (simp_all add: work_server_def hub_server_def)
    show "on_write (work_server hb s) h (UpdateManifestWork w) = None \<and>
        (\<exists>rv. hub_store hb (h @ [Write (UpdateManifestWork w)]) = (hub_store hb h)\<lparr>hub_works :=
          map (\<lambda>y. if key_of y = key_of w then w\<lparr>ResourceVersion := rv\<rparr> else y) (hub_works (hub_store hb h))\<rparr>)"
      if "x \<in> set (hub_works (hub_store hb h))" "key_of x = key_of w" "DeletionTimestamp w = DeletionTimestamp x"
        "Finalizers w = Finalizers x" for h w x
      unfolding store_step u [OF that]
      by (intro conjI exI [of _ "ResourceVersion w"]) (simp_all add: work_server_def hub_server_def)
  qed (simp_all add: work_server_def hub_server_def)
qed

section \<open>Delivery\<close>

text \<open>
  C11. The manifest work controller converges on a hub where nothing else happens meanwhile. Its first run for
  a cluster with a valid import secret, neither hosted nor being deleted nor with automatic import disabled, delivers
  every work that the secret asks for: the hub has a work of its name with the required manifests and configurations,
  whose labels, annotations and owners include the required ones, the cluster being the owner. A work that was not
  there is created just as required; one that had all of this already stays as it is, also where its delete option
  differs; any other one also gets the required delete option and loses none of its labels and annotations but those
  that are overwritten. No other work is touched. The second run leaves these works alone and puts the work finalizer
  on the cluster, and the third one makes no write.
\<close>

theorem klusterlet_works_delivered:
  assumes "work_hub srv store" and "find (\<lambda>c. Name c = n) (hub_clusters (store h)) = Some mc"
    and "wants_works srv cd n mc s ws"
  shows "let run = \<lambda>h. snd (run_state (manifestwork_Reconcile srv cd n) h); h1 = run h; h2 = run h1 in
    result (manifestwork_Reconcile srv cd n) h = done_ok \<and> (\<forall>w\<in>set ws. delivered (store h) (store h1) (owned mc w)) \<and>
    filter (\<lambda>x. key_of x \<notin> key_of ` set ws) (hub_works (store h1)) = filter (\<lambda>x. key_of x \<notin> key_of ` set ws) (hub_works (store h)) \<and>
    (\<forall>w\<in>set ws. stored (store h2) (owned mc w) = stored (store h1) (owned mc w)) \<and>
    list_ex (\<lambda>c. Name c = n \<and> ManifestWorkFinalizer \<in> set (Finalizers c)) (hub_clusters (store h2)) \<and>
    filter is_write (new_calls (manifestwork_Reconcile srv cd n) h2) = []"
proof -
  let ?run = "\<lambda>h. snd (run_state (manifestwork_Reconcile srv cd n) h)" and ?k = "\<lambda>h. length (klusterlet_works n (store h))"
  note step = work_hub.delivery_step [OF assms(1)]
  note one = step [OF assms(2,3)]
  let ?mc1 = "mc\<lparr>Finalizers := required_finalizers (?k h) mc\<rparr>"
  have want1: "wants_works srv cd n ?mc1 s ws" using assms(3) by simp
  note two = step [OF one(2) want1]
  let ?mc2 = "?mc1\<lparr>Finalizers := required_finalizers (?k (?run h)) ?mc1\<rparr>"
  have want2: "wants_works srv cd n ?mc2 s ws" using assms(3) by simp
  have fin: "ManifestWorkFinalizer \<in> set (Finalizers ?mc2)" using one(4) by (auto simp: required_finalizers_def)
  have "required_finalizers (?k (?run (?run h))) ?mc2 = Finalizers ?mc2"
    using two(4) fin by (simp add: required_finalizers_def)
  moreover have "\<forall>w\<in>set ws. up_to_date (store (?run (?run h))) (owned mc w)"
    using two(3) by (auto dest: delivered_up_to_date)
  ultimately have "silent (?run (?run h)) (?run (?run (?run h)))"
    using step(6) [OF two(2) want2] by simp
  then have "filter is_write (new_calls (manifestwork_Reconcile srv cd n) (?run (?run h))) = []"
    by (auto simp: silent_def new_calls_def)
  moreover have "list_ex (\<lambda>c. Name c = n \<and> ManifestWorkFinalizer \<in> set (Finalizers c)) (hub_clusters (store (?run (?run h))))"
    using find_SomeD [OF two(2)] fin unfolding list_ex_iff by blast
  moreover have "\<forall>w\<in>set ws. stored (store (?run (?run h))) (owned mc w) = stored (store (?run h)) (owned mc w)"
    using two(3) one(3) by (auto intro: delivered_same dest: delivered_up_to_date)
  ultimately show ?thesis unfolding Let_def using one(1,3,5) by blast
qed

text \<open>A new cluster, where another work of its namespace stays as it is.\<close>

definition ready_hub :: hub where
  "ready_hub = no_hub\<lparr>hub_clusters := [new_cluster ''c1''], hub_works := [(hosting_work ''other'')\<lparr>Namespace := ''c1''\<rparr>]\<rparr>"

theorem klusterlet_works_delivered_witness:
  "let srv = work_server ready_hub (Inr sample_import_secret); run = \<lambda>h. snd (run_state (manifestwork_Reconcile srv sample_codec ''c1'') h) in
   map Name (hub_works (hub_store ready_hub (run []))) = [''other'', ''c1-klusterlet''] \<and>
   filter is_write (new_calls (manifestwork_Reconcile srv sample_codec ''c1'') (run (run []))) = []"
proof -
  let ?srv = "work_server ready_hub (Inr sample_import_secret)" and ?mc = "new_cluster ''c1''"
  have "createManifestWorks sample_codec ?mc sample_import_secret \<noteq> None" by code_simp
  then obtain ws where ws: "createManifestWorks sample_codec ?mc sample_import_secret = Some (map ManifestWorkObj ws)"
    using works_only by fast
  have "visits_once ?srv" using visits_once_empty_server by (simp add: visits_once_def work_server_def hub_server_def)
  moreover have "Namespace ?mc = []" "\<not> HasSuffix (ObjUID ?mc) ''-''" "\<not> deleting ?mc" "\<not> IsHostedCluster ?mc"
    "\<not> autoImportDisabled ?mc" "ValidateImportSecret sample_import_secret = None"
    by code_simp+
  ultimately have want: "wants_works ?srv sample_codec ''c1'' ?mc sample_import_secret ws"
    using ws by (simp add: wants_works_def work_server_def)
  have "find (\<lambda>c. Name c = ''c1'') (hub_clusters (hub_store ready_hub [])) = Some ?mc"
    and names: "map Name (hub_works (hub_store ready_hub
      (snd (run_state (manifestwork_Reconcile ?srv sample_codec ''c1'') [])))) = [''other'', ''c1-klusterlet'']"
    by code_simp+
  from names klusterlet_works_delivered [OF works.work_hub_axioms this(1) want] show ?thesis by (simp only: Let_def simp_thms)
qed

end
