(* ===== verification/Tls_Sync.thy ===== *)
theory Tls_Sync
  imports Server_Tls Watches
begin

text \<open>
  The process of the side car, \<open>Run\<close> in \<open>pkg/tlsprofilesync/sync.go\<close> and \<open>cmd/tls-profile-sync/main.go\<close>:
  its set-up, what its cache holds and which events wake its controller; and how the processes find their namespace. A step of the set-up is a
  call to a library; the error it gives, if any, is a parameter.
\<close>

section \<open>The set-up\<close>

datatype sidecar_step = KubeConfig | KubeClient | OpenShiftDiscovery | SidecarManager | SidecarController |
  WatchAPIServer | WatchProfileConfigMap | SidecarStart

text \<open>The steps with the words that their failure is reported with.\<close>

fun sidecar_setup :: "(sidecar_step \<Rightarrow> err option) \<Rightarrow> (sidecar_step \<times> string) list \<Rightarrow> err option" where
  "sidecar_setup fails [] = None"
| "sidecar_setup fails ((s, what) # steps) =
     (case fails s of
        Some e \<Rightarrow> Some (wrapped (''failed to '' @ what @ '': '') e)
      | None \<Rightarrow> sidecar_setup fails steps)"

text \<open>
  What the process does: it ends with an error before it serves, it waits for its end without doing
  anything, or its manager runs for a namespace, with the result of \<open>Start\<close>.
\<close>

datatype sidecar = NotStarted err | Sleeps | Serves string "err option"

definition Run :: "server \<Rightarrow> (string \<Rightarrow> string) \<Rightarrow> string \<Rightarrow> (sidecar_step \<Rightarrow> err option) \<Rightarrow> (call, sidecar) prog" where
  "Run srv trim env fails = do {
     namespace \<leftarrow> getNamespace srv trim env;
     return (
       if namespace = [] then
         NotStarted (ErrorString ''failed to determine namespace: set POD_NAMESPACE env or run in-cluster'')
       else (case sidecar_setup fails [
         (KubeConfig, ''get kubeconfig''), (KubeClient, ''create kubernetes client'')] of
         Some e \<Rightarrow> NotStarted e
       | None \<Rightarrow>
           if fails OpenShiftDiscovery \<noteq> None then Sleeps
           else (case sidecar_setup fails [
             (SidecarManager, ''create manager''), (SidecarController, ''create controller''),
             (WatchAPIServer, ''watch APIServer''), (WatchProfileConfigMap, ''watch ConfigMap'')] of
             Some e \<Rightarrow> NotStarted e
           | None \<Rightarrow> Serves namespace (fails SidecarStart)))) }"

text \<open>The exit code of the process, which ends when it is shut down or its manager ends.\<close>

fun exit_code :: "sidecar \<Rightarrow> nat" where
  "exit_code (NotStarted e) = 1"
| "exit_code Sleeps = 0"
| "exit_code (Serves namespace e) = (if e = None then 0 else 1)"

section \<open>What the controller sees\<close>

text \<open>The cache of the manager holds the config maps of the namespace alone.\<close>

fun cached :: "string \<Rightarrow> watched \<Rightarrow> bool" where
  "cached namespace (ConfigMapW cm) = (Namespace cm = namespace)"
| "cached namespace _ = True"

text \<open>\<open>TypedEnqueueRequestsFromMapFunc\<close>: an update asks for the requests of both objects, each once.\<close>

definition enqueue_requests :: "(watched \<Rightarrow> key list) \<Rightarrow> event \<Rightarrow> key list" where
  "enqueue_requests f e =
     (case e of
        UpdateEvent old new \<Rightarrow> remdups (f old @ f new)
      | _ \<Rightarrow> remdups (f (event_object e)))"

fun profile_request :: "string \<Rightarrow> watched \<Rightarrow> key list" where
  "profile_request namespace (ConfigMapW cm) =
     (if Name cm = ConfigMapName \<and> Namespace cm = namespace then [([], ''cluster'')] else [])"
| "profile_request namespace _ = []"

definition sidecar_watches :: "string \<Rightarrow> watch list" where
  "sidecar_watches namespace = [
     Watches APIServers EnqueueRequestForObject [],
     Watches ConfigMaps (enqueue_requests (profile_request namespace)) []]"

text \<open>The restriction of the cache keeps every event that the controller wants.\<close>

lemma profile_request_cached: "profile_request ns x \<noteq> [] \<Longrightarrow> cached ns x"
  by (cases x) (auto split: if_splits)

section \<open>The namespace of the component\<close>

text \<open>
  \<open>GetComponentNamespace\<close> of \<open>helpers/helpers.go\<close>, by which the process of the controllers finds its namespace.
\<close>

definition GetComponentNamespace :: "server \<Rightarrow> (string \<Rightarrow> string) \<Rightarrow> (call, err + string) prog" where
  "GetComponentNamespace srv getenv =
     (if getenv PodNamespaceEnvVarName \<noteq> [] then return (Inr (getenv PodNamespaceEnvVarName))
      else api_ReadFile srv ''/var/run/secrets/kubernetes.io/serviceaccount/namespace'')"

text \<open>
  The two processes find the same namespace unless the file has white space around the name: the
  side car trims it, the controllers do not. Where they find none, the side car ends and the
  controllers have an error or an empty name.
\<close>

theorem namespaces_agree:
  "result (getNamespace srv trim (getenv PodNamespaceEnvVarName)) h =
     (case result (GetComponentNamespace srv getenv) h of
        Inl e \<Rightarrow> []
      | Inr ns \<Rightarrow> if getenv PodNamespaceEnvVarName \<noteq> [] then ns else trim ns)"
  by (simp add: getNamespace_def GetComponentNamespace_def result_def ask_def split: sum.split)

section \<open>The config map follows the profile\<close>

lemma sidecar_setup_None: "sidecar_setup fails steps = None \<longleftrightarrow> (\<forall>s\<in>fst ` set steps. fails s = None)"
  by (induction fails steps rule: sidecar_setup.induct) (auto split: option.splits)

text \<open>
  The manager runs exactly when a namespace is known, no step fails and the cluster is an OpenShift
  cluster; a cluster that is none is not an error.
\<close>

lemma Run_outcome:
  "let ns = result (getNamespace srv trim env) h; r = result (Run srv trim env fails) h;
       others = {KubeConfig, KubeClient, SidecarManager, SidecarController, WatchAPIServer, WatchProfileConfigMap} in
   ((\<exists>e. r = Serves ns e) \<longleftrightarrow> ns \<noteq> [] \<and> fails OpenShiftDiscovery = None \<and> (\<forall>s\<in>others. fails s = None)) \<and>
   (r = Sleeps \<longleftrightarrow> ns \<noteq> [] \<and> fails OpenShiftDiscovery \<noteq> None \<and> fails KubeConfig = None \<and> fails KubeClient = None)"
  by (auto simp: Run_def result_def Let_def sidecar_setup_None split_beta split: option.splits)

text \<open>The events that concern the config map: of the profile, or of the config map before or after.\<close>

fun event_objects :: "event \<Rightarrow> watched list" where
  "event_objects (UpdateEvent old new) = [old, new]"
| "event_objects e = [event_object e]"

fun is_profile_map :: "string \<Rightarrow> watched \<Rightarrow> bool" where
  "is_profile_map ns (ConfigMapW cm) = (Namespace cm = ns \<and> Name cm = ''ocm-tls-profile'')"
| "is_profile_map ns _ = False"

definition concerns_profile :: "string \<Rightarrow> origin \<Rightarrow> event \<Rightarrow> bool" where
  "concerns_profile ns src e \<longleftrightarrow>
     src = Kind APIServers \<and> Namespace (meta_of (event_object e)) = [] \<and> Name (meta_of (event_object e)) = ''cluster'' \<or>
     src = Kind ConfigMaps \<and> list_ex (is_profile_map ns) (event_objects e)"

lemma profile_request_cluster: "([], ''cluster'') \<in> set (profile_request ns x) \<longleftrightarrow> is_profile_map ns x"
  by (cases x) (auto simp: ConfigMapName_def)

lemma wakes_for_profile:
  "([], ''cluster'') \<in> set (deliver (sidecar_watches ns) src e) \<longleftrightarrow> concerns_profile ns src e"
proof -
  have "([], ''cluster'') \<in> set (enqueue_requests (profile_request ns) e) \<longleftrightarrow> list_ex (is_profile_map ns) (event_objects e)"
    by (cases e) (simp_all add: enqueue_requests_def profile_request_cluster)
  then show ?thesis
    by (auto simp: deliver_def sidecar_watches_def Watches_def if_admitted_def concerns_profile_def
        EnqueueRequestForObject_def Let_def)
qed

text \<open>
  What the config map promises to the components that read it. Its three entries are the type of the profile, which
  is the intermediate one where nothing or something unknown is set, the least version of TLS, and
  the cipher suites under their IANA names: fixed ones for the three predefined profiles, those of its own that
  have such a name, in order, for a custom one. A custom profile without content counts as the intermediate one.
\<close>

definition effective_type :: "TLSSecurityProfile option \<Rightarrow> string" where
  "effective_type profile =
     (case profile of
        None \<Rightarrow> ''Intermediate''
      | Some p \<Rightarrow> if ProfileType p \<in> {''Old'', ''Modern'', ''Custom''} then ProfileType p else ''Intermediate'')"

definition tls13_suites :: "string list" where
  "tls13_suites = [''TLS_AES_128_GCM_SHA256'', ''TLS_AES_256_GCM_SHA384'', ''TLS_CHACHA20_POLY1305_SHA256'']"

definition tls12_suites :: "string list" where
  "tls12_suites = tls13_suites @
     [''TLS_ECDHE_ECDSA_WITH_AES_128_GCM_SHA256'', ''TLS_ECDHE_RSA_WITH_AES_128_GCM_SHA256'',
      ''TLS_ECDHE_ECDSA_WITH_AES_256_GCM_SHA384'', ''TLS_ECDHE_RSA_WITH_AES_256_GCM_SHA384'',
      ''TLS_ECDHE_ECDSA_WITH_CHACHA20_POLY1305_SHA256'', ''TLS_ECDHE_RSA_WITH_CHACHA20_POLY1305_SHA256'']"

definition tls10_suites :: "string list" where
  "tls10_suites = tls12_suites @
     [''TLS_ECDHE_ECDSA_WITH_AES_128_CBC_SHA256'', ''TLS_ECDHE_RSA_WITH_AES_128_CBC_SHA256'',
      ''TLS_ECDHE_ECDSA_WITH_AES_128_CBC_SHA'', ''TLS_ECDHE_RSA_WITH_AES_128_CBC_SHA'',
      ''TLS_ECDHE_ECDSA_WITH_AES_256_CBC_SHA'', ''TLS_ECDHE_RSA_WITH_AES_256_CBC_SHA'',
      ''TLS_RSA_WITH_AES_128_GCM_SHA256'', ''TLS_RSA_WITH_AES_256_GCM_SHA384'', ''TLS_RSA_WITH_AES_128_CBC_SHA256'',
      ''TLS_RSA_WITH_AES_128_CBC_SHA'', ''TLS_RSA_WITH_AES_256_CBC_SHA'', ''TLS_RSA_WITH_3DES_EDE_CBC_SHA'']"

definition promised_tls :: "TLSSecurityProfile option \<Rightarrow> string \<times> string list" where
  "promised_tls profile =
     (case (effective_type profile, Option.bind profile CustomProfile) of
        (t, custom) \<Rightarrow>
          if t = ''Old'' then (''VersionTLS10'', tls10_suites)
          else if t = ''Modern'' then (''VersionTLS13'', tls13_suites)
          else if t = ''Custom'' \<and> custom \<noteq> None then
            (MinTLSVersion (the custom), concat (map (\<lambda>c. map snd (filter (\<lambda>s. fst s = c) openSSLToIANACiphersMap)) (Ciphers (the custom))))
          else (''VersionTLS12'', tls12_suites))"

definition promised_data :: "TLSSecurityProfile option \<Rightarrow> smap" where
  "promised_data profile = fmap_of_list [(''profileType'', effective_type profile),
     (''minTLSVersion'', fst (promised_tls profile)), (''cipherSuites'', join '','' (snd (promised_tls profile)))]"

lemma filter_map_of:
  "distinct (map fst table) \<Longrightarrow>
   map snd (filter (\<lambda>s. fst s = c) table) = (case map_of table c of None \<Rightarrow> [] | Some i \<Rightarrow> [i])"
proof (induction table)
  case (Cons s table)
  then show ?case by (cases s) (auto simp: filter_empty_conv image_iff split: option.splits)
qed simp

lemma promised_suites:
  "concat (map (\<lambda>c. map snd (filter (\<lambda>s. fst s = c) openSSLToIANACiphersMap)) cs) = OpenSSLToIANACipherSuites cs"
proof -
  have "distinct (map fst openSSLToIANACiphersMap)" by code_simp
  then show ?thesis by (induction cs) (auto simp: filter_map_of split: option.split)
qed

lemma predefined_suites:
  "OpenSSLToIANACipherSuites modern_ciphers = tls13_suites"
  "OpenSSLToIANACipherSuites intermediate_ciphers = tls12_suites"
  "OpenSSLToIANACipherSuites old_ciphers = tls10_suites"
  by code_simp+

lemma data_as_promised: "buildConfigMapData profile = promised_data profile"
proof -
  define p where "p = (case profile of Some p \<Rightarrow> p | None \<Rightarrow> \<lparr>ProfileType = ''Intermediate'', CustomProfile = None\<rparr>)"
  have built: "buildConfigMapData profile = fmap_of_list [
      (''minTLSVersion'', MinTLSVersion (fst (profile_spec p))),
      (''cipherSuites'', join '','' (OpenSSLToIANACipherSuites (Ciphers (fst (profile_spec p))))),
      (''profileType'', snd (profile_spec p))]"
    by (simp add: buildConfigMapData_def p_def TLSProfileIntermediateType_def configMapKeyMinTLSVersion_def
        configMapKeyCipherSuites_def configMapKeyProfileType_def Let_def split_beta split: option.split)
  have "snd (profile_spec p) = effective_type profile"
    by (auto simp: p_def profile_spec_def effective_type_def TLSProfileOldType_def TLSProfileModernType_def
        TLSProfileCustomType_def TLSProfileIntermediateType_def split: option.split)
  moreover have "(MinTLSVersion (fst (profile_spec p)), OpenSSLToIANACipherSuites (Ciphers (fst (profile_spec p)))) =
      promised_tls profile"
    unfolding promised_tls_def promised_suites effective_type_def
    by (auto simp: p_def profile_spec_def TLSProfileOldType_def TLSProfileModernType_def TLSProfileCustomType_def
        TLSProfileIntermediateType_def old_profile_def intermediate_profile_def modern_profile_def predefined_suites
        split: option.split)
  then have "MinTLSVersion (fst (profile_spec p)) = fst (promised_tls profile)"
    "OpenSSLToIANACipherSuites (Ciphers (fst (profile_spec p))) = snd (promised_tls profile)" by (metis fst_conv, metis snd_conv)
  ultimately show ?thesis
    unfolding built promised_data_def by (intro fmap_ext) (auto simp: fmlookup_of_list)
qed

text \<open>
  C39. The side car keeps the config map up to date: an event puts the key of the singleton on its queue
  exactly when it is one of the profile of the cluster or of the config map \<open>ocm-tls-profile\<close> of its own namespace, an
  update away from it and its deletion included; and a run for that key that can read the profile and finds
  the config map, or finds it missing, makes one write, which leaves in it what it promises for the profile, and
  nothing else.
\<close>

theorem profile_kept_up_to_date:
  assumes "on_GetTLSProfile srv h ''cluster'' = Inr profile"
    and "on_GetConfigMap srv (h @ [Read (GetTLSProfile ''cluster'')]) ns ''ocm-tls-profile'' = current"
    and "case current of Inl e \<Rightarrow> IsNotFound e | Inr cm \<Rightarrow> True"
  shows "(([], ''cluster'') \<in> set (deliver (sidecar_watches ns) src e) \<longleftrightarrow> concerns_profile ns src e) \<and>
    new_calls (tlsprofile_Reconcile srv ns ''cluster'') h = [Read (GetTLSProfile ''cluster''),
      Read (GetConfigMap ns ''ocm-tls-profile''), Write (case current of
        Inl e \<Rightarrow> CreateConfigMap (ObjectMeta.extend (new_meta ns ''ocm-tls-profile'') \<lparr>ConfigData = promised_data profile\<rparr>)
      | Inr cm \<Rightarrow> UpdateConfigMap (cm\<lparr>ConfigData := promised_data profile\<rparr>))]"
  using assms wakes_for_profile
  by (cases current)
    (simp_all add: tlsprofile_Reconcile_def syncConfigMap_def new_calls_def ask_def ConfigMapName_def data_as_promised)

text \<open>The config map is lost on a cluster with the modern profile.\<close>

definition modern_cluster :: server where
  "modern_cluster = empty_server\<lparr>on_GetTLSProfile :=
     (\<lambda>_ _. Inr (Some \<lparr>ProfileType = TLSProfileModernType, CustomProfile = None\<rparr>))\<rparr>"

definition lost_config_map :: ConfigMap where
  "lost_config_map = ObjectMeta.extend (new_meta ''agent'' ConfigMapName) \<lparr>ConfigData = fmempty\<rparr>"

theorem profile_kept_up_to_date_witness:
  "([], ''cluster'') \<in> set (deliver (sidecar_watches ''agent'') (Kind ConfigMaps) (DeleteEvent (ConfigMapW lost_config_map))) \<and>
   (\<exists>cm. Write (CreateConfigMap cm) \<in> set (new_calls (tlsprofile_Reconcile modern_cluster ''agent'' ''cluster'') []) \<and>
     fmlookup (ConfigData cm) ''minTLSVersion'' = Some ''VersionTLS13'')"
proof -
  let ?p = "Some \<lparr>ProfileType = TLSProfileModernType, CustomProfile = None\<rparr>"
  have pre: "on_GetTLSProfile modern_cluster [] ''cluster'' = Inr ?p"
    "on_GetConfigMap modern_cluster ([] @ [Read (GetTLSProfile ''cluster'')]) ''agent'' ''ocm-tls-profile'' = Inl notFoundErr"
    "case Inl notFoundErr of Inl e \<Rightarrow> IsNotFound e | Inr (cm :: ConfigMap) \<Rightarrow> True"
    by (simp_all add: modern_cluster_def empty_server_def) 
  have "concerns_profile ''agent'' (Kind ConfigMaps) (DeleteEvent (ConfigMapW lost_config_map))" by code_simp
  moreover have "fmlookup (promised_data ?p) ''minTLSVersion'' = Some ''VersionTLS13''" by code_simp
  ultimately show ?thesis
    using profile_kept_up_to_date [OF pre, of "Kind ConfigMaps" "DeleteEvent (ConfigMapW lost_config_map)"]
    by (auto simp: ObjectMeta.defs new_meta_def)
qed

end
