(* ===== verification/Spec2Isabelle.thy ===== *)
theory Spec2Isabelle
  imports Resource_Cleanup Namespace_Deletion Csr Apply Import_Helper Image_Registry Render Managed_Cluster Import_Status Rosa Auto_Import Cluster_Deployment Self_Managed Manifest_Work Hosted Flightctl Label_Syntax Validation Klusterlet_Config Go_Time Certificates Bootstrap_Kubeconfig Klusterlet_Chart Import_Config Watches Tls_Profile Server_Tls Agent_Registration Startup Detachment Lifecycle Teardown Reporting Delivery Tls_Sync
begin

text \<open>
  A verification of the managed cluster import controller, the operator that turns a
  \<open>ManagedCluster\<close> object on a hub into an imported cluster and cleans up behind it.

  \<^bold>\<open>The program.\<close> The process runs a set of controllers over the hub's API server. Each one has a
  \<open>manager.go\<close>, which says what events put a cluster's name on its work queue, and a \<open>Reconcile\<close>
  that is run for a name from the queue. The controllers do not call each other; they meet in the
  objects of the hub:
  \<^item> \<open>managedcluster\<close> gives a cluster its label, annotations and finalizer; \<open>importconfig\<close> creates
    its bootstrap account, the kubeconfig of the agent and the import secret with all manifests;
  \<^item> \<open>manifestwork\<close> turns the import secret into the manifest works of the klusterlet, \<open>hosted\<close> into
    the works of a hosted klusterlet on its hosting cluster;
  \<^item> \<open>autoimport\<close>, \<open>clusterdeployment\<close> and \<open>selfmanagedcluster\<close> apply the import secret to the managed
    cluster, each with its own way to a client; \<open>importstatus\<close> reports success once the works are
    available, and \<open>csr\<close> approves the certificate request of the agent;
  \<^item> \<open>resourcecleanup\<close> and \<open>clusternamespacedeletion\<close> take down works, role bindings, addons,
    finalizers and the namespace of a deleted cluster; \<open>flightctl\<close> serves edge devices, the agent
    registration server hands out manifests over HTTP, and a side car synchronizes the TLS profile.

  \<^bold>\<open>How code is modelled.\<close> A controller is a function of type \<open>(call, 'a) prog\<close> (theory Prelude), a
  state monad whose state is the history of the calls made so far. A call is a read of an object, a
  write or an event (theory Api); it is answered by the record \<open>server\<close>, every field of which is an
  arbitrary function of the history. A theorem about all servers thus holds whatever the API server
  answers, whatever fails and whatever other actors do between two calls. A Go error is a value of
  \<open>err\<close> (Kube_Objects), a result with an error a sum, a panic an outer \<open>None\<close>; a map is an \<open>fmap\<close>,
  an object a record that extends \<open>ObjectMeta\<close>. Early returns are the branches of the definitions,
  in the order of the code; logging is left out.

  \<^bold>\<open>How it is proved.\<close> Prelude has the calculus: \<open>wp\<close> is the weakest precondition of a program,
  \<open>calls_only P\<close> says that it makes no call but those of \<open>P\<close>, \<open>issues P\<close> that this holds from a given
  history on, \<open>yields P\<close> (Klusterlet_Chart) that its successful results satisfy \<open>P\<close>, and \<open>writes_only P\<close>
  (Import_Config) looks at the writes alone. Their rules are the collections \<open>wp_simps\<close> and
  \<open>calls_intros\<close>. Six interfaces are locales: \<open>applier\<close> (Apply: at most one write and an honest flag,
  interpreted by four of the apply functions), \<open>approval_condition\<close> and \<open>two_conditions\<close> (Csr,
  interpreted there and in Flightctl), \<open>import_controller\<close> (Import_Gate, interpreted by the three
  controllers that import clusters), and \<open>hub_api\<close> (Detachment: the documented behaviour of the API server
  for deletions and finalizers, interpreted by a server that keeps its objects in the history), which
  \<open>work_hub\<close> (Delivery) extends by the creation and update of works.

  \<^bold>\<open>Parameters.\<close> What is not under the sources or belongs to libraries enters as an argument:
  \<open>server\<close> (API servers, caches, clock, files), \<open>codec\<close> (YAML, JSON, kubeconfig files), \<open>tools\<close> (parsing
  of certificates and URLs, a TLS connection), \<open>renderer\<close> (the Helm chart, templates, embedded files,
  the environment), \<open>http_env\<close> (quoting and the JSON of one answer). Theorems that rely on such code
  name what they rely on as a hypothesis, for example that decoding inverts encoding.

  \<^bold>\<open>The theories\<close>, with the sources under \<open>src/pkg\<close>:
  \<^item> Prelude, Constants, Kube_Objects, Api: strings, maps and the calculus; \<open>constants/constants.go\<close>; the
    API objects; the requests. Base64 and Go_Time: functions of the Go library on bytes and times.
  \<^item> Meta_Helpers, Cluster_Helpers, Work_Helpers, Import_Helper, Apply, Rosa: \<open>helpers/helpers.go\<close>,
    \<open>manifestwork.go\<close>, \<open>autoimport.go\<close>, \<open>importcontrollerconfig.go\<close>, \<open>rosa.go\<close>. Applying is shown to converge
    (a second application writes nothing), to attempt every object and to report changes honestly;
    \<open>Import\<close> to report an outcome that fits what it did.
  \<^item> Validation, Label_Syntax, Klusterlet_Config: the checks on node selectors, tolerations and versions,
    with the regular expressions of Kubernetes as values and a matcher by derivatives, and the merge
    of a cluster's klusterlet configuration with the global one.
  \<^item> Certificates, Bootstrap_Kubeconfig: \<open>bootstrap/bootstrapkubeconfig.go\<close>. Address, proxy and
    authorities of the hub, tokens, and the kubeconfig; a merge of bundles loses no certificate,
    configured bundles are in the result, and a new kubeconfig passes its own validation.
  \<^item> Image_Registry, Render, Klusterlet_Chart: \<open>helpers/imageregistry\<close>, \<open>bootstrap/render.go\<close>,
    \<open>sidecar.go\<close>, \<open>imagepullsecret.go\<close>. \<open>Generate\<close> is a sequence of steps that fill in the chart; every chart
    it renders is complete and consistent, what it returns is the rendering of that chart, and aggregated
    documents can be split again.
  \<^item> One theory for each controller (\<open>controller/*\<close>): Managed_Cluster, Import_Config, Manifest_Work, Hosted,
    Import_Gate with Auto_Import, Cluster_Deployment and Self_Managed, Import_Status, Csr,
    Resource_Cleanup, Namespace_Deletion, Flightctl, Agent_Registration; and Tls_Profile
    (\<open>tlsprofilesync/sync.go\<close>). Each has the whole \<open>Reconcile\<close> and says what a run may write and on
    what grounds.
  \<^item> Watches: every \<open>manager.go\<close>, \<open>source/source.go\<close> and \<open>importconfig/klusterletconfighandler.go\<close>: which
    event puts which key on which queue, and that the events that matter arrive.
  \<^item> Startup (\<open>cmd/manager/main.go\<close>, \<open>features/feature.go\<close>): \<open>main\<close> as a program over its steps, each with the
    test on its error that the source has, the order of the start, what the informers select,
    and that what one controller creates wakes the next. Server_Tls (\<open>helpers/tls.go\<close>, \<open>tls_watcher.go\<close>):
    the TLS settings of the servers and when a change of them ends the process. Tls_Sync: the process of
    the side car (\<open>Run\<close> in \<open>tlsprofilesync/sync.go\<close>, \<open>cmd/tls-profile-sync\<close>), its set-up and its watches.
  \<^item> Detachment: what runs of the clean-up achieve on a hub that keeps to the laws of the locale \<open>hub_api\<close>;
    a forced run detaches a cluster at once, a hosted one in stages. Lifecycle: the import condition as a
    state machine over the stored versions of a cluster, with runs of all controllers that overlap.
    Teardown and Reporting go on with the laws of \<open>hub_api\<close>: the clean-up followed by the namespace
    controller removes the namespace, and the import status controller reports an available klusterlet; Delivery:
    the manifest work controller delivers the works that the import secret asks for, and then rests.
  \<^item> This theory: properties that span several controllers.

  \<^bold>\<open>Bounds.\<close> No definition needs fuel: recursions are structural or, in \<open>pem_lines\<close>, \<open>parse_encoded\<close>
  and the splitting of strings, on the length of a string. The ROSA getter asks for at most 20
  retries because the counter of the code says so; three rounds of the ordered deletion are enough
  because there are three kinds of hosted works. Name lengths (63, 57 and 50 characters) are those
  of the code. Durations are integers that saturate at 64 bits, as \<open>time.Sub\<close> does.

  \<^bold>\<open>Not modelled.\<close> What goes on inside the libraries: clients, schemes and event recorders once they
  are made, the Helm chart, YAML and the templates, the timers around the loops of \<open>flightctl\<close>, work
  queues and their retries beyond the keys put on them, metrics and logging. Structs of clients and
  listers and the constructors that fill them have no counterpart; the record \<open>server\<close> takes their place.
\<close>

section \<open>The importing controllers together\<close>

text \<open>
  C10. A cluster that is being deleted or carries the annotation that disables auto-import is left
  alone by all three controllers that import clusters: their runs make no call but reads of the
  hub, events and the removal of the import finalizer of a cluster deployment.
\<close>

theorem paused_clusters_untouched:
  assumes "deleting mc \<or> autoImportDisabled mc"
  shows "(on_GetManagedCluster srv h n = Inr mc \<longrightarrow>
      list_all harmless (new_calls (autoimport_Reconcile srv cd ns g n) h) \<and>
      list_all harmless (new_calls (selfmanaged_Reconcile srv cd ns n) h)) \<and>
    (on_GetManagedCluster srv (h @ [Read (GetClusterDeployment n n)]) n = Inr mc \<longrightarrow>
      list_all harmless (new_calls (clusterdeployment_Reconcile srv cd ns n) h))"
  using assms autoimport.paused selfmanaged.paused clusterdeployment.paused by blast

definition detached_server :: server where
  "detached_server = importing_server\<lparr>on_GetManagedCluster := (\<lambda>h n. Inr demo_deleting)\<rparr>"

theorem paused_clusters_untouched_witness:
  "list_all harmless (new_calls (autoimport_Reconcile detached_server sample_codec ''hub'' fmempty ''c1'') []) \<and>
   list_all harmless (new_calls (clusterdeployment_Reconcile detached_server sample_codec ''hub'' ''c1'') [])"
proof -
  have "deleting demo_deleting \<or> autoImportDisabled demo_deleting" by code_simp
  from paused_clusters_untouched [OF this, of detached_server "[]" "''c1''" sample_codec "''hub''" fmempty]
  show ?thesis by (simp add: detached_server_def)
qed

text \<open>
  None of the three controllers that import clusters ever writes a status in which the import
  has succeeded; with the two cases of the import status controller, only an available
  klusterlet manifest work turns a cluster into an imported one.
\<close>

theorem importers_never_report_success:
  assumes "Write (UpdateManagedClusterStatus mc') \<in>
      set (new_calls (autoimport_Reconcile srv cd ns g n) h) \<union>
      set (new_calls (clusterdeployment_Reconcile srv cd ns n) h) \<union>
      set (new_calls (selfmanaged_Reconcile srv cd ns n) h)"
  shows "\<not> IsStatusConditionTrue (Conditions mc') ConditionManagedClusterImportSucceeded"
  using assms autoimport.never_succeeds clusterdeployment.never_succeeds selfmanaged.never_succeeds
  by blast

theorem importers_never_report_success_witness:
  "\<exists>mc'. Write (UpdateManagedClusterStatus mc') \<in>
      set (new_calls (autoimport_Reconcile importing_server sample_codec ''hub'' fmempty ''c1'') []) \<and>
     \<not> IsStatusConditionTrue (Conditions mc') ConditionManagedClusterImportSucceeded"
proof -
  let ?mc = "importing_cluster\<lparr>Conditions :=
    SetStatusCondition 0 (Conditions importing_cluster) (importing conditionMessageImportingResourcesApplied)\<rparr>"
  have w: "Write (UpdateManagedClusterStatus ?mc) \<in>
      set (new_calls (autoimport_Reconcile importing_server sample_codec ''hub'' fmempty ''c1'') [])"
    by code_simp
  then have "Write (UpdateManagedClusterStatus ?mc) \<in>
      set (new_calls (autoimport_Reconcile importing_server sample_codec ''hub'' fmempty ''c1'') []) \<union>
      set (new_calls (clusterdeployment_Reconcile importing_server sample_codec ''hub'' ''c1'') []) \<union>
      set (new_calls (selfmanaged_Reconcile importing_server sample_codec ''hub'' ''c1'') [])" by simp
  from w importers_never_report_success [OF this] show ?thesis by blast
qed

end
